(* ===== verification/Usb_Prelude.thy ===== *)
theory Usb_Prelude
  imports Main "HOL-Library.Word" "HOL-Library.List_Lexorder" "HOL-Library.Char_ord"
begin

unbundle bit_operations_syntax

text \<open>
  The vocabulary the component theories share: machine integer types, the error codes, the
  ordered map of the C++ standard library as far as the program uses it
  (\<open>find\<close>, \<open>insert\<close>, \<open>erase\<close> and iteration in key order), and
  \<open>std::to_string\<close>.

  An \<open>int32_t\<close> is a 32-bit word that is read with \<open>sint\<close> where its sign matters; the
  conversions between \<open>int32_t\<close>, \<open>uint32_t\<close> and \<open>uint8_t\<close> are \<open>ucast\<close>.
\<close>

named_theorems cmap_simps "lookup after insert, erase and assignment in an ordered map"
named_theorems usb_inv "invariant preservation"

type_synonym u8 = "8 word"
type_synonym u16 = "16 word"
type_synonym u32 = "32 word"
type_synonym i32 = "32 word"

section \<open>Error codes\<close>

text \<open>
  The numeric values of the codes are declared in \<open>usb_errors.h\<close>, which is not part of the
  repository, so they are a parameter of the model.  What the code relies on is that
  \<open>UEC_OK\<close> is zero (it tests return values both with \<open>!= UEC_OK\<close> and as booleans) and
  that every failure code is not zero: \<open>codes_ok\<close>.
\<close>

record uec_codes =
  UEC_OK :: i32
  UEC_SERVICE_INVALID_VALUE :: i32
  UEC_SERVICE_PERMISSION_DENIED :: i32
  UEC_SERVICE_INNER_ERR :: i32
  UEC_SERVICE_READ_PARCEL_ERROR :: i32
  UEC_SERVICE_WRITE_PARCEL_ERROR :: i32
  UEC_SERVICE_GET_USB_SERVICE_FAILED :: i32
  UEC_INTERFACE_NO_INIT :: i32
  UEC_INTERFACE_INVALID_VALUE :: i32
  UEC_INTERFACE_READ_PARCEL_ERROR :: i32
  UEC_INTERFACE_WRITE_PARCEL_ERROR :: i32
  UEC_INTERFACE_GET_SYSTEM_ABILITY_MANAGER_FAILED :: i32
  UEC_INTERFACE_GET_USB_SERVICE_FAILED :: i32
  ERR_OK :: i32
  ERR_INVALID_VALUE :: i32
  ERR_ENOUGH_DATA :: i32
  UEC_INTERFACE_PERMISSION_DENIED :: i32

definition codes_ok :: "uec_codes \<Rightarrow> bool" where
  "codes_ok E \<longleftrightarrow> UEC_OK E = 0 \<and> UEC_SERVICE_INVALID_VALUE E \<noteq> 0 \<and>
     UEC_SERVICE_PERMISSION_DENIED E \<noteq> 0 \<and> UEC_SERVICE_INNER_ERR E \<noteq> 0 \<and>
     UEC_SERVICE_READ_PARCEL_ERROR E \<noteq> 0 \<and> UEC_SERVICE_WRITE_PARCEL_ERROR E \<noteq> 0 \<and>
     UEC_SERVICE_GET_USB_SERVICE_FAILED E \<noteq> 0 \<and> UEC_INTERFACE_NO_INIT E \<noteq> 0 \<and>
     UEC_INTERFACE_INVALID_VALUE E \<noteq> 0 \<and> UEC_INTERFACE_READ_PARCEL_ERROR E \<noteq> 0 \<and>
     UEC_INTERFACE_WRITE_PARCEL_ERROR E \<noteq> 0 \<and>
     UEC_INTERFACE_GET_SYSTEM_ABILITY_MANAGER_FAILED E \<noteq> 0 \<and>
     UEC_INTERFACE_GET_USB_SERVICE_FAILED E \<noteq> 0 \<and> ERR_OK E = 0 \<and>
     ERR_INVALID_VALUE E \<noteq> 0 \<and> ERR_ENOUGH_DATA E \<noteq> 0"

text \<open>A concrete assignment of distinct values, used by the witnesses only.\<close>

definition sample_codes :: uec_codes where
  "sample_codes = \<lparr>UEC_OK = 0, UEC_SERVICE_INVALID_VALUE = 101,
     UEC_SERVICE_PERMISSION_DENIED = 102, UEC_SERVICE_INNER_ERR = 103,
     UEC_SERVICE_READ_PARCEL_ERROR = 104, UEC_SERVICE_WRITE_PARCEL_ERROR = 105,
     UEC_SERVICE_GET_USB_SERVICE_FAILED = 106, UEC_INTERFACE_NO_INIT = 107,
     UEC_INTERFACE_INVALID_VALUE = 108, UEC_INTERFACE_READ_PARCEL_ERROR = 109,
     UEC_INTERFACE_WRITE_PARCEL_ERROR = 110,
     UEC_INTERFACE_GET_SYSTEM_ABILITY_MANAGER_FAILED = 111,
     UEC_INTERFACE_GET_USB_SERVICE_FAILED = 112, ERR_OK = 0, ERR_INVALID_VALUE = 113,
     ERR_ENOUGH_DATA = 114, UEC_INTERFACE_PERMISSION_DENIED = 115\<rparr>"

lemma codes_ok_sample [simp]: "codes_ok sample_codes"
  by (simp add: codes_ok_def sample_codes_def)

lemma codes_okD:
  assumes "codes_ok E"
  shows "UEC_OK E = 0" and "ERR_OK E = 0"
    and "UEC_SERVICE_INVALID_VALUE E \<noteq> 0" and "UEC_SERVICE_PERMISSION_DENIED E \<noteq> 0"
    and "UEC_SERVICE_INNER_ERR E \<noteq> 0" and "UEC_SERVICE_READ_PARCEL_ERROR E \<noteq> 0"
    and "UEC_SERVICE_WRITE_PARCEL_ERROR E \<noteq> 0" and "UEC_SERVICE_GET_USB_SERVICE_FAILED E \<noteq> 0"
    and "UEC_INTERFACE_NO_INIT E \<noteq> 0" and "UEC_INTERFACE_INVALID_VALUE E \<noteq> 0"
    and "UEC_INTERFACE_READ_PARCEL_ERROR E \<noteq> 0" and "UEC_INTERFACE_WRITE_PARCEL_ERROR E \<noteq> 0"
    and "ERR_INVALID_VALUE E \<noteq> 0" and "ERR_ENOUGH_DATA E \<noteq> 0"
  using assms by (simp_all add: codes_ok_def)

section \<open>Ordered maps (\<open>std::map\<close>)\<close>

text \<open>
  A \<open>std::map\<close> is the list of its entries in iteration order, so its keys are strictly
  increasing (\<open>cmap_ok\<close>).  \<open>find\<close> is \<open>map_of\<close>.  \<open>cmap_insert\<close> is the member
  function \<open>insert\<close>: it leaves the map alone when the key is present, and its boolean is
  \<open>res.second\<close>.
\<close>

type_synonym ('k, 'v) cmap = "('k \<times> 'v) list"

definition cmap_ok :: "('k::linorder, 'v) cmap \<Rightarrow> bool" where
  "cmap_ok m \<longleftrightarrow> sorted_wrt (<) (map fst m)"

fun cmap_insert :: "'k::linorder \<Rightarrow> 'v \<Rightarrow> ('k, 'v) cmap \<Rightarrow> ('k, 'v) cmap \<times> bool" where
  "cmap_insert k v [] = ([(k, v)], True)"
| "cmap_insert k v ((k', v') # m) =
     (if k < k' then ((k, v) # (k', v') # m, True)
      else if k = k' then ((k', v') # m, False)
      else (let (m', b) = cmap_insert k v m in ((k', v') # m', b)))"

definition cmap_erase :: "'k \<Rightarrow> ('k, 'v) cmap \<Rightarrow> ('k, 'v) cmap" where
  "cmap_erase k m = filter (\<lambda>e. fst e \<noteq> k) m"

text \<open>Assignment through an iterator: \<open>it->second = v\<close>.\<close>

definition cmap_assign :: "'k \<Rightarrow> 'v \<Rightarrow> ('k, 'v) cmap \<Rightarrow> ('k, 'v) cmap" where
  "cmap_assign k v m = map (\<lambda>e. if fst e = k then (k, v) else e) m"

lemma cmap_ok_Nil [simp]: "cmap_ok []"
  by (simp add: cmap_ok_def)

lemma cmap_ok_Cons: "cmap_ok (e # m) \<longleftrightarrow> (\<forall>e' \<in> set m. fst e < fst e') \<and> cmap_ok m"
  by (auto simp: cmap_ok_def)

lemma cmap_ok_distinct: "cmap_ok m \<Longrightarrow> distinct (map fst m)"
  by (simp add: cmap_ok_def strict_sorted_iff)

lemma cmap_find_in: "cmap_ok m \<Longrightarrow> (k, v) \<in> set m \<longleftrightarrow> map_of m k = Some v"
  by (simp add: cmap_ok_distinct)

lemma cmap_insert_keys: "fst ` set (fst (cmap_insert k v m)) = insert k (fst ` set m)"
  by (induction k v m rule: cmap_insert.induct) (simp_all add: insert_commute Let_def split_beta)

lemma cmap_insert_ok [usb_inv]: "cmap_ok m \<Longrightarrow> cmap_ok (fst (cmap_insert k v m))"
proof (induction k v m rule: cmap_insert.induct)
  case (2 k v k' v' m)
  consider "k < k'" | "k = k'" | "k' < k" by fastforce
  then show ?case
  proof cases
    case 3
    let ?m = "fst (cmap_insert k v m)"
    from 2 3 have ok: "cmap_ok ?m" by (auto simp: cmap_ok_Cons)
    have "\<forall>x \<in> fst ` set ?m. k' < x"
      using 2(2) 3 by (subst cmap_insert_keys) (auto simp: cmap_ok_Cons)
    with ok 3 show ?thesis by (auto simp: cmap_ok_Cons split: prod.splits)
  qed (use 2 in \<open>auto simp: cmap_ok_Cons\<close>)
qed (simp add: cmap_ok_def)

lemma cmap_find_insert [cmap_simps]:
  "cmap_ok m \<Longrightarrow> map_of (fst (cmap_insert k v m)) k' =
     (if k' = k \<and> map_of m k = None then Some v else map_of m k')"
proof (induction k v m rule: cmap_insert.induct)
  case (2 k v j w m)
  have gt: "map_of m k = None" if "k < j"
    using 2(2) that by (fastforce simp: cmap_ok_Cons map_of_eq_None_iff)
  from 2 gt show ?case by (auto simp: cmap_ok_Cons split: prod.splits)
qed simp

lemma cmap_insert_flag: "cmap_ok m \<Longrightarrow> snd (cmap_insert k v m) \<longleftrightarrow> map_of m k = None"
proof (induction k v m rule: cmap_insert.induct)
  case (2 k v j w m)
  have gt: "map_of m k = None" if "k < j"
    using 2(2) that by (fastforce simp: cmap_ok_Cons map_of_eq_None_iff)
  from 2 gt show ?case by (auto simp: cmap_ok_Cons split: prod.splits)
qed simp

lemma cmap_insert_present: "cmap_ok m \<Longrightarrow> map_of m k \<noteq> None \<Longrightarrow> fst (cmap_insert k v m) = m"
proof (induction k v m rule: cmap_insert.induct)
  case (2 k v j w m)
  have gt: "map_of m k = None" if "k < j"
    using 2(2) that by (fastforce simp: cmap_ok_Cons map_of_eq_None_iff)
  from 2 gt show ?case by (auto simp: cmap_ok_Cons split: prod.splits)
qed simp

lemma cmap_find_erase [cmap_simps]:
  "map_of (cmap_erase k m) k' = (if k' = k then None else map_of m k')"
  by (induction m) (auto simp: cmap_erase_def)

lemma cmap_erase_ok [usb_inv]: "cmap_ok m \<Longrightarrow> cmap_ok (cmap_erase k m)"
  by (induction m) (auto simp: cmap_erase_def cmap_ok_Cons)

lemma cmap_erase_absent: "map_of m k = None \<Longrightarrow> cmap_erase k m = m"
  by (auto simp: cmap_erase_def map_of_eq_None_iff filter_id_conv)

lemma cmap_find_assign [cmap_simps]:
  "map_of (cmap_assign k v m) k' =
     (if k' = k \<and> map_of m k \<noteq> None then Some v else map_of m k')"
  by (induction m) (auto simp: cmap_assign_def)

lemma cmap_assign_keys [simp]: "map fst (cmap_assign k v m) = map fst m"
  by (induction m) (auto simp: cmap_assign_def)

lemma cmap_assign_ok [usb_inv]: "cmap_ok m \<Longrightarrow> cmap_ok (cmap_assign k v m)"
  by (simp add: cmap_ok_def)

section \<open>\<open>std::to_string\<close>\<close>

definition digit_char :: "nat \<Rightarrow> char" where
  "digit_char d = ''0123456789'' ! d"

fun std_to_string :: "nat \<Rightarrow> string" where
  "std_to_string n =
     (if n < 10 then [digit_char n] else std_to_string (n div 10) @ [digit_char (n mod 10)])"

declare std_to_string.simps [simp del]

lemma less_10_cases: "(d::nat) < 10 \<longleftrightarrow> d \<in> {0, 1, 2, 3, 4, 5, 6, 7, 8, 9}"
  by auto

lemma digit_char_inj: "d < 10 \<Longrightarrow> e < 10 \<Longrightarrow> digit_char d = digit_char e \<longleftrightarrow> d = e"
  unfolding less_10_cases by (auto simp: digit_char_def)

lemma digit_char_not_dash: "d < 10 \<Longrightarrow> digit_char d \<noteq> CHR ''-''"
  unfolding less_10_cases by (auto simp: digit_char_def)

lemma std_to_string_nonempty: "std_to_string n \<noteq> []"
  by (subst std_to_string.simps) simp

lemma std_to_string_no_dash: "CHR ''-'' \<notin> set (std_to_string n)"
proof (induction n rule: std_to_string.induct)
  case (1 n)
  then show ?case
    using digit_char_not_dash [of n, symmetric] digit_char_not_dash [of "n mod 10", symmetric]
    by (subst std_to_string.simps) auto
qed

lemma digit_ascii: "n < 10 \<Longrightarrow> digit_char n \<in> set ''0123456789''"
  using nth_mem [of n "''0123456789''"] by (simp add: digit_char_def del: list.set)

lemma std_to_string_chars:
  assumes "\<And>d. d < 10 \<Longrightarrow> digit_char d \<in> D"
  shows "set (std_to_string n) \<subseteq> D"
proof (induction n rule: std_to_string.induct)
  case (1 n)
  then show ?case
    using assms [of n] assms [of "n mod 10"] by (subst std_to_string.simps) simp
qed

lemma std_to_string_digits: "set (std_to_string n) \<subseteq> set ''0123456789''"
  by (rule std_to_string_chars, rule digit_ascii)

lemma std_to_string_inj: "std_to_string m = std_to_string n \<longleftrightarrow> m = n"
proof (induction m arbitrary: n rule: std_to_string.induct)
  case (1 m)
  have long: "std_to_string k \<noteq> []" "[] \<noteq> std_to_string k" for k
    using std_to_string_nonempty [of k] by auto
  show ?case
  proof (cases "m < 10"; cases "n < 10")
    assume "\<not> m < 10" "\<not> n < 10"
    then have "std_to_string m = std_to_string n \<longleftrightarrow>
        std_to_string (m div 10) = std_to_string (n div 10) \<and> m mod 10 = n mod 10"
      by (simp add: std_to_string.simps [of m] std_to_string.simps [of n] digit_char_inj)
    also have "\<dots> \<longleftrightarrow> m div 10 = n div 10 \<and> m mod 10 = n mod 10"
      using 1 \<open>\<not> m < 10\<close> by simp
    also have "\<dots> \<longleftrightarrow> m = n" by (metis div_mod_decomp)
    finally show ?thesis .
  qed (use long in \<open>auto simp: std_to_string.simps [of m] std_to_string.simps [of n] digit_char_inj\<close>)
qed

text \<open>Splitting at the first dash: what makes the \<open>bus-address\<close> names unambiguous.\<close>

lemma dash_split_unique:
  assumes "CHR ''-'' \<notin> set a" and "CHR ''-'' \<notin> set c"
  shows "a @ CHR ''-'' # b = c @ CHR ''-'' # d \<longleftrightarrow> a = c \<and> b = d"
  using assms by (induction a arbitrary: c) (case_tac c; auto)+

section \<open>\<open>uint32_t\<close> arithmetic on numbers\<close>

text \<open>
  Buffer offsets are natural numbers below \<open>2 ^ 32\<close>; their additions and subtractions wrap
  around as those of \<open>uint32_t\<close> do.
\<close>

definition u32_add :: "nat \<Rightarrow> nat \<Rightarrow> nat" where
  "u32_add a b = (a + b) mod 4294967296"

definition u32_sub :: "nat \<Rightarrow> nat \<Rightarrow> nat" where
  "u32_sub a b = (a + (4294967296 - b mod 4294967296)) mod 4294967296"

lemma u32_add_small [simp]: "a + b < 4294967296 \<Longrightarrow> u32_add a b = a + b"
  by (simp add: u32_add_def)

lemma u32_sub_small [simp]: "b \<le> a \<Longrightarrow> a < 4294967296 \<Longrightarrow> u32_sub a b = a - b"
proof -
  assume "b \<le> a" "a < 4294967296"
  then have "a + (4294967296 - b mod 4294967296) = (a - b) + 4294967296" by simp
  with \<open>a < 4294967296\<close> show ?thesis by (simp only: u32_sub_def mod_add_self2) simp
qed

lemma u8_less [simp]: "unat (x :: u8) < 256"
  using unsigned_less [of x, where ?'a = nat] by simp

lemma u8_le [simp]: "unat (x :: u8) \<le> 255"
  using u8_less [of x] by linarith

text \<open>Reading a small size as a signed number.\<close>

lemma sint_of_nat_small: "n < 2147483648 \<Longrightarrow> sint (of_nat n :: 32 word) = int n"
  by (simp add: signed_of_nat signed_take_bit_int_eq_self)

lemma pos_of_nat_small: "n < 2147483648 \<Longrightarrow> (0 <s (of_nat n :: 32 word)) = (0 < n)"
  by (simp add: word_sless_alt sint_of_nat_small)

lemma ucast_u8_u32 [simp]: "ucast (ucast (b :: u8) :: u32) = b"
  by (rule bit_word_eqI) (auto simp: bit_simps)

section \<open>Invariants of step relations\<close>

text \<open>
  What every component with steps promises: a property of its states that no step destroys.  It
  then holds after any number of steps, from a start state that has it.
\<close>

locale step_invariant =
  fixes step :: "'a \<Rightarrow> 'a \<Rightarrow> bool"
    and inv :: "'a \<Rightarrow> bool"
  assumes step_inv: "step s s' \<Longrightarrow> inv s \<Longrightarrow> inv s'"
begin

lemma steps_inv: "step\<^sup>*\<^sup>* s s' \<Longrightarrow> inv s \<Longrightarrow> inv s'"
  by (induction rule: rtranclp_induct) (auto intro: step_inv)

end

locale started_invariant = step_invariant step inv
  for step :: "'a \<Rightarrow> 'a \<Rightarrow> bool" and inv :: "'a \<Rightarrow> bool" +
  fixes start :: 'a
  assumes start_inv: "inv start"
begin

lemma reached: "step\<^sup>*\<^sup>* start s \<Longrightarrow> inv s"
  by (rule steps_inv [OF _ start_inv])

end

end
