(* ===== verification/Usb_Model.thy ===== *)
theory Usb_Model
  imports Usb_Prelude
begin

text \<open>
  The data classes of \<open>interfaces/innerkits/native/include\<close>: endpoints, interfaces,
  configurations, devices and ports.  A class is a record whose fields are its private
  members (prefixed \<open>ep_\<close>, \<open>if_\<close>, \<open>cfg_\<close>, \<open>dev_\<close>, \<open>port_\<close>, and without the
  trailing underscore); its plain getters and setters are the record's selectors and
  updates, and every accessor that computes something is a definition of its own.
  A member without an initialiser holds an arbitrary value after construction, so the
  constructors of \<open>UsbDevice\<close> take the previous contents of the storage as an argument.
\<close>

section \<open>Constants of \<open>usb_common.h\<close>\<close>

definition USB_ENDPOINT_XFERTYPE_MASK :: u32 where "USB_ENDPOINT_XFERTYPE_MASK = 0x03"
definition USB_ENDPOINT_NUMBER_MASK :: u32 where "USB_ENDPOINT_NUMBER_MASK = 0x0f"
definition USB_ENDPOINT_DIR_MASK :: u32 where "USB_ENDPOINT_DIR_MASK = 0x80"
definition USB_ENDPOINT_DIR_OUT :: u32 where "USB_ENDPOINT_DIR_OUT = 0"
definition USB_ENDPOINT_DIR_IN :: u32 where "USB_ENDPOINT_DIR_IN = 0x80"
definition USB_CFG_SELF_POWERED :: u32 where "USB_CFG_SELF_POWERED = 0x80"
definition USB_CFG_REMOTE_WAKEUP :: u32 where "USB_CFG_REMOTE_WAKEUP = 0x20"
definition INVALID_USB_INT_VALUE :: i32 where "INVALID_USB_INT_VALUE = -1"

lemmas usb_masks =
  USB_ENDPOINT_XFERTYPE_MASK_def USB_ENDPOINT_NUMBER_MASK_def USB_ENDPOINT_DIR_MASK_def
  USB_ENDPOINT_DIR_OUT_def USB_ENDPOINT_DIR_IN_def USB_CFG_SELF_POWERED_def
  USB_CFG_REMOTE_WAKEUP_def INVALID_USB_INT_VALUE_def

section \<open>Endpoints\<close>

record USBEndpoint =
  ep_address :: u32
  ep_attributes :: u32
  ep_interval :: i32
  ep_maxPacketSize :: i32
  ep_interfaceId :: u8

definition USBEndpoint_new :: USBEndpoint where
  "USBEndpoint_new = \<lparr>ep_address = 0, ep_attributes = 0, ep_interval = INVALID_USB_INT_VALUE,
     ep_maxPacketSize = INVALID_USB_INT_VALUE, ep_interfaceId = 255\<rparr>"

definition USBEndpoint_GetNumber :: "USBEndpoint \<Rightarrow> u8" where
  "USBEndpoint_GetNumber ep = ucast (ep_address ep AND USB_ENDPOINT_NUMBER_MASK)"

definition USBEndpoint_GetDirection :: "USBEndpoint \<Rightarrow> u32" where
  "USBEndpoint_GetDirection ep = ep_address ep AND USB_ENDPOINT_DIR_MASK"

definition USBEndpoint_GetEndpointNumber :: "USBEndpoint \<Rightarrow> u32" where
  "USBEndpoint_GetEndpointNumber ep = ep_address ep AND USB_ENDPOINT_NUMBER_MASK"

definition USBEndpoint_GetType :: "USBEndpoint \<Rightarrow> u32" where
  "USBEndpoint_GetType ep = ep_attributes ep AND USB_ENDPOINT_XFERTYPE_MASK"

text \<open>\<open>GetInterfaceId\<close> returns the byte as \<open>int8_t\<close>: the same bits, read as signed.\<close>

definition USBEndpoint_GetInterfaceId :: "USBEndpoint \<Rightarrow> 8 word" where
  "USBEndpoint_GetInterfaceId ep = ep_interfaceId ep"

section \<open>Interfaces\<close>

record UsbInterface =
  if_id :: i32
  if_protocol :: i32
  if_klass :: i32
  if_subClass :: i32
  if_alternateSetting :: i32
  if_name :: string
  if_endpoints :: "USBEndpoint list"
  if_iInterface :: u8

definition UsbInterface_new :: UsbInterface where
  "UsbInterface_new = \<lparr>if_id = 0x7fffffff, if_protocol = 0x7fffffff, if_klass = 0x7fffffff,
     if_subClass = 0x7fffffff, if_alternateSetting = 0x7fffffff, if_name = '''',
     if_endpoints = [], if_iInterface = 255\<rparr>"

text \<open>The size of a vector, returned as \<open>int32_t\<close>.\<close>

definition UsbInterface_GetEndpointCount :: "UsbInterface \<Rightarrow> i32" where
  "UsbInterface_GetEndpointCount i = of_nat (length (if_endpoints i))"

definition UsbInterface_GetEndpoint :: "UsbInterface \<Rightarrow> u32 \<Rightarrow> USBEndpoint option" where
  "UsbInterface_GetEndpoint i index =
     (if unat index \<ge> length (if_endpoints i) then None
      else Some (if_endpoints i ! unat index))"

section \<open>Configurations\<close>

record USBConfig =
  cfg_id :: i32
  cfg_attributes :: u32
  cfg_interfaces :: "UsbInterface list"
  cfg_maxPower :: i32
  cfg_name :: string
  cfg_iConfiguration :: u8

definition USBConfig_new :: USBConfig where
  "USBConfig_new = \<lparr>cfg_id = INVALID_USB_INT_VALUE, cfg_attributes = 0, cfg_interfaces = [],
     cfg_maxPower = INVALID_USB_INT_VALUE, cfg_name = '''', cfg_iConfiguration = 255\<rparr>"

text \<open>\<open>GetInterface\<close> leaves the output argument alone when the index is out of range.\<close>

definition USBConfig_GetInterface :: "USBConfig \<Rightarrow> u32 \<Rightarrow> UsbInterface \<Rightarrow> bool \<times> UsbInterface" where
  "USBConfig_GetInterface c index out =
     (if unat index \<ge> length (cfg_interfaces c) then (False, out)
      else (True, cfg_interfaces c ! unat index))"

definition USBConfig_GetInterfaceCount :: "USBConfig \<Rightarrow> u32" where
  "USBConfig_GetInterfaceCount c = of_nat (length (cfg_interfaces c))"

definition USBConfig_GetMaxPower :: "USBConfig \<Rightarrow> i32" where
  "USBConfig_GetMaxPower c = cfg_maxPower c * 2"

definition USBConfig_IsRemoteWakeup :: "USBConfig \<Rightarrow> bool" where
  "USBConfig_IsRemoteWakeup c \<longleftrightarrow> (cfg_attributes c AND USB_CFG_REMOTE_WAKEUP) \<noteq> 0"

definition USBConfig_IsSelfPowered :: "USBConfig \<Rightarrow> bool" where
  "USBConfig_IsSelfPowered c \<longleftrightarrow> (cfg_attributes c AND USB_CFG_SELF_POWERED) \<noteq> 0"

section \<open>Devices\<close>

record UsbDevice =
  dev_name :: string
  dev_manufacturerName :: string
  dev_productName :: string
  dev_version :: string
  dev_serial :: string
  dev_devAddr :: u8
  dev_busNum :: u8
  dev_descConfigCount :: u8
  dev_bMaxPacketSize0 :: u8
  dev_bcdUSB :: u16
  dev_bcdDevice :: u16
  dev_iManufacturer :: u8
  dev_iProduct :: u8
  dev_iSerialNumber :: u8
  dev_vendorId :: i32
  dev_productId :: i32
  dev_klass :: i32
  dev_subClass :: i32
  dev_protocol :: i32
  dev_configs :: "USBConfig list"

text \<open>
  The default constructor: the members with an initialiser (and the class-type members) are
  set, the others keep whatever the storage \<open>junk\<close> held.
\<close>

definition UsbDevice_new :: "UsbDevice \<Rightarrow> UsbDevice" where
  "UsbDevice_new junk = junk\<lparr>dev_name := '''', dev_manufacturerName := '''',
     dev_productName := '''', dev_version := '''', dev_serial := '''',
     dev_descConfigCount := 255, dev_bMaxPacketSize0 := 255, dev_bcdUSB := 0xffff,
     dev_bcdDevice := 0xffff, dev_iManufacturer := 255, dev_iProduct := 255,
     dev_iSerialNumber := 255, dev_configs := []\<rparr>"

text \<open>The all-zero object that \<open>UsbService::AddDevice\<close> makes with \<open>memset_s\<close>.\<close>

definition UsbDevice_zero :: UsbDevice where
  "UsbDevice_zero = \<lparr>dev_name = '''', dev_manufacturerName = '''', dev_productName = '''',
     dev_version = '''', dev_serial = '''', dev_devAddr = 0, dev_busNum = 0,
     dev_descConfigCount = 0, dev_bMaxPacketSize0 = 0, dev_bcdUSB = 0, dev_bcdDevice = 0,
     dev_iManufacturer = 0, dev_iProduct = 0, dev_iSerialNumber = 0, dev_vendorId = 0,
     dev_productId = 0, dev_klass = 0, dev_subClass = 0, dev_protocol = 0, dev_configs = []\<rparr>"

definition UsbDevice_GetConfigCount :: "UsbDevice \<Rightarrow> i32" where
  "UsbDevice_GetConfigCount d = of_nat (length (dev_configs d))"

definition UsbDevice_GetConfig ::
  "uec_codes \<Rightarrow> UsbDevice \<Rightarrow> u32 \<Rightarrow> USBConfig \<Rightarrow> i32 \<times> USBConfig" where
  "UsbDevice_GetConfig E d index out =
     (if unat index \<ge> length (dev_configs d) then (ERR_INVALID_VALUE E, out)
      else (ERR_OK E, dev_configs d ! unat index))"

text \<open>
  \<open>GetDescConfigCount\<close> is declared to return \<open>bool\<close>, so the 8-bit count is converted:
  any count other than zero reads as \<open>true\<close>.
\<close>

definition UsbDevice_GetDescConfigCount :: "UsbDevice \<Rightarrow> bool" where
  "UsbDevice_GetDescConfigCount d \<longleftrightarrow> dev_descConfigCount d \<noteq> 0"

section \<open>Ports\<close>

record UsbPortStatus =
  currentMode :: i32
  currentPowerRole :: i32
  currentDataRole :: i32

record UsbPort =
  port_id :: i32
  supportedModes :: i32
  usbPortStatus :: UsbPortStatus

section \<open>Facts about the accessors\<close>

lemma GetDirection_cases:
  "USBEndpoint_GetDirection ep = USB_ENDPOINT_DIR_OUT \<or>
   USBEndpoint_GetDirection ep = USB_ENDPOINT_DIR_IN"
proof -
  have b: "bit (0x80 :: u32) n \<longleftrightarrow> n = 7" for n
  proof -
    have "(0x80 :: u32) = 2 ^ 7" by simp
    then show ?thesis by (simp only: bit_exp_iff) auto
  qed
  have "(a AND 0x80 = 0) \<or> (a AND 0x80 = (0x80 :: u32))" for a
  proof (cases "bit a 7")
    case True
    then have "a AND 0x80 = (0x80 :: u32)" by (intro bit_word_eqI) (metis b bit_and_iff)
    then show ?thesis ..
  next
    case False
    then have "a AND 0x80 = (0 :: u32)" by (intro bit_word_eqI) (metis b bit_and_iff bit_0_eq bot_apply bot_bool_def)
    then show ?thesis ..
  qed
  then show ?thesis by (simp add: USBEndpoint_GetDirection_def usb_masks)
qed

end
