(* ===== verification/Usb_Descriptor.thy ===== *)
theory Usb_Descriptor
  imports Usb_Model
begin

text \<open>
  \<open>UsbDescriptorParser\<close> (\<open>services/native/src/usb_descriptor_parser.cpp\<close>): the four
  functions that turn the raw descriptors of a device into the objects of \<open>Usb_Model\<close>.

  A buffer argument is the list of bytes from the pointer to the end of the vector it points
  into; a null pointer is the empty list.  Reading a structure that does not fit into these
  bytes is undefined behaviour in C++; here it is the outcome \<open>BadRead\<close>.  The scanning loops
  and the interface loop need not stop, so a run is an \<open>option\<close>, and \<open>None\<close> means that the
  call does not return.  Lengths and cursors are \<open>uint32_t\<close> values (\<open>u32_add\<close>,
  \<open>u32_sub\<close>); a cursor passed by reference is an argument and a result.

  The structures of \<open>usbd_type.h\<close> are not part of the repository: their sizes and the reading
  of their fields are the parameter \<open>usbd_layout\<close>.  \<open>usb20_layout\<close> is the layout that the USB
  2.0 specification gives these descriptors (section 9.6).
\<close>

section \<open>The descriptor structures\<close>

record UsbdDescriptorHeader =
  dh_bLength :: u8
  dh_bDescriptorType :: u8

record UsbdDeviceDescriptor =
  dd_bLength :: u8
  dd_bcdUSB :: u16
  dd_bDeviceClass :: u8
  dd_bDeviceSubClass :: u8
  dd_bDeviceProtocol :: u8
  dd_bMaxPacketSize0 :: u8
  dd_idVendor :: u16
  dd_idProduct :: u16
  dd_bcdDevice :: u16
  dd_iManufacturer :: u8
  dd_iProduct :: u8
  dd_iSerialNumber :: u8
  dd_bNumConfigurations :: u8

record UsbdConfigDescriptor =
  cd_bLength :: u8
  cd_wTotalLength :: u16
  cd_bNumInterfaces :: u8
  cd_bConfigurationValue :: u8
  cd_iConfiguration :: u8
  cd_bmAttributes :: u8
  cd_bMaxPower :: u8

record UsbdInterfaceDescriptor =
  id_bLength :: u8
  id_bInterfaceNumber :: u8
  id_bAlternateSetting :: u8
  id_bNumEndpoints :: u8
  id_bInterfaceClass :: u8
  id_bInterfaceSubClass :: u8
  id_bInterfaceProtocol :: u8
  id_iInterface :: u8

record UsbdEndpointDescriptor =
  ed_bLength :: u8
  ed_bEndpointAddress :: u8
  ed_bmAttributes :: u8
  ed_wMaxPacketSize :: u16
  ed_bInterval :: u8

record usbd_layout =
  header_size :: nat
  header_of :: "u8 list \<Rightarrow> UsbdDescriptorHeader"
  device_size :: nat
  device_of :: "u8 list \<Rightarrow> UsbdDeviceDescriptor"
  config_size :: nat
  config_of :: "u8 list \<Rightarrow> UsbdConfigDescriptor"
  interface_size :: nat
  interface_of :: "u8 list \<Rightarrow> UsbdInterfaceDescriptor"
  endpoint_size :: nat
  endpoint_of :: "u8 list \<Rightarrow> UsbdEndpointDescriptor"

text \<open>Little-endian 16-bit fields, and the USB 2.0 layout.\<close>

definition u16_of :: "u8 \<Rightarrow> u8 \<Rightarrow> u16" where
  "u16_of lo hi = ucast lo OR push_bit 8 (ucast hi)"

definition u16_lo :: "u16 \<Rightarrow> u8" where "u16_lo w = ucast w"
definition u16_hi :: "u16 \<Rightarrow> u8" where "u16_hi w = ucast (drop_bit 8 w)"

lemma u16_of_lo_hi [simp]: "u16_of (u16_lo w) (u16_hi w) = w"
  by (rule bit_word_eqI)
    (auto simp: u16_of_def u16_lo_def u16_hi_def bit_simps)

definition usb20_layout :: usbd_layout where
  "usb20_layout = \<lparr>
     header_size = 2,
     header_of = (\<lambda>b. \<lparr>dh_bLength = b ! 0, dh_bDescriptorType = b ! 1\<rparr>),
     device_size = 18,
     device_of = (\<lambda>b. \<lparr>dd_bLength = b ! 0, dd_bcdUSB = u16_of (b ! 2) (b ! 3),
       dd_bDeviceClass = b ! 4, dd_bDeviceSubClass = b ! 5, dd_bDeviceProtocol = b ! 6,
       dd_bMaxPacketSize0 = b ! 7, dd_idVendor = u16_of (b ! 8) (b ! 9),
       dd_idProduct = u16_of (b ! 10) (b ! 11), dd_bcdDevice = u16_of (b ! 12) (b ! 13),
       dd_iManufacturer = b ! 14, dd_iProduct = b ! 15, dd_iSerialNumber = b ! 16,
       dd_bNumConfigurations = b ! 17\<rparr>),
     config_size = 9,
     config_of = (\<lambda>b. \<lparr>cd_bLength = b ! 0, cd_wTotalLength = u16_of (b ! 2) (b ! 3),
       cd_bNumInterfaces = b ! 4, cd_bConfigurationValue = b ! 5, cd_iConfiguration = b ! 6,
       cd_bmAttributes = b ! 7, cd_bMaxPower = b ! 8\<rparr>),
     interface_size = 9,
     interface_of = (\<lambda>b. \<lparr>id_bLength = b ! 0, id_bInterfaceNumber = b ! 2,
       id_bAlternateSetting = b ! 3, id_bNumEndpoints = b ! 4, id_bInterfaceClass = b ! 5,
       id_bInterfaceSubClass = b ! 6, id_bInterfaceProtocol = b ! 7, id_iInterface = b ! 8\<rparr>),
     endpoint_size = 7,
     endpoint_of = (\<lambda>b. \<lparr>ed_bLength = b ! 0, ed_bEndpointAddress = b ! 2,
       ed_bmAttributes = b ! 3, ed_wMaxPacketSize = u16_of (b ! 4) (b ! 5),
       ed_bInterval = b ! 6\<rparr>)\<rparr>"

section \<open>Reading memory\<close>

datatype 'a mem = Mem 'a | BadRead

type_synonym 'a run = "'a mem option"

definition read_struct :: "nat \<Rightarrow> (u8 list \<Rightarrow> 'd) \<Rightarrow> u8 list \<Rightarrow> nat \<Rightarrow> 'd option" where
  "read_struct sz dec buffer off =
     (if off + sz \<le> length buffer then Some (dec (take sz (drop off buffer))) else None)"

definition run_bind :: "'a run \<Rightarrow> ('a \<Rightarrow> 'b run) \<Rightarrow> 'b run" where
  "run_bind r k = (case r of None \<Rightarrow> None | Some BadRead \<Rightarrow> Some BadRead | Some (Mem x) \<Rightarrow> k x)"

definition DESCRIPTOR_TYPE_DEVICE :: u8 where "DESCRIPTOR_TYPE_DEVICE = 1"
definition DESCRIPTOR_TYPE_CONFIG :: u8 where "DESCRIPTOR_TYPE_CONFIG = 2"
definition DESCRIPTOR_TYPE_INTERFACE :: u8 where "DESCRIPTOR_TYPE_INTERFACE = 4"
definition DESCRIPTOR_TYPE_ENDPOINT :: u8 where "DESCRIPTOR_TYPE_ENDPOINT = 5"

section \<open>The device descriptor\<close>

definition ParseDeviceDescriptor ::
  "usbd_layout \<Rightarrow> uec_codes \<Rightarrow> u8 list \<Rightarrow> nat \<Rightarrow> UsbDevice \<Rightarrow> (i32 \<times> UsbDevice) mem" where
  "ParseDeviceDescriptor L E buffer len dev =
     (if buffer = [] \<or> len = 0 then Mem (UEC_SERVICE_INVALID_VALUE E, dev)
      else if len < device_size L then Mem (UEC_SERVICE_INVALID_VALUE E, dev)
      else case read_struct (device_size L) (device_of L) buffer 0 of
        None \<Rightarrow> BadRead
      | Some d \<Rightarrow>
          if unat (dd_bLength d) \<noteq> device_size L then Mem (UEC_SERVICE_INVALID_VALUE E, dev)
          else Mem (UEC_OK E, dev\<lparr>
            dev_vendorId := ucast (dd_idVendor d),
            dev_productId := ucast (dd_idProduct d),
            dev_klass := ucast (dd_bDeviceClass d),
            dev_subClass := ucast (dd_bDeviceSubClass d),
            dev_descConfigCount := dd_bNumConfigurations d,
            dev_bMaxPacketSize0 := dd_bMaxPacketSize0 d,
            dev_bcdDevice := dd_bcdDevice d,
            dev_bcdUSB := dd_bcdUSB d,
            dev_iManufacturer := dd_iManufacturer d,
            dev_iProduct := dd_iProduct d,
            dev_iSerialNumber := dd_iSerialNumber d\<rparr>))"

section \<open>The scanning loops\<close>

text \<open>
  \<open>ParseInterfaceDescriptor\<close> and \<open>ParseEndpointDescriptor\<close> start with the same loop, which
  skips descriptors until one of the wanted type: \<open>Reject c\<close> is the early return of an error
  with the cursor at \<open>c\<close>, \<open>Goto c\<close> is leaving the loop (by \<open>break\<close> or because the cursor has
  reached the length).
\<close>

datatype scan = Goto nat | Reject nat | ScanBad

partial_function (option) scan_header ::
  "usbd_layout \<Rightarrow> u8 \<Rightarrow> u8 list \<Rightarrow> nat \<Rightarrow> nat \<Rightarrow> scan option" where
  "scan_header L tag buffer len cursor =
     (if cursor < len then
        if header_size L \<ge> len then Some (Reject cursor)
        else case read_struct (header_size L) (header_of L) buffer cursor of
          None \<Rightarrow> Some ScanBad
        | Some h \<Rightarrow>
            if unat (dh_bLength h) > len then Some (Reject cursor)
            else if dh_bDescriptorType h = tag then Some (Goto cursor)
            else scan_header L tag buffer len (u32_add cursor (unat (dh_bLength h)))
      else Some (Goto cursor))"

section \<open>Endpoint and interface descriptors\<close>

text \<open>
  The parsers below are called with an offset into the buffer of the configuration: that pointer
  is never null, and an offset past the end is the empty list, from which every read is bad.
\<close>

definition ParseEndpointDescriptor ::
  "usbd_layout \<Rightarrow> uec_codes \<Rightarrow> u8 list \<Rightarrow> nat \<Rightarrow> nat \<Rightarrow> USBEndpoint \<Rightarrow>
   (i32 \<times> nat \<times> USBEndpoint) run" where
  "ParseEndpointDescriptor L E buffer len cursor ep =
     (if len = 0 then Some (Mem (UEC_SERVICE_INVALID_VALUE E, cursor, ep))
      else case scan_header L DESCRIPTOR_TYPE_ENDPOINT buffer len cursor of
        None \<Rightarrow> None
      | Some ScanBad \<Rightarrow> Some BadRead
      | Some (Reject c) \<Rightarrow> Some (Mem (UEC_SERVICE_INVALID_VALUE E, c, ep))
      | Some (Goto c) \<Rightarrow>
          (case read_struct (endpoint_size L) (endpoint_of L) buffer c of
             None \<Rightarrow> Some BadRead
           | Some d \<Rightarrow>
               if unat (ed_bLength d) \<noteq> endpoint_size L
               then Some (Mem (UEC_SERVICE_INVALID_VALUE E, c, ep))
               else Some (Mem (UEC_OK E, u32_add c (unat (ed_bLength d)), ep\<lparr>
                 ep_address := ucast (ed_bEndpointAddress d),
                 ep_attributes := ucast (ed_bmAttributes d),
                 ep_interval := ucast (ed_bInterval d),
                 ep_maxPacketSize := ucast (ed_wMaxPacketSize d)\<rparr>))))"

text \<open>The loop over the \<open>n\<close> endpoints still expected; the return code is not looked at.\<close>

primrec parse_endpoints ::
  "usbd_layout \<Rightarrow> uec_codes \<Rightarrow> u8 list \<Rightarrow> nat \<Rightarrow> u8 \<Rightarrow> nat \<Rightarrow> nat \<Rightarrow> USBEndpoint list \<Rightarrow>
   (nat \<times> USBEndpoint list) run" where
  "parse_endpoints L E buffer len ifnum 0 cursor eps = Some (Mem (cursor, eps))"
| "parse_endpoints L E buffer len ifnum (Suc n) cursor eps =
     run_bind (ParseEndpointDescriptor L E (drop cursor buffer) (u32_sub len cursor) 0
                 USBEndpoint_new)
       (\<lambda>(ret, epCursor, ep).
          parse_endpoints L E buffer len ifnum n (u32_add cursor epCursor)
            (eps @ [ep\<lparr>ep_interfaceId := ifnum\<rparr>]))"

definition ParseInterfaceDescriptor ::
  "usbd_layout \<Rightarrow> uec_codes \<Rightarrow> u8 list \<Rightarrow> nat \<Rightarrow> nat \<Rightarrow> UsbInterface \<Rightarrow>
   (i32 \<times> nat \<times> UsbInterface) run" where
  "ParseInterfaceDescriptor L E buffer len cursor interface =
     (if len = 0 then Some (Mem (UEC_SERVICE_INVALID_VALUE E, cursor, interface))
      else case scan_header L DESCRIPTOR_TYPE_INTERFACE buffer len cursor of
        None \<Rightarrow> None
      | Some ScanBad \<Rightarrow> Some BadRead
      | Some (Reject c) \<Rightarrow> Some (Mem (UEC_SERVICE_INVALID_VALUE E, c, interface))
      | Some (Goto c) \<Rightarrow>
          (case read_struct (interface_size L) (interface_of L) buffer c of
             None \<Rightarrow> Some BadRead
           | Some d \<Rightarrow>
               if unat (id_bLength d) \<noteq> interface_size L
               then Some (Mem (UEC_SERVICE_INVALID_VALUE E, c, interface))
               else run_bind
                 (parse_endpoints L E buffer len (id_bInterfaceNumber d)
                    (unat (id_bNumEndpoints d)) (u32_add c (unat (id_bLength d))) [])
                 (\<lambda>(c', eps). Some (Mem (UEC_OK E, c', interface\<lparr>
                    if_id := ucast (id_bInterfaceNumber d),
                    if_protocol := ucast (id_bInterfaceProtocol d),
                    if_alternateSetting := ucast (id_bAlternateSetting d),
                    if_klass := ucast (id_bInterfaceClass d),
                    if_subClass := ucast (id_bInterfaceSubClass d),
                    if_iInterface := id_iInterface d,
                    if_endpoints := eps\<rparr>)))))"

section \<open>The configuration descriptor\<close>

text \<open>
  The loop over the interfaces: an interface without endpoints does not count (\<open>--i\<close>), and the
  loop goes on with what follows it.
\<close>

partial_function (option) parse_interfaces ::
  "usbd_layout \<Rightarrow> uec_codes \<Rightarrow> u8 list \<Rightarrow> nat \<Rightarrow> nat \<Rightarrow> nat \<Rightarrow> nat \<Rightarrow> UsbInterface list \<Rightarrow>
   (nat \<times> UsbInterface list) run" where
  "parse_interfaces L E buffer len num i cursor interfaces =
     (if i < num \<and> cursor < len then
        (case ParseInterfaceDescriptor L E (drop cursor buffer) (u32_sub len cursor) 0
                UsbInterface_new of
           None \<Rightarrow> None
         | Some BadRead \<Rightarrow> Some BadRead
         | Some (Mem (ret, interfaceCursor, interface)) \<Rightarrow>
             if 0 <s UsbInterface_GetEndpointCount interface
             then parse_interfaces L E buffer len num (Suc i) (u32_add cursor interfaceCursor)
                    (interfaces @ [interface])
             else parse_interfaces L E buffer len num i (u32_add cursor interfaceCursor)
                    interfaces)
      else Some (Mem (cursor, interfaces)))"

definition ParseConfigDescriptor ::
  "usbd_layout \<Rightarrow> uec_codes \<Rightarrow> u8 list \<Rightarrow> nat \<Rightarrow> nat \<Rightarrow> USBConfig \<Rightarrow>
   (i32 \<times> nat \<times> USBConfig) run" where
  "ParseConfigDescriptor L E buffer len cursor config =
     (if buffer = [] \<or> len = 0 then Some (Mem (UEC_SERVICE_INVALID_VALUE E, cursor, config))
      else if len < config_size L then Some (Mem (UEC_SERVICE_INVALID_VALUE E, cursor, config))
      else case read_struct (config_size L) (config_of L) buffer 0 of
        None \<Rightarrow> Some BadRead
      | Some d \<Rightarrow>
          if unat (cd_bLength d) \<noteq> config_size L
          then Some (Mem (UEC_SERVICE_INVALID_VALUE E, u32_add cursor (config_size L), config))
          else run_bind
            (parse_interfaces L E buffer len (unat (cd_bNumInterfaces d)) 0
               (u32_add cursor (config_size L)) [])
            (\<lambda>(c, interfaces). Some (Mem (UEC_OK E, c, config\<lparr>
               cfg_id := ucast (cd_bConfigurationValue d),
               cfg_attributes := ucast (cd_bmAttributes d),
               cfg_maxPower := ucast (cd_bMaxPower d),
               cfg_iConfiguration := cd_iConfiguration d,
               cfg_interfaces := interfaces\<rparr>))))"

end
