(* ===== verification/Usb_Wire.thy ===== *)
theory Usb_Wire
  imports Usb_Descriptor
begin

text \<open>
  The descriptor parser on descriptors laid out as the USB 2.0 specification says: encoders for
  the descriptors (\<open>endpoint_bytes\<close>, \<open>interface_bytes\<close>, \<open>config_bytes\<close>, \<open>device_bytes\<close>), for
  whole configurations with class-specific descriptors between the standard ones
  (\<open>config_tree_bytes\<close>), and the objects the parser is expected to build from them.  The lemmas
  follow the parser from the inside out and end with the round trip of a configuration.
\<close>

section \<open>Encoders\<close>

text \<open>A descriptor that the parser skips: its type and what follows the two header bytes.\<close>

type_synonym extra = "u8 \<times> u8 list"

definition extra_bytes :: "extra \<Rightarrow> u8 list" where
  "extra_bytes x = [of_nat (length (snd x) + 2), fst x] @ snd x"

definition extra_ok :: "u8 \<Rightarrow> extra \<Rightarrow> bool" where
  "extra_ok tag x \<longleftrightarrow> fst x \<noteq> tag \<and> length (snd x) \<le> 253"

definition extras_bytes :: "extra list \<Rightarrow> u8 list" where
  "extras_bytes xs = concat (map extra_bytes xs)"

definition device_bytes :: "UsbdDeviceDescriptor \<Rightarrow> u8 list" where
  "device_bytes d = [dd_bLength d, 1, u16_lo (dd_bcdUSB d), u16_hi (dd_bcdUSB d),
     dd_bDeviceClass d, dd_bDeviceSubClass d, dd_bDeviceProtocol d, dd_bMaxPacketSize0 d,
     u16_lo (dd_idVendor d), u16_hi (dd_idVendor d), u16_lo (dd_idProduct d),
     u16_hi (dd_idProduct d), u16_lo (dd_bcdDevice d), u16_hi (dd_bcdDevice d),
     dd_iManufacturer d, dd_iProduct d, dd_iSerialNumber d, dd_bNumConfigurations d]"

definition config_bytes :: "UsbdConfigDescriptor \<Rightarrow> u8 list" where
  "config_bytes d = [cd_bLength d, 2, u16_lo (cd_wTotalLength d), u16_hi (cd_wTotalLength d),
     cd_bNumInterfaces d, cd_bConfigurationValue d, cd_iConfiguration d, cd_bmAttributes d,
     cd_bMaxPower d]"

definition interface_bytes :: "UsbdInterfaceDescriptor \<Rightarrow> u8 list" where
  "interface_bytes d = [id_bLength d, 4, id_bInterfaceNumber d, id_bAlternateSetting d,
     id_bNumEndpoints d, id_bInterfaceClass d, id_bInterfaceSubClass d,
     id_bInterfaceProtocol d, id_iInterface d]"

definition endpoint_bytes :: "UsbdEndpointDescriptor \<Rightarrow> u8 list" where
  "endpoint_bytes d = [ed_bLength d, 5, ed_bEndpointAddress d, ed_bmAttributes d,
     u16_lo (ed_wMaxPacketSize d), u16_hi (ed_wMaxPacketSize d), ed_bInterval d]"

text \<open>A configuration as a tree; every standard descriptor may follow skipped ones.\<close>

datatype ep_tree = EpTree "extra list" UsbdEndpointDescriptor

datatype if_tree = IfTree "extra list" UsbdInterfaceDescriptor "ep_tree list"

fun ep_tree_bytes :: "ep_tree \<Rightarrow> u8 list" where
  "ep_tree_bytes (EpTree xs d) = extras_bytes xs @ endpoint_bytes d"

fun if_tree_bytes :: "if_tree \<Rightarrow> u8 list" where
  "if_tree_bytes (IfTree xs d ts) =
     extras_bytes xs @ interface_bytes d @ concat (map ep_tree_bytes ts)"

definition config_tree_bytes :: "UsbdConfigDescriptor \<Rightarrow> if_tree list \<Rightarrow> u8 list" where
  "config_tree_bytes d ts = config_bytes d @ concat (map if_tree_bytes ts)"

fun ep_tree_ok :: "ep_tree \<Rightarrow> bool" where
  "ep_tree_ok (EpTree xs d) \<longleftrightarrow> (\<forall>x \<in> set xs. extra_ok DESCRIPTOR_TYPE_ENDPOINT x) \<and> ed_bLength d = 7"

fun if_tree_ok :: "if_tree \<Rightarrow> bool" where
  "if_tree_ok (IfTree xs d ts) \<longleftrightarrow> (\<forall>x \<in> set xs. extra_ok DESCRIPTOR_TYPE_INTERFACE x) \<and>
     id_bLength d = 9 \<and> unat (id_bNumEndpoints d) = length ts \<and> (\<forall>t \<in> set ts. ep_tree_ok t)"

section \<open>Expected objects\<close>

fun ep_tree_object :: "u8 \<Rightarrow> ep_tree \<Rightarrow> USBEndpoint" where
  "ep_tree_object ifnum (EpTree xs d) =
     \<lparr>ep_address = ucast (ed_bEndpointAddress d), ep_attributes = ucast (ed_bmAttributes d),
      ep_interval = ucast (ed_bInterval d), ep_maxPacketSize = ucast (ed_wMaxPacketSize d),
      ep_interfaceId = ifnum\<rparr>"

fun if_tree_object :: "if_tree \<Rightarrow> UsbInterface" where
  "if_tree_object (IfTree xs d ts) =
     \<lparr>if_id = ucast (id_bInterfaceNumber d), if_protocol = ucast (id_bInterfaceProtocol d),
      if_klass = ucast (id_bInterfaceClass d), if_subClass = ucast (id_bInterfaceSubClass d),
      if_alternateSetting = ucast (id_bAlternateSetting d), if_name = '''',
      if_endpoints = map (ep_tree_object (id_bInterfaceNumber d)) ts,
      if_iInterface = id_iInterface d\<rparr>"

fun if_tree_endpoints :: "if_tree \<Rightarrow> ep_tree list" where
  "if_tree_endpoints (IfTree xs d ts) = ts"

section \<open>Layout facts\<close>

lemma header_usb20 [simp]:
  "header_size usb20_layout = 2"
  "header_of usb20_layout b = \<lparr>dh_bLength = b ! 0, dh_bDescriptorType = b ! 1\<rparr>"
  by (simp_all add: usb20_layout_def)

lemma sizes_usb20 [simp]:
  "device_size usb20_layout = 18" "config_size usb20_layout = 9"
  "interface_size usb20_layout = 9" "endpoint_size usb20_layout = 7"
  by (simp_all add: usb20_layout_def)

lemma length_bytes [simp]:
  "length (device_bytes dd) = 18" "length (config_bytes cd) = 9"
  "length (interface_bytes ifd) = 9" "length (endpoint_bytes ed) = 7"
  by (simp_all add: device_bytes_def config_bytes_def interface_bytes_def endpoint_bytes_def)

lemma bytes_not_Nil [simp]:
  "device_bytes dd \<noteq> []" "config_bytes cd \<noteq> []" "interface_bytes ifd \<noteq> []"
  "endpoint_bytes ed \<noteq> []"
  by (simp_all add: device_bytes_def config_bytes_def interface_bytes_def endpoint_bytes_def)

lemma of_bytes [simp]:
  "device_of usb20_layout (device_bytes dd) = dd"
  "config_of usb20_layout (config_bytes cd) = cd"
  "interface_of usb20_layout (interface_bytes ifd) = ifd"
  "endpoint_of usb20_layout (endpoint_bytes ed) = ed"
  by (simp_all add: usb20_layout_def device_bytes_def config_bytes_def interface_bytes_def
      endpoint_bytes_def nth_Cons')

lemma read_struct_at:
  "off = length pre \<Longrightarrow> length bs = n \<Longrightarrow> read_struct n dec (pre @ bs @ rest) off = Some (dec bs)"
  by (simp add: read_struct_def)

lemma read_header_at:
  "off = length pre \<Longrightarrow>
   read_struct 2 (header_of usb20_layout) (pre @ l # t # rest) off =
     Some \<lparr>dh_bLength = l, dh_bDescriptorType = t\<rparr>"
  using read_struct_at [of off pre "[l, t]" 2 "header_of usb20_layout" rest] by simp

section \<open>Scanning\<close>

lemma scan_header_stop:
  assumes "len = length (pre @ l # tag # rest)" "2 < len" "unat l \<le> len"
  shows "scan_header usb20_layout tag (pre @ l # tag # rest) len (length pre) =
    Some (Goto (length pre))"
  using assms by (subst scan_header.simps) (simp add: read_header_at)

lemma scan_header_extras:
  assumes "\<forall>x \<in> set xs. extra_ok tag x"
    and "len = length (pre @ extras_bytes xs @ l # tag # rest)"
    and "2 < len" "unat l \<le> len" "len + 255 < 4294967296"
  shows "scan_header usb20_layout tag (pre @ extras_bytes xs @ l # tag # rest) len (length pre) =
    Some (Goto (length pre + length (extras_bytes xs)))"
  using assms
proof (induction xs arbitrary: pre)
  case Nil
  then show ?case by (simp add: extras_bytes_def scan_header_stop)
next
  case (Cons x xs)
  obtain t p where x: "x = (t, p)" by (cases x)
  have ok: "t \<noteq> tag" "length p \<le> 253" using Cons.prems(1) x by (auto simp: extra_ok_def)
  have n: "unat (of_nat (length p + 2) :: u8) = length p + 2"
    unfolding unat_of_nat using ok by simp
  let ?b = "extra_bytes x"
  let ?bs = "pre @ extras_bytes (x # xs) @ l # tag # rest"
  have bs: "?bs = (pre @ ?b) @ extras_bytes xs @ l # tag # rest"
    by (simp add: extras_bytes_def)
  have hd: "?bs = pre @ of_nat (length p + 2) # t # (p @ extras_bytes xs @ l # tag # rest)"
    by (simp add: extras_bytes_def extra_bytes_def x)
  have len: "len = length pre + (length p + 2) + length (extras_bytes xs) + 2 + length rest"
    using Cons.prems(2) by (simp add: extras_bytes_def extra_bytes_def x)
  have "scan_header usb20_layout tag ?bs len (length pre) =
      scan_header usb20_layout tag ?bs len (length pre + (length p + 2))"
    using len Cons.prems(3,5) ok n
    by (subst scan_header.simps) (simp add: hd read_header_at del: of_nat_add)
  also have "length pre + (length p + 2) = length (pre @ ?b)"
    by (simp add: extra_bytes_def x)
  also have "scan_header usb20_layout tag ?bs len (length (pre @ ?b)) =
      Some (Goto (length (pre @ ?b) + length (extras_bytes xs)))"
    unfolding bs using Cons.prems by (intro Cons.IH) (simp_all add: extras_bytes_def)
  finally show ?case by (simp add: extras_bytes_def)
qed

lemma scan_header_extras0:
  assumes "\<forall>x \<in> set xs. extra_ok tag x"
    and "len = length (extras_bytes xs @ l # tag # rest)"
    and "2 < len" "unat l \<le> len" "len + 255 < 4294967296"
  shows "scan_header usb20_layout tag (extras_bytes xs @ l # tag # rest) len 0 =
    Some (Goto (length (extras_bytes xs)))"
  using scan_header_extras [where pre = "[]"] assms by simp

section \<open>Endpoints\<close>

lemma ParseEndpointDescriptor_bytes:
  assumes "ep_tree_ok (EpTree xs d)"
    and len: "len = length (ep_tree_bytes (EpTree xs d) @ rest)" "len + 255 < 4294967296"
  shows "ParseEndpointDescriptor usb20_layout E (ep_tree_bytes (EpTree xs d) @ rest) len 0 ep =
    Some (Mem (UEC_OK E, length (ep_tree_bytes (EpTree xs d)), ep\<lparr>
       ep_address := ucast (ed_bEndpointAddress d), ep_attributes := ucast (ed_bmAttributes d),
       ep_interval := ucast (ed_bInterval d), ep_maxPacketSize := ucast (ed_wMaxPacketSize d)\<rparr>))"
proof -
  let ?bs = "extras_bytes xs @ endpoint_bytes d @ rest"
  obtain ys where ys: "endpoint_bytes d = 7 # DESCRIPTOR_TYPE_ENDPOINT # ys"
    using assms(1) by (simp add: endpoint_bytes_def DESCRIPTOR_TYPE_ENDPOINT_def)
  have "length ys = 5" using arg_cong [OF ys, of length] by simp
  then have sc: "scan_header usb20_layout DESCRIPTOR_TYPE_ENDPOINT ?bs len 0 =
      Some (Goto (length (extras_bytes xs)))"
    using scan_header_extras0 [of xs DESCRIPTOR_TYPE_ENDPOINT len 7 "ys @ rest"] assms ys
    by simp
  have rd: "read_struct 7 (endpoint_of usb20_layout) ?bs (length (extras_bytes xs)) = Some d"
    by (simp add: read_struct_at)
  have "?bs \<noteq> []" using ys by simp
  then show ?thesis
    using assms sc rd
    by (simp add: ParseEndpointDescriptor_def)
qed

lemma parse_endpoints_step:
  "ParseEndpointDescriptor L E (drop c bs) (u32_sub len c) 0 USBEndpoint_new =
     Some (Mem (r, k, ep)) \<Longrightarrow>
   parse_endpoints L E bs len ifnum (Suc n) c eps =
     parse_endpoints L E bs len ifnum n (u32_add c k) (eps @ [ep\<lparr>ep_interfaceId := ifnum\<rparr>])"
  by (simp add: run_bind_def)

lemma parse_endpoints_bytes:
  assumes "\<forall>t \<in> set ts. ep_tree_ok t"
    and "len = length (pre @ concat (map ep_tree_bytes ts) @ rest)" "len + 255 < 4294967296"
  shows "parse_endpoints usb20_layout E (pre @ concat (map ep_tree_bytes ts) @ rest) len ifnum
      (length ts) (length pre) eps =
    Some (Mem (length pre + length (concat (map ep_tree_bytes ts)),
               eps @ map (ep_tree_object ifnum) ts))"
  using assms
proof (induction ts arbitrary: pre eps)
  case Nil
  then show ?case by simp
next
  case (Cons t ts)
  obtain xs d where t: "t = EpTree xs d" by (cases t)
  let ?bs = "pre @ concat (map ep_tree_bytes (t # ts)) @ rest"
  let ?tail = "concat (map ep_tree_bytes ts) @ rest"
  have dr: "drop (length pre) ?bs = ep_tree_bytes t @ ?tail" by simp
  have sub: "u32_sub len (length pre) = length (ep_tree_bytes t @ ?tail)"
    using Cons.prems by (simp del: ep_tree_bytes.simps)
  have bs: "?bs = (pre @ ep_tree_bytes t) @ ?tail" by simp
  have pe: "ParseEndpointDescriptor usb20_layout E (drop (length pre) ?bs)
      (u32_sub len (length pre)) 0 USBEndpoint_new =
      Some (Mem (UEC_OK E, length (ep_tree_bytes t), USBEndpoint_new\<lparr>
       ep_address := ucast (ed_bEndpointAddress d), ep_attributes := ucast (ed_bmAttributes d),
       ep_interval := ucast (ed_bInterval d), ep_maxPacketSize := ucast (ed_wMaxPacketSize d)\<rparr>))"
    unfolding dr sub unfolding t using Cons.prems t
    by (intro ParseEndpointDescriptor_bytes) simp_all
  have add: "u32_add (length pre) (length (ep_tree_bytes t)) = length (pre @ ep_tree_bytes t)"
    using Cons.prems by (simp del: ep_tree_bytes.simps)
  have obj: "(USBEndpoint_new\<lparr>
       ep_address := ucast (ed_bEndpointAddress d), ep_attributes := ucast (ed_bmAttributes d),
       ep_interval := ucast (ed_bInterval d), ep_maxPacketSize := ucast (ed_wMaxPacketSize d)\<rparr>)
      \<lparr>ep_interfaceId := ifnum\<rparr> = ep_tree_object ifnum t"
    by (simp add: t USBEndpoint_new_def)
  have "parse_endpoints usb20_layout E ?bs len ifnum (length (t # ts)) (length pre) eps =
      parse_endpoints usb20_layout E ?bs len ifnum (length ts) (length (pre @ ep_tree_bytes t))
        (eps @ [ep_tree_object ifnum t])"
    by (simp only: length_Cons parse_endpoints_step [OF pe] add obj)
  also have "\<dots> = Some (Mem (length (pre @ ep_tree_bytes t) +
      length (concat (map ep_tree_bytes ts)),
      (eps @ [ep_tree_object ifnum t]) @ map (ep_tree_object ifnum) ts))"
    unfolding bs by (rule Cons.IH) (use Cons.prems in simp_all)
  finally show ?case by simp
qed

section \<open>Interfaces\<close>

lemma ParseInterfaceDescriptor_bytes:
  assumes ok: "if_tree_ok t"
    and len: "len = length (if_tree_bytes t @ rest)" "len + 255 < 4294967296"
  shows "ParseInterfaceDescriptor usb20_layout E (if_tree_bytes t @ rest) len 0 UsbInterface_new =
    Some (Mem (UEC_OK E, length (if_tree_bytes t), if_tree_object t))"
proof -
  obtain xs d ts where t: "t = IfTree xs d ts" by (cases t)
  let ?eps = "concat (map ep_tree_bytes ts)"
  let ?bs = "extras_bytes xs @ interface_bytes d @ ?eps @ rest"
  obtain ys where ys: "interface_bytes d = 9 # DESCRIPTOR_TYPE_INTERFACE # ys"
    using ok t by (simp add: interface_bytes_def DESCRIPTOR_TYPE_INTERFACE_def)
  have "length ys = 7" using arg_cong [OF ys, of length] by simp
  then have sc: "scan_header usb20_layout DESCRIPTOR_TYPE_INTERFACE ?bs len 0 =
      Some (Goto (length (extras_bytes xs)))"
    using scan_header_extras0 [of xs DESCRIPTOR_TYPE_INTERFACE len 9 "ys @ ?eps @ rest"] ok len t ys
    by simp
  have rd: "read_struct 9 (interface_of usb20_layout) ?bs (length (extras_bytes xs)) = Some d"
    by (simp add: read_struct_at)
  have add: "u32_add (length (extras_bytes xs)) 9 = length (extras_bytes xs @ interface_bytes d)"
    using len t by simp
  have pe: "parse_endpoints usb20_layout E ((extras_bytes xs @ interface_bytes d) @ ?eps @ rest)
      len (id_bInterfaceNumber d) (length ts) (length (extras_bytes xs @ interface_bytes d)) [] =
      Some (Mem (length (extras_bytes xs @ interface_bytes d) + length ?eps,
        [] @ map (ep_tree_object (id_bInterfaceNumber d)) ts))"
    using ok len t by (intro parse_endpoints_bytes) simp_all
  have ne: "?bs \<noteq> []" using ys by simp
  have d: "unat (id_bLength d) = 9" "unat (id_bNumEndpoints d) = length ts" using ok t by simp_all
  have "ParseInterfaceDescriptor usb20_layout E ?bs len 0 UsbInterface_new =
    Some (Mem (UEC_OK E, length (extras_bytes xs @ interface_bytes d) + length ?eps,
      if_tree_object t))"
    using ne len(1) t sc rd pe d add
    by (simp add: ParseInterfaceDescriptor_def run_bind_def UsbInterface_new_def)
  then show ?thesis by (simp add: t)
qed

lemma if_tree_object_endpoints:
  "length (if_endpoints (if_tree_object t)) = length (if_tree_endpoints t)"
  by (cases t) simp

lemma if_tree_ok_count: "if_tree_ok t \<Longrightarrow> length (if_tree_endpoints t) \<le> 255"
  by (cases t) (simp, metis u8_le)

lemma if_tree_bytes_nonempty: "if_tree_bytes t \<noteq> []"
  by (cases t) (simp add: interface_bytes_def)

lemma parse_interfaces_stop:
  "\<not> (i < num \<and> c < len) \<Longrightarrow> parse_interfaces L E bs len num i c ifs = Some (Mem (c, ifs))"
  by (subst parse_interfaces.simps) (rule if_not_P)

lemma parse_interfaces_step:
  assumes "i < num" "c < len"
    and "ParseInterfaceDescriptor L E (drop c bs) (u32_sub len c) 0 UsbInterface_new =
      Some (Mem (r, k, iface))"
    and "length (if_endpoints iface) \<le> 255"
  shows "parse_interfaces L E bs len num i c ifs =
    (if if_endpoints iface \<noteq> []
     then parse_interfaces L E bs len num (Suc i) (u32_add c k) (ifs @ [iface])
     else parse_interfaces L E bs len num i (u32_add c k) ifs)"
  using assms
  by (subst parse_interfaces.simps)
    (simp add: UsbInterface_GetEndpointCount_def pos_of_nat_small)

definition nonempty_trees :: "if_tree list \<Rightarrow> if_tree list" where
  "nonempty_trees ts = filter (\<lambda>t. if_tree_endpoints t \<noteq> []) ts"

lemma parse_interfaces_bytes:
  assumes "\<forall>t \<in> set ts. if_tree_ok t"
    and "len = length (pre @ concat (map if_tree_bytes ts) @ rest)" "len + 255 < 4294967296"
    and "i + length (nonempty_trees ts) \<le> num"
    and "rest = [] \<or> i + length (nonempty_trees ts) = num"
  shows "\<exists>c \<le> len. parse_interfaces usb20_layout E (pre @ concat (map if_tree_bytes ts) @ rest) len
      num i (length pre) ifs =
    Some (Mem (c, ifs @ map if_tree_object (nonempty_trees ts)))"
  using assms
proof (induction ts arbitrary: pre i ifs)
  case Nil
  then have "\<not> (i < num \<and> length pre < len)" by (auto simp: nonempty_trees_def)
  from parse_interfaces_stop [OF this] show ?case
    using Nil by (intro exI [of _ "length pre"]) (simp add: nonempty_trees_def)
next
  case (Cons t ts)
  let ?bs = "pre @ concat (map if_tree_bytes (t # ts)) @ rest"
  let ?tail = "concat (map if_tree_bytes ts) @ rest"
  have pos: "length pre < len"
    using Cons.prems(2) if_tree_bytes_nonempty [of t] by simp
  show ?case
  proof (cases "i < num")
    case False
    with Cons.prems(4) have "length (nonempty_trees (t # ts)) = 0" by linarith
    then have none: "nonempty_trees (t # ts) = []" by simp
    from False have "\<not> (i < num \<and> length pre < len)" by simp
    from parse_interfaces_stop [OF this] show ?thesis
      using pos unfolding none by (intro exI [of _ "length pre"]) simp
  next
    case True
    have dr: "drop (length pre) ?bs = if_tree_bytes t @ ?tail" by simp
    have sub: "u32_sub len (length pre) = length (if_tree_bytes t @ ?tail)"
      using Cons.prems by simp
    have bs: "?bs = (pre @ if_tree_bytes t) @ ?tail" by simp
    have add: "u32_add (length pre) (length (if_tree_bytes t)) = length (pre @ if_tree_bytes t)"
      using Cons.prems by simp
    have pi: "ParseInterfaceDescriptor usb20_layout E (drop (length pre) ?bs)
        (u32_sub len (length pre)) 0 UsbInterface_new =
        Some (Mem (UEC_OK E, length (if_tree_bytes t), if_tree_object t))"
      unfolding dr sub using Cons.prems by (intro ParseInterfaceDescriptor_bytes) simp_all
    have cnt: "length (if_endpoints (if_tree_object t)) \<le> 255"
      using Cons.prems(1) by (simp add: if_tree_object_endpoints if_tree_ok_count)
    have ne: "if_endpoints (if_tree_object t) \<noteq> [] \<longleftrightarrow> if_tree_endpoints t \<noteq> []"
      using if_tree_object_endpoints [of t] by (metis length_0_conv)
    note step = parse_interfaces_step [OF True pos pi cnt, unfolded add ne]
    show ?thesis
    proof (cases "if_tree_endpoints t = []")
      case empty: True
      have "nonempty_trees (t # ts) = nonempty_trees ts" using empty by (simp add: nonempty_trees_def)
      with Cons.prems empty Cons.IH [of "pre @ if_tree_bytes t" i ifs]
      show ?thesis unfolding step unfolding bs by simp
    next
      case False
      then have "nonempty_trees (t # ts) = t # nonempty_trees ts"
        by (simp add: nonempty_trees_def)
      with Cons.prems False
        Cons.IH [of "pre @ if_tree_bytes t" "Suc i" "ifs @ [if_tree_object t]"]
      show ?thesis unfolding step unfolding bs by simp
    qed
  qed
qed

section \<open>Configurations and devices\<close>

lemma ParseConfigDescriptor_tree:
  assumes "cd_bLength d = 9" and "\<forall>t \<in> set ts. if_tree_ok t"
    and "len = length (config_tree_bytes d ts @ rest)" and "len + 255 < 4294967296"
    and "length (nonempty_trees ts) \<le> unat (cd_bNumInterfaces d)"
    and "rest = [] \<or> length (nonempty_trees ts) = unat (cd_bNumInterfaces d)"
  shows "\<exists>c \<le> len.
    ParseConfigDescriptor usb20_layout E (config_tree_bytes d ts @ rest) len 0 config =
    Some (Mem (UEC_OK E, c, config\<lparr>
      cfg_id := ucast (cd_bConfigurationValue d), cfg_attributes := ucast (cd_bmAttributes d),
      cfg_maxPower := ucast (cd_bMaxPower d), cfg_iConfiguration := cd_iConfiguration d,
      cfg_interfaces := map if_tree_object (nonempty_trees ts)\<rparr>))"
proof -
  let ?bs = "config_bytes d @ concat (map if_tree_bytes ts) @ rest"
  have rd: "read_struct 9 (config_of usb20_layout) ?bs 0 = Some d"
    using read_struct_at [of 0 "[]" "config_bytes d" 9 "config_of usb20_layout"] by simp
  have ne: "?bs \<noteq> []" by (simp add: config_bytes_def)
  obtain c where "c \<le> len" and pi: "parse_interfaces usb20_layout E ?bs len
      (unat (cd_bNumInterfaces d)) 0 (length (config_bytes d)) [] =
      Some (Mem (c, [] @ map if_tree_object (nonempty_trees ts)))"
    using parse_interfaces_bytes [of ts len "config_bytes d" rest 0
        "unat (cd_bNumInterfaces d)" E "[]"] assms
    by (auto simp: config_tree_bytes_def)
  have "len \<noteq> 0" "\<not> len < 9" "unat (cd_bLength d) = 9"
    using assms(1,3) by (simp_all add: config_tree_bytes_def)
  then have "ParseConfigDescriptor usb20_layout E ?bs len 0 config =
    Some (Mem (UEC_OK E, c, config\<lparr>
      cfg_id := ucast (cd_bConfigurationValue d), cfg_attributes := ucast (cd_bmAttributes d),
      cfg_maxPower := ucast (cd_bMaxPower d), cfg_iConfiguration := cd_iConfiguration d,
      cfg_interfaces := map if_tree_object (nonempty_trees ts)\<rparr>))"
    using ne rd pi by (simp add: ParseConfigDescriptor_def run_bind_def)
  with \<open>c \<le> len\<close> show ?thesis by (auto simp: config_tree_bytes_def)
qed

text \<open>
  C1: Parsing inverts encoding.  For every configuration laid out as the USB specification
  says, with any class-specific descriptors in front of the standard ones,
  \<open>ParseConfigDescriptor\<close> returns \<open>UEC_OK\<close> and fills the configuration with exactly the
  encoded interfaces that have endpoints, in order, each with exactly its endpoints; interfaces
  without endpoints are skipped.  What follows the configuration is not touched.
\<close>

theorem ParseConfigDescriptor_roundtrip:
  assumes "cd_bLength d = 9" and "\<forall>t \<in> set ts. if_tree_ok t"
    and "len = length (config_tree_bytes d ts @ rest)" and "len + 255 < 4294967296"
    and "length (nonempty_trees ts) \<le> unat (cd_bNumInterfaces d)"
    and "rest = [] \<or> length (nonempty_trees ts) = unat (cd_bNumInterfaces d)"
  shows "\<exists>c \<le> len.
    ParseConfigDescriptor usb20_layout E (config_tree_bytes d ts @ rest) len 0 config =
    Some (Mem (UEC_OK E, c, config\<lparr>
      cfg_id := ucast (cd_bConfigurationValue d), cfg_attributes := ucast (cd_bmAttributes d),
      cfg_maxPower := ucast (cd_bMaxPower d), cfg_iConfiguration := cd_iConfiguration d,
      cfg_interfaces := map if_tree_object (nonempty_trees ts)\<rparr>))"
  using assms by (rule ParseConfigDescriptor_tree)

text \<open>A mass-storage configuration with a class-specific descriptor and an empty interface.\<close>

definition sample_config :: UsbdConfigDescriptor where
  "sample_config = \<lparr>cd_bLength = 9, cd_wTotalLength = 52, cd_bNumInterfaces = 1,
     cd_bConfigurationValue = 1, cd_iConfiguration = 0, cd_bmAttributes = 0x80,
     cd_bMaxPower = 250\<rparr>"

definition sample_trees :: "if_tree list" where
  "sample_trees =
    [IfTree [(0x0b, [1, 2, 3, 4, 5, 6])] \<lparr>id_bLength = 9, id_bInterfaceNumber = 2,
       id_bAlternateSetting = 0, id_bNumEndpoints = 0, id_bInterfaceClass = 3,
       id_bInterfaceSubClass = 0, id_bInterfaceProtocol = 0, id_iInterface = 0\<rparr> [],
     IfTree [] \<lparr>id_bLength = 9, id_bInterfaceNumber = 0, id_bAlternateSetting = 0,
       id_bNumEndpoints = 2, id_bInterfaceClass = 8, id_bInterfaceSubClass = 6,
       id_bInterfaceProtocol = 80, id_iInterface = 4\<rparr>
      [EpTree [(0x21, [7])] \<lparr>ed_bLength = 7, ed_bEndpointAddress = 0x81, ed_bmAttributes = 2,
         ed_wMaxPacketSize = 512, ed_bInterval = 0\<rparr>,
       EpTree [] \<lparr>ed_bLength = 7, ed_bEndpointAddress = 2, ed_bmAttributes = 2,
         ed_wMaxPacketSize = 512, ed_bInterval = 0\<rparr>]]"

theorem ParseConfigDescriptor_roundtrip_witness:
  "\<exists>c \<le> 55. ParseConfigDescriptor usb20_layout sample_codes
      (config_tree_bytes sample_config sample_trees @ [1, 2, 3]) 55 0 USBConfig_new =
    Some (Mem (0, c, USBConfig_new\<lparr>cfg_id := 1, cfg_attributes := 0x80, cfg_maxPower := 250,
      cfg_iConfiguration := 0, cfg_interfaces := [if_tree_object (sample_trees ! 1)]\<rparr>))"
proof -
  have h: "\<forall>t \<in> set sample_trees. if_tree_ok t"
    by (simp add: sample_trees_def extra_ok_def DESCRIPTOR_TYPE_INTERFACE_def
        DESCRIPTOR_TYPE_ENDPOINT_def)
  have n: "length (nonempty_trees sample_trees) = 1" 
      "55 = length (config_tree_bytes sample_config sample_trees @ [1, 2, 3 :: u8])"
    by (simp_all add: nonempty_trees_def sample_trees_def config_tree_bytes_def extras_bytes_def
        extra_bytes_def)
  have o: "map if_tree_object (nonempty_trees sample_trees) = [if_tree_object (sample_trees ! 1)]"
    by (simp add: nonempty_trees_def sample_trees_def)
  have "\<exists>c \<le> 55. ParseConfigDescriptor usb20_layout sample_codes
      (config_tree_bytes sample_config sample_trees @ [1, 2, 3]) 55 0 USBConfig_new =
    Some (Mem (UEC_OK sample_codes, c, USBConfig_new\<lparr>
      cfg_id := ucast (cd_bConfigurationValue sample_config),
      cfg_attributes := ucast (cd_bmAttributes sample_config),
      cfg_maxPower := ucast (cd_bMaxPower sample_config),
      cfg_iConfiguration := cd_iConfiguration sample_config,
      cfg_interfaces := map if_tree_object (nonempty_trees sample_trees)\<rparr>))"
    by (rule ParseConfigDescriptor_roundtrip [OF _ h n(2)])
      (simp_all add: n(1) sample_config_def)
  then show ?thesis
    unfolding o by (simp add: sample_config_def sample_codes_def)
qed

lemma ParseDeviceDescriptor_bytes:
  assumes "dd_bLength d = 18"
  shows "ParseDeviceDescriptor usb20_layout E (device_bytes d @ rest)
      (length (device_bytes d @ rest)) dev =
    Mem (UEC_OK E, dev\<lparr>dev_vendorId := ucast (dd_idVendor d),
      dev_productId := ucast (dd_idProduct d), dev_klass := ucast (dd_bDeviceClass d),
      dev_subClass := ucast (dd_bDeviceSubClass d),
      dev_descConfigCount := dd_bNumConfigurations d,
      dev_bMaxPacketSize0 := dd_bMaxPacketSize0 d, dev_bcdDevice := dd_bcdDevice d,
      dev_bcdUSB := dd_bcdUSB d, dev_iManufacturer := dd_iManufacturer d,
      dev_iProduct := dd_iProduct d, dev_iSerialNumber := dd_iSerialNumber d\<rparr>)"
proof -
  have "device_bytes d @ rest \<noteq> []" by (simp add: device_bytes_def)
  moreover have "read_struct 18 (device_of usb20_layout) (device_bytes d @ rest) 0 = Some d"
    using read_struct_at [of 0 "[]" "device_bytes d" 18 "device_of usb20_layout"] by simp
  ultimately show ?thesis using assms by (simp add: ParseDeviceDescriptor_def)
qed

text \<open>
  On a device descriptor of the USB specification, alone or followed by configurations,
  \<open>ParseDeviceDescriptor\<close> returns \<open>UEC_OK\<close> and stores every field it is meant to store, and
  nothing else changes.
\<close>

theorem ParseDeviceDescriptor_roundtrip:
  assumes "dd_bLength d = 18"
  shows "ParseDeviceDescriptor usb20_layout E (device_bytes d @ rest)
      (length (device_bytes d @ rest)) dev =
    Mem (UEC_OK E, dev\<lparr>dev_vendorId := ucast (dd_idVendor d),
      dev_productId := ucast (dd_idProduct d), dev_klass := ucast (dd_bDeviceClass d),
      dev_subClass := ucast (dd_bDeviceSubClass d),
      dev_descConfigCount := dd_bNumConfigurations d,
      dev_bMaxPacketSize0 := dd_bMaxPacketSize0 d, dev_bcdDevice := dd_bcdDevice d,
      dev_bcdUSB := dd_bcdUSB d, dev_iManufacturer := dd_iManufacturer d,
      dev_iProduct := dd_iProduct d, dev_iSerialNumber := dd_iSerialNumber d\<rparr>)"
  using assms by (rule ParseDeviceDescriptor_bytes)

definition sample_device :: UsbdDeviceDescriptor where
  "sample_device = \<lparr>dd_bLength = 18, dd_bcdUSB = 0x0200, dd_bDeviceClass = 0,
     dd_bDeviceSubClass = 0, dd_bDeviceProtocol = 0, dd_bMaxPacketSize0 = 64,
     dd_idVendor = 0x12d1, dd_idProduct = 0x107e, dd_bcdDevice = 0x0299, dd_iManufacturer = 1,
     dd_iProduct = 2, dd_iSerialNumber = 3, dd_bNumConfigurations = 1\<rparr>"

theorem ParseDeviceDescriptor_roundtrip_witness:
  "\<exists>dev'. ParseDeviceDescriptor usb20_layout sample_codes (device_bytes sample_device @ [9, 2])
      (length (device_bytes sample_device @ [9, 2 :: u8])) UsbDevice_zero = Mem (0, dev') \<and>
    dev_vendorId dev' = 0x12d1 \<and> dev_descConfigCount dev' = 1"
proof -
  have "dd_bLength sample_device = 18" by (simp add: sample_device_def)
  from ParseDeviceDescriptor_roundtrip [OF this, of sample_codes "[9, 2]" UsbDevice_zero]
  show ?thesis by (auto simp: sample_device_def sample_codes_def)
qed

end
