(* ===== verification/Usb_Descriptor_Safety.thy ===== *)
theory Usb_Descriptor_Safety
  imports Usb_Wire
begin

text \<open>
  The descriptor parser on arbitrary bytes: when its scanning loop returns, what bounds hold
  for whatever it returns, and the two ways in which malformed descriptors defeat it (a loop
  that does not end and a read past the end of the buffer).
\<close>

section \<open>When the scanning loop returns\<close>

text \<open>
  \<open>skips L tag buffer len c c'\<close>: starting at offset \<open>c\<close> the loop steps over whole descriptors
  and comes to \<open>c'\<close>.
\<close>

inductive skips :: "usbd_layout \<Rightarrow> u8 \<Rightarrow> u8 list \<Rightarrow> nat \<Rightarrow> nat \<Rightarrow> nat \<Rightarrow> bool"
  for L tag buffer len where
  skips_refl: "skips L tag buffer len c c"
| skips_step: "c < len \<Longrightarrow> header_size L < len \<Longrightarrow>
    read_struct (header_size L) (header_of L) buffer c = Some h \<Longrightarrow>
    unat (dh_bLength h) \<le> len \<Longrightarrow> dh_bDescriptorType h \<noteq> tag \<Longrightarrow>
    skips L tag buffer len (u32_add c (unat (dh_bLength h))) c' \<Longrightarrow>
    skips L tag buffer len c c'"

text \<open>An offset at which the loop makes no progress: a descriptor of length zero.\<close>

definition stuck_at :: "usbd_layout \<Rightarrow> u8 \<Rightarrow> u8 list \<Rightarrow> nat \<Rightarrow> nat \<Rightarrow> bool" where
  "stuck_at L tag buffer len c \<longleftrightarrow> c < len \<and> header_size L < len \<and>
     (case read_struct (header_size L) (header_of L) buffer c of
        None \<Rightarrow> False
      | Some h \<Rightarrow> dh_bLength h = 0 \<and> dh_bDescriptorType h \<noteq> tag)"

inductive_cases skipsE: "skips L tag buffer len c c'"

lemma scan_header_skip:
  assumes "c < len" "header_size L < len"
    "read_struct (header_size L) (header_of L) buffer c = Some h"
    "unat (dh_bLength h) \<le> len" "dh_bDescriptorType h \<noteq> tag"
  shows "scan_header L tag buffer len c =
    scan_header L tag buffer len (u32_add c (unat (dh_bLength h)))"
  using assms by (subst scan_header.simps) simp

lemma skips_scan:
  "skips L tag buffer len c c' \<Longrightarrow> scan_header L tag buffer len c = scan_header L tag buffer len c'"
  by (induction rule: skips.induct) (simp_all add: scan_header_skip)

lemma scan_header_returns_not_stuck:
  assumes "scan_header L tag buffer len c = Some r" and "c < 4294967296"
  shows "\<not> stuck_at L tag buffer len c"
proof -
  have "c < 4294967296 \<longrightarrow> \<not> stuck_at L tag buffer len c"
  proof (rule scan_header.raw_induct [where P = "\<lambda>L tag buffer len c r.
        c < 4294967296 \<longrightarrow> \<not> stuck_at L tag buffer len c", OF _ assms(1)])
    fix f L tag buffer len c r
    assume IH: "\<And>L tag buffer len c r. f L tag buffer len c = Some r \<Longrightarrow>
        c < 4294967296 \<longrightarrow> \<not> stuck_at L tag buffer len c"
      and eq: "(if c < len then
        if header_size L \<ge> len then Some (Reject c)
        else case read_struct (header_size L) (header_of L) buffer c of
          None \<Rightarrow> Some ScanBad
        | Some h \<Rightarrow>
            if unat (dh_bLength h) > len then Some (Reject c)
            else if dh_bDescriptorType h = tag then Some (Goto c)
            else f L tag buffer len (u32_add c (unat (dh_bLength h)))
      else Some (Goto c)) = Some r"
    show "c < 4294967296 \<longrightarrow> \<not> stuck_at L tag buffer len c"
    proof (intro impI notI)
      assume c: "c < 4294967296" and st: "stuck_at L tag buffer len c"
      then have "f L tag buffer len c = Some r"
        using eq by (auto simp: stuck_at_def split: option.splits)
      from IH [OF this] c st show False by simp
    qed
  qed
  with assms(2) show ?thesis by simp
qed

lemma scan_header_total:
  assumes "\<And>c'. skips L tag buffer len c c' \<Longrightarrow> \<not> stuck_at L tag buffer len c'"
    and "len + 255 < 4294967296"
  shows "scan_header L tag buffer len c \<noteq> None"
  using assms
proof (induction "len - c" arbitrary: c rule: less_induct)
  case less
  have ns: "\<not> stuck_at L tag buffer len c" using less.prems(1) skips_refl by metis
  show ?case
  proof (cases "c < len \<and> header_size L < len")
    case False
    then show ?thesis by (subst scan_header.simps) auto
  next
    case in_range: True
    show ?thesis
    proof (cases "read_struct (header_size L) (header_of L) buffer c")
      case None
      with in_range show ?thesis by (subst scan_header.simps) simp
    next
      case (Some h)
      show ?thesis
      proof (cases "unat (dh_bLength h) \<le> len \<and> dh_bDescriptorType h \<noteq> tag")
        case False
        with in_range Some show ?thesis by (subst scan_header.simps) auto
      next
        case True
        let ?c = "u32_add c (unat (dh_bLength h))"
        have "dh_bLength h \<noteq> 0" using ns in_range Some True by (auto simp: stuck_at_def)
        then have pos: "0 < unat (dh_bLength h)" by (simp add: unat_gt_0)
        have "c + unat (dh_bLength h) < 4294967296"
          using in_range less.prems(2) u8_le [of "dh_bLength h"] by linarith
        then have "?c = c + unat (dh_bLength h)" by simp
        then have "len - ?c < len - c" using pos in_range by linarith
        moreover have "\<not> stuck_at L tag buffer len c'" if "skips L tag buffer len ?c c'" for c'
          using less.prems(1) in_range Some True that by (metis skips_step)
        ultimately have "scan_header L tag buffer len ?c \<noteq> None"
          using less.hyps less.prems(2) by blast
        then show ?thesis using scan_header_skip in_range Some True by metis
      qed
    qed
  qed
qed

lemma skips_less:
  "skips L tag buffer len c c' \<Longrightarrow> c < 4294967296 \<Longrightarrow> c' < 4294967296"
  by (induction rule: skips.induct) (simp_all add: u32_add_def)

text \<open>
  C27: The loop that looks for the next interface or endpoint descriptor returns exactly when no
  descriptor that it steps over has length zero; on a zero-length descriptor it runs for ever.
\<close>

theorem scan_header_returns_iff:
  assumes "len + 255 < 4294967296" and "cursor \<le> len"
  shows "scan_header L tag buffer len cursor \<noteq> None \<longleftrightarrow>
    (\<forall>c. skips L tag buffer len cursor c \<longrightarrow> \<not> stuck_at L tag buffer len c)"
proof
  assume "scan_header L tag buffer len cursor \<noteq> None"
  then obtain r where r: "scan_header L tag buffer len cursor = Some r" by auto
  show "\<forall>c. skips L tag buffer len cursor c \<longrightarrow> \<not> stuck_at L tag buffer len c"
  proof (intro allI impI)
    fix c
    assume sk: "skips L tag buffer len cursor c"
    then have "scan_header L tag buffer len c = Some r" using r by (simp add: skips_scan)
    moreover have "c < 4294967296" using skips_less [OF sk] assms by simp
    ultimately show "\<not> stuck_at L tag buffer len c" by (rule scan_header_returns_not_stuck)
  qed
next
  assume "\<forall>c. skips L tag buffer len cursor c \<longrightarrow> \<not> stuck_at L tag buffer len c"
  then show "scan_header L tag buffer len cursor \<noteq> None"
    using assms(1) by (intro scan_header_total) auto
qed

lemma scan_header_returns_iff_witness:
  "scan_header usb20_layout 4 [0, 0x21, 0, 9] 4 0 = None"
proof -
  have "stuck_at usb20_layout 4 [0, 0x21, 0, 9] 4 0"
    by (simp add: stuck_at_def read_struct_def)
  moreover have "(4::nat) + 255 < 4294967296" "0 \<le> (4::nat)" by simp_all
  note scan_header_returns_iff [OF this, of usb20_layout 4 "[0, 0x21, 0, 9]"]
  ultimately show ?thesis
    using skips_refl [of usb20_layout 4 "[0, 0x21, 0, 9]" 4 0] by blast
qed

section \<open>Bounds on everything that is returned\<close>

lemma scan_header_reject:
  assumes "scan_header L tag buffer len c = Some (Reject c')"
  shows "c' < len"
proof -
  have "\<forall>c'. r = Reject c' \<longrightarrow> c' < len" if "scan_header L tag buffer len c = Some r" for r
  proof (rule scan_header.raw_induct [where P = "\<lambda>L tag buffer len c r.
        \<forall>c'. r = Reject c' \<longrightarrow> c' < len", OF _ that])
  qed (auto split: if_splits option.splits)
  with assms show ?thesis by blast
qed

lemma read_struct_bound: "read_struct n dec buffer c = Some d \<Longrightarrow> c + n \<le> length buffer"
  by (simp add: read_struct_def split: if_splits)

lemma ParseEndpointDescriptor_cursor:
  assumes "ParseEndpointDescriptor L E buffer len cursor ep = Some (Mem (r, c, ep'))"
    and "len = length buffer" "len < 4294967296" "cursor \<le> len"
  shows "c \<le> len"
  using assms
  by (auto simp: ParseEndpointDescriptor_def Let_def split: if_splits option.splits scan.splits
      dest!: read_struct_bound scan_header_reject)

lemma parse_endpoints_bounds:
  assumes "parse_endpoints L E buffer len ifnum n cursor eps = Some (Mem (c, eps'))"
    and "len = length buffer" "len < 4294967296" "cursor \<le> len"
  shows "c \<le> len \<and> length eps' = length eps + n \<and>
    (\<forall>ep \<in> set eps'. ep \<in> set eps \<or> ep_interfaceId ep = ifnum)"
  using assms
proof (induction n arbitrary: cursor eps)
  case 0
  then show ?case by simp
next
  case (Suc n)
  from Suc.prems(1) obtain r k ep where
    pe: "ParseEndpointDescriptor L E (drop cursor buffer) (u32_sub len cursor) 0
      USBEndpoint_new = Some (Mem (r, k, ep))"
    and rec: "parse_endpoints L E buffer len ifnum n (u32_add cursor k)
      (eps @ [ep\<lparr>ep_interfaceId := ifnum\<rparr>]) = Some (Mem (c, eps'))"
    by (auto simp: run_bind_def split: option.splits mem.splits)
  have "k \<le> len - cursor"
    using ParseEndpointDescriptor_cursor [OF pe] Suc.prems by simp
  then have "u32_add cursor k \<le> len" using Suc.prems by simp
  from Suc.IH [OF rec Suc.prems(2,3) this] show ?case by auto
qed

text \<open>What holds of an interface the parser has built: its endpoints carry its number.\<close>

definition interface_wf :: "UsbInterface \<Rightarrow> bool" where
  "interface_wf i \<longleftrightarrow> length (if_endpoints i) \<le> 255 \<and>
     (\<forall>ep \<in> set (if_endpoints i). ucast (ep_interfaceId ep) = if_id i)"

lemma ParseInterfaceDescriptor_bounds:
  assumes "ParseInterfaceDescriptor L E buffer len cursor UsbInterface_new = Some (Mem (r, c, i))"
    and "len = length buffer" "len < 4294967296" "cursor \<le> len"
  shows "c \<le> len \<and> interface_wf i"
proof -
  have new: "interface_wf UsbInterface_new" by (simp add: interface_wf_def UsbInterface_new_def)
  from assms(1) consider "i = UsbInterface_new" "c = cursor"
    | "i = UsbInterface_new" "scan_header L DESCRIPTOR_TYPE_INTERFACE buffer len cursor =
        Some (Reject c)"
    | d where "i = UsbInterface_new" "read_struct (interface_size L) (interface_of L) buffer c = Some d"
    | d c0 eps where "read_struct (interface_size L) (interface_of L) buffer c0 = Some d"
        "unat (id_bLength d) = interface_size L"
        "parse_endpoints L E buffer len (id_bInterfaceNumber d) (unat (id_bNumEndpoints d))
           (u32_add c0 (unat (id_bLength d))) [] = Some (Mem (c, eps))"
        "if_endpoints i = eps" "if_id i = ucast (id_bInterfaceNumber d)"
    by (auto simp: ParseInterfaceDescriptor_def run_bind_def Let_def
        split: if_splits option.splits scan.splits mem.splits)
  then show ?thesis
  proof cases
    case (4 d c0 eps)
    have "u32_add c0 (unat (id_bLength d)) \<le> len"
      using read_struct_bound [OF 4(1)] 4(2) assms by simp
    from parse_endpoints_bounds [OF 4(3) assms(2,3) this] 4(4,5)
    show ?thesis by (auto simp: interface_wf_def)
  qed (use new assms in \<open>auto dest: scan_header_reject read_struct_bound\<close>)
qed

lemma parse_interfaces_bounds:
  assumes "parse_interfaces L E buffer len num i cursor ifs = Some (Mem (c, ifs'))"
    and "len = length buffer" "len < 4294967296" "cursor \<le> len" "length ifs = i" "i \<le> num"
    and "\<forall>x \<in> set ifs. interface_wf x \<and> if_endpoints x \<noteq> []"
  shows "c \<le> len \<and> length ifs' \<le> num \<and> (\<forall>x \<in> set ifs'. interface_wf x \<and> if_endpoints x \<noteq> [])"
proof -
  let ?P = "\<lambda>L E buffer len num i cursor ifs r. len = length buffer \<longrightarrow> len < 4294967296 \<longrightarrow>
    cursor \<le> len \<longrightarrow> length ifs = i \<longrightarrow> i \<le> num \<longrightarrow>
    (\<forall>x \<in> set ifs. interface_wf x \<and> if_endpoints x \<noteq> []) \<longrightarrow>
    (\<forall>c ifs'. r = Mem (c, ifs') \<longrightarrow>
      c \<le> len \<and> length ifs' \<le> num \<and> (\<forall>x \<in> set ifs'. interface_wf x \<and> if_endpoints x \<noteq> []))"
  have "?P L E buffer len num i cursor ifs (Mem (c, ifs'))"
  proof (rule parse_interfaces.raw_induct [where P = ?P, OF _ assms(1)])
    fix f L E buffer len num i cursor ifs r
    assume IH: "\<And>L E buffer len num i cursor ifs r.
        f L E buffer len num i cursor ifs = Some r \<Longrightarrow> ?P L E buffer len num i cursor ifs r"
      and eq: "(if i < num \<and> cursor < len then
        (case ParseInterfaceDescriptor L E (drop cursor buffer) (u32_sub len cursor) 0
                UsbInterface_new of
           None \<Rightarrow> None
         | Some BadRead \<Rightarrow> Some BadRead
         | Some (Mem (ret, interfaceCursor, interface)) \<Rightarrow>
             if 0 <s UsbInterface_GetEndpointCount interface
             then f L E buffer len num (Suc i) (u32_add cursor interfaceCursor) (ifs @ [interface])
             else f L E buffer len num i (u32_add cursor interfaceCursor) ifs)
      else Some (Mem (cursor, ifs))) = Some r"
    show "?P L E buffer len num i cursor ifs r"
    proof (intro impI)
      assume pre: "len = length buffer" "len < 4294967296" "cursor \<le> len" "length ifs = i"
        "i \<le> num" "\<forall>x \<in> set ifs. interface_wf x \<and> if_endpoints x \<noteq> []"
      consider "r = Mem (cursor, ifs)" | "r = BadRead"
        | ret k x where "i < num"
            "ParseInterfaceDescriptor L E (drop cursor buffer) (u32_sub len cursor) 0
               UsbInterface_new = Some (Mem (ret, k, x))"
            "(if 0 <s UsbInterface_GetEndpointCount x
              then f L E buffer len num (Suc i) (u32_add cursor k) (ifs @ [x])
              else f L E buffer len num i (u32_add cursor k) ifs) = Some r"
        using eq by (auto split: if_splits option.splits mem.splits)
      then show "\<forall>c ifs'. r = Mem (c, ifs') \<longrightarrow>
        c \<le> len \<and> length ifs' \<le> num \<and> (\<forall>x \<in> set ifs'. interface_wf x \<and> if_endpoints x \<noteq> [])"
      proof cases
        case (3 ret k x)
        have "k \<le> len - cursor \<and> interface_wf x"
          using ParseInterfaceDescriptor_bounds [OF 3(2)] pre by simp
        then have k: "u32_add cursor k \<le> len" and wf: "interface_wf x" using pre by auto
        have cnt: "(0 <s UsbInterface_GetEndpointCount x) = (if_endpoints x \<noteq> [])"
          using wf by (simp add: UsbInterface_GetEndpointCount_def interface_wf_def pos_of_nat_small)
        show ?thesis
        proof (cases "if_endpoints x = []")
          case True
          with 3(3) cnt have "f L E buffer len num i (u32_add cursor k) ifs = Some r" by simp
          from IH [OF this] pre k show ?thesis by blast
        next
          case False
          with 3(3) cnt have "f L E buffer len num (Suc i) (u32_add cursor k) (ifs @ [x]) = Some r"
            by simp
          from IH [OF this] pre k wf False 3(1) show ?thesis by auto
        qed
      qed (use pre in auto)
    qed
  qed
  with assms show ?thesis by blast
qed

lemma ParseConfigDescriptor_wf:
  assumes "ParseConfigDescriptor L E buffer (length buffer) 0 config = Some (Mem (UEC_OK E, c, cfg'))"
    and "length buffer < 4294967296" and "UEC_SERVICE_INVALID_VALUE E \<noteq> UEC_OK E"
  shows "c \<le> length buffer \<and>
    length (cfg_interfaces cfg') \<le> unat (cd_bNumInterfaces (config_of L (take (config_size L) buffer))) \<and>
    (\<forall>i \<in> set (cfg_interfaces cfg'). if_endpoints i \<noteq> [] \<and> interface_wf i)"
proof -
  from assms(1,3) obtain d ifs where
    d: "read_struct (config_size L) (config_of L) buffer 0 = Some d"
    and pi: "parse_interfaces L E buffer (length buffer) (unat (cd_bNumInterfaces d)) 0
      (u32_add 0 (config_size L)) [] = Some (Mem (c, ifs))"
    and cfg: "cfg_interfaces cfg' = ifs"
    by (auto simp: ParseConfigDescriptor_def run_bind_def
        split: if_splits option.splits mem.splits)
  have "config_size L \<le> length buffer" and d': "d = config_of L (take (config_size L) buffer)"
    using d by (auto simp: read_struct_def split: if_splits)
  then have "u32_add 0 (config_size L) \<le> length buffer" using assms(2) by simp
  from parse_interfaces_bounds [OF pi refl assms(2) this] cfg d' show ?thesis by simp
qed

text \<open>
  C28: Whatever bytes a device sends, a successful \<open>ParseConfigDescriptor\<close> leaves its cursor
  inside the buffer and returns at most \<open>bNumInterfaces\<close> interfaces, each with between one and
  255 endpoints, all of them tagged with the number of their interface.
\<close>

theorem ParseConfigDescriptor_bounds:
  assumes "ParseConfigDescriptor L E buffer (length buffer) 0 config = Some (Mem (UEC_OK E, c, cfg'))"
    and "length buffer < 4294967296" and "UEC_SERVICE_INVALID_VALUE E \<noteq> UEC_OK E"
  shows "c \<le> length buffer \<and>
    length (cfg_interfaces cfg') \<le> unat (cd_bNumInterfaces (config_of L (take (config_size L) buffer))) \<and>
    (\<forall>i \<in> set (cfg_interfaces cfg'). if_endpoints i \<noteq> [] \<and> interface_wf i)"
  by (rule ParseConfigDescriptor_wf [OF assms])

text \<open>One interface with one bulk endpoint, laid out as the bounds theorem asks.\<close>

definition small_config :: "u8 list" where
  "small_config = [9, 2, 25, 0, 1, 1, 0, 0x80, 50,
     9, 4, 3, 0, 1, 8, 6, 80, 0,
     7, 5, 0x81, 2, 0, 2, 0]"

lemma small_config_parses:
  "ParseConfigDescriptor usb20_layout sample_codes small_config 25 0 USBConfig_new =
    Some (Mem (0, 25, USBConfig_new\<lparr>cfg_id := 1, cfg_attributes := 0x80, cfg_maxPower := 50,
      cfg_iConfiguration := 0, cfg_interfaces :=
       [\<lparr>if_id = 3, if_protocol = 80, if_klass = 8, if_subClass = 6, if_alternateSetting = 0,
         if_name = '''', if_endpoints = [\<lparr>ep_address = 0x81, ep_attributes = 2, ep_interval = 0,
           ep_maxPacketSize = 512, ep_interfaceId = 3\<rparr>], if_iInterface = 0\<rparr>]\<rparr>))"
proof -
  have ep: "ParseEndpointDescriptor usb20_layout sample_codes [7, 5, 0x81, 2, 0, 2, 0] 7 0
      USBEndpoint_new = Some (Mem (0, 7, \<lparr>ep_address = 0x81, ep_attributes = 2, ep_interval = 0,
        ep_maxPacketSize = 512, ep_interfaceId = 255\<rparr>))"
    by (simp add: ParseEndpointDescriptor_def scan_header.simps read_struct_def
        DESCRIPTOR_TYPE_ENDPOINT_def usb20_layout_def u16_of_def USBEndpoint_new_def
        sample_codes_def)
  have ifc: "ParseInterfaceDescriptor usb20_layout sample_codes
      [9, 4, 3, 0, 1, 8, 6, 80, 0, 7, 5, 0x81, 2, 0, 2, 0] 16 0 UsbInterface_new =
      Some (Mem (0, 16, \<lparr>if_id = 3, if_protocol = 80, if_klass = 8, if_subClass = 6,
        if_alternateSetting = 0, if_name = '''', if_endpoints = [\<lparr>ep_address = 0x81,
          ep_attributes = 2, ep_interval = 0, ep_maxPacketSize = 512, ep_interfaceId = 3\<rparr>],
        if_iInterface = 0\<rparr>))"
    using ep by (simp add: ParseInterfaceDescriptor_def scan_header.simps read_struct_def
        DESCRIPTOR_TYPE_INTERFACE_def usb20_layout_def UsbInterface_new_def sample_codes_def
        run_bind_def)
  show ?thesis
    using ifc by (simp add: ParseConfigDescriptor_def small_config_def read_struct_def
        usb20_layout_def parse_interfaces.simps UsbInterface_GetEndpointCount_def run_bind_def
        sample_codes_def word_sless_alt)
qed

lemma ParseConfigDescriptor_bounds_witness:
  "\<exists>c cfg'. ParseConfigDescriptor usb20_layout sample_codes small_config (length small_config) 0
      USBConfig_new = Some (Mem (UEC_OK sample_codes, c, cfg')) \<and>
    c \<le> length small_config \<and> length (cfg_interfaces cfg') \<le> 1 \<and>
    (\<forall>i \<in> set (cfg_interfaces cfg'). if_endpoints i \<noteq> [] \<and> interface_wf i)"
proof -
  have len: "length small_config = 25" by (simp add: small_config_def)
  obtain c cfg' where run: "ParseConfigDescriptor usb20_layout sample_codes small_config
      (length small_config) 0 USBConfig_new = Some (Mem (UEC_OK sample_codes, c, cfg'))"
    using small_config_parses by (auto simp: len sample_codes_def)
  have num: "unat (cd_bNumInterfaces (config_of usb20_layout
      (take (config_size usb20_layout) small_config))) = 1"
    by (simp add: usb20_layout_def small_config_def)
  have "length small_config < 4294967296"
    "UEC_SERVICE_INVALID_VALUE sample_codes \<noteq> UEC_OK sample_codes"
    by (simp_all add: len sample_codes_def)
  from ParseConfigDescriptor_bounds [OF run this] run num show ?thesis by metis
qed

section \<open>Malformed descriptors\<close>

lemma parse_interfaces_no_progress:
  assumes "i < num" "c < len" "c < 4294967296"
    and "ParseInterfaceDescriptor L E (drop c buffer) (u32_sub len c) 0 UsbInterface_new =
      Some (Mem (r, 0, x))"
    and "if_endpoints x = []"
  shows "parse_interfaces L E buffer len num i c ifs = None"
proof (rule ccontr)
  assume "parse_interfaces L E buffer len num i c ifs \<noteq> None"
  then obtain res where res: "parse_interfaces L E buffer len num i c ifs = Some res" by auto
  let ?P = "\<lambda>L' E' buffer' len' num' i' c' ifs' (r' :: (nat \<times> UsbInterface list) mem).
    \<not> (L' = L \<and> E' = E \<and> buffer' = buffer \<and> len' = len \<and> num' = num \<and> i' = i \<and> c' = c)"
  have "?P L E buffer len num i c ifs res"
  proof (rule parse_interfaces.raw_induct [where P = ?P, OF _ res])
    fix f L' E' buffer' len' num' i' c' ifs' r'
    assume IH: "\<And>L E buffer len num i cursor ifs r.
        f L E buffer len num i cursor ifs = Some r \<Longrightarrow> ?P L E buffer len num i cursor ifs r"
      and eq: "(if i' < num' \<and> c' < len' then
        (case ParseInterfaceDescriptor L' E' (drop c' buffer') (u32_sub len' c') 0
                UsbInterface_new of
           None \<Rightarrow> None
         | Some BadRead \<Rightarrow> Some BadRead
         | Some (Mem (ret, interfaceCursor, interface)) \<Rightarrow>
             if 0 <s UsbInterface_GetEndpointCount interface
             then f L' E' buffer' len' num' (Suc i') (u32_add c' interfaceCursor)
                    (ifs' @ [interface])
             else f L' E' buffer' len' num' i' (u32_add c' interfaceCursor) ifs')
      else Some (Mem (c', ifs'))) = Some r'"
    show "?P L' E' buffer' len' num' i' c' ifs' r'"
    proof
      assume same: "L' = L \<and> E' = E \<and> buffer' = buffer \<and> len' = len \<and> num' = num \<and>
        i' = i \<and> c' = c"
      then have "f L E buffer len num i c ifs' = Some r'"
        using eq assms by (simp add: UsbInterface_GetEndpointCount_def word_sless_alt)
      from IH [OF this] show False by simp
    qed
  qed
  then show False by simp
qed

lemma ParseInterfaceDescriptor_short:
  assumes "buffer \<noteq> []" "length buffer \<le> 2"
  shows "ParseInterfaceDescriptor usb20_layout E buffer (length buffer) 0 x =
    Some (Mem (UEC_SERVICE_INVALID_VALUE E, 0, x))"
proof -
  have "scan_header usb20_layout DESCRIPTOR_TYPE_INTERFACE buffer (length buffer) 0 = Some (Reject 0)"
    using assms by (subst scan_header.simps) simp
  with assms show ?thesis by (simp add: ParseInterfaceDescriptor_def)
qed

text \<open>
  C29: A configuration that announces an interface but is followed by only one or two bytes makes
  \<open>ParseConfigDescriptor\<close> loop for ever: the failed parse does not move the cursor, and the
  loop retries it.
\<close>

theorem ParseConfigDescriptor_hangs:
  assumes "cd_bLength d = 9" and "cd_bNumInterfaces d \<noteq> 0" and "tail \<noteq> []" and "length tail \<le> 2"
  shows "ParseConfigDescriptor usb20_layout E (config_bytes d @ tail)
    (length (config_bytes d @ tail)) 0 config = None"
proof -
  let ?bs = "config_bytes d @ tail" and ?len = "9 + length tail"
  have rd: "read_struct 9 (config_of usb20_layout) ?bs 0 = Some d"
    using read_struct_at [of 0 "[]" "config_bytes d" 9 "config_of usb20_layout"] by simp
  have pi: "ParseInterfaceDescriptor usb20_layout E (drop 9 ?bs) (u32_sub ?len 9) 0
      UsbInterface_new = Some (Mem (UEC_SERVICE_INVALID_VALUE E, 0, UsbInterface_new))"
    using ParseInterfaceDescriptor_short [OF assms(3,4)] assms(4) by simp
  have "parse_interfaces usb20_layout E ?bs ?len (unat (cd_bNumInterfaces d)) 0 9 [] = None"
    by (rule parse_interfaces_no_progress [OF _ _ _ pi])
      (use assms in \<open>simp_all add: unat_gt_0 UsbInterface_new_def\<close>)
  then show ?thesis
    using rd assms(1) by (simp add: ParseConfigDescriptor_def run_bind_def)
qed

lemma ParseConfigDescriptor_hangs_witness:
  "ParseConfigDescriptor usb20_layout sample_codes (config_bytes sample_config @ [0])
    (length (config_bytes sample_config @ [0])) 0 USBConfig_new = None"
  by (rule ParseConfigDescriptor_hangs) (simp_all add: sample_config_def)

text \<open>
  C30: An interface descriptor that is cut off by the end of the buffer is read past that end.
\<close>

theorem ParseConfigDescriptor_reads_past_end:
  assumes "cd_bLength d = 9" and "cd_bNumInterfaces d \<noteq> 0" and "ys \<noteq> []" and "length ys < 7"
    and "unat l \<le> 2 + length ys"
  shows "ParseConfigDescriptor usb20_layout E (config_bytes d @ l # DESCRIPTOR_TYPE_INTERFACE # ys)
    (length (config_bytes d @ l # DESCRIPTOR_TYPE_INTERFACE # ys)) 0 config = Some BadRead"
proof -
  let ?tail = "l # DESCRIPTOR_TYPE_INTERFACE # ys"
  let ?bs = "config_bytes d @ ?tail" and ?len = "9 + length ?tail"
  have rd: "read_struct 9 (config_of usb20_layout) ?bs 0 = Some d"
    using read_struct_at [of 0 "[]" "config_bytes d" 9 "config_of usb20_layout"] by simp
  have ge: "2 < length ?tail" using assms(3) by (cases ys) simp_all
  have sc: "scan_header usb20_layout DESCRIPTOR_TYPE_INTERFACE ?tail (length ?tail) 0 = Some (Goto 0)"
    using scan_header_stop [of "length ?tail" "[]" l DESCRIPTOR_TYPE_INTERFACE ys] ge assms(5)
    by simp
  have "ParseInterfaceDescriptor usb20_layout E ?tail (length ?tail) 0 UsbInterface_new =
      Some BadRead"
    using sc assms(4) by (simp add: ParseInterfaceDescriptor_def read_struct_def)
  then have pi: "ParseInterfaceDescriptor usb20_layout E (drop 9 ?bs) (u32_sub ?len 9) 0
      UsbInterface_new = Some BadRead"
    using assms(4) by simp
  have "parse_interfaces usb20_layout E ?bs ?len (unat (cd_bNumInterfaces d)) 0 9 [] = Some BadRead"
    using pi assms(2) by (subst parse_interfaces.simps) (simp add: unat_gt_0)
  then show ?thesis
    using rd assms(1) by (simp add: ParseConfigDescriptor_def run_bind_def)
qed

lemma ParseConfigDescriptor_reads_past_end_witness:
  "ParseConfigDescriptor usb20_layout sample_codes
      (config_bytes sample_config @ 5 # DESCRIPTOR_TYPE_INTERFACE # [0, 0, 1])
      (length (config_bytes sample_config @ 5 # DESCRIPTOR_TYPE_INTERFACE # [0, 0, 1])) 0
      USBConfig_new = Some BadRead"
  by (rule ParseConfigDescriptor_reads_past_end) (simp_all add: sample_config_def)

end
