(* ===== verification/Usb_Json.thy ===== *)
theory Usb_Json
  imports Usb_Model
begin

text \<open>
  The \<open>ToJson\<close> members of the data classes.  A \<open>Json::Value\<close> is the value the code builds:
  an object is the list of its member assignments in program order, an array the list of the
  appended values, and a value nothing was appended to stays null.  The conversion of the value
  to text is left to the library.
\<close>

datatype json =
  JNull
| JBool bool
| JInt int
| JUInt nat
| JStr string
| JArr "json list"
| JObj "(string \<times> json) list"

definition json_of_i32 :: "i32 \<Rightarrow> json" where "json_of_i32 x = JInt (sint x)"
definition json_of_u32 :: "u32 \<Rightarrow> json" where "json_of_u32 x = JUInt (unat x)"

text \<open>A \<open>uint8_t\<close> is promoted to \<open>int\<close>.\<close>

definition json_of_u8 :: "u8 \<Rightarrow> json" where "json_of_u8 x = JInt (int (unat x))"

definition json_array :: "json list \<Rightarrow> json" where
  "json_array js = (if js = [] then JNull else JArr js)"

definition USBEndpoint_ToJson :: "USBEndpoint \<Rightarrow> json" where
  "USBEndpoint_ToJson ep = JObj
    [(''address'', json_of_u32 (ep_address ep)),
     (''attributes'', json_of_u32 (ep_attributes ep)),
     (''interval'', json_of_i32 (ep_interval ep)),
     (''maxPacketSize'', json_of_i32 (ep_maxPacketSize ep)),
     (''direction'', json_of_u32 (USBEndpoint_GetDirection ep)),
     (''number'', json_of_u32 (USBEndpoint_GetEndpointNumber ep)),
     (''type'', json_of_u32 (USBEndpoint_GetType ep)),
     (''interfaceId'', json_of_u8 (ep_interfaceId ep))]"

definition UsbInterface_ToJson :: "UsbInterface \<Rightarrow> json" where
  "UsbInterface_ToJson i = JObj
    [(''id'', json_of_i32 (if_id i)),
     (''protocol'', json_of_i32 (if_protocol i)),
     (''clazz'', json_of_i32 (if_klass i)),
     (''subClass'', json_of_i32 (if_subClass i)),
     (''alternateSetting'', json_of_i32 (if_alternateSetting i)),
     (''name'', JStr (if_name i)),
     (''endpoints'', json_array (map USBEndpoint_ToJson (if_endpoints i)))]"

definition USBConfig_ToJson :: "USBConfig \<Rightarrow> json" where
  "USBConfig_ToJson c = JObj
    [(''id'', json_of_i32 (cfg_id c)),
     (''attributes'', json_of_u32 (cfg_attributes c)),
     (''maxPower'', json_of_i32 (cfg_maxPower c)),
     (''name'', JStr (cfg_name c)),
     (''isRemoteWakeup'', JBool (USBConfig_IsRemoteWakeup c)),
     (''isSelfPowered'', JBool (USBConfig_IsSelfPowered c)),
     (''interfaces'', json_array (map UsbInterface_ToJson (cfg_interfaces c)))]"

definition UsbDevice_ToJson :: "UsbDevice \<Rightarrow> json" where
  "UsbDevice_ToJson d = JObj
    [(''busNum'', json_of_u8 (dev_busNum d)),
     (''devAddress'', json_of_u8 (dev_devAddr d)),
     (''serial'', JStr (dev_serial d)),
     (''name'', JStr (dev_name d)),
     (''manufacturerName'', JStr (dev_manufacturerName d)),
     (''productName'', JStr (dev_productName d)),
     (''version'', JStr (dev_version d)),
     (''vendorId'', json_of_i32 (dev_vendorId d)),
     (''productId'', json_of_i32 (dev_productId d)),
     (''clazz'', json_of_i32 (dev_klass d)),
     (''subClass'', json_of_i32 (dev_subClass d)),
     (''protocol'', json_of_i32 (dev_protocol d)),
     (''configs'', json_array (map USBConfig_ToJson (dev_configs d)))]"

lemma json_array_inj: "json_array xs = json_array ys \<longleftrightarrow> xs = ys"
  by (simp add: json_array_def)

lemma json_of_inj [simp]:
  "json_of_i32 x = json_of_i32 y \<longleftrightarrow> x = y"
  "json_of_u32 x = json_of_u32 y \<longleftrightarrow> x = y"
  "json_of_u8 a = json_of_u8 b \<longleftrightarrow> a = b"
  by (auto simp: json_of_i32_def json_of_u32_def json_of_u8_def
      intro: signed_word_eqI unsigned_word_eqI)

lemma USBEndpoint_ToJson_inj: "USBEndpoint_ToJson e = USBEndpoint_ToJson e' \<longleftrightarrow> e = e'"
  by (auto simp: USBEndpoint_ToJson_def)

lemma map_inj_on_eq: "(\<And>x y. f x = f y \<longleftrightarrow> x = y) \<Longrightarrow> map f xs = map f ys \<longleftrightarrow> xs = ys"
  by (metis inj_map_eq_map injI)

text \<open>
  What the document does not carry: the string index of an interface or configuration, and of
  a device the descriptor fields that only the service uses.
\<close>

definition interface_shown :: "UsbInterface \<Rightarrow> UsbInterface" where
  "interface_shown i = i\<lparr>if_iInterface := 0\<rparr>"

definition config_shown :: "USBConfig \<Rightarrow> USBConfig" where
  "config_shown c = c\<lparr>cfg_iConfiguration := 0, cfg_interfaces := map interface_shown (cfg_interfaces c)\<rparr>"

definition device_shown :: "UsbDevice \<Rightarrow> UsbDevice" where
  "device_shown d = d\<lparr>dev_descConfigCount := 0, dev_bMaxPacketSize0 := 0, dev_bcdUSB := 0,
     dev_bcdDevice := 0, dev_iManufacturer := 0, dev_iProduct := 0, dev_iSerialNumber := 0,
     dev_configs := map config_shown (dev_configs d)\<rparr>"

lemma UsbInterface_ToJson_eq:
  "UsbInterface_ToJson i = UsbInterface_ToJson j \<longleftrightarrow> interface_shown i = interface_shown j"
  by (cases i; cases j)
    (simp add: UsbInterface_ToJson_def interface_shown_def json_array_inj
      map_inj_on_eq [OF USBEndpoint_ToJson_inj]; blast)

lemma map_eq_shown:
  "(\<And>x y. f x = f y \<longleftrightarrow> g x = g y) \<Longrightarrow> map f xs = map f ys \<longleftrightarrow> map g xs = map g ys"
proof (induction xs arbitrary: ys)
  case Nil
  then show ?case by (metis Nil_is_map_conv list.simps(8))
next
  case (Cons x xs)
  then show ?case by (cases ys) auto
qed

lemma USBConfig_ToJson_eq:
  "USBConfig_ToJson c = USBConfig_ToJson d \<longleftrightarrow> config_shown c = config_shown d"
  by (cases c; cases d)
    (simp add: USBConfig_ToJson_def config_shown_def json_array_inj
      map_eq_shown [OF UsbInterface_ToJson_eq] USBConfig_IsRemoteWakeup_def
      USBConfig_IsSelfPowered_def; blast)

text \<open>
  The JSON document published for a device determines the device up to the fields it does
  not carry: two devices have the same document exactly when they agree on everything shown.
\<close>

theorem UsbDevice_ToJson_eq_iff:
  "UsbDevice_ToJson d = UsbDevice_ToJson e \<longleftrightarrow> device_shown d = device_shown e"
  by (cases d; cases e)
    (simp add: UsbDevice_ToJson_def device_shown_def json_array_inj
      map_eq_shown [OF USBConfig_ToJson_eq]; blast)

end
