(* ===== verification/Usb_External.thy ===== *)
theory Usb_External
  imports Usb_Json
begin

text \<open>
  What the service calls outside the repository: the USB driver daemon (\<open>UsbdClient\<close>), the
  common event manager, the bundle and ability managers, the display and the UI service.  They
  are the functions of a record \<open>ext\<close>, a parameter of every operation that uses them; their
  state is a value of the type variable, which they take and return.  Memory allocation
  (\<open>x_alloc\<close>, whether \<open>new(std::nothrow)\<close> returned a pointer) and \<open>memset_s\<close> (whether it
  returned \<open>EOK\<close>) are among them.  An argument passed by
  reference is an input and part of the result.
\<close>

section \<open>Common events\<close>

datatype usb_action =
  COMMON_EVENT_USB_DEVICE_ATTACHED
| COMMON_EVENT_USB_DEVICE_DETACHED
| COMMON_EVENT_USB_STATE
| COMMON_EVENT_USB_PORT_CHANGED

text \<open>The event: the action, the \<open>SetParam\<close> calls in order, the data, and the ordered flag.\<close>

record common_event =
  ev_action :: usb_action
  ev_params :: "(string \<times> bool) list"
  ev_data :: json
  ev_ordered :: bool

section \<open>Devices and pipes of the driver interface\<close>

record UsbDev =
  ud_busNum :: u8
  ud_devAddr :: u8

record UsbPipe =
  pipe_interfaceId :: u8
  pipe_endpointId :: u8

record UsbCtrlTransfer =
  ctrl_requestType :: i32
  ctrl_requestCmd :: i32
  ctrl_value :: i32
  ctrl_index :: i32
  ctrl_timeout :: i32

section \<open>Device event numbers\<close>

text \<open>
  The statuses of a device event are an enumeration of the driver interface: their values are
  not in the repository.  The code compares them, and two labels of one \<open>switch\<close> differ.
\<close>

record usbd_acts =
  ACT_DEVUP :: i32
  ACT_DEVDOWN :: i32
  ACT_UPDEVICE :: i32
  ACT_DOWNDEVICE :: i32

definition acts_ok :: "usbd_acts \<Rightarrow> bool" where
  "acts_ok A \<longleftrightarrow> distinct [ACT_DEVUP A, ACT_DEVDOWN A, ACT_UPDEVICE A, ACT_DOWNDEVICE A]"

definition sample_acts :: usbd_acts where
  "sample_acts = \<lparr>ACT_DEVUP = 0, ACT_DEVDOWN = 1, ACT_UPDEVICE = 2, ACT_DOWNDEVICE = 3\<rparr>"

lemma acts_ok_sample [simp]: "acts_ok sample_acts"
  by (simp add: acts_ok_def sample_acts_def)

section \<open>The external functions\<close>

text \<open>A callback object or a piece of shared memory is a reference, a number.\<close>

record 'w ext =
  x_OpenDevice :: "UsbDev \<Rightarrow> 'w \<Rightarrow> i32 \<times> 'w"
  x_CloseDevice :: "UsbDev \<Rightarrow> 'w \<Rightarrow> i32 \<times> 'w"
  x_GetRawDescriptor :: "UsbDev \<Rightarrow> u8 list \<Rightarrow> 'w \<Rightarrow> (i32 \<times> u8 list) \<times> 'w"
  x_GetStringDescriptor :: "UsbDev \<Rightarrow> u8 \<Rightarrow> u8 list \<Rightarrow> 'w \<Rightarrow> (i32 \<times> u8 list) \<times> 'w"
  x_GetFileDescriptor :: "UsbDev \<Rightarrow> i32 \<Rightarrow> 'w \<Rightarrow> (i32 \<times> i32) \<times> 'w"
  x_SetConfig :: "UsbDev \<Rightarrow> u8 \<Rightarrow> 'w \<Rightarrow> i32 \<times> 'w"
  x_GetConfig :: "UsbDev \<Rightarrow> u8 \<Rightarrow> 'w \<Rightarrow> (i32 \<times> u8) \<times> 'w"
  x_ClaimInterface :: "UsbDev \<Rightarrow> u8 \<Rightarrow> u8 \<Rightarrow> 'w \<Rightarrow> i32 \<times> 'w"
  x_ReleaseInterface :: "UsbDev \<Rightarrow> u8 \<Rightarrow> 'w \<Rightarrow> i32 \<times> 'w"
  x_SetInterface :: "UsbDev \<Rightarrow> u8 \<Rightarrow> u8 \<Rightarrow> 'w \<Rightarrow> i32 \<times> 'w"
  x_BulkTransferRead :: "UsbDev \<Rightarrow> UsbPipe \<Rightarrow> i32 \<Rightarrow> u8 list \<Rightarrow> 'w \<Rightarrow> (i32 \<times> u8 list) \<times> 'w"
  x_BulkTransferWrite :: "UsbDev \<Rightarrow> UsbPipe \<Rightarrow> i32 \<Rightarrow> u8 list \<Rightarrow> 'w \<Rightarrow> i32 \<times> 'w"
  x_ControlTransfer :: "UsbDev \<Rightarrow> UsbCtrlTransfer \<Rightarrow> u8 list \<Rightarrow> 'w \<Rightarrow> (i32 \<times> u8 list) \<times> 'w"
  x_RequestQueue :: "UsbDev \<Rightarrow> UsbPipe \<Rightarrow> u8 list \<Rightarrow> u8 list \<Rightarrow> 'w \<Rightarrow> i32 \<times> 'w"
  x_RequestWait :: "UsbDev \<Rightarrow> u8 list \<Rightarrow> u8 list \<Rightarrow> i32 \<Rightarrow> 'w \<Rightarrow> (i32 \<times> u8 list \<times> u8 list) \<times> 'w"
  x_RequestCancel :: "UsbDev \<Rightarrow> UsbPipe \<Rightarrow> 'w \<Rightarrow> i32 \<times> 'w"
  x_RegBulkCallback :: "UsbDev \<Rightarrow> UsbPipe \<Rightarrow> nat option \<Rightarrow> 'w \<Rightarrow> i32 \<times> 'w"
  x_UnRegBulkCallback :: "UsbDev \<Rightarrow> UsbPipe \<Rightarrow> 'w \<Rightarrow> i32 \<times> 'w"
  x_BulkRead :: "UsbDev \<Rightarrow> UsbPipe \<Rightarrow> nat \<Rightarrow> 'w \<Rightarrow> i32 \<times> 'w"
  x_BulkWrite :: "UsbDev \<Rightarrow> UsbPipe \<Rightarrow> nat \<Rightarrow> 'w \<Rightarrow> i32 \<times> 'w"
  x_BulkCancel :: "UsbDev \<Rightarrow> UsbPipe \<Rightarrow> 'w \<Rightarrow> i32 \<times> 'w"
  x_GetCurrentFunctions :: "i32 \<Rightarrow> 'w \<Rightarrow> (i32 \<times> i32) \<times> 'w"
  x_SetCurrentFunctions :: "i32 \<Rightarrow> 'w \<Rightarrow> i32 \<times> 'w"
  x_QueryPort :: "i32 \<times> i32 \<times> i32 \<times> i32 \<Rightarrow> 'w \<Rightarrow> (i32 \<times> i32 \<times> i32 \<times> i32 \<times> i32) \<times> 'w"
  x_SetPortRole :: "i32 \<Rightarrow> i32 \<Rightarrow> i32 \<Rightarrow> 'w \<Rightarrow> i32 \<times> 'w"
  x_BindUsbdSubscriber :: "'w \<Rightarrow> i32 \<times> 'w"
  x_UnbindUsbdSubscriber :: "'w \<Rightarrow> i32 \<times> 'w"
  x_PublishCommonEvent :: "common_event \<Rightarrow> 'w \<Rightarrow> bool \<times> 'w"
  x_HasSystemAbilityManager :: "'w \<Rightarrow> bool"
  x_HasCommonEventService :: "'w \<Rightarrow> bool \<times> 'w"
  x_HasBundleMgr :: "'w \<Rightarrow> bool"
  x_GetCallingUid :: "'w \<Rightarrow> i32"
  x_GetBundleNameForUid :: "i32 \<Rightarrow> string \<Rightarrow> 'w \<Rightarrow> (bool \<times> string) \<times> 'w"
  x_CreateEventRunner :: "'w \<Rightarrow> bool \<times> 'w"
  x_Publish :: "'w \<Rightarrow> bool \<times> 'w"
  x_GetDefaultDisplay :: "'w \<Rightarrow> (i32 \<times> i32) option \<times> 'w"
  x_ShowDialog :: "string \<Rightarrow> i32 \<times> i32 \<Rightarrow> 'w \<Rightarrow> (i32 \<times> (i32 \<times> string) option) \<times> 'w"
  x_CancelDialog :: "i32 \<Rightarrow> 'w \<Rightarrow> 'w"
  x_alloc :: "'w \<Rightarrow> bool \<times> 'w"
  x_memset_s :: "'w \<Rightarrow> bool \<times> 'w"

section \<open>A concrete environment\<close>

text \<open>
  An instance of the external functions, for the witnesses: a driver with one device whose
  raw descriptor is in the world, a publisher that logs the events, one caller, and a user
  whose next answers to the permission dialog are in the world.
\<close>

record sample_world =
  sw_log :: "common_event list"
  sw_raw :: "u8 list"
  sw_answers :: "string list"
  sw_caller :: string
  sw_open :: bool

definition sample_ext :: "sample_world ext" where
  "sample_ext = \<lparr>
     x_OpenDevice = (\<lambda>_ w. (0, w\<lparr>sw_open := True\<rparr>)),
     x_CloseDevice = (\<lambda>_ w. (0, w\<lparr>sw_open := False\<rparr>)),
     x_GetRawDescriptor = (\<lambda>_ _ w. ((0, sw_raw w), w)),
     x_GetStringDescriptor = (\<lambda>_ _ _ w. ((0, [4, 3, 65, 0]), w)),
     x_GetFileDescriptor = (\<lambda>_ _ w. ((0, 7), w)),
     x_SetConfig = (\<lambda>_ _ w. (0, w)),
     x_GetConfig = (\<lambda>_ _ w. ((0, 1), w)),
     x_ClaimInterface = (\<lambda>_ _ _ w. (0, w)),
     x_ReleaseInterface = (\<lambda>_ _ w. (0, w)),
     x_SetInterface = (\<lambda>_ _ _ w. (0, w)),
     x_BulkTransferRead = (\<lambda>_ _ _ b w. ((0, b), w)),
     x_BulkTransferWrite = (\<lambda>_ _ _ _ w. (0, w)),
     x_ControlTransfer = (\<lambda>_ _ b w. ((0, b), w)),
     x_RequestQueue = (\<lambda>_ _ _ _ w. (0, w)),
     x_RequestWait = (\<lambda>_ c b _ w. ((0, c, b), w)),
     x_RequestCancel = (\<lambda>_ _ w. (0, w)),
     x_RegBulkCallback = (\<lambda>_ _ _ w. (0, w)),
     x_UnRegBulkCallback = (\<lambda>_ _ w. (0, w)),
     x_BulkRead = (\<lambda>_ _ _ w. (0, w)),
     x_BulkWrite = (\<lambda>_ _ _ w. (0, w)),
     x_BulkCancel = (\<lambda>_ _ w. (0, w)),
     x_GetCurrentFunctions = (\<lambda>_ w. ((0, 4), w)),
     x_SetCurrentFunctions = (\<lambda>_ w. (0, w)),
     x_QueryPort = (\<lambda>_ w. ((0, 1, 1, 2, 1), w)),
     x_SetPortRole = (\<lambda>_ _ _ w. (0, w)),
     x_BindUsbdSubscriber = (\<lambda>w. (0, w)),
     x_UnbindUsbdSubscriber = (\<lambda>w. (0, w)),
     x_PublishCommonEvent = (\<lambda>e w. (True, w\<lparr>sw_log := sw_log w @ [e]\<rparr>)),
     x_HasSystemAbilityManager = (\<lambda>_. True),
     x_HasCommonEventService = (\<lambda>w. (True, w)),
     x_HasBundleMgr = (\<lambda>_. True),
     x_GetCallingUid = (\<lambda>_. 1000),
     x_GetBundleNameForUid = (\<lambda>_ _ w. ((sw_caller w \<noteq> '''', sw_caller w), w)),
     x_CreateEventRunner = (\<lambda>w. (True, w)),
     x_Publish = (\<lambda>w. (True, w)),
     x_GetDefaultDisplay = (\<lambda>w. (Some (720, 1280), w)),
     x_ShowDialog = (\<lambda>_ _ w.
       (case sw_answers w of
          [] \<Rightarrow> ((5, Some (5, ''EVENT_CANCEL'')), w)
        | a # as \<Rightarrow> ((5, Some (5, a)), w\<lparr>sw_answers := as\<rparr>))),
     x_CancelDialog = (\<lambda>_ w. w),
     x_alloc = (\<lambda>w. (True, w)),
     x_memset_s = (\<lambda>w. (True, w))\<rparr>"

definition sample_state :: sample_world where
  "sample_state = \<lparr>sw_log = [], sw_raw = [], sw_answers = [], sw_caller = ''com.a'', sw_open = False\<rparr>"

end
