(* ===== verification/Usb_Functions.thy ===== *)
theory Usb_Functions
  imports Usb_External
begin

text \<open>
  The device-side manager (\<open>usb_device_manager.cpp\<close>): the USB functions of this device, their
  textual form, and the state event it publishes when a host is connected or disconnected.
\<close>

section \<open>Function codes and names\<close>

definition FUNCTION_NONE :: u32 where "FUNCTION_NONE = 0"
definition FUNCTION_ACM :: u32 where "FUNCTION_ACM = 1"
definition FUNCTION_ECM :: u32 where "FUNCTION_ECM = 2"
definition FUNCTION_HDC :: u32 where "FUNCTION_HDC = 4"
definition FUNCTION_MTP :: u32 where "FUNCTION_MTP = 8"
definition FUNCTION_PTP :: u32 where "FUNCTION_PTP = 16"

definition FUNCTION_SETTABLE :: u32 where
  "FUNCTION_SETTABLE = FUNCTION_HDC OR FUNCTION_ACM OR FUNCTION_ECM"

lemmas function_codes =
  FUNCTION_NONE_def FUNCTION_ACM_def FUNCTION_ECM_def FUNCTION_HDC_def FUNCTION_MTP_def
  FUNCTION_PTP_def

lemma FUNCTION_SETTABLE_eq: "FUNCTION_SETTABLE = 7"
  by (simp add: FUNCTION_SETTABLE_def function_codes)

text \<open>A \<open>std::map\<close> that is only searched: its entries in the order of the initialiser.\<close>

definition FUNCTION_MAPPING_N2C :: "(string \<times> u32) list" where
  "FUNCTION_MAPPING_N2C =
     [(''none'', FUNCTION_NONE), (''acm'', FUNCTION_ACM), (''ecm'', FUNCTION_ECM),
      (''hdc'', FUNCTION_HDC), (''mtp'', FUNCTION_MTP), (''ptp'', FUNCTION_PTP)]"

definition AreSettableFunctions :: "i32 \<Rightarrow> bool" where
  "AreSettableFunctions funcs \<longleftrightarrow> funcs = FUNCTION_NONE \<or> (NOT FUNCTION_SETTABLE AND funcs) = 0"

section \<open>From text to functions\<close>

text \<open>\<open>find(c, pos)\<close> and \<open>substr(pos, n)\<close> of a string, for \<open>pos\<close> within it.\<close>

definition string_find :: "string \<Rightarrow> char \<Rightarrow> nat \<Rightarrow> nat option" where
  "string_find s c pos = (let r = dropWhile (\<lambda>x. x \<noteq> c) (drop pos s)
     in if r = [] then None else Some (length s - length r))"

definition string_substr :: "string \<Rightarrow> nat \<Rightarrow> nat \<Rightarrow> string" where
  "string_substr s pos n = take n (drop pos s)"

lemma string_find_ge:
  assumes "string_find s c pos = Some i"
  shows "pos \<le> i"
proof -
  let ?r = "dropWhile (\<lambda>x. x \<noteq> c) (drop pos s)"
  have i: "i = length s - length ?r" and "?r \<noteq> []"
    using assms by (auto simp: string_find_def Let_def split: if_splits)
  have "length ?r \<le> length s - pos" using length_dropWhile_le [of _ "drop pos s"] by simp
  moreover have "pos \<le> length s" using \<open>?r \<noteq> []\<close> by (cases "pos \<le> length s") auto
  ultimately show ?thesis using i by linarith
qed

text \<open>The \<open>while (pos < len)\<close> loop that collects the pieces between commas.\<close>

function split_loop :: "string \<Rightarrow> nat \<Rightarrow> string list \<Rightarrow> string list" where
  "split_loop strFun pos vModeStr =
     (if pos < length strFun then
        (case string_find strFun (CHR '','') pos of
           None \<Rightarrow> vModeStr @ [string_substr strFun pos (length strFun - pos)]
         | Some find_pos \<Rightarrow>
             split_loop strFun (find_pos + 1)
               (vModeStr @ [string_substr strFun pos (find_pos - pos)]))
      else vModeStr)"
  by auto
termination
  by (relation "measure (\<lambda>(s, pos, _). length s - pos)") (auto dest: string_find_ge)

declare split_loop.simps [simp del]

text \<open>The loop over the pieces: the first unknown name makes the whole call fail.\<close>

fun or_functions :: "uec_codes \<Rightarrow> u32 \<Rightarrow> string list \<Rightarrow> u32" where
  "or_functions E ret [] = ret"
| "or_functions E ret (item # items) =
     (case map_of FUNCTION_MAPPING_N2C item of
        Some code \<Rightarrow> or_functions E (ret OR code) items
      | None \<Rightarrow> UEC_SERVICE_INVALID_VALUE E)"

definition ConvertFromString :: "uec_codes \<Rightarrow> string \<Rightarrow> u32" where
  "ConvertFromString E strFun =
     (if strFun = ''none'' then FUNCTION_NONE
      else if length strFun = 0 then UEC_SERVICE_INVALID_VALUE E
      else or_functions E 0 (split_loop strFun 0 []))"

section \<open>From functions to text\<close>

definition ConvertToString :: "u32 \<Rightarrow> string" where
  "ConvertToString func =
     (if func \<le> FUNCTION_NONE \<or> func > FUNCTION_SETTABLE then ''none''
      else
        (let (stream, flag) =
               (if (func AND FUNCTION_HDC) \<noteq> 0 then (''hdc'', True) else ('''', False));
             (stream, flag) =
               (if (func AND FUNCTION_ACM) \<noteq> 0
                then ((if flag then stream @ '','' else stream) @ ''acm'', True)
                else (stream, flag));
             (stream, flag) =
               (if (func AND FUNCTION_ECM) \<noteq> 0
                then ((if flag then stream @ '','' else stream) @ ''ecm'', True)
                else (stream, flag))
         in stream))"

section \<open>State and events\<close>

record UsbDeviceManager =
  dm_currentFunctions :: i32
  dm_connected :: bool

definition UsbDeviceManager_new :: UsbDeviceManager where
  "UsbDeviceManager_new = \<lparr>dm_currentFunctions = 0, dm_connected = False\<rparr>"

definition DeviceManager_GetCurrentFunctions :: "UsbDeviceManager \<Rightarrow> i32" where
  "DeviceManager_GetCurrentFunctions dm = dm_currentFunctions dm"

definition UpdateFunctions :: "i32 \<Rightarrow> UsbDeviceManager \<Rightarrow> UsbDeviceManager" where
  "UpdateFunctions func dm = dm\<lparr>dm_currentFunctions := func\<rparr>"

text \<open>
  The loop that reports the functions one by one, lowest bit first.  Its termination depends
  on the bits of \<open>remainderFunc\<close>, so it is a partial function whose \<open>None\<close> is a loop that
  never ends; that it always ends is proved below.
\<close>

partial_function (option) function_params ::
  "u32 \<Rightarrow> u32 \<Rightarrow> (string \<times> bool) list \<Rightarrow> (string \<times> bool) list option" where
  "function_params remainderFunc bitv want =
     (if remainderFunc \<noteq> 0 then
        (if (remainderFunc AND bitv) \<noteq> 0
         then function_params (remainderFunc AND NOT bitv) (push_bit 1 bitv)
                (want @ [(ConvertToString bitv, True)])
         else function_params remainderFunc (push_bit 1 bitv) want)
      else Some want)"

text \<open>
  \<open>HandleEvent\<close>: the result of reading the functions back from the driver is ignored, and so
  is the result of publishing.  The \<open>None\<close> of its result is the loop above not ending.
\<close>

definition publish_state :: "'w ext \<Rightarrow> UsbDeviceManager \<Rightarrow> 'w \<Rightarrow> (UsbDeviceManager \<times> 'w) option" where
  "publish_state x dm w =
     (case function_params (dm_currentFunctions dm) 1 [(''connected'', dm_connected dm)] of
        None \<Rightarrow> None
      | Some params \<Rightarrow>
          Some (dm, snd (x_PublishCommonEvent x
            \<lparr>ev_action = COMMON_EVENT_USB_STATE, ev_params = params, ev_data = JNull,
             ev_ordered = True\<rparr> w)))"

definition HandleEvent ::
  "usbd_acts \<Rightarrow> 'w ext \<Rightarrow> i32 \<Rightarrow> UsbDeviceManager \<Rightarrow> 'w \<Rightarrow> (UsbDeviceManager \<times> 'w) option" where
  "HandleEvent A x status dm w =
     (if status = ACT_UPDEVICE A then
        (let ((_, funcs), w1) = x_GetCurrentFunctions x (dm_currentFunctions dm) w
         in publish_state x (dm\<lparr>dm_connected := True, dm_currentFunctions := funcs\<rparr>) w1)
      else if status = ACT_DOWNDEVICE A then publish_state x (dm\<lparr>dm_connected := False\<rparr>) w
      else Some (dm, w))"

section \<open>Text and functions: tokens and round trip\<close>

lemma small_cases: "(f :: u32) \<le> 7 \<Longrightarrow> f \<in> {0, 1, 2, 3, 4, 5, 6, 7}"
proof -
  assume "f \<le> 7"
  then have "unat f \<le> 7" by (simp add: word_le_nat_alt)
  then have "unat f \<in> {0, 1, 2, 3, 4, 5, 6, 7}" by auto
  then have "f \<in> of_nat ` {0, 1, 2, 3, 4, 5, 6, 7}" by (intro image_eqI [of _ _ "unat f"]) simp_all
  then show ?thesis by simp
qed

lemmas functions_compute =
  ConvertToString_def ConvertFromString_def FUNCTION_SETTABLE_eq function_codes
  FUNCTION_MAPPING_N2C_def split_loop.simps string_find_def string_substr_def Let_def

lemma ConvertToString_large: "\<not> f \<le> 7 \<Longrightarrow> ConvertToString f = ''none''"
  by (auto simp: ConvertToString_def FUNCTION_SETTABLE_eq not_le)

text \<open>The names of a list, separated by commas.\<close>

fun join_commas :: "string list \<Rightarrow> string" where
  "join_commas [] = ''''"
| "join_commas [t] = t"
| "join_commas (t # t' # ts) = t @ CHR '','' # join_commas (t' # ts)"

lemma string_find_at:
  assumes "CHR '','' \<notin> set t"
  shows "string_find (pre @ t @ CHR '','' # r) (CHR '','') (length pre) = Some (length pre + length t)"
    and "string_find (pre @ t) (CHR '','') (length pre) = None"
proof -
  have "dropWhile (\<lambda>x. x \<noteq> CHR '','') (t @ CHR '','' # r) = CHR '','' # r"
    using assms by (subst dropWhile_append2) auto
  then show "string_find (pre @ t @ CHR '','' # r) (CHR '','') (length pre) = Some (length pre + length t)"
    by (simp add: string_find_def)
  have "dropWhile (\<lambda>x. x \<noteq> CHR '','') t = []"
    using assms by (auto simp: dropWhile_eq_Nil_conv)
  then show "string_find (pre @ t) (CHR '','') (length pre) = None"
    by (simp add: string_find_def)
qed

lemma split_loop_last:
  assumes "CHR '','' \<notin> set t" and "t \<noteq> ''''"
  shows "split_loop (pre @ t) (length pre) acc = acc @ [t]"
  using assms by (subst split_loop.simps) (simp add: string_find_at string_substr_def)

lemma split_loop_piece:
  assumes "CHR '','' \<notin> set t"
  shows "split_loop (pre @ t @ CHR '','' # r) (length pre) acc =
    split_loop ((pre @ t @ '','') @ r) (length (pre @ t @ '','')) (acc @ [t])"
  using assms by (subst split_loop.simps) (simp add: string_find_at string_substr_def)

lemma split_loop_join:
  assumes "\<forall>t \<in> set ts. CHR '','' \<notin> set t" and "ts \<noteq> []"
    and "sfx = '''' \<and> last ts \<noteq> '''' \<or> sfx = '',''"
  shows "split_loop (pre @ join_commas ts @ sfx) (length pre) acc = acc @ ts"
  using assms
proof (induction ts arbitrary: pre acc rule: join_commas.induct)
  case (2 t)
  have "split_loop s (length s) (acc @ [t]) = acc @ [t]" for s
    by (subst split_loop.simps) simp
  then have "split_loop ((pre @ t @ '','') @ []) (length (pre @ t @ '','')) (acc @ [t]) = acc @ [t]"
    by (simp only: append_Nil2)
  with 2 split_loop_last [of t pre acc] split_loop_piece [of t pre "[]" acc]
  show ?case by auto
next
  case (3 t t' ts)
  have "split_loop ((pre @ t @ '','') @ join_commas (t' # ts) @ sfx) (length (pre @ t @ '',''))
          (acc @ [t]) = (acc @ [t]) @ t' # ts"
    by (rule 3) (use 3 in auto)
  with 3 split_loop_piece [of t pre "join_commas (t' # ts) @ sfx" acc] show ?case by simp
qed simp

text \<open>The function code of a known name.\<close>

definition function_code :: "string \<Rightarrow> u32" where
  "function_code t = (case map_of FUNCTION_MAPPING_N2C t of Some c \<Rightarrow> c | None \<Rightarrow> 0)"

definition function_names :: "string set" where
  "function_names = {''none'', ''acm'', ''ecm'', ''hdc'', ''mtp'', ''ptp''}"

lemma function_names_iff: "t \<in> function_names \<longleftrightarrow> map_of FUNCTION_MAPPING_N2C t \<noteq> None"
  by (simp add: function_names_def FUNCTION_MAPPING_N2C_def)

lemma function_code_Some: "map_of FUNCTION_MAPPING_N2C t = Some c \<Longrightarrow> function_code t = c"
  by (simp add: function_code_def)

lemma or_functions_eq:
  "or_functions E r ts =
     (if set ts \<subseteq> function_names then r OR foldr (OR) (map function_code ts) 0
      else UEC_SERVICE_INVALID_VALUE E)"
  by (induction E r ts rule: or_functions.induct)
    (auto simp: function_names_iff function_code_Some or.assoc split: option.splits)

lemma ConvertFromString_or:
  "s \<noteq> '''' \<Longrightarrow> ConvertFromString E s = or_functions E 0 (split_loop s 0 [])"
proof (cases "s = ''none''")
  case True
  have "split_loop ''none'' 0 [] = [''none'']"
    using split_loop_last [of "''none''" "[]" "[]"] by simp
  with True show ?thesis
    by (simp add: ConvertFromString_def FUNCTION_MAPPING_N2C_def FUNCTION_NONE_def)
qed (simp add: ConvertFromString_def)

lemma join_commas_nonempty: "ts \<noteq> [] \<Longrightarrow> last ts \<noteq> '''' \<Longrightarrow> join_commas ts \<noteq> ''''"
  by (induction ts rule: join_commas.induct) auto

lemma ConvertFromString_join:
  assumes "ts \<noteq> []" and "\<forall>t \<in> set ts. CHR '','' \<notin> set t"
    and "sfx = '''' \<and> last ts \<noteq> '''' \<or> sfx = '',''"
  shows "ConvertFromString E (join_commas ts @ sfx) =
    (if set ts \<subseteq> function_names then foldr (OR) (map function_code ts) 0
     else UEC_SERVICE_INVALID_VALUE E)"
proof -
  have "join_commas ts @ sfx \<noteq> ''''" using assms join_commas_nonempty [of ts] by auto
  moreover have "split_loop (join_commas ts @ sfx) 0 [] = ts"
    using split_loop_join [OF assms(2,1,3), of "[]" "[]"] by simp
  ultimately show ?thesis by (simp add: ConvertFromString_or or_functions_eq)
qed

lemmas code_values =
  function_names_def function_code_def FUNCTION_MAPPING_N2C_def function_codes

lemma read_names:
  assumes "set ts \<subseteq> function_names" and "ts \<noteq> []"
  shows "ConvertFromString E (join_commas ts) = foldr (OR) (map function_code ts) 0"
proof -
  have "\<forall>t \<in> function_names. CHR '','' \<notin> set t \<and> t \<noteq> ''''" by (simp add: function_names_def)
  with assms have "\<forall>t \<in> set ts. CHR '','' \<notin> set t" "last ts \<noteq> ''''"
    using last_in_set [of ts] by blast+
  with assms show ?thesis using ConvertFromString_join [of ts "''''" E] by simp
qed

lemma printed_names:
  "ConvertToString 0 = join_commas [''none'']" "ConvertToString 1 = join_commas [''acm'']"
  "ConvertToString 2 = join_commas [''ecm'']" "ConvertToString 3 = join_commas [''acm'', ''ecm'']"
  "ConvertToString 4 = join_commas [''hdc'']" "ConvertToString 5 = join_commas [''hdc'', ''acm'']"
  "ConvertToString 6 = join_commas [''hdc'', ''ecm'']"
  "ConvertToString 7 = join_commas [''hdc'', ''acm'', ''ecm'']"
  by (simp_all add: ConvertToString_def FUNCTION_SETTABLE_eq function_codes)

text \<open>
  C32: Printing a set of functions and reading it back gives the same set when every function
  of it is settable (HDC, ACM, ECM), and the empty set otherwise: the printer only knows the
  settable ones.
\<close>

theorem ConvertFromString_ConvertToString:
  "ConvertFromString E (ConvertToString f) = (if f \<le> 7 then f else FUNCTION_NONE)"
proof (cases "f \<le> 7")
  case True
  from small_cases [OF True] True show ?thesis
    by (elim insertE emptyE; simp only: printed_names)
      (subst read_names; simp add: code_values)+
next
  case False
  then show ?thesis by (simp add: ConvertToString_large ConvertFromString_def)
qed

text \<open>
  A comma-separated list of names is read as the union of the functions it names, and is
  rejected with the invalid-value code as soon as one name is unknown; one comma after the
  last name is accepted and changes nothing.
\<close>

theorem ConvertFromString_names:
  assumes "ts \<noteq> []" and "\<forall>t \<in> set ts. CHR '','' \<notin> set t"
    and "sfx = '''' \<and> last ts \<noteq> '''' \<or> sfx = '',''"
  shows "ConvertFromString E (join_commas ts @ sfx) =
    (if set ts \<subseteq> function_names then foldr (OR) (map function_code ts) 0
     else UEC_SERVICE_INVALID_VALUE E)"
  using assms by (rule ConvertFromString_join)

theorem ConvertFromString_names_witness:
  "ConvertFromString sample_codes ''hdc,mtp,'' = 12 \<and> ConvertFromString sample_codes ''hdc,usb'' = 101"
proof -
  have "ConvertFromString sample_codes (join_commas [''hdc'', ''mtp''] @ '','') = 12"
    by (subst ConvertFromString_names)
      (simp_all add: code_values)
  moreover have "ConvertFromString sample_codes (join_commas [''hdc'', ''usb''] @ '''') = 101"
    by (subst ConvertFromString_names) (simp_all add: function_names_def sample_codes_def)
  ultimately show ?thesis by simp
qed

section \<open>The state event\<close>

lemma bit_of_power: "bit (2 ^ i :: u32) j \<longleftrightarrow> i = j \<and> j < 32"
  unfolding bit_exp_iff by auto

lemma and_power_zero: "i < 32 \<Longrightarrow> (r AND 2 ^ i = (0 :: u32)) \<longleftrightarrow> \<not> bit r i"
  by (rule and_exp_eq_0_iff_not_bit)

lemma remaining_bit:
  assumes "(r :: u32) \<noteq> 0" and "\<forall>j<i. \<not> bit r j"
  shows "i < 32"
proof -
  obtain j where j: "bit r j" using assms(1) by (auto simp: bit_eq_iff)
  then have "j < 32" using bit_imp_le_length [of r j] by simp
  with j assms(2) show ?thesis by (meson not_less le_less_trans)
qed

definition bit_params :: "u32 \<Rightarrow> nat \<Rightarrow> (string \<times> bool) list" where
  "bit_params r i = map (\<lambda>j. (ConvertToString (push_bit j 1), True)) (filter (bit r) [i..<32])"

lemma bit_params_Suc:
  "i < 32 \<Longrightarrow> bit_params r i =
     (if bit r i then [(ConvertToString (push_bit i 1), True)] else []) @ bit_params r (Suc i)"
  by (simp add: bit_params_def upt_conv_Cons)

lemma function_params_loop:
  assumes "\<forall>j<i. \<not> bit r j" and "i \<le> 32"
  shows "function_params r (push_bit i 1) ps = Some (ps @ bit_params r i)"
  using assms
proof (induction "32 - i" arbitrary: i r ps)
  case 0
  then have "r = 0" using remaining_bit [of r i] by auto
  then show ?case by (subst function_params.simps) (simp add: bit_params_def)
next
  case (Suc n)
  show ?case
  proof (cases "r = 0")
    case True
    then show ?thesis by (subst function_params.simps) (simp add: bit_params_def)
  next
    case False
    have i: "i < 32" using Suc by simp
    have next_bit: "push_bit (Suc 0) (push_bit i 1 :: u32) = push_bit (Suc i) 1" by simp
    let ?r = "r AND NOT (2 ^ i)"
    have clear: "bit ?r j \<longleftrightarrow> bit r j \<and> j \<noteq> i" for j
      using bit_imp_le_length [of r j] by (auto simp: bit_and_iff bit_not_iff bit_of_power)
    show ?thesis
    proof (cases "bit r i")
      case True
      have "function_params ?r (push_bit (Suc i) 1) (ps @ [(ConvertToString (push_bit i 1), True)]) =
          Some ((ps @ [(ConvertToString (push_bit i 1), True)]) @ bit_params ?r (Suc i))"
        by (rule Suc(1)) (use Suc clear in \<open>auto simp: less_Suc_eq\<close>)
      moreover have "bit_params ?r (Suc i) = bit_params r (Suc i)"
        unfolding bit_params_def by (intro arg_cong [of _ _ "map _"] filter_cong) (auto simp: clear)
      ultimately show ?thesis
        using True False i bit_params_Suc [OF i, of r]
        by (subst function_params.simps) (simp add: and_power_zero next_bit mult.commute)
    next
      case no: False
      have "function_params r (push_bit (Suc i) 1) ps = Some (ps @ bit_params r (Suc i))"
        by (rule Suc(1)) (use Suc no in \<open>auto simp: less_Suc_eq\<close>)
      then show ?thesis
        using no False i bit_params_Suc [OF i, of r]
        by (subst function_params.simps) (simp add: and_power_zero next_bit mult.commute)
    qed
  qed
qed

text \<open>The event a device manager in a given state publishes.\<close>

definition state_event :: "UsbDeviceManager \<Rightarrow> common_event" where
  "state_event dm = \<lparr>ev_action = COMMON_EVENT_USB_STATE,
     ev_params = (''connected'', dm_connected dm) # bit_params (dm_currentFunctions dm) 0,
     ev_data = JNull, ev_ordered = True\<rparr>"

lemma publish_state_eq:
  "publish_state x dm w = Some (dm, snd (x_PublishCommonEvent x (state_event dm) w))"
  using function_params_loop [of 0 "dm_currentFunctions dm" "[(''connected'', dm_connected dm)]"]
  by (simp add: publish_state_def state_event_def)

text \<open>
  Handling a device status always returns.  A connection reads the functions back from
  the driver, marks the device connected and publishes one ordered state event; a
  disconnection publishes it without touching the functions; any other status changes nothing
  and publishes nothing.  The event lists the connection flag and then one parameter for every
  bit of the function word, from the lowest to the highest.
\<close>

theorem HandleEvent_publishes:
  "HandleEvent A x status dm w =
    (if status = ACT_UPDEVICE A then
       (let ((ret, funcs), w1) = x_GetCurrentFunctions x (dm_currentFunctions dm) w;
            dm1 = dm\<lparr>dm_connected := True, dm_currentFunctions := funcs\<rparr>
        in Some (dm1, snd (x_PublishCommonEvent x (state_event dm1) w1)))
     else if status = ACT_DOWNDEVICE A then
       (let dm1 = dm\<lparr>dm_connected := False\<rparr>
        in Some (dm1, snd (x_PublishCommonEvent x (state_event dm1) w)))
     else Some (dm, w))"
  by (simp add: HandleEvent_def publish_state_eq Let_def split: prod.splits)

end
