(* ===== verification/Usb_Contracts.thy ===== *)
theory Usb_Contracts
  imports Usb_External
begin

text \<open>
  The interfaces the components offer each other, as locales: a table of values that carry
  their own key, and such a table whose changes are announced by events.  What follows from a
  contract is proved here once; the theories of the components discharge the laws on the
  operations of the code.
\<close>

section \<open>Sequences of table operations\<close>

datatype ('k, 'v) table_op = Added 'v | Removed 'k

fun run_ops :: "('v \<Rightarrow> 's \<Rightarrow> 's) \<Rightarrow> ('k \<Rightarrow> 's \<Rightarrow> 's) \<Rightarrow> ('k, 'v) table_op list \<Rightarrow> 's \<Rightarrow> 's" where
  "run_ops add del [] s = s"
| "run_ops add del (Added v # ops) s = run_ops add del ops (add v s)"
| "run_ops add del (Removed k # ops) s = run_ops add del ops (del k s)"

text \<open>What a finite map looks like after the operations.\<close>

fun table_after :: "('v \<Rightarrow> 'k) \<Rightarrow> ('k, 'v) table_op list \<Rightarrow> ('k \<rightharpoonup> 'v) \<Rightarrow> ('k \<rightharpoonup> 'v)" where
  "table_after key [] m = m"
| "table_after key (Added v # ops) m = table_after key ops (m(key v \<mapsto> v))"
| "table_after key (Removed k # ops) m = table_after key ops (m(k := None))"

section \<open>A table of self-keyed values\<close>

locale keyed_table =
  fixes inv :: "'s \<Rightarrow> bool"
    and absr :: "'s \<Rightarrow> 'k \<Rightarrow> 'v option"
    and key :: "'v \<Rightarrow> 'k"
    and add :: "'v \<Rightarrow> 's \<Rightarrow> 's"
    and del :: "'k \<Rightarrow> 's \<Rightarrow> 's"
  assumes add_inv: "inv s \<Longrightarrow> inv (add v s)"
    and add_abs: "inv s \<Longrightarrow> absr (add v s) = (absr s)(key v \<mapsto> v)"
    and del_inv: "inv s \<Longrightarrow> inv (del k s)"
    and del_abs: "inv s \<Longrightarrow> absr (del k s) = (absr s)(k := None)"
    and keyed: "inv s \<Longrightarrow> absr s k = Some v \<Longrightarrow> key v = k"
begin

lemma run_inv: "inv s \<Longrightarrow> inv (run_ops add del ops s)"
proof (induction ops arbitrary: s)
  case (Cons c ops)
  then show ?case by (cases c) (simp_all add: add_inv del_inv)
qed simp

lemma run_abs: "inv s \<Longrightarrow> absr (run_ops add del ops s) = table_after key ops (absr s)"
proof (induction ops arbitrary: s)
  case (Cons c ops)
  then show ?case
    by (cases c) (simp_all add: add_inv del_inv add_abs del_abs del: fun_upd_apply)
qed simp

lemma add_del_abs: "inv s \<Longrightarrow> absr (del (key v) (add v s)) = (absr s)(key v := None)"
  by (simp add: add_inv add_abs del_abs)

end

section \<open>A table whose changes are announced\<close>

text \<open>
  An announced table also produces events.  An observer folds \<open>observe\<close> over the events to
  keep a copy of the table, each value as its \<open>view\<close>.
\<close>

locale announced_table = keyed_table inv absr key add del
  for inv :: "'s \<Rightarrow> bool" and absr :: "'s \<Rightarrow> 'k \<Rightarrow> 'v option" and key :: "'v \<Rightarrow> 'k"
    and add :: "'v \<Rightarrow> 's \<Rightarrow> 's" and del :: "'k \<Rightarrow> 's \<Rightarrow> 's" +
  fixes hist :: "'s \<Rightarrow> 'e list"
    and up :: "'v \<Rightarrow> 'e"
    and down :: "'v \<Rightarrow> 'e"
    and view :: "'v \<Rightarrow> 'd"
    and observe :: "'e \<Rightarrow> ('k \<Rightarrow> 'd option) \<Rightarrow> ('k \<Rightarrow> 'd option)"
  assumes add_hist: "inv s \<Longrightarrow> hist (add v s) = hist s @ [up v]"
    and del_hist: "inv s \<Longrightarrow> hist (del k s) =
      hist s @ (case absr s k of None \<Rightarrow> [] | Some v \<Rightarrow> [down v])"
    and observe_up: "observe (up v) m = m(key v \<mapsto> view v)"
    and observe_down: "observe (down v) m = m(key v := None)"
begin

lemma add_observed:
  assumes "inv s" and "fold observe (hist s) m = map_option view \<circ> absr s"
  shows "fold observe (hist (add v s)) m = map_option view \<circ> absr (add v s)"
  using assms by (simp add: add_hist add_abs observe_up fun_eq_iff)

lemma del_observed:
  assumes "inv s" and "fold observe (hist s) m = map_option view \<circ> absr s"
  shows "fold observe (hist (del k s)) m = map_option view \<circ> absr (del k s)"
proof (cases "absr s k")
  case None
  with assms show ?thesis by (auto simp: del_hist del_abs fun_eq_iff)
next
  case (Some v)
  with assms keyed [OF assms(1) Some] show ?thesis
    by (auto simp: del_hist del_abs observe_down fun_eq_iff)
qed

lemma run_observed:
  "inv s \<Longrightarrow> fold observe (hist s) m = map_option view \<circ> absr s \<Longrightarrow>
    fold observe (hist (run_ops add del ops s)) m = map_option view \<circ> absr (run_ops add del ops s)"
proof (induction ops arbitrary: s)
  case (Cons c ops)
  show ?case
  proof (cases c)
    case (Added v)
    from Cons.IH [OF add_inv add_observed] Cons.prems show ?thesis by (simp only: Added run_ops.simps)
  next
    case (Removed k)
    from Cons.IH [OF del_inv del_observed] Cons.prems show ?thesis by (simp only: Removed run_ops.simps)
  qed
qed simp

end

section \<open>Access rights\<close>

datatype ('d, 'b) right_op = Granted 'd 'b | Revoked 'd

fun run_rights ::
  "('d \<Rightarrow> 'b \<Rightarrow> 's \<Rightarrow> 's) \<Rightarrow> ('d \<Rightarrow> 's \<Rightarrow> 's) \<Rightarrow> ('d, 'b) right_op list \<Rightarrow> 's \<Rightarrow> 's" where
  "run_rights grant revoke [] s = s"
| "run_rights grant revoke (Granted d b # ops) s = run_rights grant revoke ops (grant d b s)"
| "run_rights grant revoke (Revoked d # ops) s = run_rights grant revoke ops (revoke d s)"

text \<open>A right is held after the operations when it was granted, or held before, and its device
  not revoked since.\<close>

fun held_after :: "('d, 'b) right_op list \<Rightarrow> 'd \<Rightarrow> 'b \<Rightarrow> bool \<Rightarrow> bool" where
  "held_after [] d b h = h"
| "held_after (Granted d' b' # ops) d b h = held_after ops d b (h \<or> d' = d \<and> b' = b)"
| "held_after (Revoked d' # ops) d b h = held_after ops d b (h \<and> d' \<noteq> d)"

locale access_control =
  fixes inv :: "'s \<Rightarrow> bool"
    and perms :: "'s \<Rightarrow> ('d \<times> 'b) set"
    and grant :: "'d \<Rightarrow> 'b \<Rightarrow> 's \<Rightarrow> 's"
    and revoke :: "'d \<Rightarrow> 's \<Rightarrow> 's"
  assumes grant_inv: "inv s \<Longrightarrow> inv (grant d b s)"
    and grant_perms: "inv s \<Longrightarrow> perms (grant d b s) = insert (d, b) (perms s)"
    and revoke_inv: "inv s \<Longrightarrow> inv (revoke d s)"
    and revoke_perms: "inv s \<Longrightarrow> perms (revoke d s) = {p \<in> perms s. fst p \<noteq> d}"
begin

lemma run_rights_perms:
  "inv s \<Longrightarrow> (d, b) \<in> perms (run_rights grant revoke ops s) \<longleftrightarrow> held_after ops d b ((d, b) \<in> perms s)"
proof (induction ops arbitrary: s)
  case (Cons c ops)
  then show ?case
    by (cases c) (simp_all add: grant_inv grant_perms revoke_inv revoke_perms disj_commute eq_commute
        conj_commute)
qed simp

lemma run_rights_inv: "inv s \<Longrightarrow> inv (run_rights grant revoke ops s)"
proof (induction ops arbitrary: s)
  case (Cons c ops)
  then show ?case by (cases c) (simp_all add: grant_inv revoke_inv)
qed simp

lemma revoke_all: "inv s \<Longrightarrow> (d, b) \<notin> perms (revoke d s)"
  by (simp add: revoke_perms)

end

end
