(* ===== verification/Usb_Host.thy ===== *)
theory Usb_Host
  imports Usb_Contracts
begin

text \<open>
  The host-side manager (\<open>usb_host_manager.cpp\<close>): the table of attached devices and the
  events that announce its changes.  Its abstract view is a finite map from bus number and
  device address to the device.
\<close>

section \<open>The device table\<close>

text \<open>\<open>devices_\<close> maps names to pointers; a null pointer is \<open>None\<close>.\<close>

type_synonym MAP_STR_DEVICE = "(string, UsbDevice option) cmap"

record UsbHostManager =
  hm_devices :: MAP_STR_DEVICE

definition UsbHostManager_new :: UsbHostManager where
  "UsbHostManager_new = \<lparr>hm_devices = []\<rparr>"

text \<open>The key: \<open>std::to_string(busNum) + "-" + std::to_string(devNum)\<close>.\<close>

definition device_name :: "u8 \<Rightarrow> u8 \<Rightarrow> string" where
  "device_name busNum devNum =
     std_to_string (unat busNum) @ ''-'' @ std_to_string (unat devNum)"

definition HostManager_PublishCommonEvent ::
  "'w ext \<Rightarrow> usb_action \<Rightarrow> UsbDevice \<Rightarrow> 'w \<Rightarrow> bool \<times> 'w" where
  "HostManager_PublishCommonEvent x event dev w =
     x_PublishCommonEvent x
       \<lparr>ev_action = event, ev_params = [], ev_data = UsbDevice_ToJson dev, ev_ordered = True\<rparr> w"

definition HostManager_GetDevices :: "UsbHostManager \<Rightarrow> MAP_STR_DEVICE" where
  "HostManager_GetDevices hm = hm_devices hm"

text \<open>A failed publication is only logged.\<close>

definition HostManager_DelDevice ::
  "'w ext \<Rightarrow> u8 \<Rightarrow> u8 \<Rightarrow> UsbHostManager \<Rightarrow> 'w \<Rightarrow> (bool \<times> UsbHostManager) \<times> 'w" where
  "HostManager_DelDevice x busNum devNum hm w =
     (let name = device_name busNum devNum
      in case map_of (hm_devices hm) name of
           None \<Rightarrow> ((False, hm), w)
         | Some None \<Rightarrow> ((False, hm), w)
         | Some (Some devOld) \<Rightarrow>
             (let (isSuccess, w1) =
                    HostManager_PublishCommonEvent x COMMON_EVENT_USB_DEVICE_DETACHED devOld w
              in ((True, hm\<lparr>hm_devices := cmap_erase name (hm_devices hm)\<rparr>), w1)))"

definition HostManager_AddDevice ::
  "'w ext \<Rightarrow> UsbDevice option \<Rightarrow> UsbHostManager \<Rightarrow> 'w \<Rightarrow> (bool \<times> UsbHostManager) \<times> 'w" where
  "HostManager_AddDevice x dev hm w =
     (case dev of
        None \<Rightarrow> ((False, hm), w)
      | Some d \<Rightarrow>
          (let (isSuccess, w1) =
                 HostManager_PublishCommonEvent x COMMON_EVENT_USB_DEVICE_ATTACHED d w;
               name = device_name (dev_busNum d) (dev_devAddr d);
               devices1 =
                 (if map_of (hm_devices hm) name \<noteq> None then cmap_erase name (hm_devices hm)
                  else hm_devices hm)
           in ((True, hm\<lparr>hm_devices := fst (cmap_insert name (Some d) devices1)\<rparr>), w1)))"

section \<open>Keys\<close>

lemma device_name_inj: "device_name b a = device_name b' a' \<longleftrightarrow> b = b' \<and> a = a'"
  using dash_split_unique [of "std_to_string (unat b)" "std_to_string (unat b')"
      "std_to_string (unat a)" "std_to_string (unat a')"] std_to_string_no_dash
  by (auto simp: device_name_def std_to_string_inj intro: unsigned_word_eqI)

lemma device_name_chars: "set (device_name b a) \<subseteq> set ''-'' \<union> set ''0123456789''"
  unfolding device_name_def set_append
  using std_to_string_digits [of "unat b"] std_to_string_digits [of "unat a"] by blast

lemma device_name_without:
  assumes "c \<notin> set ''-''" and "c \<notin> set ''0123456789''"
  shows "c \<notin> set (device_name b a)"
  using device_name_chars [of b a] assms by blast

type_synonym dev_key = "u8 \<times> u8"

definition dev_key_of :: "UsbDevice \<Rightarrow> dev_key" where
  "dev_key_of d = (dev_busNum d, dev_devAddr d)"

section \<open>Invariant and abstract table\<close>

text \<open>
  The invariant: the map is sorted, holds no null pointer, and every entry's key is the name
  of the device it holds.
\<close>

definition host_inv :: "UsbHostManager \<Rightarrow> bool" where
  "host_inv hm \<longleftrightarrow> cmap_ok (hm_devices hm) \<and>
     (\<forall>(n, p) \<in> set (hm_devices hm).
        case p of None \<Rightarrow> False | Some d \<Rightarrow> n = device_name (dev_busNum d) (dev_devAddr d))"

definition host_abs :: "UsbHostManager \<Rightarrow> dev_key \<rightharpoonup> UsbDevice" where
  "host_abs hm k = (case map_of (hm_devices hm) (device_name (fst k) (snd k)) of
     Some (Some d) \<Rightarrow> Some d | _ \<Rightarrow> None)"

lemma host_inv_new [simp]: "host_inv UsbHostManager_new"
  by (simp add: host_inv_def UsbHostManager_new_def)

lemma host_abs_new [simp]: "host_abs UsbHostManager_new = Map.empty"
  by (rule ext) (simp add: host_abs_def UsbHostManager_new_def)

text \<open>The invariant in terms of lookups.\<close>

lemma host_inv_iff:
  "host_inv hm \<longleftrightarrow> cmap_ok (hm_devices hm) \<and>
     (\<forall>n p. map_of (hm_devices hm) n = Some p \<longrightarrow>
        (\<exists>d. p = Some d \<and> n = device_name (dev_busNum d) (dev_devAddr d)))"
  unfolding host_inv_def
  by (rule conj_cong [OF refl]) (fastforce simp flip: cmap_find_in split: option.splits)

lemma host_lookup:
  assumes "host_inv hm" and "host_abs hm k = Some d"
  shows "dev_key_of d = k"
proof -
  from assms(2) have "map_of (hm_devices hm) (device_name (fst k) (snd k)) = Some (Some d)"
    by (auto simp: host_abs_def split: option.splits)
  with assms(1) have "device_name (fst k) (snd k) = device_name (dev_busNum d) (dev_devAddr d)"
    unfolding host_inv_iff by blast
  then show ?thesis by (auto simp: device_name_inj dev_key_of_def prod_eq_iff)
qed

lemma host_abs_None_iff:
  "host_inv hm \<Longrightarrow> map_of (hm_devices hm) (device_name b a) = None \<longleftrightarrow> host_abs hm (b, a) = None"
  unfolding host_inv_iff host_abs_def by (fastforce split: option.splits)

lemma host_insert [usb_inv]:
  assumes "host_inv hm"
  shows "host_inv (hm\<lparr>hm_devices := fst (cmap_insert (device_name (dev_busNum d) (dev_devAddr d))
     (Some d) (cmap_erase (device_name (dev_busNum d) (dev_devAddr d)) (hm_devices hm)))\<rparr>)" (is ?inv)
    and "host_abs (hm\<lparr>hm_devices := fst (cmap_insert (device_name (dev_busNum d) (dev_devAddr d))
     (Some d) (cmap_erase (device_name (dev_busNum d) (dev_devAddr d)) (hm_devices hm)))\<rparr>) =
       (host_abs hm)(dev_key_of d \<mapsto> d)" (is ?abs)
proof -
  have ok: "cmap_ok (hm_devices hm)" using assms by (simp add: host_inv_iff)
  show ?inv
    using assms ok
    by (auto simp: host_inv_iff cmap_simps usb_inv split: if_splits)
  show ?abs
    using ok by (intro ext) (auto simp: host_abs_def dev_key_of_def cmap_simps usb_inv device_name_inj)
qed

lemma host_erase [usb_inv]:
  assumes "host_inv hm"
  shows "host_inv (hm\<lparr>hm_devices := cmap_erase (device_name b a) (hm_devices hm)\<rparr>)"
    and "host_abs (hm\<lparr>hm_devices := cmap_erase (device_name b a) (hm_devices hm)\<rparr>) =
      (host_abs hm)((b, a) := None)"
  using assms
  by (auto simp: host_inv_iff host_abs_def cmap_simps usb_inv device_name_inj fun_eq_iff split: if_splits)

section \<open>The contracts\<close>

text \<open>
  The manager together with the world is an announced table: the history is the log of
  published events, as far as the event manager delivers what is published to it.
\<close>

definition publisher_logs :: "'w ext \<Rightarrow> ('w \<Rightarrow> common_event list) \<Rightarrow> bool" where
  "publisher_logs x log \<longleftrightarrow> (\<forall>e w. log (snd (x_PublishCommonEvent x e w)) = log w @ [e])"

definition host_add :: "'w ext \<Rightarrow> UsbDevice \<Rightarrow> UsbHostManager \<times> 'w \<Rightarrow> UsbHostManager \<times> 'w" where
  "host_add x d s = (let ((_, hm), w) = HostManager_AddDevice x (Some d) (fst s) (snd s) in (hm, w))"

definition host_del :: "'w ext \<Rightarrow> dev_key \<Rightarrow> UsbHostManager \<times> 'w \<Rightarrow> UsbHostManager \<times> 'w" where
  "host_del x k s =
     (let ((_, hm), w) = HostManager_DelDevice x (fst k) (snd k) (fst s) (snd s) in (hm, w))"

definition device_event :: "usb_action \<Rightarrow> UsbDevice \<Rightarrow> common_event" where
  "device_event a d =
     \<lparr>ev_action = a, ev_params = [], ev_data = UsbDevice_ToJson d, ev_ordered = True\<rparr>"

text \<open>What a subscriber does with an event: it reads the key from the document it carries.\<close>

definition json_key :: "json \<Rightarrow> dev_key option" where
  "json_key j = (case j of
     JObj ms \<Rightarrow>
       (case (map_of ms ''busNum'', map_of ms ''devAddress'') of
          (Some (JInt b), Some (JInt a)) \<Rightarrow> Some (word_of_int b, word_of_int a)
        | _ \<Rightarrow> None)
   | _ \<Rightarrow> None)"

definition observe_device :: "common_event \<Rightarrow> (dev_key \<rightharpoonup> json) \<Rightarrow> (dev_key \<rightharpoonup> json)" where
  "observe_device e m =
     (case json_key (ev_data e) of
        None \<Rightarrow> m
      | Some k \<Rightarrow>
          if ev_action e = COMMON_EVENT_USB_DEVICE_ATTACHED then m(k \<mapsto> ev_data e)
          else if ev_action e = COMMON_EVENT_USB_DEVICE_DETACHED then m(k := None)
          else m)"

lemma json_key_device [simp]: "json_key (UsbDevice_ToJson d) = Some (dev_key_of d)"
  by (simp add: json_key_def UsbDevice_ToJson_def json_of_u8_def dev_key_of_def)

lemma host_add_eq:
  "host_add x d (hm, w) =
     (hm\<lparr>hm_devices := fst (cmap_insert (device_name (dev_busNum d) (dev_devAddr d)) (Some d)
        (cmap_erase (device_name (dev_busNum d) (dev_devAddr d)) (hm_devices hm)))\<rparr>,
      snd (x_PublishCommonEvent x (device_event COMMON_EVENT_USB_DEVICE_ATTACHED d) w))"
  by (simp add: host_add_def HostManager_AddDevice_def HostManager_PublishCommonEvent_def
      device_event_def Let_def cmap_erase_absent split: prod.splits)

lemma host_del_absent:
  "host_inv hm \<Longrightarrow> host_abs hm (b, a) = None \<Longrightarrow>
     HostManager_DelDevice x b a hm w = ((False, hm), w)"
  by (simp add: HostManager_DelDevice_def flip: host_abs_None_iff)

lemma host_del_present:
  "host_abs hm (b, a) = Some d \<Longrightarrow>
     HostManager_DelDevice x b a hm w =
       ((True, hm\<lparr>hm_devices := cmap_erase (device_name b a) (hm_devices hm)\<rparr>),
        snd (x_PublishCommonEvent x (device_event COMMON_EVENT_USB_DEVICE_DETACHED d) w))"
  by (auto simp: HostManager_DelDevice_def host_abs_def HostManager_PublishCommonEvent_def
      device_event_def Let_def split: prod.splits option.splits)

lemma host_del_absent_abs:
  "host_abs hm k = None \<Longrightarrow> (host_abs hm)(k := None) = host_abs hm"
  by (simp add: fun_upd_idem)

interpretation host_table: keyed_table "\<lambda>s. host_inv (fst s)" "\<lambda>s. host_abs (fst s)" dev_key_of
  "host_add x" "host_del x" for x :: "'w ext"
proof
  fix s :: "UsbHostManager \<times> 'w" and d k
  assume inv: "host_inv (fst s)"
  obtain hm w where s: "s = (hm, w)" by (cases s)
  show "host_inv (fst (host_add x d s))" "host_abs (fst (host_add x d s)) = (host_abs (fst s))(dev_key_of d \<mapsto> d)"
    using inv host_insert [of hm d] by (simp_all add: s host_add_eq)
  show "host_inv (fst (host_del x k s))" "host_abs (fst (host_del x k s)) = (host_abs (fst s))(k := None)"
    using inv host_erase [of hm "fst k" "snd k"] host_del_absent [of hm "fst k" "snd k" x w]
      host_del_present [of hm "fst k" "snd k" _ x w]
    by (cases "host_abs hm k"; simp add: s host_del_def host_del_absent_abs)+
  show "host_abs (fst s) k = Some d \<Longrightarrow> dev_key_of d = k"
    using inv host_lookup by blast
qed

interpretation host_events: announced_table
  "\<lambda>s. host_inv (fst s) \<and> publisher_logs x log" "\<lambda>s. host_abs (fst s)" dev_key_of
  "host_add x" "host_del x" "\<lambda>s. log (snd s)"
  "device_event COMMON_EVENT_USB_DEVICE_ATTACHED" "device_event COMMON_EVENT_USB_DEVICE_DETACHED"
  UsbDevice_ToJson observe_device for x :: "'w ext" and log
proof
  fix s :: "UsbHostManager \<times> 'w" and d k m
  assume inv: "host_inv (fst s) \<and> publisher_logs x log"
  obtain hm w where s: "s = (hm, w)" by (cases s)
  show "host_inv (fst (host_add x d s)) \<and> publisher_logs x log"
    "host_inv (fst (host_del x k s)) \<and> publisher_logs x log"
    using inv host_table.add_inv host_table.del_inv by blast+
  show "host_abs (fst (host_add x d s)) = (host_abs (fst s))(dev_key_of d \<mapsto> d)"
    "host_abs (fst (host_del x k s)) = (host_abs (fst s))(k := None)"
    using inv host_table.add_abs host_table.del_abs by blast+
  show "host_abs (fst s) k = Some d \<Longrightarrow> dev_key_of d = k"
    using inv host_lookup by blast
  show "log (snd (host_add x d s)) = log (snd s) @ [device_event COMMON_EVENT_USB_DEVICE_ATTACHED d]"
    using inv by (simp add: s host_add_eq publisher_logs_def)
  show "log (snd (host_del x k s)) = log (snd s) @ (case host_abs (fst s) k of None \<Rightarrow> []
      | Some d \<Rightarrow> [device_event COMMON_EVENT_USB_DEVICE_DETACHED d])"
    using inv host_del_absent [of hm "fst k" "snd k" x w] host_del_present [of hm "fst k" "snd k" _ x w]
    by (cases "host_abs hm k"; simp add: s host_del_def publisher_logs_def)
next
  fix d and m :: "dev_key \<rightharpoonup> json"
  show "observe_device (device_event COMMON_EVENT_USB_DEVICE_ATTACHED d) m = m(dev_key_of d \<mapsto> UsbDevice_ToJson d)"
    "observe_device (device_event COMMON_EVENT_USB_DEVICE_DETACHED d) m = m(dev_key_of d := None)"
    by (simp_all add: observe_device_def device_event_def)
qed

section \<open>Properties of the device table\<close>

text \<open>
  Adding a device always succeeds, keeps the invariant of the table, stores the device
  under its own bus number and address in place of any device stored there, changes no other
  entry, and publishes exactly the attached event of the device.
\<close>

theorem HostManager_AddDevice_refines:
  assumes "host_inv hm" and "HostManager_AddDevice x (Some d) hm w = ((r, hm'), w')"
  shows "r \<and> host_inv hm' \<and> host_abs hm' = (host_abs hm)(dev_key_of d \<mapsto> d) \<and>
    w' = snd (x_PublishCommonEvent x (device_event COMMON_EVENT_USB_DEVICE_ATTACHED d) w)"
proof -
  have r: r using assms(2) by (auto simp: HostManager_AddDevice_def Let_def split: prod.splits)
  have "host_add x d (hm, w) = (hm', w')" using assms(2) by (simp add: host_add_def)
  with r host_table.add_inv [of "(hm, w)" x d] host_table.add_abs [of "(hm, w)" x d] assms(1)
    host_add_eq [of x d hm w]
  show ?thesis by simp
qed

definition sample_dev :: "u8 \<Rightarrow> u8 \<Rightarrow> UsbDevice" where
  "sample_dev b a = UsbDevice_zero\<lparr>dev_busNum := b, dev_devAddr := a\<rparr>"

theorem HostManager_AddDevice_refines_witness:
  "host_abs (snd (fst (HostManager_AddDevice sample_ext (Some (sample_dev 1 2)) UsbHostManager_new
     sample_state))) (1, 2) = Some (sample_dev 1 2)"
proof -
  obtain r hm w where "HostManager_AddDevice sample_ext (Some (sample_dev 1 2)) UsbHostManager_new
     sample_state = ((r, hm), w)" by (metis surj_pair)
  from HostManager_AddDevice_refines [OF host_inv_new this] this
  show ?thesis by (simp add: dev_key_of_def sample_dev_def UsbDevice_zero_def)
qed

text \<open>
  Removing a device succeeds exactly when one is stored under the given bus number and
  address; then that entry and no other disappears and the detached event of the removed
  device is published.  Otherwise nothing changes and nothing is published.
\<close>

theorem HostManager_DelDevice_refines:
  assumes "host_inv hm"
  shows "case HostManager_DelDevice x b a hm w of ((r, hm'), w') \<Rightarrow>
    host_inv hm' \<and> host_abs hm' = (host_abs hm)((b, a) := None) \<and>
    (case host_abs hm (b, a) of
       None \<Rightarrow> \<not> r \<and> hm' = hm \<and> w' = w
     | Some d \<Rightarrow> r \<and>
         w' = snd (x_PublishCommonEvent x (device_event COMMON_EVENT_USB_DEVICE_DETACHED d) w))"
  using assms host_erase [of hm b a]
  by (cases "host_abs hm (b, a)")
    (simp_all add: host_del_absent host_del_present host_del_absent_abs del: fun_upd_apply)

theorem HostManager_DelDevice_refines_witness:
  "host_inv UsbHostManager_new \<and>
   HostManager_DelDevice sample_ext 1 2 UsbHostManager_new sample_state =
     ((False, UsbHostManager_new), sample_state)"
  using HostManager_DelDevice_refines [OF host_inv_new, where x = sample_ext and b = 1 and a = 2
      and w = sample_state]
  by (auto split: prod.splits)

text \<open>
  After any sequence of additions and removals from the empty table, the device stored
  under a key is the one the same sequence leaves in a finite map: the last one added there
  and not removed since.
\<close>

theorem host_table_history:
  "host_abs (fst (run_ops (host_add x) (host_del x) ops (UsbHostManager_new, w))) =
     table_after dev_key_of ops Map.empty"
  using host_table.run_abs [of "(UsbHostManager_new, w)" x ops] by simp

text \<open>
  C11: A subscriber that keeps the documents of the attached events, and drops those of the
  detached ones, by the bus number and address they carry, always has exactly the documents of
  the devices in the table, whatever sequence of additions and removals happened.
\<close>

theorem host_events_replay:
  assumes "publisher_logs x log" and "log w = []"
  shows "let (hm, w') = run_ops (host_add x) (host_del x) ops (UsbHostManager_new, w)
    in fold observe_device (log w') Map.empty = map_option UsbDevice_ToJson \<circ> host_abs hm"
  using assms host_events.run_observed [of "(UsbHostManager_new, w)" x log Map.empty ops]
  by (simp add: split_beta Let_def fun_eq_iff)

lemma sample_logs: "publisher_logs sample_ext sw_log"
  by (simp add: publisher_logs_def sample_ext_def)

theorem host_events_replay_witness:
  "let (hm, w') = run_ops (host_add sample_ext) (host_del sample_ext)
     [Added (sample_dev 1 2), Added (sample_dev 1 3), Removed (1, 2)] (UsbHostManager_new, sample_state)
   in length (sw_log w') = 3 \<and>
      fold observe_device (sw_log w') Map.empty = map_option UsbDevice_ToJson \<circ> host_abs hm"
proof -
  have "length (sw_log (snd (run_ops (host_add sample_ext) (host_del sample_ext)
     [Added (sample_dev 1 2), Added (sample_dev 1 3), Removed (1, 2)] (UsbHostManager_new, sample_state)))) = 3"
    by code_simp
  moreover have "sw_log sample_state = []" by (simp add: sample_state_def)
  ultimately show ?thesis
    using host_events_replay [OF sample_logs, where w = sample_state
        and ops = "[Added (sample_dev 1 2), Added (sample_dev 1 3), Removed (1, 2)]"]
    by (simp add: split_beta Let_def)
qed

end
