(* ===== verification/Usb_Right.thy ===== *)
theory Usb_Right
  imports Usb_Contracts
begin

text \<open>
  The right manager (\<open>usb_right_manager.cpp\<close>): which application may use which device, and the
  dialog that asks the user.  Its abstract view is a set of pairs of a device name and a bundle
  name.  The last part models requests of several threads as steps, since a request waits for
  the user while others run.
\<close>

section \<open>State and rights\<close>

type_synonym BundleNameList = "string list"
type_synonym RightMap = "(string, BundleNameList) cmap"

record UsbRightManager =
  rightMap :: RightMap
  rm_dialogId :: i32

definition UsbRightManager_new :: UsbRightManager where
  "UsbRightManager_new = \<lparr>rightMap = [], rm_dialogId = -1\<rparr>"

definition RightManager_HasRight :: "string \<Rightarrow> string \<Rightarrow> UsbRightManager \<Rightarrow> bool" where
  "RightManager_HasRight deviceName bundleName rm =
     (case map_of (rightMap rm) deviceName of
        None \<Rightarrow> False
      | Some bundleNameList \<Rightarrow> if bundleName \<in> set bundleNameList then True else False)"

text \<open>
  When the device has an entry the bundle is appended through the iterator, and the
  \<open>insert\<close> that follows in any case then finds the key present.
\<close>

definition RightManager_AddDeviceRight ::
  "string \<Rightarrow> string \<Rightarrow> UsbRightManager \<Rightarrow> bool \<times> UsbRightManager" where
  "RightManager_AddDeviceRight deviceName bundleName rm =
     (case map_of (rightMap rm) deviceName of
        Some v \<Rightarrow>
          (if bundleName \<in> set v then (False, rm)
           else (True, rm\<lparr>rightMap := fst (cmap_insert deviceName [bundleName]
                    (cmap_assign deviceName (v @ [bundleName]) (rightMap rm)))\<rparr>))
      | None \<Rightarrow> (True, rm\<lparr>rightMap := fst (cmap_insert deviceName [bundleName] (rightMap rm))\<rparr>))"

definition RightManager_RemoveDeviceRight :: "string \<Rightarrow> UsbRightManager \<Rightarrow> bool \<times> UsbRightManager" where
  "RightManager_RemoveDeviceRight deviceName rm =
     (case map_of (rightMap rm) deviceName of
        Some _ \<Rightarrow> (True, rm\<lparr>rightMap := cmap_erase deviceName (rightMap rm)\<rparr>)
      | None \<Rightarrow> (False, rm))"

section \<open>Asking the user\<close>

definition UI_DIALOG_USB_WIDTH_NARROW :: i32 where "UI_DIALOG_USB_WIDTH_NARROW = 400"
definition UI_DIALOG_USB_HEIGHT_NARROW :: i32 where "UI_DIALOG_USB_HEIGHT_NARROW = 240"

definition GetDisplayPosition :: "'w ext \<Rightarrow> 'w \<Rightarrow> (i32 \<times> i32) \<times> 'w" where
  "GetDisplayPosition x w =
     (let (display, w1) = x_GetDefaultDisplay x w;
          (display, w2) = (if display = None then x_GetDefaultDisplay x w1 else (display, w1))
      in case display of
           Some wh \<Rightarrow> (wh, w2)
         | None \<Rightarrow> ((UI_DIALOG_USB_WIDTH_NARROW, UI_DIALOG_USB_HEIGHT_NARROW), w2))"

definition dialog_params :: "string \<Rightarrow> string \<Rightarrow> string" where
  \<open>dialog_params deviceName bundleName =
     ''{"bundleName":"'' @ bundleName @ ''", '' @ ''"deviceName":"'' @ deviceName @ ''"}''\<close>

text \<open>The callback of the dialog: its answer, the dialog closed, the dialog id reset.\<close>

definition dialog_callback ::
  "'w ext \<Rightarrow> i32 \<Rightarrow> string \<Rightarrow> bool \<Rightarrow> UsbRightManager \<Rightarrow> 'w \<Rightarrow> (bool \<times> UsbRightManager) \<times> 'w" where
  "dialog_callback x dlg event isAgree rm w =
     (let isAgree1 = (if event = ''EVENT_ALLOW'' then True
                      else if event = ''EVENT_NOT_ALLOW'' then False else isAgree);
          w1 = x_CancelDialog x dlg w
      in ((isAgree1, rm\<lparr>rm_dialogId := -1\<rparr>), w1))"

text \<open>
  Showing the dialog stores its id in \<open>dialogId_\<close>.  The result also has the callback's
  arguments, when the dialog calls back.
\<close>

definition show_dialog ::
  "'w ext \<Rightarrow> string \<Rightarrow> string \<Rightarrow> UsbRightManager \<Rightarrow> 'w \<Rightarrow>
     ((i32 \<times> string) option \<times> UsbRightManager) \<times> 'w" where
  "show_dialog x deviceName bundleName rm w =
     (let (pos, w1) = GetDisplayPosition x w;
          params = dialog_params deviceName bundleName;
          ((dlg, answer), w2) = x_ShowDialog x params pos w1
      in ((answer, rm\<lparr>rm_dialogId := dlg\<rparr>), w2))"

text \<open>
  \<open>GetUserAgreementByDiag\<close>: the dialog is shown, and the thread waits for the callback to
  post the semaphore.  Without a callback it waits for ever, \<open>None\<close>.
\<close>

definition GetUserAgreementByDiag ::
  "'w ext \<Rightarrow> string \<Rightarrow> string \<Rightarrow> UsbRightManager \<Rightarrow> 'w \<Rightarrow> ((bool \<times> UsbRightManager) \<times> 'w) option" where
  "GetUserAgreementByDiag x deviceName bundleName rm w =
     (if 0 \<le>s rm_dialogId rm then Some ((False, rm), w)
      else
        (let ((answer, rm1), w1) = show_dialog x deviceName bundleName rm w
         in case answer of
              None \<Rightarrow> None
            | Some (cb_id, event) \<Rightarrow> Some (dialog_callback x cb_id event False rm1 w1)))"

text \<open>
  \<open>RequestRight\<close>, from the user's answer on: also the last steps of the threads below.
\<close>

definition after_agreement ::
  "uec_codes \<Rightarrow> string \<Rightarrow> string \<Rightarrow> bool \<Rightarrow> UsbRightManager \<Rightarrow> i32 \<times> UsbRightManager" where
  "after_agreement E deviceName bundleName agreed rm =
     (if \<not> agreed then (UEC_SERVICE_PERMISSION_DENIED E, rm)
      else
        (let (added, rm1) = RightManager_AddDeviceRight deviceName bundleName rm
         in if \<not> added then (UEC_SERVICE_INVALID_VALUE E, rm1)
            else if RightManager_HasRight deviceName bundleName rm1 then (UEC_OK E, rm1)
            else (UEC_SERVICE_INVALID_VALUE E, rm1)))"

definition RightManager_RequestRight ::
  "uec_codes \<Rightarrow> 'w ext \<Rightarrow> string \<Rightarrow> string \<Rightarrow> UsbRightManager \<Rightarrow> 'w \<Rightarrow>
     ((i32 \<times> UsbRightManager) \<times> 'w) option" where
  "RightManager_RequestRight E x deviceName bundleName rm w =
     (if RightManager_HasRight deviceName bundleName rm then Some ((UEC_OK E, rm), w)
      else
        (case GetUserAgreementByDiag x deviceName bundleName rm w of
           None \<Rightarrow> None
         | Some ((agreed, rm1), w1) \<Rightarrow>
             Some (after_agreement E deviceName bundleName agreed rm1, w1)))"

section \<open>Invariant and the set of rights\<close>

text \<open>Every entry lists at least one bundle and none twice.\<close>

definition right_inv :: "UsbRightManager \<Rightarrow> bool" where
  "right_inv rm \<longleftrightarrow> cmap_ok (rightMap rm) \<and>
     (\<forall>d bs. map_of (rightMap rm) d = Some bs \<longrightarrow> bs \<noteq> [] \<and> distinct bs)"

definition rights :: "UsbRightManager \<Rightarrow> (string \<times> string) set" where
  "rights rm = {(d, b). RightManager_HasRight d b rm}"

lemma HasRight_iff: "RightManager_HasRight d b rm \<longleftrightarrow> (d, b) \<in> rights rm"
  by (simp add: rights_def)

lemma rights_iff: "(d, b) \<in> rights rm \<longleftrightarrow> (\<exists>bs. map_of (rightMap rm) d = Some bs \<and> b \<in> set bs)"
  by (auto simp: rights_def RightManager_HasRight_def split: option.splits)

lemma right_inv_new [simp]: "right_inv UsbRightManager_new"
  by (simp add: right_inv_def UsbRightManager_new_def)

lemma rights_new [simp]: "rights UsbRightManager_new = {}"
  by (auto simp: rights_def RightManager_HasRight_def UsbRightManager_new_def)

lemma right_inv_dialog [simp]: "right_inv (rm\<lparr>rm_dialogId := i\<rparr>) = right_inv rm"
  by (simp add: right_inv_def)

lemma rights_dialog [simp]: "rights (rm\<lparr>rm_dialogId := i\<rparr>) = rights rm"
  by (simp add: rights_def RightManager_HasRight_def)

text \<open>The three cases of adding a right.\<close>

lemma AddDeviceRight_None:
  "map_of (rightMap rm) d = None \<Longrightarrow> RightManager_AddDeviceRight d b rm =
     (True, rm\<lparr>rightMap := fst (cmap_insert d [b] (rightMap rm))\<rparr>)"
  by (simp add: RightManager_AddDeviceRight_def)

lemma AddDeviceRight_old:
  "map_of (rightMap rm) d = Some v \<Longrightarrow> b \<in> set v \<Longrightarrow> RightManager_AddDeviceRight d b rm = (False, rm)"
  by (simp add: RightManager_AddDeviceRight_def)

lemma AddDeviceRight_append:
  "cmap_ok (rightMap rm) \<Longrightarrow> map_of (rightMap rm) d = Some v \<Longrightarrow> b \<notin> set v \<Longrightarrow>
     RightManager_AddDeviceRight d b rm = (True, rm\<lparr>rightMap := cmap_assign d (v @ [b]) (rightMap rm)\<rparr>)"
  by (simp add: RightManager_AddDeviceRight_def cmap_insert_present cmap_assign_ok cmap_find_assign)

lemma right_update:
  assumes "right_inv rm" and "cmap_ok m" and "bs \<noteq> []" and "distinct bs"
    and m: "\<And>n. map_of m n = (if n = d then Some bs else map_of (rightMap rm) n)"
  shows "right_inv (rm\<lparr>rightMap := m\<rparr>)"
    and "rights (rm\<lparr>rightMap := m\<rparr>) = {(n, b). if n = d then b \<in> set bs else (n, b) \<in> rights rm}"
proof -
  have sel: "rightMap (rm\<lparr>rightMap := m\<rparr>) = m" by simp
  have entries: "bs' \<noteq> [] \<and> distinct bs'" if "map_of m n = Some bs'" for n bs'
  proof (cases "n = d")
    case True
    then show ?thesis using that assms(3,4) by (simp add: m)
  next
    case False
    with that have "map_of (rightMap rm) n = Some bs'" by (simp add: m)
    then show ?thesis using assms(1) unfolding right_inv_def by blast
  qed
  show "right_inv (rm\<lparr>rightMap := m\<rparr>)"
    unfolding right_inv_def sel using assms(2) entries by blast
  show "rights (rm\<lparr>rightMap := m\<rparr>) = {(n, b). if n = d then b \<in> set bs else (n, b) \<in> rights rm}"
    by (auto simp: rights_iff m)
qed

lemma AddDeviceRight_all:
  assumes "right_inv rm"
  shows "fst (RightManager_AddDeviceRight d b rm) \<longleftrightarrow> (d, b) \<notin> rights rm" (is ?flag)
    and "right_inv (snd (RightManager_AddDeviceRight d b rm))" (is ?inv)
    and "rights (snd (RightManager_AddDeviceRight d b rm)) = insert (d, b) (rights rm)" (is ?rights)
proof -
  have ok: "cmap_ok (rightMap rm)" using assms by (simp add: right_inv_def)
  consider (none) "map_of (rightMap rm) d = None"
    | (old) v where "map_of (rightMap rm) d = Some v" "b \<in> set v"
    | (app) v where "map_of (rightMap rm) d = Some v" "b \<notin> set v" by blast
  then have "?flag \<and> ?inv \<and> ?rights"
  proof cases
    case none
    have "(d, c) \<notin> rights rm" for c using none by (simp add: rights_iff)
    then show ?thesis
      using right_update [OF assms cmap_insert_ok [OF ok], of "[b]" d] none ok
      by (auto simp: AddDeviceRight_None cmap_find_insert)
  next
    case old
    with assms show ?thesis by (auto simp: AddDeviceRight_old rights_iff)
  next
    case app
    have find: "map_of (cmap_assign d (v @ [b]) (rightMap rm)) n =
        (if n = d then Some (v @ [b]) else map_of (rightMap rm) n)" for n
      using app by (simp add: cmap_find_assign)
    have "v \<noteq> []" "distinct v" using assms app(1) unfolding right_inv_def by blast+
    then show ?thesis
      using right_update [OF assms cmap_assign_ok [OF ok], of "v @ [b]" d] app find ok
      by (auto simp: AddDeviceRight_append rights_iff)
  qed
  then show ?flag ?inv ?rights by blast+
qed

lemmas AddDeviceRight_flag = AddDeviceRight_all(1)
lemmas AddDeviceRight_inv [usb_inv] = AddDeviceRight_all(2)
lemmas AddDeviceRight_rights = AddDeviceRight_all(3)

lemma AddDeviceRight_dialog [simp]:
  fixes rm :: UsbRightManager
  shows "rm_dialogId (snd (RightManager_AddDeviceRight d b rm)) = rm_dialogId rm"
  by (simp add: RightManager_AddDeviceRight_def split: option.splits)

lemma RemoveDeviceRight_map:
  "rightMap (snd (RightManager_RemoveDeviceRight d rm)) = cmap_erase d (rightMap rm)"
  by (cases "map_of (rightMap rm) d") (simp_all add: RightManager_RemoveDeviceRight_def cmap_erase_absent)

lemma RemoveDeviceRight_inv [usb_inv]:
  "right_inv rm \<Longrightarrow> right_inv (snd (RightManager_RemoveDeviceRight d rm))"
  unfolding right_inv_def RemoveDeviceRight_map cmap_find_erase
  by (metis cmap_erase_ok option.distinct(1))

lemma RemoveDeviceRight_rights:
  "rights (snd (RightManager_RemoveDeviceRight d rm)) = {p \<in> rights rm. fst p \<noteq> d}"
  by (auto simp: rights_iff RemoveDeviceRight_map cmap_find_erase split: if_splits)

lemma RemoveDeviceRight_flag:
  "right_inv rm \<Longrightarrow> fst (RightManager_RemoveDeviceRight d rm) \<longleftrightarrow> (\<exists>b. (d, b) \<in> rights rm)"
proof (cases "map_of (rightMap rm) d")
  case (Some bs)
  assume "right_inv rm"
  with Some have "bs \<noteq> []" unfolding right_inv_def by blast
  with Some show ?thesis
    by (auto simp: RightManager_RemoveDeviceRight_def rights_iff intro: last_in_set)
qed (simp add: RightManager_RemoveDeviceRight_def rights_iff)

lemma RemoveDeviceRight_dialog [simp]:
  "rm_dialogId (snd (RightManager_RemoveDeviceRight d rm)) = rm_dialogId rm"
  by (simp add: RightManager_RemoveDeviceRight_def split: option.splits)

section \<open>The contract\<close>

definition grant_right :: "string \<Rightarrow> string \<Rightarrow> UsbRightManager \<Rightarrow> UsbRightManager" where
  "grant_right d b rm = snd (RightManager_AddDeviceRight d b rm)"

definition revoke_rights :: "string \<Rightarrow> UsbRightManager \<Rightarrow> UsbRightManager" where
  "revoke_rights d rm = snd (RightManager_RemoveDeviceRight d rm)"

interpretation right_access: access_control right_inv rights grant_right revoke_rights
  by unfold_locales
    (simp_all add: grant_right_def revoke_rights_def AddDeviceRight_inv AddDeviceRight_rights
      RemoveDeviceRight_inv RemoveDeviceRight_rights)

text \<open>
  After any sequence of grants and revocations from the initial state, an application has
  the right to a device exactly when it was granted and the device not revoked afterwards, and
  the query the service answers with reports exactly that.
\<close>

theorem HasRight_history:
  "RightManager_HasRight d b (run_rights grant_right revoke_rights ops UsbRightManager_new) \<longleftrightarrow>
     held_after ops d b False"
  using right_access.run_rights_perms [OF right_inv_new, of d b ops] by (simp add: HasRight_iff)

section \<open>A request\<close>

lemma after_agreement_spec:
  assumes "right_inv rm" and "codes_ok E"
  shows "right_inv (snd (after_agreement E d b a rm))"
    and "rights (snd (after_agreement E d b a rm)) = (if a then insert (d, b) (rights rm) else rights rm)"
    and "(d, b) \<notin> rights rm \<Longrightarrow> fst (after_agreement E d b a rm) =
      (if a then UEC_OK E else UEC_SERVICE_PERMISSION_DENIED E)"
  using assms AddDeviceRight_inv [OF assms(1), of d b] AddDeviceRight_rights [OF assms(1), of d b]
    AddDeviceRight_flag [OF assms(1), of d b]
  by (auto simp: after_agreement_def HasRight_iff Let_def split: prod.splits)

lemma after_agreement_dialog:
  fixes rm :: UsbRightManager
  shows "rm_dialogId (snd (after_agreement E d b a rm)) = rm_dialogId rm"
  by (simp add: after_agreement_def Let_def split_beta)

text \<open>Whether the dialog of this request ends with the user's consent.\<close>

definition user_allows :: "'w ext \<Rightarrow> string \<Rightarrow> string \<Rightarrow> UsbRightManager \<Rightarrow> 'w \<Rightarrow> bool" where
  "user_allows x d b rm w \<longleftrightarrow> rm_dialogId rm <s 0 \<and>
     (case fst (fst (show_dialog x d b rm w)) of
        None \<Rightarrow> False | Some (_, event) \<Rightarrow> event = ''EVENT_ALLOW'')"

lemma GetUserAgreement_spec:
  "case GetUserAgreementByDiag x d b rm w of
     None \<Rightarrow> rm_dialogId rm <s 0 \<and> fst (fst (show_dialog x d b rm w)) = None
   | Some ((a, rm'), w') \<Rightarrow> a = user_allows x d b rm w \<and> right_inv rm' = right_inv rm \<and>
       rights rm' = rights rm"
  by (auto simp: GetUserAgreementByDiag_def user_allows_def dialog_callback_def show_dialog_def
      Let_def word_sless_alt word_sle_eq split: prod.splits option.splits)

text \<open>
  A request for a right reports success exactly when the application holds the right
  afterwards.  It adds a right only when the user allowed it in the dialog of this very request,
  never removes or adds any other, and keeps the invariant.  It fails to return only when the
  dialog was shown and never called back.
\<close>

theorem RequestRight_needs_consent:
  assumes "right_inv rm" and "codes_ok E"
  shows "case RightManager_RequestRight E x d b rm w of
      None \<Rightarrow> (d, b) \<notin> rights rm \<and> rm_dialogId rm <s 0 \<and> fst (fst (show_dialog x d b rm w)) = None
    | Some ((r, rm'), w') \<Rightarrow>
        right_inv rm' \<and> (r = UEC_OK E \<longleftrightarrow> (d, b) \<in> rights rm') \<and>
        rights rm' = (if user_allows x d b rm w then insert (d, b) (rights rm) else rights rm)"
proof (cases "(d, b) \<in> rights rm")
  case True
  then show ?thesis using assms by (simp add: RightManager_RequestRight_def HasRight_iff insert_absorb)
next
  case False
  note spec = GetUserAgreement_spec [where x = x and d = d and b = b and rm = rm and w = w]
  show ?thesis
  proof (cases "GetUserAgreementByDiag x d b rm w")
    case None
    with spec False show ?thesis by (simp add: RightManager_RequestRight_def HasRight_iff)
  next
    case (Some r)
    obtain a rm1 w1 where r: "r = ((a, rm1), w1)" by (metis surj_pair)
    have rm1: "a = user_allows x d b rm w" "right_inv rm1" "rights rm1 = rights rm"
      using spec Some r assms(1) by auto
    have "UEC_SERVICE_PERMISSION_DENIED E \<noteq> UEC_OK E" using assms(2) by (simp add: codes_ok_def)
    with after_agreement_spec [OF rm1(2) assms(2), of d b a] rm1 False Some r show ?thesis
      by (auto simp: RightManager_RequestRight_def HasRight_iff split: prod.splits)
  qed
qed

definition asking_state :: "string list \<Rightarrow> sample_world" where
  "asking_state as = sample_state\<lparr>sw_answers := as\<rparr>"

lemma sample_right_request:
  "RightManager_RequestRight sample_codes sample_ext ''1-2'' ''com.a'' UsbRightManager_new
     (asking_state [''EVENT_ALLOW'']) =
   Some ((0, \<lparr>rightMap = [(''1-2'', [''com.a''])], rm_dialogId = -1\<rparr>), asking_state [])"
  by code_simp

theorem RequestRight_needs_consent_witness:
  "rights (\<lparr>rightMap = [(''1-2'', [''com.a''])], rm_dialogId = -1\<rparr>) = {(''1-2'', ''com.a'')}"
proof -
  have "user_allows sample_ext ''1-2'' ''com.a'' UsbRightManager_new (asking_state [''EVENT_ALLOW''])"
    by code_simp
  then show ?thesis
    using RequestRight_needs_consent [OF right_inv_new codes_ok_sample, where x = sample_ext
        and d = "''1-2''" and b = "''com.a''" and w = "asking_state [''EVENT_ALLOW'']"]
    by (simp add: sample_right_request)
qed

section \<open>Requests of several threads\<close>

text \<open>
  A request that shows the dialog is a thread that first waits and then, once answered, ends
  with \<open>after_agreement\<close>.  Requests that return at once change nothing and are no step.  The
  state has the manager, the threads, the pairs the user ever allowed (an observer's record that
  no step reads) and the world, which others may change at any time.
\<close>

datatype request_phase = Asking | Answered bool

type_synonym right_thread = "string \<times> string \<times> request_phase"

type_synonym 'w right_system =
  "UsbRightManager \<times> right_thread list \<times> (string \<times> string) set \<times> 'w"

inductive right_step :: "uec_codes \<Rightarrow> 'w ext \<Rightarrow> 'w right_system \<Rightarrow> 'w right_system \<Rightarrow> bool"
  for E :: uec_codes and x :: "'w ext" where
  ask: "\<not> RightManager_HasRight d b rm \<Longrightarrow> \<not> 0 \<le>s rm_dialogId rm \<Longrightarrow>
     show_dialog x d b rm w = ((ans, rm'), w') \<Longrightarrow>
     right_step E x (rm, ts, al, w) (rm', (d, b, Asking) # ts, al, w')"
| answer: "dialog_callback x cb event False rm w = ((a, rm'), w') \<Longrightarrow>
     right_step E x (rm, us @ (d, b, Asking) # vs, al, w)
       (rm', us @ (d, b, Answered a) # vs,
        if event = ''EVENT_ALLOW'' then insert (d, b) al else al, w')"
| finish: "after_agreement E d b a rm = (r, rm') \<Longrightarrow>
     right_step E x (rm, us @ (d, b, Answered a) # vs, al, w) (rm', us @ vs, al, w)"
| revoke: "RightManager_RemoveDeviceRight d rm = (r, rm') \<Longrightarrow>
     right_step E x (rm, ts, al, w) (rm', ts, al, w)"
| others: "right_step E x (rm, ts, al, w) (rm, ts, al, w')"

inductive right_reachable :: "uec_codes \<Rightarrow> 'w ext \<Rightarrow> 'w right_system \<Rightarrow> bool"
  for E :: uec_codes and x :: "'w ext" where
  start: "right_reachable E x (UsbRightManager_new, [], {}, w)"
| step: "right_reachable E x s \<Longrightarrow> right_step E x s s' \<Longrightarrow> right_reachable E x s'"

definition consent_inv :: "'w right_system \<Rightarrow> bool" where
  "consent_inv s \<longleftrightarrow> (case s of (rm, ts, al, w) \<Rightarrow> right_inv rm \<and> rights rm \<subseteq> al \<and>
     (\<forall>d b. (d, b, Answered True) \<in> set ts \<longrightarrow> (d, b) \<in> al))"

lemma show_dialog_rm:
  assumes "show_dialog x d b rm w = ((ans, rm'), w')"
  shows "\<exists>dlg. rm' = rm\<lparr>rm_dialogId := dlg\<rparr>"
  using assms by (auto simp: show_dialog_def Let_def split: prod.splits)

lemma dialog_callback_rm:
  assumes "dialog_callback x cb event False rm w = ((a, rm'), w')"
  shows "a \<longleftrightarrow> event = ''EVENT_ALLOW''" and "rm' = rm\<lparr>rm_dialogId := -1\<rparr>"
  using assms by (auto simp: dialog_callback_def Let_def split: if_splits)

lemma consent_step [usb_inv]:
  assumes "codes_ok E" and "right_step E x s s'" and "consent_inv s"
  shows "consent_inv s'"
  using assms(2,3)
proof cases
  case (ask d b rm w ans rm' w' ts al)
  with assms(3) show ?thesis by (auto simp: consent_inv_def dest!: show_dialog_rm)
next
  case (answer cb event rm w a rm' w' us d b vs al)
  with assms(3) dialog_callback_rm [OF answer(3)] show ?thesis by (auto simp: consent_inv_def)
next
  case (finish d b a rm r rm' us vs al w)
  with assms(3) after_agreement_spec [of rm E d b a] assms(1) show ?thesis
    by (cases a) (auto simp: consent_inv_def)
next
  case (revoke d rm r rm' ts al w)
  with assms(3) RemoveDeviceRight_inv [of rm d] RemoveDeviceRight_rights [of d rm] show ?thesis
    by (auto simp: consent_inv_def)
next
  case (others rm ts al w w')
  with assms(3) show ?thesis by (simp add: consent_inv_def)
qed

lemma consent_reachable: "codes_ok E \<Longrightarrow> right_reachable E x s \<Longrightarrow> consent_inv s"
proof -
  assume E: "codes_ok E" and "right_reachable E x s"
  from this(2) show ?thesis
    by (induction rule: right_reachable.induct)
      (simp_all add: consent_inv_def [of "(UsbRightManager_new, [], {}, _)"] consent_step [OF E])
qed

text \<open>
  However the requests and revocations of several threads interleave, no application ever
  holds a right that the user did not allow in a dialog for that device and that application.
\<close>

theorem rights_need_consent:
  assumes "codes_ok E" and "right_reachable E x (rm, ts, al, w)"
  shows "rights rm \<subseteq> al"
  using consent_reachable [OF assms] by (simp add: consent_inv_def)

text \<open>A run: one request asks, is allowed and ends.\<close>

definition granted_rm :: UsbRightManager where
  "granted_rm = \<lparr>rightMap = [(''1-2'', [''com.a''])], rm_dialogId = -1\<rparr>"

lemma asked_reachable:
  "right_reachable sample_codes sample_ext
     (UsbRightManager_new\<lparr>rm_dialogId := 5\<rparr>, [(''1-2'', ''com.a'', Asking)], {}, asking_state [])"
proof (rule right_reachable.step [OF right_reachable.start])
  have "\<not> RightManager_HasRight ''1-2'' ''com.a'' UsbRightManager_new"
    "\<not> 0 \<le>s rm_dialogId UsbRightManager_new" by code_simp+
  moreover have "show_dialog sample_ext ''1-2'' ''com.a'' UsbRightManager_new (asking_state [''EVENT_ALLOW'']) =
      ((Some (5, ''EVENT_ALLOW''), UsbRightManager_new\<lparr>rm_dialogId := 5\<rparr>), asking_state [])"
    by code_simp
  ultimately show "right_step sample_codes sample_ext
      (UsbRightManager_new, [], {}, asking_state [''EVENT_ALLOW''])
      (UsbRightManager_new\<lparr>rm_dialogId := 5\<rparr>, [(''1-2'', ''com.a'', Asking)], {}, asking_state [])"
    by (rule right_step.ask)
qed

lemma granted_reachable:
  "right_reachable sample_codes sample_ext (granted_rm, [], {(''1-2'', ''com.a'')}, asking_state [])"
proof -
  let ?rm = "UsbRightManager_new\<lparr>rm_dialogId := 5\<rparr>"
  have "dialog_callback sample_ext 5 ''EVENT_ALLOW'' False ?rm (asking_state []) =
      ((True, UsbRightManager_new), asking_state [])" by code_simp
  from right_step.answer [where us = "[]" and vs = "[]", OF this]
  have answered: "right_reachable sample_codes sample_ext
      (UsbRightManager_new, [(''1-2'', ''com.a'', Answered True)], {(''1-2'', ''com.a'')}, asking_state [])"
    using right_reachable.step [OF asked_reachable] by force
  have "after_agreement sample_codes ''1-2'' ''com.a'' True UsbRightManager_new = (0, granted_rm)"
    by code_simp
  from right_step.finish [where us = "[]" and vs = "[]", OF this]
  show ?thesis using right_reachable.step [OF answered] by force
qed

theorem rights_need_consent_witness:
  "rights granted_rm \<subseteq> {(''1-2'', ''com.a'')} \<and> RightManager_HasRight ''1-2'' ''com.a'' granted_rm"
  using rights_need_consent [OF codes_ok_sample granted_reachable]
  by (simp add: granted_rm_def RightManager_HasRight_def)

text \<open>The number of threads that wait for the dialog.\<close>

definition asking_threads :: "right_thread list \<Rightarrow> nat" where
  "asking_threads ts = length (filter (\<lambda>(_, _, p). p = Asking) ts)"

lemma asking_threads_simps [simp]:
  "asking_threads [] = 0"
  "asking_threads (us @ vs) = asking_threads us + asking_threads vs"
  "asking_threads ((d, b, Asking) # ts) = Suc (asking_threads ts)"
  "asking_threads ((d, b, Answered a) # ts) = asking_threads ts"
  by (simp_all add: asking_threads_def)

definition dialog_inv :: "'w right_system \<Rightarrow> bool" where
  "dialog_inv s \<longleftrightarrow> (case s of (rm, ts, al, w) \<Rightarrow>
     asking_threads ts = (if 0 \<le>s rm_dialogId rm then 1 else 0))"

definition dialog_ids_ok :: "'w ext \<Rightarrow> bool" where
  "dialog_ids_ok x \<longleftrightarrow> (\<forall>p pos w. 0 \<le>s fst (fst (x_ShowDialog x p pos w)))"

lemma show_dialog_id:
  "dialog_ids_ok x \<Longrightarrow> show_dialog x d b rm w = ((ans, rm'), w') \<Longrightarrow> 0 \<le>s rm_dialogId rm'"
  by (auto simp: show_dialog_def dialog_ids_ok_def Let_def split: prod.splits) (metis fst_conv)

lemma dialog_step [usb_inv]:
  assumes "dialog_ids_ok x" and "right_step E x s s'" and "dialog_inv s"
  shows "dialog_inv s'"
  using assms(2,3)
proof cases
  case (ask d b rm w ans rm' w' ts al)
  with assms(3) show_dialog_id [OF assms(1) ask(5)] show ?thesis by (simp add: dialog_inv_def)
next
  case (answer cb event rm w a rm' w' us d b vs al)
  with assms(3) dialog_callback_rm [OF answer(3)] show ?thesis
    by (auto simp: dialog_inv_def word_sle_eq split: if_splits)
next
  case (finish d b a rm r rm' us vs al w)
  then have "rm_dialogId rm' = rm_dialogId rm"
    using after_agreement_dialog [of E d b a rm] by simp
  with finish assms(3) show ?thesis by (simp add: dialog_inv_def)
next
  case (revoke d rm r rm' ts al w)
  with assms(3) RemoveDeviceRight_dialog [of d rm] show ?thesis by (simp add: dialog_inv_def)
next
  case (others rm ts al w w')
  with assms(3) show ?thesis by (simp add: dialog_inv_def)
qed

text \<open>
  When the UI service gives every dialog an id that is not negative, at most one request
  waits for the user at any time, and a dialog id is stored exactly while one waits.  This takes the
  test of the id and the showing of the dialog as one step; \<open>Usb_Right_Races\<close> has what happens when
  another thread comes between.
\<close>

theorem one_dialog_at_a_time:
  assumes "dialog_ids_ok x" and "right_reachable E x (rm, ts, al, w)"
  shows "asking_threads ts \<le> 1 \<and> (0 \<le>s rm_dialogId rm \<longleftrightarrow> asking_threads ts = 1)"
proof -
  have "dialog_inv s" if "right_reachable E x s" for s
    using that
  proof (induction rule: right_reachable.induct)
    case (start w)
    show ?case by (simp add: dialog_inv_def UsbRightManager_new_def word_sle_eq)
  next
    case (step s s')
    then show ?case using dialog_step [OF assms(1)] by blast
  qed
  from this [OF assms(2)] show ?thesis by (auto simp: dialog_inv_def split: if_splits)
qed

lemma sample_dialog_ids: "dialog_ids_ok sample_ext"
  by (simp add: dialog_ids_ok_def sample_ext_def word_sle_eq split: list.splits)

theorem one_dialog_at_a_time_witness:
  "asking_threads [(''1-2'', ''com.a'', Asking)] \<le> 1 \<and>
   0 \<le>s rm_dialogId (UsbRightManager_new\<lparr>rm_dialogId := 5\<rparr>)"
  using one_dialog_at_a_time [OF sample_dialog_ids asked_reachable] by simp

end
