(* ===== verification/Usb_Ports.thy ===== *)
theory Usb_Ports
  imports Usb_Contracts
begin

text \<open>
  The port manager (\<open>usb_port_manager.cpp\<close>): the table of USB ports, filled from the driver on
  demand and updated by its port events.
\<close>

section \<open>State and operations\<close>

definition SUPPORTED_MODES :: i32 where "SUPPORTED_MODES = 3"

text \<open>A map keyed by \<open>int32_t\<close> iterates in the order of the signed keys.\<close>

record UsbPortManager =
  portMap :: "(int, UsbPort) cmap"

definition UsbPortManager_new :: UsbPortManager where
  "UsbPortManager_new = \<lparr>portMap = []\<rparr>"

definition PortManager_AddPort :: "UsbPort \<Rightarrow> UsbPortManager \<Rightarrow> UsbPortManager" where
  "PortManager_AddPort port pm =
     (let (m, inserted) = cmap_insert (sint (port_id port)) port (portMap pm)
      in if \<not> inserted then pm else pm\<lparr>portMap := m\<rparr>)"

definition PortManager_RemovePort :: "i32 \<Rightarrow> UsbPortManager \<Rightarrow> UsbPortManager" where
  "PortManager_RemovePort portId pm = pm\<lparr>portMap := cmap_erase (sint portId) (portMap pm)\<rparr>"

definition PortManager_QueryPort ::
  "'w ext \<Rightarrow> UsbPortManager \<Rightarrow> 'w \<Rightarrow> (i32 \<times> UsbPortManager) \<times> 'w" where
  "PortManager_QueryPort x pm w =
     (let ((ret, portId, powerRole, dataRole, mode), w1) = x_QueryPort x (0, 0, 0, 0) w
      in if ret \<noteq> 0 then ((ret, pm), w1)
         else
           (let status = \<lparr>currentMode = mode, currentPowerRole = powerRole, currentDataRole = dataRole\<rparr>;
                port = \<lparr>port_id = portId, supportedModes = SUPPORTED_MODES, usbPortStatus = status\<rparr>
            in ((ret, PortManager_AddPort port pm), w1)))"

text \<open>A failed query at start is only logged.\<close>

definition PortManager_Init :: "'w ext \<Rightarrow> UsbPortManager \<Rightarrow> 'w \<Rightarrow> UsbPortManager \<times> 'w" where
  "PortManager_Init x pm w =
     (let ((ret, pm1), w1) = PortManager_QueryPort x pm w in (pm1, w1))"

definition PortManager_GetPorts ::
  "uec_codes \<Rightarrow> 'w ext \<Rightarrow> UsbPort list \<Rightarrow> UsbPortManager \<Rightarrow> 'w \<Rightarrow>
     ((i32 \<times> UsbPort list) \<times> UsbPortManager) \<times> 'w" where
  "PortManager_GetPorts E x ports pm w =
     (if length (portMap pm) > 0 then
        (((UEC_OK E, ports @ map snd (portMap pm)), pm), w)
      else
        (let ((ret, pm1), w1) = PortManager_QueryPort x pm w
         in if ret = UEC_OK E then (((ret, ports @ map snd (portMap pm1)), pm1), w1)
            else (((UEC_SERVICE_INVALID_VALUE E, ports), pm1), w1)))"

definition PortManager_GetSupportedModes ::
  "uec_codes \<Rightarrow> i32 \<Rightarrow> i32 \<Rightarrow> UsbPortManager \<Rightarrow> i32 \<times> i32" where
  "PortManager_GetSupportedModes E portId modes pm =
     (case map_of (portMap pm) (sint portId) of
        Some port \<Rightarrow> (UEC_OK E, supportedModes port)
      | None \<Rightarrow> (UEC_SERVICE_INVALID_VALUE E, modes))"

definition PortManager_UpdatePort ::
  "i32 \<Rightarrow> i32 \<Rightarrow> i32 \<Rightarrow> i32 \<Rightarrow> UsbPortManager \<Rightarrow> UsbPortManager" where
  "PortManager_UpdatePort portId powerRole dataRole mode pm =
     (case map_of (portMap pm) (sint portId) of
        Some port \<Rightarrow>
          (if port_id port = portId then
             pm\<lparr>portMap := cmap_assign (sint portId)
               (port\<lparr>usbPortStatus := \<lparr>currentMode = mode, currentPowerRole = powerRole,
                  currentDataRole = dataRole\<rparr>\<rparr>) (portMap pm)\<rparr>
           else pm)
      | None \<Rightarrow> pm)"

section \<open>Invariant and abstract table\<close>

text \<open>Every port is stored under its own id.\<close>

definition port_inv :: "UsbPortManager \<Rightarrow> bool" where
  "port_inv pm \<longleftrightarrow> cmap_ok (portMap pm) \<and> (\<forall>(k, p) \<in> set (portMap pm). k = sint (port_id p))"

definition port_abs :: "UsbPortManager \<Rightarrow> i32 \<rightharpoonup> UsbPort" where
  "port_abs pm i = map_of (portMap pm) (sint i)"

lemma port_inv_new [simp]: "port_inv UsbPortManager_new"
  by (simp add: port_inv_def UsbPortManager_new_def)

lemma port_abs_new [simp]: "port_abs UsbPortManager_new = Map.empty"
  by (rule ext) (simp add: port_abs_def UsbPortManager_new_def)

lemma sint_eq_iff [simp]: "sint (a :: i32) = sint b \<longleftrightarrow> a = b"
  by (auto intro: signed_word_eqI)

lemma port_inv_iff:
  "port_inv pm \<longleftrightarrow> cmap_ok (portMap pm) \<and>
     (\<forall>k p. map_of (portMap pm) k = Some p \<longrightarrow> k = sint (port_id p))"
  unfolding port_inv_def by (rule conj_cong [OF refl]) (fastforce simp flip: cmap_find_in)

lemma port_keyed: "port_inv pm \<Longrightarrow> port_abs pm i = Some p \<Longrightarrow> port_id p = i"
  unfolding port_inv_iff port_abs_def by (metis sint_eq_iff)

text \<open>The status of a port replaced.\<close>

definition with_status :: "i32 \<Rightarrow> i32 \<Rightarrow> i32 \<Rightarrow> UsbPort \<Rightarrow> UsbPort" where
  "with_status powerRole dataRole mode p =
     p\<lparr>usbPortStatus := \<lparr>currentMode = mode, currentPowerRole = powerRole, currentDataRole = dataRole\<rparr>\<rparr>"

lemma AddPort_all [usb_inv]:
  assumes "port_inv pm"
  shows "port_inv (PortManager_AddPort p pm)" (is ?inv)
    and "port_abs (PortManager_AddPort p pm) =
      (if port_abs pm (port_id p) = None then (port_abs pm)(port_id p \<mapsto> p) else port_abs pm)" (is ?abs)
proof -
  obtain m b where ins: "cmap_insert (sint (port_id p)) p (portMap pm) = (m, b)" by (metis surj_pair)
  have ok: "cmap_ok (portMap pm)" using assms by (simp add: port_inv_iff)
  have m: "cmap_ok m" "\<And>k. map_of m k = (if k = sint (port_id p) \<and>
      map_of (portMap pm) (sint (port_id p)) = None then Some p else map_of (portMap pm) k)"
    using cmap_insert_ok [OF ok, of "sint (port_id p)" p] cmap_find_insert [OF ok, of "sint (port_id p)" p]
    by (simp_all add: ins)
  have b: "b \<longleftrightarrow> map_of (portMap pm) (sint (port_id p)) = None"
    using cmap_insert_flag [OF ok, of "sint (port_id p)" p] by (simp add: ins)
  show ?inv
    using assms m b by (auto simp: PortManager_AddPort_def ins port_inv_iff)
  show ?abs
    using m b by (auto simp: PortManager_AddPort_def ins port_abs_def fun_eq_iff)
qed

lemma RemovePort_all [usb_inv]:
  assumes "port_inv pm"
  shows "port_inv (PortManager_RemovePort i pm)"
    and "port_abs (PortManager_RemovePort i pm) = (port_abs pm)(i := None)"
  using assms
  by (auto simp: PortManager_RemovePort_def port_inv_iff port_abs_def cmap_find_erase cmap_erase_ok
      fun_eq_iff split: if_splits)

lemma UpdatePort_all [usb_inv]:
  assumes "port_inv pm"
  shows "port_inv (PortManager_UpdatePort i powerRole dataRole mode pm)"
    and "port_abs (PortManager_UpdatePort i powerRole dataRole mode pm) =
      (port_abs pm)(i := map_option (with_status powerRole dataRole mode) (port_abs pm i))"
proof -
  have "PortManager_UpdatePort i powerRole dataRole mode pm =
      (case map_of (portMap pm) (sint i) of None \<Rightarrow> pm
       | Some p \<Rightarrow> pm\<lparr>portMap := cmap_assign (sint i) (with_status powerRole dataRole mode p) (portMap pm)\<rparr>)"
    using port_keyed [OF assms, of i]
    by (auto simp: PortManager_UpdatePort_def with_status_def port_abs_def split: option.splits)
  moreover have "port_id (with_status powerRole dataRole mode p) = port_id p" for p
    by (simp add: with_status_def)
  ultimately show "port_inv (PortManager_UpdatePort i powerRole dataRole mode pm)"
    "port_abs (PortManager_UpdatePort i powerRole dataRole mode pm) =
      (port_abs pm)(i := map_option (with_status powerRole dataRole mode) (port_abs pm i))"
    using assms port_keyed [OF assms, of i]
    by (auto simp: port_inv_iff port_abs_def cmap_find_assign cmap_assign_ok fun_eq_iff
        split: option.splits if_splits)
qed

section \<open>Properties of the port table\<close>

lemma QueryPort_spec:
  assumes "port_inv pm"
  shows "case x_QueryPort x (0, 0, 0, 0) w of ((ret, portId, powerRole, dataRole, mode), w') \<Rightarrow>
    (\<exists>pm'. PortManager_QueryPort x pm w = ((ret, pm'), w') \<and> port_inv pm' \<and>
      port_abs pm' = (if ret = 0 \<and> port_abs pm portId = None
        then (port_abs pm)(portId \<mapsto> \<lparr>port_id = portId, supportedModes = SUPPORTED_MODES,
          usbPortStatus = \<lparr>currentMode = mode, currentPowerRole = powerRole, currentDataRole = dataRole\<rparr>\<rparr>)
        else port_abs pm))"
  using AddPort_all [OF assms] assms
  by (auto simp: PortManager_QueryPort_def Let_def split: prod.splits)

text \<open>
  Reporting new roles and a new mode for a port changes the status of that port and nothing
  else; it never creates a port, whatever id the driver reports, and keeps the invariant that
  every port is stored under its id.
\<close>

theorem PortManager_UpdatePort_refines:
  assumes "port_inv pm"
  shows "port_inv (PortManager_UpdatePort i powerRole dataRole mode pm) \<and>
    port_abs (PortManager_UpdatePort i powerRole dataRole mode pm) =
      (port_abs pm)(i := map_option (with_status powerRole dataRole mode) (port_abs pm i))"
  using UpdatePort_all [OF assms] by blast

definition sample_port :: "i32 \<Rightarrow> UsbPort" where
  "sample_port i = \<lparr>port_id = i, supportedModes = SUPPORTED_MODES,
     usbPortStatus = \<lparr>currentMode = 1, currentPowerRole = 1, currentDataRole = 2\<rparr>\<rparr>"

definition sample_ports :: UsbPortManager where
  "sample_ports = PortManager_AddPort (sample_port 1) UsbPortManager_new"

lemma sample_ports_ok: "port_inv sample_ports"
  unfolding sample_ports_def by (rule AddPort_all) simp

theorem PortManager_UpdatePort_refines_witness:
  "port_abs (PortManager_UpdatePort 1 2 1 2 sample_ports) 1 = Some (with_status 2 1 2 (sample_port 1)) \<and>
   port_abs (PortManager_UpdatePort 7 2 1 2 sample_ports) 7 = None"
proof -
  have "port_abs sample_ports 1 = Some (sample_port 1)" "port_abs sample_ports 7 = None"
    by code_simp+
  then show ?thesis
    using PortManager_UpdatePort_refines [OF sample_ports_ok, of 1 2 1 2]
      PortManager_UpdatePort_refines [OF sample_ports_ok, of 7 2 1 2] by simp
qed

text \<open>
  The list of ports has no duplicates and ascending ids, and lists exactly the table.  A
  table that is not empty is answered without asking the driver; an empty one is filled with
  the one port the driver reports, and if the driver fails the caller gets the invalid-value
  code and an unchanged list.
\<close>

theorem PortManager_GetPorts_spec:
  assumes "port_inv pm" and "codes_ok E"
  shows "case PortManager_GetPorts E x ports pm w of (((ret, ports'), pm'), w') \<Rightarrow>
    port_inv pm' \<and>
    (if port_abs pm = Map.empty \<and> fst (fst (x_QueryPort x (0, 0, 0, 0) w)) \<noteq> 0
     then ret = UEC_SERVICE_INVALID_VALUE E \<and> ports' = ports \<and> pm' = pm
     else ret = UEC_OK E \<and>
       (\<exists>ps. ports' = ports @ ps \<and> sorted_wrt (<) (map (\<lambda>p. sint (port_id p)) ps) \<and>
          (\<forall>p. p \<in> set ps \<longleftrightarrow> port_abs pm' (port_id p) = Some p) \<and>
          (port_abs pm \<noteq> Map.empty \<longrightarrow> pm' = pm \<and> w' = w)))"
proof -
  have listing: "sorted_wrt (<) (map (\<lambda>p. sint (port_id p)) (map snd (portMap q))) \<and>
      (\<forall>p. p \<in> set (map snd (portMap q)) \<longleftrightarrow> port_abs q (port_id p) = Some p)" if "port_inv q" for q
  proof -
    have "map (\<lambda>p. sint (port_id p)) (map snd (portMap q)) = map fst (portMap q)"
      using that by (auto simp: port_inv_def)
    moreover have "p \<in> set (map snd (portMap q)) \<longleftrightarrow> port_abs q (port_id p) = Some p" for p
      using that by (force simp: port_inv_def port_abs_def simp flip: cmap_find_in)
    ultimately show ?thesis using that by (simp add: port_inv_def cmap_ok_def del: map_map)
  qed
  have empty: "port_abs pm = Map.empty \<longleftrightarrow> portMap pm = []"
  proof
    assume e: "port_abs pm = Map.empty"
    show "portMap pm = []"
    proof (rule ccontr)
      assume "portMap pm \<noteq> []"
      then obtain p where "p \<in> set (map snd (portMap pm))" by (cases "portMap pm") auto
      with listing [OF assms(1)] e show False by simp
    qed
  qed (simp add: port_abs_def fun_eq_iff)
  show ?thesis
  proof (cases "portMap pm = []")
    case True
    obtain ret i p d m w1 where q: "x_QueryPort x (0, 0, 0, 0) w = ((ret, i, p, d, m), w1)"
      by (metis surj_pair)
    from QueryPort_spec [OF assms(1), where x = x and w = w]
    obtain pm' where pm': "PortManager_QueryPort x pm w = ((ret, pm'), w1)" "port_inv pm'"
      by (auto simp: q)
    have fail: "ret \<noteq> 0 \<Longrightarrow> pm' = pm"
      using pm'(1) by (auto simp: PortManager_QueryPort_def q split: if_splits)
    show ?thesis
      using True pm' fail listing [OF pm'(2)] assms(2) empty
      by (auto simp: PortManager_GetPorts_def q codes_okD)
  next
    case False
    then show ?thesis
      using listing [OF assms(1)] assms(1) empty by (auto simp: PortManager_GetPorts_def)
  qed
qed

theorem PortManager_GetPorts_spec_witness:
  "fst (fst (PortManager_GetPorts sample_codes sample_ext [] sample_ports sample_state)) =
     (0, [sample_port 1]) \<and> port_inv sample_ports"
proof -
  have "fst (fst (PortManager_GetPorts sample_codes sample_ext [] sample_ports sample_state)) =
     (0, [sample_port 1])" by code_simp
  then show ?thesis
    using PortManager_GetPorts_spec [OF sample_ports_ok codes_ok_sample, where x = sample_ext
        and ports = "[]" and w = sample_state] sample_ports_ok by simp
qed

end
