(* ===== verification/Usb_Service.thy ===== *)
theory Usb_Service
  imports Usb_Descriptor_Safety Usb_Functions Usb_Host Usb_Right Usb_Ports
begin

text \<open>
  The service (\<open>usb_service.cpp\<close>) and the subscriber that feeds it driver events
  (\<open>usb_service_subscriber.cpp\<close>).  The service holds the four managers behind pointers
  (\<open>None\<close> is null); its operations take and return the service and the world.
\<close>

section \<open>State\<close>

record UsbService =
  sv_ready :: bool
  sv_commEventRetryTimes :: i32
  sv_host :: "UsbHostManager option"
  sv_right :: "UsbRightManager option"
  sv_port :: "UsbPortManager option"
  sv_device :: "UsbDeviceManager option"
  sv_eventRunner :: bool
  sv_handler :: bool
  sv_subscriber :: bool

definition UsbService_new :: UsbService where
  "UsbService_new = \<lparr>sv_ready = False, sv_commEventRetryTimes = 0,
     sv_host = Some UsbHostManager_new, sv_right = Some UsbRightManager_new,
     sv_port = Some UsbPortManager_new, sv_device = Some UsbDeviceManager_new,
     sv_eventRunner = False, sv_handler = False, sv_subscriber = False\<rparr>"

section \<open>Start and stop\<close>

definition COMMEVENT_REGISTER_RETRY_TIMES :: i32 where "COMMEVENT_REGISTER_RETRY_TIMES = 10"
definition SERVICE_STARTUP_MAX_TIME :: nat where "SERVICE_STARTUP_MAX_TIME = 30"

definition IsCommonEventServiceAbilityExist :: "'w ext \<Rightarrow> 'w \<Rightarrow> bool \<times> 'w" where
  "IsCommonEventServiceAbilityExist x w =
     (if \<not> x_HasSystemAbilityManager x w then (False, w)
      else
        (let (remote, w1) = x_HasCommonEventService x w
         in if \<not> remote then (False, w1) else (True, w1)))"

text \<open>
  The loop that waits for the common event service: it ends since each round resets the counter
  and leaves, or increments it.
\<close>

function wait_common_event :: "'w ext \<Rightarrow> i32 \<Rightarrow> 'w \<Rightarrow> i32 \<times> 'w" where
  "wait_common_event x tries w =
     (if tries \<le>s COMMEVENT_REGISTER_RETRY_TIMES then
        (let (found, w1) = IsCommonEventServiceAbilityExist x w
         in if \<not> found then wait_common_event x (tries + 1) w1 else (0, w1))
      else (tries, w))"
  by auto
termination
proof (relation "measure (\<lambda>(x, tries, w). nat (11 - sint tries))", goal_cases)
  case (2 x tries w xa y)
  then have "sint tries \<le> 10"
    by (simp add: word_sle_eq COMMEVENT_REGISTER_RETRY_TIMES_def)
  moreover have "- 2147483648 \<le> sint tries" using sint_ge [of tries] by simp
  ultimately have "sint (tries + 1) = sint tries + 1"
    using \<open>sint tries \<le> 10\<close> by (simp add: sint_word_ariths signed_take_bit_int_eq_self)
  with \<open>sint tries \<le> 10\<close> show ?case by simp
qed simp

declare wait_common_event.simps [simp del]

definition Service_Init :: "'w ext \<Rightarrow> UsbService \<Rightarrow> 'w \<Rightarrow> (bool \<times> UsbService) \<times> 'w" where
  "Service_Init x sv w =
     (let (runner, w1) = (if \<not> sv_eventRunner sv then x_CreateEventRunner x w else (True, w));
          sv1 = sv\<lparr>sv_eventRunner := runner\<rparr>
      in if \<not> runner then ((False, sv1), w1)
         else
           (let (published, w2) = (if \<not> sv_handler sv then x_Publish x w1 else (True, w1));
                sv2 = sv1\<lparr>sv_handler := True\<rparr>
            in if \<not> published then ((False, sv2), w2)
               else
                 (let (tries, w3) = wait_common_event x (sv_commEventRetryTimes sv2) w2
                  in ((True, sv2\<lparr>sv_commEventRetryTimes := tries\<rparr>), w3))))"

text \<open>\<open>SUCCEEDED(ret)\<close> compares with \<open>ERR_OK\<close>.\<close>

definition InitUsbd :: "uec_codes \<Rightarrow> 'w ext \<Rightarrow> UsbService \<Rightarrow> 'w \<Rightarrow> (bool \<times> UsbService) \<times> 'w" where
  "InitUsbd E x sv w =
     (let (allocated, w1) = x_alloc x w;
          sv1 = sv\<lparr>sv_subscriber := allocated\<rparr>
      in if \<not> allocated then ((False, sv1), w1)
         else (let (ret, w2) = x_BindUsbdSubscriber x w1 in ((ret = ERR_OK E, sv1), w2)))"

text \<open>
  The retry loop of \<open>OnStart\<close>, its result \<open>False\<close> for the \<open>return\<close> after the last round.
\<close>

function start_loop :: "uec_codes \<Rightarrow> 'w ext \<Rightarrow> nat \<Rightarrow> UsbService \<Rightarrow> 'w \<Rightarrow> (bool \<times> UsbService) \<times> 'w" where
  "start_loop E x retryTimes sv w =
     (if retryTimes < SERVICE_STARTUP_MAX_TIME then
        (let ((bound, sv1), w1) = InitUsbd E x sv w
         in if bound then ((True, sv1), w1)
            else if retryTimes + 1 = SERVICE_STARTUP_MAX_TIME then ((False, sv1), w1)
            else start_loop E x (retryTimes + 1) sv1 w1)
      else ((True, sv), w))"
  by auto
termination by (relation "measure (\<lambda>(E, x, n, sv, w). SERVICE_STARTUP_MAX_TIME - n)") auto

declare start_loop.simps [simp del]

definition OnStart :: "uec_codes \<Rightarrow> 'w ext \<Rightarrow> UsbService \<Rightarrow> 'w \<Rightarrow> UsbService \<times> 'w" where
  "OnStart E x sv w =
     (if sv_ready sv then (sv, w)
      else
        (let ((ok, sv1), w1) = Service_Init x sv w
         in if \<not> ok then (sv1, w1)
            else
              (let ((bound, sv2), w2) = start_loop E x 0 sv1 w1
               in if \<not> bound then (sv2, w2)
                  else
                    (case sv_port sv2 of
                       None \<Rightarrow> (sv2, w2)
                     | Some pm \<Rightarrow>
                         (let (pm1, w3) = PortManager_Init x pm w2
                          in (sv2\<lparr>sv_port := Some pm1, sv_ready := True\<rparr>, w3))))))"

definition OnStop :: "'w ext \<Rightarrow> UsbService \<Rightarrow> 'w \<Rightarrow> UsbService \<times> 'w" where
  "OnStop x sv w =
     (if \<not> sv_ready sv then (sv, w)
      else
        (let (ret, w1) = x_UnbindUsbdSubscriber x w
         in (sv\<lparr>sv_eventRunner := False, sv_handler := False, sv_ready := False\<rparr>, w1)))"

section \<open>Rights and opening\<close>

text \<open>The result of \<open>GetBundleNameForUid\<close> itself is not looked at.\<close>

definition GetBundleName :: "'w ext \<Rightarrow> string \<Rightarrow> 'w \<Rightarrow> (bool \<times> string) \<times> 'w" where
  "GetBundleName x bundleName w =
     (let uid = x_GetCallingUid x w
      in if \<not> x_HasSystemAbilityManager x w then ((False, bundleName), w)
         else if \<not> x_HasBundleMgr x w then ((False, bundleName), w)
         else
           (let ((found, name), w1) = x_GetBundleNameForUid x uid bundleName w
            in ((True, name), w1)))"

definition Service_HasRight :: "'w ext \<Rightarrow> string \<Rightarrow> UsbService \<Rightarrow> 'w \<Rightarrow> bool \<times> 'w" where
  "Service_HasRight x deviceName sv w =
     (let ((ok, bundleName), w1) = GetBundleName x '''' w
      in if \<not> ok then (False, w1)
         else
           (case sv_right sv of
              None \<Rightarrow> (False, w1)
            | Some rm \<Rightarrow> (RightManager_HasRight deviceName bundleName rm, w1)))"

definition Service_OpenDevice ::
  "uec_codes \<Rightarrow> 'w ext \<Rightarrow> u8 \<Rightarrow> u8 \<Rightarrow> UsbService \<Rightarrow> 'w \<Rightarrow> i32 \<times> 'w" where
  "Service_OpenDevice E x busNum devAddr sv w =
     (let name = device_name busNum devAddr;
          (right, w1) = Service_HasRight x name sv w
      in if \<not> right then (UEC_SERVICE_PERMISSION_DENIED E, w1)
         else x_OpenDevice x \<lparr>ud_busNum = busNum, ud_devAddr = devAddr\<rparr> w1)"

definition Service_RequestRight ::
  "uec_codes \<Rightarrow> 'w ext \<Rightarrow> string \<Rightarrow> UsbService \<Rightarrow> 'w \<Rightarrow> ((i32 \<times> UsbService) \<times> 'w) option" where
  "Service_RequestRight E x deviceName sv w =
     (let ((ok, bundleName), w1) = GetBundleName x '''' w
      in if \<not> ok then Some ((UEC_SERVICE_INNER_ERR E, sv), w1)
         else
           (case sv_right sv of
              None \<Rightarrow> Some ((UEC_SERVICE_INVALID_VALUE E, sv), w1)
            | Some rm \<Rightarrow>
                (case RightManager_RequestRight E x deviceName bundleName rm w1 of
                   None \<Rightarrow> None
                 | Some ((ret, rm1), w2) \<Rightarrow> Some ((ret, sv\<lparr>sv_right := Some rm1\<rparr>), w2))))"

definition Service_RemoveRight :: "uec_codes \<Rightarrow> string \<Rightarrow> UsbService \<Rightarrow> i32 \<times> UsbService" where
  "Service_RemoveRight E deviceName sv =
     (case sv_right sv of
        None \<Rightarrow> (UEC_SERVICE_INVALID_VALUE E, sv)
      | Some rm \<Rightarrow>
          (let (removed, rm1) = RightManager_RemoveDeviceRight deviceName rm
           in if removed then (UEC_OK E, sv\<lparr>sv_right := Some rm1\<rparr>)
              else (UEC_SERVICE_INNER_ERR E, sv\<lparr>sv_right := Some rm1\<rparr>)))"

section \<open>Devices, functions and ports\<close>

text \<open>The loop over the copied map reads every device through its pointer.\<close>

fun copy_devices :: "MAP_STR_DEVICE \<Rightarrow> UsbDevice list \<Rightarrow> UsbDevice list mem" where
  "copy_devices [] deviceList = Mem deviceList"
| "copy_devices ((_, None) # m) deviceList = BadRead"
| "copy_devices ((_, Some d) # m) deviceList = copy_devices m (deviceList @ [d])"

definition Service_GetDevices ::
  "uec_codes \<Rightarrow> UsbDevice list \<Rightarrow> UsbService \<Rightarrow> (i32 \<times> UsbDevice list) mem" where
  "Service_GetDevices E deviceList sv =
     (case sv_host sv of
        None \<Rightarrow> Mem (UEC_SERVICE_INVALID_VALUE E, deviceList)
      | Some hm \<Rightarrow>
          (case copy_devices (HostManager_GetDevices hm) deviceList of
             BadRead \<Rightarrow> BadRead
           | Mem ds \<Rightarrow> Mem (UEC_OK E, ds)))"

definition Service_GetCurrentFunctions :: "'w ext \<Rightarrow> i32 \<Rightarrow> 'w \<Rightarrow> (i32 \<times> i32) \<times> 'w" where
  "Service_GetCurrentFunctions x funcs w = x_GetCurrentFunctions x funcs w"

definition Service_SetCurrentFunctions ::
  "uec_codes \<Rightarrow> 'w ext \<Rightarrow> i32 \<Rightarrow> UsbService \<Rightarrow> 'w \<Rightarrow> (i32 \<times> UsbService) \<times> 'w" where
  "Service_SetCurrentFunctions E x funcs sv w =
     (case sv_device sv of
        None \<Rightarrow> ((UEC_SERVICE_INVALID_VALUE E, sv), w)
      | Some dm \<Rightarrow>
          (let sv1 = sv\<lparr>sv_device := Some (UpdateFunctions funcs dm)\<rparr>;
               (ret, w1) = x_SetCurrentFunctions x funcs w
           in ((ret, sv1), w1)))"

definition UsbFunctionsFromString :: "uec_codes \<Rightarrow> string \<Rightarrow> i32" where
  "UsbFunctionsFromString E funcs = ConvertFromString E funcs"

definition UsbFunctionsToString :: "i32 \<Rightarrow> string" where
  "UsbFunctionsToString funcs = ConvertToString funcs"

definition Service_GetPorts ::
  "uec_codes \<Rightarrow> 'w ext \<Rightarrow> UsbPort list \<Rightarrow> UsbService \<Rightarrow> 'w \<Rightarrow>
     ((i32 \<times> UsbPort list) \<times> UsbService) \<times> 'w" where
  "Service_GetPorts E x ports sv w =
     (case sv_port sv of
        None \<Rightarrow> (((UEC_SERVICE_INVALID_VALUE E, ports), sv), w)
      | Some pm \<Rightarrow>
          (let ((res, pm1), w1) = PortManager_GetPorts E x ports pm w
           in ((res, sv\<lparr>sv_port := Some pm1\<rparr>), w1)))"

definition Service_GetSupportedModes :: "uec_codes \<Rightarrow> i32 \<Rightarrow> i32 \<Rightarrow> UsbService \<Rightarrow> i32 \<times> i32" where
  "Service_GetSupportedModes E portId modes sv =
     (case sv_port sv of
        None \<Rightarrow> (UEC_SERVICE_INVALID_VALUE E, modes)
      | Some pm \<Rightarrow> PortManager_GetSupportedModes E portId modes pm)"

definition Service_SetPortRole :: "'w ext \<Rightarrow> i32 \<Rightarrow> i32 \<Rightarrow> i32 \<Rightarrow> 'w \<Rightarrow> i32 \<times> 'w" where
  "Service_SetPortRole x portId powerRole dataRole w = x_SetPortRole x portId powerRole dataRole w"

section \<open>Transfers and settings\<close>

definition usb_dev :: "u8 \<Rightarrow> u8 \<Rightarrow> UsbDev" where
  "usb_dev busNum devAddr = \<lparr>ud_busNum = busNum, ud_devAddr = devAddr\<rparr>"

definition Service_ClaimInterface :: "'w ext \<Rightarrow> u8 \<Rightarrow> u8 \<Rightarrow> u8 \<Rightarrow> u8 \<Rightarrow> 'w \<Rightarrow> i32 \<times> 'w" where
  "Service_ClaimInterface x busNum devAddr interface force w =
     x_ClaimInterface x (usb_dev busNum devAddr) interface force w"

definition Service_ReleaseInterface :: "'w ext \<Rightarrow> u8 \<Rightarrow> u8 \<Rightarrow> u8 \<Rightarrow> 'w \<Rightarrow> i32 \<times> 'w" where
  "Service_ReleaseInterface x busNum devAddr interface w =
     x_ReleaseInterface x (usb_dev busNum devAddr) interface w"

definition Service_BulkTransferRead ::
  "'w ext \<Rightarrow> UsbDev \<Rightarrow> UsbPipe \<Rightarrow> u8 list \<Rightarrow> i32 \<Rightarrow> 'w \<Rightarrow> (i32 \<times> u8 list) \<times> 'w" where
  "Service_BulkTransferRead x dev pipe bufferData timeOut w =
     x_BulkTransferRead x dev pipe timeOut bufferData w"

definition Service_BulkTransferWrite ::
  "'w ext \<Rightarrow> UsbDev \<Rightarrow> UsbPipe \<Rightarrow> u8 list \<Rightarrow> i32 \<Rightarrow> 'w \<Rightarrow> i32 \<times> 'w" where
  "Service_BulkTransferWrite x dev pipe bufferData timeOut w =
     x_BulkTransferWrite x dev pipe timeOut bufferData w"

definition Service_ControlTransfer ::
  "'w ext \<Rightarrow> UsbDev \<Rightarrow> UsbCtrlTransfer \<Rightarrow> u8 list \<Rightarrow> 'w \<Rightarrow> (i32 \<times> u8 list) \<times> 'w" where
  "Service_ControlTransfer x dev ctrl bufferData w = x_ControlTransfer x dev ctrl bufferData w"

definition Service_SetActiveConfig :: "'w ext \<Rightarrow> u8 \<Rightarrow> u8 \<Rightarrow> u8 \<Rightarrow> 'w \<Rightarrow> i32 \<times> 'w" where
  "Service_SetActiveConfig x busNum devAddr configIndex w =
     x_SetConfig x (usb_dev busNum devAddr) configIndex w"

definition Service_GetActiveConfig :: "'w ext \<Rightarrow> u8 \<Rightarrow> u8 \<Rightarrow> u8 \<Rightarrow> 'w \<Rightarrow> (i32 \<times> u8) \<times> 'w" where
  "Service_GetActiveConfig x busNum devAddr configIndex w =
     x_GetConfig x (usb_dev busNum devAddr) configIndex w"

definition Service_SetInterface :: "'w ext \<Rightarrow> u8 \<Rightarrow> u8 \<Rightarrow> u8 \<Rightarrow> u8 \<Rightarrow> 'w \<Rightarrow> i32 \<times> 'w" where
  "Service_SetInterface x busNum devAddr interfaceid altIndex w =
     x_SetInterface x (usb_dev busNum devAddr) interfaceid altIndex w"

definition Service_GetRawDescriptor ::
  "'w ext \<Rightarrow> u8 \<Rightarrow> u8 \<Rightarrow> u8 list \<Rightarrow> 'w \<Rightarrow> (i32 \<times> u8 list) \<times> 'w" where
  "Service_GetRawDescriptor x busNum devAddr bufferData w =
     x_GetRawDescriptor x (usb_dev busNum devAddr) bufferData w"

definition Service_GetFileDescriptor :: "'w ext \<Rightarrow> u8 \<Rightarrow> u8 \<Rightarrow> i32 \<Rightarrow> 'w \<Rightarrow> (i32 \<times> i32) \<times> 'w" where
  "Service_GetFileDescriptor x busNum devAddr fd w =
     x_GetFileDescriptor x (usb_dev busNum devAddr) fd w"

definition Service_RequestQueue ::
  "'w ext \<Rightarrow> UsbDev \<Rightarrow> UsbPipe \<Rightarrow> u8 list \<Rightarrow> u8 list \<Rightarrow> 'w \<Rightarrow> i32 \<times> 'w" where
  "Service_RequestQueue x dev pipe clientData bufferData w =
     x_RequestQueue x dev pipe clientData bufferData w"

definition Service_RequestWait ::
  "'w ext \<Rightarrow> UsbDev \<Rightarrow> i32 \<Rightarrow> u8 list \<Rightarrow> u8 list \<Rightarrow> 'w \<Rightarrow> (i32 \<times> u8 list \<times> u8 list) \<times> 'w" where
  "Service_RequestWait x dev timeOut clientData bufferData w =
     x_RequestWait x dev clientData bufferData timeOut w"

definition Service_RequestCancel :: "'w ext \<Rightarrow> u8 \<Rightarrow> u8 \<Rightarrow> u8 \<Rightarrow> u8 \<Rightarrow> 'w \<Rightarrow> i32 \<times> 'w" where
  "Service_RequestCancel x busNum devAddr interfaceId endpointId w =
     x_RequestCancel x (usb_dev busNum devAddr)
       \<lparr>pipe_interfaceId = interfaceId, pipe_endpointId = endpointId\<rparr> w"

definition Service_Close :: "'w ext \<Rightarrow> u8 \<Rightarrow> u8 \<Rightarrow> 'w \<Rightarrow> i32 \<times> 'w" where
  "Service_Close x busNum devAddr w = x_CloseDevice x (usb_dev busNum devAddr) w"

text \<open>The asynchronous transfers: callbacks and shared memory are pointers that may be null.\<close>

definition Service_RegBulkCallback ::
  "'w ext \<Rightarrow> UsbDev \<Rightarrow> UsbPipe \<Rightarrow> nat option \<Rightarrow> 'w \<Rightarrow> i32 \<times> 'w" where
  "Service_RegBulkCallback x devInfo pipe cb w = x_RegBulkCallback x devInfo pipe cb w"

definition Service_UnRegBulkCallback :: "'w ext \<Rightarrow> UsbDev \<Rightarrow> UsbPipe \<Rightarrow> 'w \<Rightarrow> i32 \<times> 'w" where
  "Service_UnRegBulkCallback x devInfo pipe w = x_UnRegBulkCallback x devInfo pipe w"

definition Service_BulkRead ::
  "uec_codes \<Rightarrow> 'w ext \<Rightarrow> UsbDev \<Rightarrow> UsbPipe \<Rightarrow> nat option \<Rightarrow> 'w \<Rightarrow> i32 \<times> 'w" where
  "Service_BulkRead E x devInfo pipe ashmem w =
     (case ashmem of
        None \<Rightarrow> (UEC_SERVICE_INVALID_VALUE E, w)
      | Some a \<Rightarrow> x_BulkRead x devInfo pipe a w)"

definition Service_BulkWrite ::
  "uec_codes \<Rightarrow> 'w ext \<Rightarrow> UsbDev \<Rightarrow> UsbPipe \<Rightarrow> nat option \<Rightarrow> 'w \<Rightarrow> i32 \<times> 'w" where
  "Service_BulkWrite E x devInfo pipe ashmem w =
     (case ashmem of
        None \<Rightarrow> (UEC_SERVICE_INVALID_VALUE E, w)
      | Some a \<Rightarrow> x_BulkWrite x devInfo pipe a w)"

definition Service_BulkCancel :: "'w ext \<Rightarrow> UsbDev \<Rightarrow> UsbPipe \<Rightarrow> 'w \<Rightarrow> i32 \<times> 'w" where
  "Service_BulkCancel x devInfo pipe w = x_BulkCancel x devInfo pipe w"

end
