(* ===== verification/Usb_Attach.thy ===== *)
theory Usb_Attach
  imports Usb_Service
begin

text \<open>
  How a device gets into the table: reading its strings and descriptors through the driver,
  \<open>AddDevice\<close> and \<open>DelDevice\<close> of the service, and the subscriber whose events trigger them.
  A call that reads descriptors is a \<open>run\<close>: it may not return, or read outside the
  descriptor (see \<open>Usb_Descriptor\<close>).
\<close>

section \<open>Strings of a device\<close>

definition DESCRIPTOR_TYPE_STRING :: u8 where "DESCRIPTOR_TYPE_STRING = 3"
definition DESCRIPTOR_VALUE_START_OFFSET :: nat where "DESCRIPTOR_VALUE_START_OFFSET = 2"

text \<open>
  The buffer of 16-bit units, one per byte; two of them are read as one 32-bit \<open>wchar_t\<close> (little
  endian), of which the conversion to \<open>char\<close> keeps the low byte.
\<close>

definition string_units :: "u8 list \<Rightarrow> nat \<Rightarrow> u16 list" where
  "string_units strV len =
     map (\<lambda>i. if i < len - DESCRIPTOR_VALUE_START_OFFSET
              then ucast (strV ! (i + DESCRIPTOR_VALUE_START_OFFSET)) else 0) [0..<len + 1]"

definition wide_chars :: "u16 list \<Rightarrow> nat \<Rightarrow> u32 list" where
  "wide_chars tbuf n =
     map (\<lambda>k. ucast (tbuf ! (2 * k)) OR push_bit 16 (ucast (tbuf ! (2 * k + 1)))) [0..<n]"

definition narrow_char :: "u32 \<Rightarrow> char" where
  "narrow_char wc = char_of (unat (ucast wc :: u8))"

definition GetDevStringValFromIdx ::
  "uec_codes \<Rightarrow> 'w ext \<Rightarrow> u8 \<Rightarrow> u8 \<Rightarrow> u8 \<Rightarrow> 'w \<Rightarrow> string \<times> 'w" where
  "GetDevStringValFromIdx E x busNum devAddr idx w =
     (if idx = 0 then ('' '', w)
      else
        (let ((ret, strV), w1) = x_GetStringDescriptor x (usb_dev busNum devAddr) idx [] w
         in if ret \<noteq> UEC_OK E then ('' '', w1)
            else
              (let len = length strV mod 4294967296
               in if len < DESCRIPTOR_VALUE_START_OFFSET \<or> strV ! 1 \<noteq> DESCRIPTOR_TYPE_STRING
                  then ('' '', w1)
                  else
                    (let (allocated, w2) = x_alloc x w1
                     in if \<not> allocated then ('' '', w2)
                        else
                          (map narrow_char (wide_chars (string_units strV len)
                             ((len - DESCRIPTOR_VALUE_START_OFFSET) div 2)), w2)))))"

definition BcdToString :: "u8 list \<Rightarrow> string" where
  "BcdToString bcd = concat (map (\<lambda>b. std_to_string (unat (drop_bit 4 (b AND 0xF0))) @
     std_to_string (unat (b AND 0x0F))) bcd)"

fun fill_interface_names ::
  "uec_codes \<Rightarrow> 'w ext \<Rightarrow> u8 \<Rightarrow> u8 \<Rightarrow> UsbInterface list \<Rightarrow> 'w \<Rightarrow> UsbInterface list \<times> 'w" where
  "fill_interface_names E x busNum devAddr [] w = ([], w)"
| "fill_interface_names E x busNum devAddr (i # is) w =
     (let (name, w1) = GetDevStringValFromIdx E x busNum devAddr (if_iInterface i) w;
          (is1, w2) = fill_interface_names E x busNum devAddr is w1
      in (i\<lparr>if_name := name\<rparr> # is1, w2))"

fun fill_config_names ::
  "uec_codes \<Rightarrow> 'w ext \<Rightarrow> u8 \<Rightarrow> u8 \<Rightarrow> USBConfig list \<Rightarrow> 'w \<Rightarrow> USBConfig list \<times> 'w" where
  "fill_config_names E x busNum devAddr [] w = ([], w)"
| "fill_config_names E x busNum devAddr (c # cs) w =
     (let (name, w1) = GetDevStringValFromIdx E x busNum devAddr (cfg_iConfiguration c) w;
          (is, w2) = fill_interface_names E x busNum devAddr (cfg_interfaces c) w1;
          (cs1, w3) = fill_config_names E x busNum devAddr cs w2
      in (c\<lparr>cfg_name := name, cfg_interfaces := is\<rparr> # cs1, w3))"

definition FillDevStrings :: "uec_codes \<Rightarrow> 'w ext \<Rightarrow> UsbDevice \<Rightarrow> 'w \<Rightarrow> (i32 \<times> UsbDevice) \<times> 'w" where
  "FillDevStrings E x dev w =
     (let busNum = dev_busNum dev;
          devAddr = dev_devAddr dev;
          bcdDevice = dev_bcdDevice dev;
          bcdData = [ucast (bcdDevice AND 0xff), ucast (drop_bit 8 bcdDevice AND 0xff)];
          dev1 = dev\<lparr>dev_version := BcdToString bcdData\<rparr>;
          (manufacturer, w1) = GetDevStringValFromIdx E x busNum devAddr (dev_iManufacturer dev1) w;
          (product, w2) = GetDevStringValFromIdx E x busNum devAddr (dev_iProduct dev1) w1;
          (serial, w3) = GetDevStringValFromIdx E x busNum devAddr (dev_iSerialNumber dev1) w2;
          dev2 = dev1\<lparr>dev_manufacturerName := manufacturer, dev_productName := product,
            dev_serial := serial\<rparr>;
          (configs, w4) = fill_config_names E x busNum devAddr (dev_configs dev2) w3
      in ((UEC_OK E, dev2\<lparr>dev_configs := configs\<rparr>), w4))"

section \<open>Descriptors of a device\<close>

definition CURSOR_INIT :: nat where "CURSOR_INIT = 18"

text \<open>The bytes the driver wrote and the device are part of the result.\<close>

definition GetDeviceInfoDescriptor ::
  "usbd_layout \<Rightarrow> uec_codes \<Rightarrow> 'w ext \<Rightarrow> UsbDev \<Rightarrow> u8 list \<Rightarrow> UsbDevice \<Rightarrow> 'w \<Rightarrow>
     ((i32 \<times> u8 list \<times> UsbDevice) \<times> 'w) run" where
  "GetDeviceInfoDescriptor L E x uDev descriptor dev w =
     (let ((ret, descriptor), w1) = x_GetRawDescriptor x uDev descriptor w
      in if ret \<noteq> UEC_OK E then
           (let (closed, w2) = x_CloseDevice x uDev w1 in Some (Mem ((ret, descriptor, dev), w2)))
         else
           (let len = length descriptor mod 4294967296
            in if descriptor = [] \<or> len = 0
               then Some (Mem ((UEC_SERVICE_INVALID_VALUE E, descriptor, dev), w1))
               else
                 (let dev1 = dev\<lparr>dev_busNum := ud_busNum uDev, dev_devAddr := ud_devAddr uDev,
                        dev_name := device_name (ud_busNum uDev) (ud_devAddr uDev)\<rparr>
                  in case ParseDeviceDescriptor L E descriptor len dev1 of
                       BadRead \<Rightarrow> Some BadRead
                     | Mem (ret, dev2) \<Rightarrow>
                         if ret \<noteq> UEC_OK E then
                           (let (closed, w2) = x_CloseDevice x uDev w1
                            in Some (Mem ((ret, descriptor, dev2), w2)))
                         else Some (Mem ((ret, descriptor, dev2), w1)))))"

text \<open>
  The loop over the configurations, \<open>n\<close> of them still to read; a failure returns at once.  Its
  bound is the boolean \<open>GetDescConfigCount()\<close>, so \<open>n\<close> starts as 0 or 1.
\<close>

fun config_loop ::
  "usbd_layout \<Rightarrow> uec_codes \<Rightarrow> u8 list \<Rightarrow> nat \<Rightarrow> nat \<Rightarrow> nat \<Rightarrow> USBConfig list \<Rightarrow>
     (i32 \<times> USBConfig list) run" where
  "config_loop L E buffer len 0 cursor configs = Some (Mem (UEC_OK E, configs))"
| "config_loop L E buffer len (Suc n) cursor configs =
     (if len \<le> cursor then Some (Mem (UEC_OK E, configs))
      else
        run_bind (ParseConfigDescriptor L E (drop cursor buffer) (u32_sub len cursor) 0 USBConfig_new)
          (\<lambda>(ret, configCursor, config).
             if ret \<noteq> UEC_OK E then Some (Mem (ret, configs))
             else config_loop L E buffer len n (u32_add cursor configCursor) (configs @ [config])))"

definition GetConfigDescriptor ::
  "usbd_layout \<Rightarrow> uec_codes \<Rightarrow> 'w ext \<Rightarrow> UsbDevice \<Rightarrow> u8 list \<Rightarrow> 'w \<Rightarrow> ((i32 \<times> UsbDevice) \<times> 'w) run" where
  "GetConfigDescriptor L E x dev descriptor w =
     run_bind (config_loop L E descriptor (length descriptor mod 4294967296)
                 (if UsbDevice_GetDescConfigCount dev then 1 else 0) CURSOR_INIT [])
       (\<lambda>(ret, configs).
          if ret \<noteq> UEC_OK E then Some (Mem ((ret, dev), w))
          else Some (Mem (FillDevStrings E x (dev\<lparr>dev_configs := configs\<rparr>) w)))"

text \<open>The result of \<open>GetDeviceInfoDescriptor\<close> is logged and then overwritten.\<close>

definition GetDeviceInfo ::
  "usbd_layout \<Rightarrow> uec_codes \<Rightarrow> 'w ext \<Rightarrow> u8 \<Rightarrow> u8 \<Rightarrow> UsbDevice \<Rightarrow> 'w \<Rightarrow> ((i32 \<times> UsbDevice) \<times> 'w) run" where
  "GetDeviceInfo L E x busNum devAddr dev w =
     (let uDev = usb_dev busNum devAddr;
          (ret, w1) = x_OpenDevice x uDev w
      in if ret \<noteq> UEC_OK E then Some (Mem ((ret, dev), w1))
         else
           run_bind (GetDeviceInfoDescriptor L E x uDev [] dev w1)
             (\<lambda>((ret, descriptor, dev1), w2).
                run_bind (GetConfigDescriptor L E x dev1 descriptor w2)
                  (\<lambda>((ret, dev2), w3).
                     if ret \<noteq> UEC_OK E then Some (Mem ((ret, dev2), w3))
                     else
                       (let (closed, w4) = x_CloseDevice x uDev w3
                        in Some (Mem ((UEC_OK E, dev2), w4))))))"

section \<open>Attaching and detaching\<close>

definition Service_AddDevice ::
  "usbd_layout \<Rightarrow> uec_codes \<Rightarrow> 'w ext \<Rightarrow> u8 \<Rightarrow> u8 \<Rightarrow> UsbService \<Rightarrow> 'w \<Rightarrow>
     ((bool \<times> UsbService) \<times> 'w) run" where
  "Service_AddDevice L E x busNum devAddr sv w =
     (let (allocated, w1) = x_alloc x w
      in if \<not> allocated then Some (Mem ((False, sv), w1))
         else
           (let (zeroed, w2) = x_memset_s x w1
            in if \<not> zeroed then Some (Mem ((False, sv), w2))
               else
                 run_bind (GetDeviceInfo L E x busNum devAddr UsbDevice_zero w2)
                   (\<lambda>((ret, devInfo), w3).
                      if ret \<noteq> UEC_OK E then Some (Mem ((False, sv), w3))
                      else
                        (case sv_host sv of
                           None \<Rightarrow> Some (Mem ((False, sv), w3))
                         | Some hm \<Rightarrow>
                             (let ((added, hm1), w4) = HostManager_AddDevice x (Some devInfo) hm w3
                              in Some (Mem ((True, sv\<lparr>sv_host := Some hm1\<rparr>), w4)))))))"

definition Service_DelDevice ::
  "'w ext \<Rightarrow> u8 \<Rightarrow> u8 \<Rightarrow> UsbService \<Rightarrow> 'w \<Rightarrow> (bool \<times> UsbService) \<times> 'w" where
  "Service_DelDevice x busNum devAddr sv w =
     (let (ret, w1) = Service_Close x busNum devAddr w
      in case sv_host sv of
           None \<Rightarrow> ((False, sv), w1)
         | Some hm \<Rightarrow>
             (let ((removed, hm1), w2) = HostManager_DelDevice x busNum devAddr hm w1
              in ((removed, sv\<lparr>sv_host := Some hm1\<rparr>), w2)))"

definition Service_UpdateUsbPort :: "i32 \<Rightarrow> i32 \<Rightarrow> i32 \<Rightarrow> i32 \<Rightarrow> UsbService \<Rightarrow> UsbService" where
  "Service_UpdateUsbPort portId powerRole dataRole mode sv =
     (case sv_port sv of
        None \<Rightarrow> sv
      | Some pm \<Rightarrow> sv\<lparr>sv_port := Some (PortManager_UpdatePort portId powerRole dataRole mode pm)\<rparr>)"

definition Service_UpdateDeviceState ::
  "usbd_acts \<Rightarrow> 'w ext \<Rightarrow> i32 \<Rightarrow> UsbService \<Rightarrow> 'w \<Rightarrow> (UsbService \<times> 'w) option" where
  "Service_UpdateDeviceState A x status sv w =
     (case sv_device sv of
        None \<Rightarrow> Some (sv, w)
      | Some dm \<Rightarrow>
          (case HandleEvent A x status dm w of
             None \<Rightarrow> None
           | Some (dm1, w1) \<Rightarrow> Some (sv\<lparr>sv_device := Some dm1\<rparr>, w1)))"

section \<open>The subscriber\<close>

record UsbInfo =
  info_devInfoStatus :: i32
  info_devInfoBusNum :: i32
  info_devInfoDevNum :: i32

text \<open>The service instance is a pointer; the boolean of the publication is returned as it is.\<close>

definition PortChangedEvent ::
  "uec_codes \<Rightarrow> 'w ext \<Rightarrow> i32 \<Rightarrow> i32 \<Rightarrow> i32 \<Rightarrow> i32 \<Rightarrow> UsbService option \<Rightarrow> 'w \<Rightarrow>
     (i32 \<times> UsbService option) \<times> 'w" where
  "PortChangedEvent E x portId powerRole dataRole mode pms w =
     (case pms of
        None \<Rightarrow> ((UEC_SERVICE_GET_USB_SERVICE_FAILED E, None), w)
      | Some sv \<Rightarrow>
          (let port = JObj [(''portId'', json_of_i32 portId), (''powerRole'', json_of_i32 powerRole),
                 (''dataRole'', json_of_i32 dataRole), (''mode'', json_of_i32 mode)];
               sv1 = Service_UpdateUsbPort portId powerRole dataRole mode sv;
               (isSuccess, w1) = x_PublishCommonEvent x
                 \<lparr>ev_action = COMMON_EVENT_USB_PORT_CHANGED, ev_params = [], ev_data = port,
                  ev_ordered = True\<rparr> w
           in ((if isSuccess then 1 else 0, Some sv1), w1)))"

text \<open>The bus number and the address are \<open>int32_t\<close> values passed as \<open>uint8_t\<close>.\<close>

definition DeviceEvent ::
  "usbd_layout \<Rightarrow> uec_codes \<Rightarrow> usbd_acts \<Rightarrow> 'w ext \<Rightarrow> UsbInfo \<Rightarrow> UsbService option \<Rightarrow> 'w \<Rightarrow>
     ((i32 \<times> UsbService option) \<times> 'w) run" where
  "DeviceEvent L E A x info pms w =
     (let status = info_devInfoStatus info
      in case pms of
           None \<Rightarrow> Some (Mem ((UEC_SERVICE_GET_USB_SERVICE_FAILED E, None), w))
         | Some sv \<Rightarrow>
             if status = ACT_UPDEVICE A \<or> status = ACT_DOWNDEVICE A then
               (case Service_UpdateDeviceState A x status sv w of
                  None \<Rightarrow> None
                | Some (sv1, w1) \<Rightarrow> Some (Mem ((UEC_OK E, Some sv1), w1)))
             else
               (let busNum = info_devInfoBusNum info;
                    devAddr = info_devInfoDevNum info
                in if status = ACT_DEVUP A then
                     run_bind (Service_AddDevice L E x (ucast busNum) (ucast devAddr) sv w)
                       (\<lambda>((added, sv1), w1). Some (Mem ((UEC_OK E, Some sv1), w1)))
                   else
                     (let ((removed, sv1), w1) =
                            Service_DelDevice x (ucast busNum) (ucast devAddr) sv w
                      in Some (Mem ((UEC_OK E, Some sv1), w1)))))"
end
