(* ===== verification/Usb_Parcel.thy ===== *)
theory Usb_Parcel
  imports Usb_Model
begin

text \<open>
  Message parcels and the marshalling of buffers, ports and devices: the write side of
  \<open>usb_srv_stub.cpp\<close> and the read side of \<open>usb_srv_proxy.cpp\<close>.

  \<open>MessageParcel\<close> belongs to the IPC library, so its operations are the parameter
  \<open>parcel_ops\<close> over an unknown type of parcels.  What the code relies on is \<open>parcel_ok\<close>:
  what was written is read back in the same order, with the same width.  \<open>Int32\<close> and
  \<open>Uint32\<close> occupy the same 32 bits (the code writes a count as one and reads it as the other).
\<close>

section \<open>Parcels\<close>

datatype pitem =
  P8 u8
| P16 u16
| P32 u32
| PBool bool
| PStr string
| PBuf "u8 list"
| PToken string
| PObj "nat option"

text \<open>
  \<open>p_Write\<close> is the family \<open>WriteUint8\<close>, \<open>WriteInt32\<close> and so on: the constructor of the item is
  the suffix.  A read gives \<open>None\<close> when it fails.  Remote objects and shared memory are
  references (\<open>PObj\<close>), with \<open>None\<close> for the null pointer.
\<close>

record 'p parcel_ops =
  p_empty :: 'p
  p_Write :: "pitem \<Rightarrow> 'p \<Rightarrow> bool \<times> 'p"
  p_Read8 :: "'p \<Rightarrow> u8 option \<times> 'p"
  p_Read16 :: "'p \<Rightarrow> u16 option \<times> 'p"
  p_Read32 :: "'p \<Rightarrow> u32 option \<times> 'p"
  p_ReadBool :: "'p \<Rightarrow> bool option \<times> 'p"
  p_ReadString :: "'p \<Rightarrow> string option \<times> 'p"
  p_ReadUnpadBuffer :: "nat \<Rightarrow> 'p \<Rightarrow> u8 list option \<times> 'p"
  p_ReadInterfaceToken :: "'p \<Rightarrow> string \<times> 'p"
  p_ReadObject :: "'p \<Rightarrow> nat option \<times> 'p"

text \<open>
  The laws, for a view \<open>items\<close> of the items not yet read: a new parcel has none, a successful
  write appends its item, and reading the kind of item that is next returns and removes it.
\<close>

definition parcel_ok :: "'p parcel_ops \<Rightarrow> ('p \<Rightarrow> pitem list) \<Rightarrow> bool" where
  "parcel_ok P items \<longleftrightarrow> items (p_empty P) = [] \<and>
     (\<forall>it p p'. p_Write P it p = (True, p') \<longrightarrow> items p' = items p @ [it]) \<and>
     (\<forall>v rest p. items p = P8 v # rest \<longrightarrow> (\<exists>p'. p_Read8 P p = (Some v, p') \<and> items p' = rest)) \<and>
     (\<forall>v rest p. items p = P16 v # rest \<longrightarrow> (\<exists>p'. p_Read16 P p = (Some v, p') \<and> items p' = rest)) \<and>
     (\<forall>v rest p. items p = P32 v # rest \<longrightarrow> (\<exists>p'. p_Read32 P p = (Some v, p') \<and> items p' = rest)) \<and>
     (\<forall>v rest p. items p = PBool v # rest \<longrightarrow> (\<exists>p'. p_ReadBool P p = (Some v, p') \<and> items p' = rest)) \<and>
     (\<forall>v rest p. items p = PStr v # rest \<longrightarrow> (\<exists>p'. p_ReadString P p = (Some v, p') \<and> items p' = rest)) \<and>
     (\<forall>v rest p. items p = PBuf v # rest \<longrightarrow>
        (\<exists>p'. p_ReadUnpadBuffer P (length v) p = (Some v, p') \<and> items p' = rest)) \<and>
     (\<forall>v rest p. items p = PToken v # rest \<longrightarrow>
        (\<exists>p'. p_ReadInterfaceToken P p = (v, p') \<and> items p' = rest)) \<and>
     (\<forall>v rest p. items p = PObj v # rest \<longrightarrow> (\<exists>p'. p_ReadObject P p = (v, p') \<and> items p' = rest))"

section \<open>The macros\<close>

text \<open>
  \<open>WRITE_PARCEL_WITH_RET\<close> and \<open>READ_PARCEL_WITH_RET\<close>: on failure the function returns, which is
  the argument \<open>fail\<close>; otherwise it goes on with the continuation.
\<close>

definition write_with_ret ::
  "'p parcel_ops \<Rightarrow> pitem \<Rightarrow> 'p \<Rightarrow> ('p \<Rightarrow> 'r) \<Rightarrow> ('p \<Rightarrow> 'r) \<Rightarrow> 'r" where
  "write_with_ret P it p fail k = (let (ok, p1) = p_Write P it p in if \<not> ok then fail p1 else k p1)"

definition read_with_ret ::
  "('p \<Rightarrow> 'v option \<times> 'p) \<Rightarrow> 'p \<Rightarrow> ('p \<Rightarrow> 'r) \<Rightarrow> ('v \<Rightarrow> 'p \<Rightarrow> 'r) \<Rightarrow> 'r" where
  "read_with_ret rd p fail k =
     (case rd p of (None, p1) \<Rightarrow> fail p1 | (Some v, p1) \<Rightarrow> k v p1)"

section \<open>Buffers\<close>

definition SetBufferMessage :: "'p parcel_ops \<Rightarrow> uec_codes \<Rightarrow> u8 list \<Rightarrow> 'p \<Rightarrow> i32 \<times> 'p" where
  "SetBufferMessage P E bufferData p =
     (let len = length bufferData mod 4294967296
      in write_with_ret P (P32 (of_nat len)) p
        (\<lambda>p1. (UEC_SERVICE_WRITE_PARCEL_ERROR E, p1))
        (\<lambda>p1. if len > 0
           then write_with_ret P (PBuf (take len bufferData)) p1
             (\<lambda>p2. (UEC_SERVICE_WRITE_PARCEL_ERROR E, p2)) (\<lambda>p2. (UEC_OK E, p2))
           else (UEC_OK E, p1)))"

text \<open>The buffer is cleared first, so a failure leaves it empty.\<close>

definition GetBufferMessage :: "'p parcel_ops \<Rightarrow> uec_codes \<Rightarrow> 'p \<Rightarrow> (i32 \<times> u8 list) \<times> 'p" where
  "GetBufferMessage P E p =
     read_with_ret (p_Read32 P) p
       (\<lambda>p1. ((UEC_SERVICE_READ_PARCEL_ERROR E, []), p1))
       (\<lambda>dataSize p1. if dataSize = 0 then ((UEC_OK E, []), p1)
          else read_with_ret (p_ReadUnpadBuffer P (unat dataSize)) p1
            (\<lambda>p2. ((UEC_SERVICE_READ_PARCEL_ERROR E, []), p2))
            (\<lambda>readData p2. ((UEC_OK E, readData), p2)))"

section \<open>Loops over vectors\<close>

text \<open>
  The shape of all writing loops: each element is written, and the first result other than zero
  is returned.  The reading loops read a given number of elements; \<open>read_loop\<close> returns at the
  first result other than zero with what it has, \<open>read_loop_ignoring\<close> does not look at it.
\<close>

fun write_loop :: "uec_codes \<Rightarrow> ('a \<Rightarrow> 'p \<Rightarrow> i32 \<times> 'p) \<Rightarrow> 'a list \<Rightarrow> 'p \<Rightarrow> i32 \<times> 'p" where
  "write_loop E wr [] p = (UEC_OK E, p)"
| "write_loop E wr (x # xs) p =
     (let (ret, p1) = wr x p in if ret \<noteq> 0 then (ret, p1) else write_loop E wr xs p1)"

fun read_loop ::
  "uec_codes \<Rightarrow> ('p \<Rightarrow> (i32 \<times> 'a) \<times> 'p) \<Rightarrow> nat \<Rightarrow> 'a list \<Rightarrow> 'p \<Rightarrow> (i32 \<times> 'a list) \<times> 'p" where
  "read_loop E rd 0 xs p = ((UEC_OK E, xs), p)"
| "read_loop E rd (Suc n) xs p =
     (let ((ret, x), p1) = rd p
      in if ret \<noteq> 0 then ((ret, xs), p1) else read_loop E rd n (xs @ [x]) p1)"

fun read_loop_ignoring ::
  "uec_codes \<Rightarrow> ('p \<Rightarrow> (i32 \<times> 'a) \<times> 'p) \<Rightarrow> nat \<Rightarrow> 'a list \<Rightarrow> 'p \<Rightarrow> (i32 \<times> 'a list) \<times> 'p" where
  "read_loop_ignoring E rd 0 xs p = ((UEC_OK E, xs), p)"
| "read_loop_ignoring E rd (Suc n) xs p =
     (let ((ret, x), p1) = rd p in read_loop_ignoring E rd n (xs @ [x]) p1)"

text \<open>The rounds of \<open>for (int32_t i = 0; i < count; ++i)\<close>.\<close>

definition rounds :: "i32 \<Rightarrow> nat" where
  "rounds count = nat (sint count)"

section \<open>Ports\<close>

definition WriteUsbPort :: "'p parcel_ops \<Rightarrow> uec_codes \<Rightarrow> UsbPort \<Rightarrow> 'p \<Rightarrow> i32 \<times> 'p" where
  "WriteUsbPort P E port p =
     (let fail = (\<lambda>p. (UEC_SERVICE_WRITE_PARCEL_ERROR E, p)); st = usbPortStatus port
      in write_with_ret P (P32 (port_id port)) p fail (\<lambda>p.
         write_with_ret P (P32 (supportedModes port)) p fail (\<lambda>p.
         write_with_ret P (P32 (currentMode st)) p fail (\<lambda>p.
         write_with_ret P (P32 (currentPowerRole st)) p fail (\<lambda>p.
         write_with_ret P (P32 (currentDataRole st)) p fail (\<lambda>p. (UEC_OK E, p)))))))"

text \<open>\<open>ReadInt32()\<close> without an argument gives 0 when it fails.\<close>

definition read32_or_0 :: "'p parcel_ops \<Rightarrow> 'p \<Rightarrow> (u32 \<Rightarrow> 'p \<Rightarrow> 'r) \<Rightarrow> 'r" where
  "read32_or_0 P p k = read_with_ret (p_Read32 P) p (\<lambda>p. k 0 p) k"

text \<open>The port is appended to the list only when its id could be read.\<close>

definition ParseUsbPort ::
  "'p parcel_ops \<Rightarrow> uec_codes \<Rightarrow> UsbPort list \<Rightarrow> 'p \<Rightarrow> (i32 \<times> UsbPort list) \<times> 'p" where
  "ParseUsbPort P E ports p =
     read_with_ret (p_Read32 P) p (\<lambda>p. ((UEC_INTERFACE_READ_PARCEL_ERROR E, ports), p))
       (\<lambda>i p. read32_or_0 P p (\<lambda>modes p. read32_or_0 P p (\<lambda>mode p. read32_or_0 P p (\<lambda>power p.
          read32_or_0 P p (\<lambda>role p.
            ((UEC_OK E, ports @ [\<lparr>port_id = i, supportedModes = modes,
               usbPortStatus = \<lparr>currentMode = mode, currentPowerRole = power,
                 currentDataRole = role\<rparr>\<rparr>]), p))))))"

fun parse_ports ::
  "'p parcel_ops \<Rightarrow> uec_codes \<Rightarrow> nat \<Rightarrow> UsbPort list \<Rightarrow> 'p \<Rightarrow> (i32 \<times> UsbPort list) \<times> 'p" where
  "parse_ports P E 0 ports p = ((UEC_OK E, ports), p)"
| "parse_ports P E (Suc n) ports p =
     (let ((ret, ports1), p1) = ParseUsbPort P E ports p
      in if ret \<noteq> 0 then ((ret, ports1), p1) else parse_ports P E n ports1 p1)"

section \<open>Devices: the write side\<close>

definition SetDeviceEndpoint :: "'p parcel_ops \<Rightarrow> uec_codes \<Rightarrow> USBEndpoint \<Rightarrow> 'p \<Rightarrow> i32 \<times> 'p" where
  "SetDeviceEndpoint P E ep p =
     (let fail = (\<lambda>p. (UEC_SERVICE_WRITE_PARCEL_ERROR E, p))
      in write_with_ret P (P32 (ep_address ep)) p fail (\<lambda>p.
         write_with_ret P (P32 (ep_attributes ep)) p fail (\<lambda>p.
         write_with_ret P (P32 (ep_interval ep)) p fail (\<lambda>p.
         write_with_ret P (P32 (ep_maxPacketSize ep)) p fail (\<lambda>p. (UEC_OK E, p))))))"

definition SetDeviceEndpointsMessageParcel ::
  "'p parcel_ops \<Rightarrow> uec_codes \<Rightarrow> USBEndpoint list \<Rightarrow> 'p \<Rightarrow> i32 \<times> 'p" where
  "SetDeviceEndpointsMessageParcel P E eps p = write_loop E (SetDeviceEndpoint P E) eps p"

definition SetDeviceInterface :: "'p parcel_ops \<Rightarrow> uec_codes \<Rightarrow> UsbInterface \<Rightarrow> 'p \<Rightarrow> i32 \<times> 'p" where
  "SetDeviceInterface P E i p =
     (let fail = (\<lambda>p. (UEC_SERVICE_WRITE_PARCEL_ERROR E, p))
      in write_with_ret P (P32 (if_id i)) p fail (\<lambda>p.
         write_with_ret P (P32 (if_klass i)) p fail (\<lambda>p.
         write_with_ret P (P32 (if_subClass i)) p fail (\<lambda>p.
         write_with_ret P (P32 (if_alternateSetting i)) p fail (\<lambda>p.
         write_with_ret P (P32 (if_protocol i)) p fail (\<lambda>p.
         write_with_ret P (P8 (if_iInterface i)) p fail (\<lambda>p.
         write_with_ret P (PStr (if_name i)) p fail (\<lambda>p.
         write_with_ret P (P32 (UsbInterface_GetEndpointCount i)) p fail (\<lambda>p.
         SetDeviceEndpointsMessageParcel P E (if_endpoints i) p)))))))))"

definition SetDeviceInterfacesMessageParcel ::
  "'p parcel_ops \<Rightarrow> uec_codes \<Rightarrow> UsbInterface list \<Rightarrow> 'p \<Rightarrow> i32 \<times> 'p" where
  "SetDeviceInterfacesMessageParcel P E is p = write_loop E (SetDeviceInterface P E) is p"

text \<open>\<open>GetMaxPower()\<close> is twice the member.\<close>

definition SetDeviceConfig :: "'p parcel_ops \<Rightarrow> uec_codes \<Rightarrow> USBConfig \<Rightarrow> 'p \<Rightarrow> i32 \<times> 'p" where
  "SetDeviceConfig P E c p =
     (let fail = (\<lambda>p. (UEC_SERVICE_WRITE_PARCEL_ERROR E, p))
      in write_with_ret P (P32 (cfg_id c)) p fail (\<lambda>p.
         write_with_ret P (P32 (cfg_attributes c)) p fail (\<lambda>p.
         write_with_ret P (P32 (USBConfig_GetMaxPower c)) p fail (\<lambda>p.
         write_with_ret P (P8 (cfg_iConfiguration c)) p fail (\<lambda>p.
         write_with_ret P (PStr (cfg_name c)) p fail (\<lambda>p.
         write_with_ret P (P32 (USBConfig_GetInterfaceCount c)) p fail (\<lambda>p.
         SetDeviceInterfacesMessageParcel P E (cfg_interfaces c) p)))))))"

definition SetDeviceConfigsMessageParcel ::
  "'p parcel_ops \<Rightarrow> uec_codes \<Rightarrow> USBConfig list \<Rightarrow> 'p \<Rightarrow> i32 \<times> 'p" where
  "SetDeviceConfigsMessageParcel P E cs p = write_loop E (SetDeviceConfig P E) cs p"

definition SetDeviceMessageParcel :: "'p parcel_ops \<Rightarrow> uec_codes \<Rightarrow> UsbDevice \<Rightarrow> 'p \<Rightarrow> i32 \<times> 'p" where
  "SetDeviceMessageParcel P E d p =
     (let fail = (\<lambda>p. (UEC_SERVICE_WRITE_PARCEL_ERROR E, p))
      in write_with_ret P (P32 (ucast (dev_busNum d))) p fail (\<lambda>p.
         write_with_ret P (P32 (ucast (dev_devAddr d))) p fail (\<lambda>p.
         write_with_ret P (P32 (dev_vendorId d)) p fail (\<lambda>p.
         write_with_ret P (P32 (dev_productId d)) p fail (\<lambda>p.
         write_with_ret P (P32 (dev_klass d)) p fail (\<lambda>p.
         write_with_ret P (P32 (dev_subClass d)) p fail (\<lambda>p.
         write_with_ret P (P32 (dev_protocol d)) p fail (\<lambda>p.
         write_with_ret P (P8 (dev_iManufacturer d)) p fail (\<lambda>p.
         write_with_ret P (P8 (dev_iProduct d)) p fail (\<lambda>p.
         write_with_ret P (P8 (dev_iSerialNumber d)) p fail (\<lambda>p.
         write_with_ret P (P8 (dev_bMaxPacketSize0 d)) p fail (\<lambda>p.
         write_with_ret P (P16 (dev_bcdUSB d)) p fail (\<lambda>p.
         write_with_ret P (P16 (dev_bcdDevice d)) p fail (\<lambda>p.
         write_with_ret P (PStr (dev_name d)) p fail (\<lambda>p.
         write_with_ret P (PStr (dev_manufacturerName d)) p fail (\<lambda>p.
         write_with_ret P (PStr (dev_productName d)) p fail (\<lambda>p.
         write_with_ret P (PStr (dev_version d)) p fail (\<lambda>p.
         write_with_ret P (PStr (dev_serial d)) p fail (\<lambda>p.
         write_with_ret P (P32 (UsbDevice_GetConfigCount d)) p fail (\<lambda>p.
         SetDeviceConfigsMessageParcel P E (dev_configs d) p))))))))))))))))))))"

text \<open>The count is the size as \<open>int32_t\<close>, and the loop runs that many rounds.\<close>

definition SetDeviceListMessageParcel ::
  "'p parcel_ops \<Rightarrow> uec_codes \<Rightarrow> UsbDevice list \<Rightarrow> 'p \<Rightarrow> i32 \<times> 'p" where
  "SetDeviceListMessageParcel P E ds p =
     (let deviceCount = of_nat (length ds)
      in write_with_ret P (P32 deviceCount) p (\<lambda>p. (UEC_SERVICE_WRITE_PARCEL_ERROR E, p))
        (\<lambda>p. write_loop E (SetDeviceMessageParcel P E) (take (rounds deviceCount) ds) p))"

section \<open>Devices: the read side\<close>

definition GetDeviceEndpoint :: "'p parcel_ops \<Rightarrow> uec_codes \<Rightarrow> 'p \<Rightarrow> (i32 \<times> USBEndpoint) \<times> 'p" where
  "GetDeviceEndpoint P E p =
     (let fail = (\<lambda>p. ((UEC_SERVICE_READ_PARCEL_ERROR E, USBEndpoint_new), p))
      in read_with_ret (p_Read32 P) p fail (\<lambda>address p.
         read_with_ret (p_Read32 P) p fail (\<lambda>attributes p.
         read_with_ret (p_Read32 P) p fail (\<lambda>interval p.
         read_with_ret (p_Read32 P) p fail (\<lambda>size p.
           ((UEC_OK E, USBEndpoint_new\<lparr>ep_address := address, ep_attributes := attributes,
              ep_interval := interval, ep_maxPacketSize := size\<rparr>), p))))))"

definition GetDeviceEndpointsMessageParcel ::
  "'p parcel_ops \<Rightarrow> uec_codes \<Rightarrow> 'p \<Rightarrow> (i32 \<times> USBEndpoint list) \<times> 'p" where
  "GetDeviceEndpointsMessageParcel P E p =
     read_with_ret (p_Read32 P) p (\<lambda>p. ((UEC_SERVICE_READ_PARCEL_ERROR E, []), p))
       (\<lambda>epCount p. read_loop E (GetDeviceEndpoint P E) (rounds epCount) [] p)"

definition GetDeviceInterface :: "'p parcel_ops \<Rightarrow> uec_codes \<Rightarrow> 'p \<Rightarrow> (i32 \<times> UsbInterface) \<times> 'p" where
  "GetDeviceInterface P E p =
     (let fail = (\<lambda>p. ((UEC_SERVICE_READ_PARCEL_ERROR E, UsbInterface_new), p))
      in read_with_ret (p_Read32 P) p fail (\<lambda>i p.
         read_with_ret (p_Read32 P) p fail (\<lambda>klass p.
         read_with_ret (p_Read32 P) p fail (\<lambda>subClass p.
         read_with_ret (p_Read32 P) p fail (\<lambda>alt p.
         read_with_ret (p_Read32 P) p fail (\<lambda>protocol p.
         read_with_ret (p_Read8 P) p fail (\<lambda>idx p.
         read_with_ret (p_ReadString P) p fail (\<lambda>name p.
           (let ((ret, eps), p) = GetDeviceEndpointsMessageParcel P E p
            in if ret \<noteq> UEC_OK E then ((ret, UsbInterface_new), p)
               else ((UEC_OK E, UsbInterface_new\<lparr>if_id := i, if_klass := klass,
                 if_subClass := subClass, if_alternateSetting := alt, if_protocol := protocol,
                 if_iInterface := idx, if_name := name,
                 if_endpoints := map (\<lambda>ep. ep\<lparr>ep_interfaceId := ucast i\<rparr>) eps\<rparr>), p))))))))))"

text \<open>
  The counts of interfaces and configurations are read without a check: when the read fails the
  variable keeps the arbitrary value \<open>junk\<close>.
\<close>

definition GetDeviceInterfacesMessageParcel ::
  "'p parcel_ops \<Rightarrow> uec_codes \<Rightarrow> u32 \<Rightarrow> 'p \<Rightarrow> (i32 \<times> UsbInterface list) \<times> 'p" where
  "GetDeviceInterfacesMessageParcel P E junk p =
     read_with_ret (p_Read32 P) p
       (\<lambda>p. read_loop E (GetDeviceInterface P E) (rounds junk) [] p)
       (\<lambda>count p. read_loop E (GetDeviceInterface P E) (rounds count) [] p)"

definition GetDeviceConfig :: "'p parcel_ops \<Rightarrow> uec_codes \<Rightarrow> u32 \<Rightarrow> 'p \<Rightarrow> (i32 \<times> USBConfig) \<times> 'p" where
  "GetDeviceConfig P E junk p =
     (let fail = (\<lambda>p. ((UEC_SERVICE_READ_PARCEL_ERROR E, USBConfig_new), p))
      in read_with_ret (p_Read32 P) p fail (\<lambda>i p.
         read_with_ret (p_Read32 P) p fail (\<lambda>attributes p.
         read_with_ret (p_Read32 P) p fail (\<lambda>maxPower p.
         read_with_ret (p_Read8 P) p fail (\<lambda>idx p.
         read_with_ret (p_ReadString P) p fail (\<lambda>name p.
           (let ((ret, is), p) = GetDeviceInterfacesMessageParcel P E junk p
            in if ret \<noteq> UEC_OK E then ((ret, USBConfig_new), p)
               else ((UEC_OK E, USBConfig_new\<lparr>cfg_id := i, cfg_attributes := attributes,
                 cfg_maxPower := maxPower, cfg_iConfiguration := idx, cfg_name := name,
                 cfg_interfaces := is\<rparr>), p))))))))"

definition GetDeviceConfigsMessageParcel ::
  "'p parcel_ops \<Rightarrow> uec_codes \<Rightarrow> u32 \<Rightarrow> 'p \<Rightarrow> (i32 \<times> USBConfig list) \<times> 'p" where
  "GetDeviceConfigsMessageParcel P E junk p =
     read_with_ret (p_Read32 P) p
       (\<lambda>p. read_loop E (GetDeviceConfig P E junk) (unat junk) [] p)
       (\<lambda>configCount p. read_loop E (GetDeviceConfig P E junk) (unat configCount) [] p)"

text \<open>
  Every field is set as soon as it is read, so a failure leaves the earlier ones set.  The
  result of reading the configurations is not looked at.
\<close>

definition GetDeviceMessageParcel ::
  "'p parcel_ops \<Rightarrow> uec_codes \<Rightarrow> u32 \<Rightarrow> UsbDevice \<Rightarrow> 'p \<Rightarrow> (i32 \<times> UsbDevice) \<times> 'p" where
  "GetDeviceMessageParcel P E junk d p =
     (let fail = (\<lambda>d p. ((UEC_SERVICE_READ_PARCEL_ERROR E, d), p))
      in read_with_ret (p_Read32 P) p (fail d) (\<lambda>v p. let d = d\<lparr>dev_busNum := ucast v\<rparr> in
         read_with_ret (p_Read32 P) p (fail d) (\<lambda>v p. let d = d\<lparr>dev_devAddr := ucast v\<rparr> in
         read_with_ret (p_Read32 P) p (fail d) (\<lambda>v p. let d = d\<lparr>dev_vendorId := v\<rparr> in
         read_with_ret (p_Read32 P) p (fail d) (\<lambda>v p. let d = d\<lparr>dev_productId := v\<rparr> in
         read_with_ret (p_Read32 P) p (fail d) (\<lambda>v p. let d = d\<lparr>dev_klass := v\<rparr> in
         read_with_ret (p_Read32 P) p (fail d) (\<lambda>v p. let d = d\<lparr>dev_subClass := v\<rparr> in
         read_with_ret (p_Read32 P) p (fail d) (\<lambda>v p. let d = d\<lparr>dev_protocol := v\<rparr> in
         read_with_ret (p_Read8 P) p (fail d) (\<lambda>v p. let d = d\<lparr>dev_iManufacturer := v\<rparr> in
         read_with_ret (p_Read8 P) p (fail d) (\<lambda>v p. let d = d\<lparr>dev_iProduct := v\<rparr> in
         read_with_ret (p_Read8 P) p (fail d) (\<lambda>v p. let d = d\<lparr>dev_iSerialNumber := v\<rparr> in
         read_with_ret (p_Read8 P) p (fail d) (\<lambda>v p. let d = d\<lparr>dev_bMaxPacketSize0 := v\<rparr> in
         read_with_ret (p_Read16 P) p (fail d) (\<lambda>v p. let d = d\<lparr>dev_bcdUSB := v\<rparr> in
         read_with_ret (p_Read16 P) p (fail d) (\<lambda>v p. let d = d\<lparr>dev_bcdDevice := v\<rparr> in
         read_with_ret (p_ReadString P) p (fail d) (\<lambda>v p. let d = d\<lparr>dev_name := v\<rparr> in
         read_with_ret (p_ReadString P) p (fail d) (\<lambda>v p. let d = d\<lparr>dev_manufacturerName := v\<rparr> in
         read_with_ret (p_ReadString P) p (fail d) (\<lambda>v p. let d = d\<lparr>dev_productName := v\<rparr> in
         read_with_ret (p_ReadString P) p (fail d) (\<lambda>v p. let d = d\<lparr>dev_version := v\<rparr> in
         read_with_ret (p_ReadString P) p (fail d) (\<lambda>v p. let d = d\<lparr>dev_serial := v\<rparr> in
         (let ((ret, cs), p) = GetDeviceConfigsMessageParcel P E junk p
          in ((UEC_OK E, d\<lparr>dev_configs := cs\<rparr>), p)))))))))))))))))))))"

text \<open>\<open>junk_dev\<close> is the storage of the local \<open>UsbDevice\<close> before its constructor runs.\<close>

definition GetDeviceListMessageParcel ::
  "'p parcel_ops \<Rightarrow> uec_codes \<Rightarrow> u32 \<Rightarrow> UsbDevice \<Rightarrow> UsbDevice list \<Rightarrow> 'p \<Rightarrow> (i32 \<times> UsbDevice list) \<times> 'p" where
  "GetDeviceListMessageParcel P E junk junk_dev deviceList p =
     read_with_ret (p_Read32 P) p (\<lambda>p. ((UEC_SERVICE_READ_PARCEL_ERROR E, deviceList), p))
       (\<lambda>count p. read_loop_ignoring E (GetDeviceMessageParcel P E junk (UsbDevice_new junk_dev))
          (rounds count) deviceList p)"

end
