(* ===== verification/Usb_Stub.thy ===== *)
theory Usb_Stub
  imports Usb_Attach Usb_Parcel
begin

text \<open>
  The server side of the IPC interface (\<open>usb_srv_stub.cpp\<close>): one handler per request, which
  reads the arguments from the message, calls the service and writes the results into the
  reply, and the dispatcher that selects it.
\<close>

section \<open>Request codes (\<open>iusb_srv.h\<close>)\<close>

definition USB_FUN_HAS_RIGHT :: u32 where "USB_FUN_HAS_RIGHT = 0"
definition USB_FUN_REQUEST_RIGHT :: u32 where "USB_FUN_REQUEST_RIGHT = 1"
definition USB_FUN_REMOVE_RIGHT :: u32 where "USB_FUN_REMOVE_RIGHT = 2"
definition USB_FUN_OPEN_DEVICE :: u32 where "USB_FUN_OPEN_DEVICE = 3"
definition USB_FUN_GET_DEVICE :: u32 where "USB_FUN_GET_DEVICE = 4"
definition USB_FUN_GET_DEVICES :: u32 where "USB_FUN_GET_DEVICES = 5"
definition USB_FUN_GET_CURRENT_FUNCTIONS :: u32 where "USB_FUN_GET_CURRENT_FUNCTIONS = 6"
definition USB_FUN_SET_CURRENT_FUNCTIONS :: u32 where "USB_FUN_SET_CURRENT_FUNCTIONS = 7"
definition USB_FUN_USB_FUNCTIONS_FROM_STRING :: u32 where "USB_FUN_USB_FUNCTIONS_FROM_STRING = 8"
definition USB_FUN_USB_FUNCTIONS_TO_STRING :: u32 where "USB_FUN_USB_FUNCTIONS_TO_STRING = 9"
definition USB_FUN_CLAIM_INTERFACE :: u32 where "USB_FUN_CLAIM_INTERFACE = 10"
definition USB_FUN_RELEASE_INTERFACE :: u32 where "USB_FUN_RELEASE_INTERFACE = 11"
definition USB_FUN_BULK_TRANSFER_READ :: u32 where "USB_FUN_BULK_TRANSFER_READ = 12"
definition USB_FUN_BULK_TRANSFER_WRITE :: u32 where "USB_FUN_BULK_TRANSFER_WRITE = 13"
definition USB_FUN_CONTROL_TRANSFER :: u32 where "USB_FUN_CONTROL_TRANSFER = 14"
definition USB_FUN_SET_ACTIVE_CONFIG :: u32 where "USB_FUN_SET_ACTIVE_CONFIG = 15"
definition USB_FUN_GET_ACTIVE_CONFIG :: u32 where "USB_FUN_GET_ACTIVE_CONFIG = 16"
definition USB_FUN_SET_INTERFACE :: u32 where "USB_FUN_SET_INTERFACE = 17"
definition USB_FUN_GET_PORTS :: u32 where "USB_FUN_GET_PORTS = 18"
definition USB_FUN_GET_SUPPORTED_MODES :: u32 where "USB_FUN_GET_SUPPORTED_MODES = 19"
definition USB_FUN_SET_PORT_ROLE :: u32 where "USB_FUN_SET_PORT_ROLE = 20"
definition USB_FUN_REQUEST_QUEUE :: u32 where "USB_FUN_REQUEST_QUEUE = 21"
definition USB_FUN_REQUEST_WAIT :: u32 where "USB_FUN_REQUEST_WAIT = 22"
definition USB_FUN_REQUEST_CANCEL :: u32 where "USB_FUN_REQUEST_CANCEL = 23"
definition USB_FUN_GET_DESCRIPTOR :: u32 where "USB_FUN_GET_DESCRIPTOR = 24"
definition USB_FUN_GET_FILEDESCRIPTOR :: u32 where "USB_FUN_GET_FILEDESCRIPTOR = 25"
definition USB_FUN_CLOSE_DEVICE :: u32 where "USB_FUN_CLOSE_DEVICE = 26"
definition USB_FUN_BULK_AYSNC_READ :: u32 where "USB_FUN_BULK_AYSNC_READ = 27"
definition USB_FUN_BULK_AYSNC_WRITE :: u32 where "USB_FUN_BULK_AYSNC_WRITE = 28"
definition USB_FUN_BULK_AYSNC_CANCEL :: u32 where "USB_FUN_BULK_AYSNC_CANCEL = 29"
definition USB_FUN_REG_BULK_CALLBACK :: u32 where "USB_FUN_REG_BULK_CALLBACK = 30"
definition USB_FUN_UNREG_BULK_CALLBACK :: u32 where "USB_FUN_UNREG_BULK_CALLBACK = 31"

lemmas request_codes =
  USB_FUN_HAS_RIGHT_def USB_FUN_REQUEST_RIGHT_def USB_FUN_REMOVE_RIGHT_def USB_FUN_OPEN_DEVICE_def
  USB_FUN_GET_DEVICE_def USB_FUN_GET_DEVICES_def USB_FUN_GET_CURRENT_FUNCTIONS_def
  USB_FUN_SET_CURRENT_FUNCTIONS_def USB_FUN_USB_FUNCTIONS_FROM_STRING_def
  USB_FUN_USB_FUNCTIONS_TO_STRING_def USB_FUN_CLAIM_INTERFACE_def USB_FUN_RELEASE_INTERFACE_def
  USB_FUN_BULK_TRANSFER_READ_def USB_FUN_BULK_TRANSFER_WRITE_def USB_FUN_CONTROL_TRANSFER_def
  USB_FUN_SET_ACTIVE_CONFIG_def USB_FUN_GET_ACTIVE_CONFIG_def USB_FUN_SET_INTERFACE_def
  USB_FUN_GET_PORTS_def USB_FUN_GET_SUPPORTED_MODES_def USB_FUN_SET_PORT_ROLE_def
  USB_FUN_REQUEST_QUEUE_def USB_FUN_REQUEST_WAIT_def USB_FUN_REQUEST_CANCEL_def
  USB_FUN_GET_DESCRIPTOR_def USB_FUN_GET_FILEDESCRIPTOR_def USB_FUN_CLOSE_DEVICE_def
  USB_FUN_BULK_AYSNC_READ_def USB_FUN_BULK_AYSNC_WRITE_def USB_FUN_BULK_AYSNC_CANCEL_def
  USB_FUN_REG_BULK_CALLBACK_def USB_FUN_UNREG_BULK_CALLBACK_def

section \<open>Results of handlers\<close>

text \<open>
  A handler returns its code and the reply, and changes the service and the world.  The call
  may wait for ever (\<open>RequestRight\<close>), so it is a \<open>run\<close>.
\<close>

type_synonym ('p, 'w) stub_result = "((i32 \<times> 'p) \<times> UsbService \<times> 'w) run"

definition answer :: "i32 \<Rightarrow> 'p \<Rightarrow> UsbService \<Rightarrow> 'w \<Rightarrow> ('p, 'w) stub_result" where
  "answer ret reply sv w = Some (Mem ((ret, reply), sv, w))"

text \<open>The reads most handlers begin with: bus number and address, then two more bytes.\<close>

definition read_dev ::
  "'p parcel_ops \<Rightarrow> 'p \<Rightarrow> 'r \<Rightarrow> (u8 \<Rightarrow> u8 \<Rightarrow> 'p \<Rightarrow> 'r) \<Rightarrow> 'r" where
  "read_dev P data fail k =
     read_with_ret (p_Read8 P) data (\<lambda>_. fail) (\<lambda>busNum data.
       read_with_ret (p_Read8 P) data (\<lambda>_. fail) (\<lambda>devAddr data. k busNum devAddr data))"

definition read_dev2 ::
  "'p parcel_ops \<Rightarrow> 'p \<Rightarrow> 'r \<Rightarrow> (u8 \<Rightarrow> u8 \<Rightarrow> u8 \<Rightarrow> u8 \<Rightarrow> 'p \<Rightarrow> 'r) \<Rightarrow> 'r" where
  "read_dev2 P data fail k =
     read_dev P data fail (\<lambda>busNum devAddr data.
       read_with_ret (p_Read8 P) data (\<lambda>_. fail) (\<lambda>interface data.
         read_with_ret (p_Read8 P) data (\<lambda>_. fail) (\<lambda>endpoint data.
           k busNum devAddr interface endpoint data)))"

text \<open>\<open>GetDeviceMessage\<close> reads the same two bytes into its arguments; no handler calls it.\<close>

definition GetDeviceMessage :: "'p parcel_ops \<Rightarrow> uec_codes \<Rightarrow> u8 \<Rightarrow> u8 \<Rightarrow> 'p \<Rightarrow> (i32 \<times> u8 \<times> u8) \<times> 'p" where
  "GetDeviceMessage P E busNum devAddr data =
     (case p_Read8 P data of
        (None, data) \<Rightarrow> ((UEC_SERVICE_READ_PARCEL_ERROR E, busNum, devAddr), data)
      | (Some busNum, data) \<Rightarrow>
          (case p_Read8 P data of
             (None, data) \<Rightarrow> ((UEC_SERVICE_READ_PARCEL_ERROR E, busNum, devAddr), data)
           | (Some devAddr, data) \<Rightarrow> ((UEC_OK E, busNum, devAddr), data)))"

definition usb_pipe :: "u8 \<Rightarrow> u8 \<Rightarrow> UsbPipe" where
  "usb_pipe interface endpoint = \<lparr>pipe_interfaceId = interface, pipe_endpointId = endpoint\<rparr>"

section \<open>Functions\<close>

text \<open>\<open>junk\<close> is the uninitialised local variable.\<close>

definition DoGetCurrentFunctions ::
  "'p parcel_ops \<Rightarrow> uec_codes \<Rightarrow> 'w ext \<Rightarrow> i32 \<Rightarrow> 'p \<Rightarrow> 'p \<Rightarrow> UsbService \<Rightarrow> 'w \<Rightarrow> ('p, 'w) stub_result" where
  "DoGetCurrentFunctions P E x junk data reply sv w =
     (let ((ret, funcs), w1) = Service_GetCurrentFunctions x junk w
      in if ret \<noteq> UEC_OK E then answer ret reply sv w1
         else write_with_ret P (P32 funcs) reply
           (\<lambda>reply. answer (UEC_SERVICE_WRITE_PARCEL_ERROR E) reply sv w1)
           (\<lambda>reply. answer (UEC_OK E) reply sv w1))"

definition DoSetCurrentFunctions ::
  "'p parcel_ops \<Rightarrow> uec_codes \<Rightarrow> 'w ext \<Rightarrow> 'p \<Rightarrow> 'p \<Rightarrow> UsbService \<Rightarrow> 'w \<Rightarrow> ('p, 'w) stub_result" where
  "DoSetCurrentFunctions P E x data reply sv w =
     read_with_ret (p_Read32 P) data
       (\<lambda>_. answer (UEC_SERVICE_READ_PARCEL_ERROR E) reply sv w)
       (\<lambda>funcs _. let ((ret, sv1), w1) = Service_SetCurrentFunctions E x funcs sv w
          in answer ret reply sv1 w1)"

definition DoUsbFunctionsFromString ::
  "'p parcel_ops \<Rightarrow> uec_codes \<Rightarrow> 'p \<Rightarrow> 'p \<Rightarrow> UsbService \<Rightarrow> 'w \<Rightarrow> ('p, 'w) stub_result" where
  "DoUsbFunctionsFromString P E data reply sv w =
     read_with_ret (p_ReadString P) data
       (\<lambda>_. answer (UEC_SERVICE_READ_PARCEL_ERROR E) reply sv w)
       (\<lambda>funcs _. write_with_ret P (P32 (UsbFunctionsFromString E funcs)) reply
          (\<lambda>reply. answer (UEC_SERVICE_WRITE_PARCEL_ERROR E) reply sv w)
          (\<lambda>reply. answer (UEC_OK E) reply sv w))"

definition DoUsbFunctionsToString ::
  "'p parcel_ops \<Rightarrow> uec_codes \<Rightarrow> 'p \<Rightarrow> 'p \<Rightarrow> UsbService \<Rightarrow> 'w \<Rightarrow> ('p, 'w) stub_result" where
  "DoUsbFunctionsToString P E data reply sv w =
     read_with_ret (p_Read32 P) data
       (\<lambda>_. answer (UEC_SERVICE_READ_PARCEL_ERROR E) reply sv w)
       (\<lambda>funcs _. write_with_ret P (PStr (UsbFunctionsToString funcs)) reply
          (\<lambda>reply. answer (UEC_SERVICE_WRITE_PARCEL_ERROR E) reply sv w)
          (\<lambda>reply. answer (UEC_OK E) reply sv w))"

section \<open>Rights and devices\<close>

definition DoOpenDevice ::
  "'p parcel_ops \<Rightarrow> uec_codes \<Rightarrow> 'w ext \<Rightarrow> 'p \<Rightarrow> 'p \<Rightarrow> UsbService \<Rightarrow> 'w \<Rightarrow> ('p, 'w) stub_result" where
  "DoOpenDevice P E x data reply sv w =
     read_dev P data (answer (UEC_SERVICE_READ_PARCEL_ERROR E) reply sv w)
       (\<lambda>busNum devAddr _. let (ret, w1) = Service_OpenDevice E x busNum devAddr sv w
          in if ret \<noteq> UEC_OK E then answer ret reply sv w1 else answer (UEC_OK E) reply sv w1)"

definition DoHasRight ::
  "'p parcel_ops \<Rightarrow> uec_codes \<Rightarrow> 'w ext \<Rightarrow> 'p \<Rightarrow> 'p \<Rightarrow> UsbService \<Rightarrow> 'w \<Rightarrow> ('p, 'w) stub_result" where
  "DoHasRight P E x data reply sv w =
     read_with_ret (p_ReadString P) data
       (\<lambda>_. answer (UEC_SERVICE_READ_PARCEL_ERROR E) reply sv w)
       (\<lambda>deviceName _. let (right, w1) = Service_HasRight x deviceName sv w
          in write_with_ret P (PBool right) reply
            (\<lambda>reply. answer (UEC_SERVICE_WRITE_PARCEL_ERROR E) reply sv w1)
            (\<lambda>reply. answer (UEC_OK E) reply sv w1))"

definition DoRequestRight ::
  "'p parcel_ops \<Rightarrow> uec_codes \<Rightarrow> 'w ext \<Rightarrow> 'p \<Rightarrow> 'p \<Rightarrow> UsbService \<Rightarrow> 'w \<Rightarrow> ('p, 'w) stub_result" where
  "DoRequestRight P E x data reply sv w =
     read_with_ret (p_ReadString P) data
       (\<lambda>_. answer (UEC_SERVICE_READ_PARCEL_ERROR E) reply sv w)
       (\<lambda>deviceName _. case Service_RequestRight E x deviceName sv w of
          None \<Rightarrow> None
        | Some ((ret, sv1), w1) \<Rightarrow> answer ret reply sv1 w1)"

definition DoRemoveRight ::
  "'p parcel_ops \<Rightarrow> uec_codes \<Rightarrow> 'p \<Rightarrow> 'p \<Rightarrow> UsbService \<Rightarrow> 'w \<Rightarrow> ('p, 'w) stub_result" where
  "DoRemoveRight P E data reply sv w =
     read_with_ret (p_ReadString P) data
       (\<lambda>_. answer (UEC_SERVICE_READ_PARCEL_ERROR E) reply sv w)
       (\<lambda>deviceName _. let (ret, sv1) = Service_RemoveRight E deviceName sv
          in answer ret reply sv1 w)"

definition DoGetDevices ::
  "'p parcel_ops \<Rightarrow> uec_codes \<Rightarrow> 'p \<Rightarrow> 'p \<Rightarrow> UsbService \<Rightarrow> 'w \<Rightarrow> ('p, 'w) stub_result" where
  "DoGetDevices P E data reply sv w =
     (case Service_GetDevices E [] sv of
        BadRead \<Rightarrow> Some BadRead
      | Mem (ret, deviceList) \<Rightarrow>
          if ret \<noteq> UEC_OK E then answer ret reply sv w
          else (let (ret, reply) = SetDeviceListMessageParcel P E deviceList reply
                in answer ret reply sv w))"

definition DoClose ::
  "'p parcel_ops \<Rightarrow> uec_codes \<Rightarrow> 'w ext \<Rightarrow> 'p \<Rightarrow> 'p \<Rightarrow> UsbService \<Rightarrow> 'w \<Rightarrow> ('p, 'w) stub_result" where
  "DoClose P E x data reply sv w =
     read_dev P data (answer (UEC_SERVICE_WRITE_PARCEL_ERROR E) reply sv w)
       (\<lambda>busNum devAddr _. let (ret, w1) = Service_Close x busNum devAddr w in answer ret reply sv w1)"

section \<open>Ports\<close>

text \<open>The size is a \<open>uint32_t\<close> written as \<open>Int32\<close>.\<close>

definition DoGetPorts ::
  "'p parcel_ops \<Rightarrow> uec_codes \<Rightarrow> 'w ext \<Rightarrow> 'p \<Rightarrow> 'p \<Rightarrow> UsbService \<Rightarrow> 'w \<Rightarrow> ('p, 'w) stub_result" where
  "DoGetPorts P E x data reply sv w =
     (let (((ret, ports), sv1), w1) = Service_GetPorts E x [] sv w
      in if ret \<noteq> UEC_OK E then answer ret reply sv1 w1
         else
           (let size_ports = of_nat (length ports) :: u32
            in write_with_ret P (P32 size_ports) reply
              (\<lambda>reply. answer (UEC_SERVICE_WRITE_PARCEL_ERROR E) reply sv1 w1)
              (\<lambda>reply. let (ret, reply) =
                   write_loop E (WriteUsbPort P E) (take (unat size_ports) ports) reply
                 in answer ret reply sv1 w1)))"

definition DoGetSupportedModes ::
  "'p parcel_ops \<Rightarrow> uec_codes \<Rightarrow> 'p \<Rightarrow> 'p \<Rightarrow> UsbService \<Rightarrow> 'w \<Rightarrow> ('p, 'w) stub_result" where
  "DoGetSupportedModes P E data reply sv w =
     read_with_ret (p_Read32 P) data
       (\<lambda>_. answer (UEC_SERVICE_READ_PARCEL_ERROR E) reply sv w)
       (\<lambda>portId _. let (ret, modes) = Service_GetSupportedModes E portId 0 sv
          in if ret \<noteq> UEC_OK E then answer ret reply sv w
             else write_with_ret P (P32 modes) reply
               (\<lambda>reply. answer (UEC_SERVICE_WRITE_PARCEL_ERROR E) reply sv w)
               (\<lambda>reply. answer ret reply sv w))"

definition DoSetPortRole ::
  "'p parcel_ops \<Rightarrow> uec_codes \<Rightarrow> 'w ext \<Rightarrow> 'p \<Rightarrow> 'p \<Rightarrow> UsbService \<Rightarrow> 'w \<Rightarrow> ('p, 'w) stub_result" where
  "DoSetPortRole P E x data reply sv w =
     (let fail = (\<lambda>_. answer (UEC_SERVICE_READ_PARCEL_ERROR E) reply sv w)
      in read_with_ret (p_Read32 P) data fail (\<lambda>portId data.
         read_with_ret (p_Read32 P) data fail (\<lambda>powerRole data.
         read_with_ret (p_Read32 P) data fail (\<lambda>dataRole data.
           let (ret, w1) = Service_SetPortRole x portId powerRole dataRole w
           in answer ret reply sv w1))))"

section \<open>Interfaces and settings\<close>

definition DoClaimInterface ::
  "'p parcel_ops \<Rightarrow> uec_codes \<Rightarrow> 'w ext \<Rightarrow> 'p \<Rightarrow> 'p \<Rightarrow> UsbService \<Rightarrow> 'w \<Rightarrow> ('p, 'w) stub_result" where
  "DoClaimInterface P E x data reply sv w =
     read_dev2 P data (answer (UEC_SERVICE_READ_PARCEL_ERROR E) reply sv w)
       (\<lambda>busNum devAddr interface force _.
          let (ret, w1) = Service_ClaimInterface x busNum devAddr interface force w
          in answer ret reply sv w1)"

definition DoReleaseInterface ::
  "'p parcel_ops \<Rightarrow> uec_codes \<Rightarrow> 'w ext \<Rightarrow> 'p \<Rightarrow> 'p \<Rightarrow> UsbService \<Rightarrow> 'w \<Rightarrow> ('p, 'w) stub_result" where
  "DoReleaseInterface P E x data reply sv w =
     (let fail = answer (UEC_SERVICE_READ_PARCEL_ERROR E) reply sv w
      in read_dev P data fail (\<lambda>busNum devAddr data.
         read_with_ret (p_Read8 P) data (\<lambda>_. fail) (\<lambda>interface _.
           let (ret, w1) = Service_ReleaseInterface x busNum devAddr interface w
           in answer ret reply sv w1)))"

definition DoSetActiveConfig ::
  "'p parcel_ops \<Rightarrow> uec_codes \<Rightarrow> 'w ext \<Rightarrow> 'p \<Rightarrow> 'p \<Rightarrow> UsbService \<Rightarrow> 'w \<Rightarrow> ('p, 'w) stub_result" where
  "DoSetActiveConfig P E x data reply sv w =
     (let fail = answer (UEC_SERVICE_WRITE_PARCEL_ERROR E) reply sv w
      in read_dev P data fail (\<lambda>busNum devAddr data.
         read_with_ret (p_Read8 P) data (\<lambda>_. fail) (\<lambda>config _.
           let (ret, w1) = Service_SetActiveConfig x busNum devAddr config w
           in answer ret reply sv w1)))"

definition DoGetActiveConfig ::
  "'p parcel_ops \<Rightarrow> uec_codes \<Rightarrow> 'w ext \<Rightarrow> 'p \<Rightarrow> 'p \<Rightarrow> UsbService \<Rightarrow> 'w \<Rightarrow> ('p, 'w) stub_result" where
  "DoGetActiveConfig P E x data reply sv w =
     read_dev P data (answer (UEC_SERVICE_WRITE_PARCEL_ERROR E) reply sv w) (\<lambda>busNum devAddr _.
       let ((ret, config), w1) = Service_GetActiveConfig x busNum devAddr 0 w
       in if ret = UEC_OK E
          then write_with_ret P (P8 config) reply
            (\<lambda>reply. answer (UEC_SERVICE_WRITE_PARCEL_ERROR E) reply sv w1)
            (\<lambda>reply. answer ret reply sv w1)
          else answer ret reply sv w1)"

definition DoSetInterface ::
  "'p parcel_ops \<Rightarrow> uec_codes \<Rightarrow> 'w ext \<Rightarrow> 'p \<Rightarrow> 'p \<Rightarrow> UsbService \<Rightarrow> 'w \<Rightarrow> ('p, 'w) stub_result" where
  "DoSetInterface P E x data reply sv w =
     read_dev2 P data (answer (UEC_SERVICE_WRITE_PARCEL_ERROR E) reply sv w)
       (\<lambda>busNum devAddr interfaceId altIndex _.
          let (ret, w1) = Service_SetInterface x busNum devAddr interfaceId altIndex w
          in answer ret reply sv w1)"

definition DoGetRawDescriptor ::
  "'p parcel_ops \<Rightarrow> uec_codes \<Rightarrow> 'w ext \<Rightarrow> 'p \<Rightarrow> 'p \<Rightarrow> UsbService \<Rightarrow> 'w \<Rightarrow> ('p, 'w) stub_result" where
  "DoGetRawDescriptor P E x data reply sv w =
     read_dev P data (answer (UEC_SERVICE_WRITE_PARCEL_ERROR E) reply sv w) (\<lambda>busNum devAddr _.
       let ((ret, bufferData), w1) = Service_GetRawDescriptor x busNum devAddr [] w
       in if UEC_OK E = ret
          then (let (ret, reply) = SetBufferMessage P E bufferData reply in answer ret reply sv w1)
          else answer ret reply sv w1)"

definition DoGetFileDescriptor ::
  "'p parcel_ops \<Rightarrow> uec_codes \<Rightarrow> 'w ext \<Rightarrow> 'p \<Rightarrow> 'p \<Rightarrow> UsbService \<Rightarrow> 'w \<Rightarrow> ('p, 'w) stub_result" where
  "DoGetFileDescriptor P E x data reply sv w =
     read_dev P data (answer (UEC_SERVICE_WRITE_PARCEL_ERROR E) reply sv w) (\<lambda>busNum devAddr _.
       let ((ret, fd), w1) = Service_GetFileDescriptor x busNum devAddr (- 1) w
       in if UEC_OK E = ret
          then write_with_ret P (P32 fd) reply
            (\<lambda>reply. answer (UEC_SERVICE_WRITE_PARCEL_ERROR E) reply sv w1)
            (\<lambda>reply. answer ret reply sv w1)
          else answer ret reply sv w1)"

section \<open>Transfers\<close>

definition DoBulkTransferRead ::
  "'p parcel_ops \<Rightarrow> uec_codes \<Rightarrow> 'w ext \<Rightarrow> 'p \<Rightarrow> 'p \<Rightarrow> UsbService \<Rightarrow> 'w \<Rightarrow> ('p, 'w) stub_result" where
  "DoBulkTransferRead P E x data reply sv w =
     (let fail = answer (UEC_SERVICE_WRITE_PARCEL_ERROR E) reply sv w
      in read_dev2 P data fail (\<lambda>busNum devAddr interface endpoint data.
         read_with_ret (p_Read32 P) data (\<lambda>_. fail) (\<lambda>timeOut _.
           let ((ret, bufferData), w1) =
             Service_BulkTransferRead x (usb_dev busNum devAddr) (usb_pipe interface endpoint) []
               timeOut w
           in if ret \<noteq> UEC_OK E then answer ret reply sv w1
              else (let (ret, reply) = SetBufferMessage P E bufferData reply
                    in answer ret reply sv w1))))"

definition DoBulkTransferWrite ::
  "'p parcel_ops \<Rightarrow> uec_codes \<Rightarrow> 'w ext \<Rightarrow> 'p \<Rightarrow> 'p \<Rightarrow> UsbService \<Rightarrow> 'w \<Rightarrow> ('p, 'w) stub_result" where
  "DoBulkTransferWrite P E x data reply sv w =
     (let fail = answer (UEC_SERVICE_WRITE_PARCEL_ERROR E) reply sv w
      in read_dev2 P data fail (\<lambda>busNum devAddr interface endpoint data.
         read_with_ret (p_Read32 P) data (\<lambda>_. fail) (\<lambda>timeOut data.
           let ((ret, bufferData), _) = GetBufferMessage P E data
           in if UEC_OK E \<noteq> ret then answer ret reply sv w
              else
                (let (ret, w1) = Service_BulkTransferWrite x (usb_dev busNum devAddr)
                   (usb_pipe interface endpoint) bufferData timeOut w
                 in answer ret reply sv w1))))"

text \<open>A reply that cannot be written is only logged: the result is \<open>UEC_OK\<close> all the same.\<close>

definition DoControlTransfer ::
  "'p parcel_ops \<Rightarrow> uec_codes \<Rightarrow> 'w ext \<Rightarrow> 'p \<Rightarrow> 'p \<Rightarrow> UsbService \<Rightarrow> 'w \<Rightarrow> ('p, 'w) stub_result" where
  "DoControlTransfer P E x data reply sv w =
     (let fail = answer (UEC_SERVICE_WRITE_PARCEL_ERROR E) reply sv w
      in read_dev P data fail (\<lambda>busNum devAddr data.
         read_with_ret (p_Read32 P) data (\<lambda>_. fail) (\<lambda>requestType data.
         read_with_ret (p_Read32 P) data (\<lambda>_. fail) (\<lambda>request data.
         read_with_ret (p_Read32 P) data (\<lambda>_. fail) (\<lambda>val data.
         read_with_ret (p_Read32 P) data (\<lambda>_. fail) (\<lambda>index data.
         read_with_ret (p_Read32 P) data (\<lambda>_. fail) (\<lambda>timeOut data.
           let ((ret, bufferData), _) = GetBufferMessage P E data
           in if UEC_OK E \<noteq> ret then answer ret reply sv w
              else
                (let bWrite = requestType AND USB_ENDPOINT_DIR_MASK = USB_ENDPOINT_DIR_OUT;
                     tctrl = \<lparr>ctrl_requestType = requestType, ctrl_requestCmd = request,
                       ctrl_value = val, ctrl_index = index, ctrl_timeout = timeOut\<rparr>;
                     ((ret, bufferData), w1) =
                       Service_ControlTransfer x (usb_dev busNum devAddr) tctrl bufferData w
                 in if ret \<noteq> UEC_OK E then answer ret reply sv w1
                    else if \<not> bWrite
                    then (let (_, reply) = SetBufferMessage P E bufferData reply
                          in answer (UEC_OK E) reply sv w1)
                    else answer (UEC_OK E) reply sv w1))))))))"

section \<open>Requests\<close>

definition DoRequestQueue ::
  "'p parcel_ops \<Rightarrow> uec_codes \<Rightarrow> 'w ext \<Rightarrow> 'p \<Rightarrow> 'p \<Rightarrow> UsbService \<Rightarrow> 'w \<Rightarrow> ('p, 'w) stub_result" where
  "DoRequestQueue P E x data reply sv w =
     read_dev2 P data (answer (UEC_SERVICE_WRITE_PARCEL_ERROR E) reply sv w)
       (\<lambda>busNum devAddr ifId endpoint data.
          let ((ret, clientData), data) = GetBufferMessage P E data
          in if UEC_OK E \<noteq> ret then answer ret reply sv w
             else
               (let ((ret, bufferData), _) = GetBufferMessage P E data
                in if UEC_OK E \<noteq> ret then answer ret reply sv w
                   else
                     (let (ret, w1) = Service_RequestQueue x (usb_dev busNum devAddr)
                        (usb_pipe ifId endpoint) clientData bufferData w
                      in answer ret reply sv w1)))"

definition DoRequestWait ::
  "'p parcel_ops \<Rightarrow> uec_codes \<Rightarrow> 'w ext \<Rightarrow> 'p \<Rightarrow> 'p \<Rightarrow> UsbService \<Rightarrow> 'w \<Rightarrow> ('p, 'w) stub_result" where
  "DoRequestWait P E x data reply sv w =
     (let fail = answer (UEC_SERVICE_WRITE_PARCEL_ERROR E) reply sv w
      in read_dev P data fail (\<lambda>busNum devAddr data.
         read_with_ret (p_Read32 P) data (\<lambda>_. fail) (\<lambda>timeOut _.
           let ((ret, clientData, bufferData), w1) =
             Service_RequestWait x (usb_dev busNum devAddr) timeOut [] [] w
           in if ret \<noteq> UEC_OK E then answer ret reply sv w1
              else
                (let (ret, reply) = SetBufferMessage P E clientData reply
                 in if ret \<noteq> UEC_OK E then answer ret reply sv w1
                    else (let (ret, reply) = SetBufferMessage P E bufferData reply
                          in answer ret reply sv w1)))))"

definition DoRequestCancel ::
  "'p parcel_ops \<Rightarrow> uec_codes \<Rightarrow> 'w ext \<Rightarrow> 'p \<Rightarrow> 'p \<Rightarrow> UsbService \<Rightarrow> 'w \<Rightarrow> ('p, 'w) stub_result" where
  "DoRequestCancel P E x data reply sv w =
     read_dev2 P data (answer (UEC_SERVICE_WRITE_PARCEL_ERROR E) reply sv w)
       (\<lambda>busNum devAddr interfaceId endpointId _.
          let (ret, w1) = Service_RequestCancel x busNum devAddr interfaceId endpointId w
          in answer ret reply sv w1)"

section \<open>Asynchronous transfers\<close>

definition DoRegBulkCallback ::
  "'p parcel_ops \<Rightarrow> uec_codes \<Rightarrow> 'w ext \<Rightarrow> 'p \<Rightarrow> 'p \<Rightarrow> UsbService \<Rightarrow> 'w \<Rightarrow> ('p, 'w) stub_result" where
  "DoRegBulkCallback P E x data reply sv w =
     read_dev2 P data (answer (UEC_SERVICE_WRITE_PARCEL_ERROR E) reply sv w)
       (\<lambda>busNum devAddr interface endpoint data.
          let (cb, _) = p_ReadObject P data;
              (ret, w1) = Service_RegBulkCallback x (usb_dev busNum devAddr)
                (usb_pipe interface endpoint) cb w
          in answer ret reply sv w1)"

definition DoUnRegBulkCallback ::
  "'p parcel_ops \<Rightarrow> uec_codes \<Rightarrow> 'w ext \<Rightarrow> 'p \<Rightarrow> 'p \<Rightarrow> UsbService \<Rightarrow> 'w \<Rightarrow> ('p, 'w) stub_result" where
  "DoUnRegBulkCallback P E x data reply sv w =
     read_dev2 P data (answer (UEC_SERVICE_WRITE_PARCEL_ERROR E) reply sv w)
       (\<lambda>busNum devAddr interface endpoint _.
          let (ret, w1) = Service_UnRegBulkCallback x (usb_dev busNum devAddr)
                (usb_pipe interface endpoint) w
          in answer ret reply sv w1)"

definition DoBulkRead ::
  "'p parcel_ops \<Rightarrow> uec_codes \<Rightarrow> 'w ext \<Rightarrow> 'p \<Rightarrow> 'p \<Rightarrow> UsbService \<Rightarrow> 'w \<Rightarrow> ('p, 'w) stub_result" where
  "DoBulkRead P E x data reply sv w =
     read_dev2 P data (answer (UEC_SERVICE_WRITE_PARCEL_ERROR E) reply sv w)
       (\<lambda>busNum devAddr interface endpoint data.
          let (ashmem, _) = p_ReadObject P data;
              (ret, w1) = Service_BulkRead E x (usb_dev busNum devAddr)
                (usb_pipe interface endpoint) ashmem w
          in answer ret reply sv w1)"

definition DoBulkWrite ::
  "'p parcel_ops \<Rightarrow> uec_codes \<Rightarrow> 'w ext \<Rightarrow> 'p \<Rightarrow> 'p \<Rightarrow> UsbService \<Rightarrow> 'w \<Rightarrow> ('p, 'w) stub_result" where
  "DoBulkWrite P E x data reply sv w =
     read_dev2 P data (answer (UEC_SERVICE_WRITE_PARCEL_ERROR E) reply sv w)
       (\<lambda>busNum devAddr interface endpoint data.
          let (ashmem, _) = p_ReadObject P data;
              (ret, w1) = Service_BulkWrite E x (usb_dev busNum devAddr)
                (usb_pipe interface endpoint) ashmem w
          in answer ret reply sv w1)"

definition DoBulkCancel ::
  "'p parcel_ops \<Rightarrow> uec_codes \<Rightarrow> 'w ext \<Rightarrow> 'p \<Rightarrow> 'p \<Rightarrow> UsbService \<Rightarrow> 'w \<Rightarrow> ('p, 'w) stub_result" where
  "DoBulkCancel P E x data reply sv w =
     read_dev2 P data (answer (UEC_SERVICE_WRITE_PARCEL_ERROR E) reply sv w)
       (\<lambda>busNum devAddr interface endpoint _.
          let (ret, w1) = Service_BulkCancel x (usb_dev busNum devAddr)
                (usb_pipe interface endpoint) w
          in answer ret reply sv w1)"

section \<open>Dispatch\<close>

text \<open>
  \<open>StubDevice\<close> and \<open>StubHost\<close> set the result and return \<open>true\<close>, or return \<open>false\<close> for a code
  that is not theirs: \<open>None\<close>.
\<close>

definition StubDevice ::
  "'p parcel_ops \<Rightarrow> uec_codes \<Rightarrow> 'w ext \<Rightarrow> u32 \<Rightarrow> 'p \<Rightarrow> 'p \<Rightarrow> UsbService \<Rightarrow> 'w \<Rightarrow>
     ('p, 'w) stub_result option" where
  "StubDevice P E x code data reply sv w =
     (if code = USB_FUN_OPEN_DEVICE then Some (DoOpenDevice P E x data reply sv w)
      else if code = USB_FUN_HAS_RIGHT then Some (DoHasRight P E x data reply sv w)
      else if code = USB_FUN_REQUEST_RIGHT then Some (DoRequestRight P E x data reply sv w)
      else if code = USB_FUN_REMOVE_RIGHT then Some (DoRemoveRight P E data reply sv w)
      else if code = USB_FUN_GET_PORTS then Some (DoGetPorts P E x data reply sv w)
      else if code = USB_FUN_GET_SUPPORTED_MODES then Some (DoGetSupportedModes P E data reply sv w)
      else if code = USB_FUN_SET_PORT_ROLE then Some (DoSetPortRole P E x data reply sv w)
      else if code = USB_FUN_CLAIM_INTERFACE then Some (DoClaimInterface P E x data reply sv w)
      else if code = USB_FUN_RELEASE_INTERFACE then Some (DoReleaseInterface P E x data reply sv w)
      else if code = USB_FUN_BULK_TRANSFER_READ then Some (DoBulkTransferRead P E x data reply sv w)
      else if code = USB_FUN_BULK_TRANSFER_WRITE then Some (DoBulkTransferWrite P E x data reply sv w)
      else if code = USB_FUN_CONTROL_TRANSFER then Some (DoControlTransfer P E x data reply sv w)
      else if code = USB_FUN_REG_BULK_CALLBACK then Some (DoRegBulkCallback P E x data reply sv w)
      else if code = USB_FUN_UNREG_BULK_CALLBACK then Some (DoUnRegBulkCallback P E x data reply sv w)
      else if code = USB_FUN_GET_FILEDESCRIPTOR then Some (DoGetFileDescriptor P E x data reply sv w)
      else None)"

definition StubHost ::
  "'p parcel_ops \<Rightarrow> uec_codes \<Rightarrow> 'w ext \<Rightarrow> i32 \<Rightarrow> u32 \<Rightarrow> 'p \<Rightarrow> 'p \<Rightarrow> UsbService \<Rightarrow> 'w \<Rightarrow>
     ('p, 'w) stub_result option" where
  "StubHost P E x junk code data reply sv w =
     (if code = USB_FUN_GET_DEVICES then Some (DoGetDevices P E data reply sv w)
      else if code = USB_FUN_GET_CURRENT_FUNCTIONS
        then Some (DoGetCurrentFunctions P E x junk data reply sv w)
      else if code = USB_FUN_SET_CURRENT_FUNCTIONS
        then Some (DoSetCurrentFunctions P E x data reply sv w)
      else if code = USB_FUN_USB_FUNCTIONS_FROM_STRING
        then Some (DoUsbFunctionsFromString P E data reply sv w)
      else if code = USB_FUN_USB_FUNCTIONS_TO_STRING
        then Some (DoUsbFunctionsToString P E data reply sv w)
      else if code = USB_FUN_CLOSE_DEVICE then Some (DoClose P E x data reply sv w)
      else if code = USB_FUN_REQUEST_QUEUE then Some (DoRequestQueue P E x data reply sv w)
      else if code = USB_FUN_REQUEST_WAIT then Some (DoRequestWait P E x data reply sv w)
      else if code = USB_FUN_SET_INTERFACE then Some (DoSetInterface P E x data reply sv w)
      else if code = USB_FUN_SET_ACTIVE_CONFIG then Some (DoSetActiveConfig P E x data reply sv w)
      else if code = USB_FUN_REQUEST_CANCEL then Some (DoRequestCancel P E x data reply sv w)
      else if code = USB_FUN_BULK_AYSNC_READ then Some (DoBulkRead P E x data reply sv w)
      else if code = USB_FUN_BULK_AYSNC_WRITE then Some (DoBulkWrite P E x data reply sv w)
      else if code = USB_FUN_BULK_AYSNC_CANCEL then Some (DoBulkCancel P E x data reply sv w)
      else if code = USB_FUN_GET_DESCRIPTOR then Some (DoGetRawDescriptor P E x data reply sv w)
      else None)"

text \<open>
  The interface descriptor is the one declared in \<open>iusb_srv.h\<close>.  A code that neither part
  knows goes to the base class of the IPC library, the parameter \<open>base\<close>.
\<close>

definition IUsbSrv_GetDescriptor :: string where
  "IUsbSrv_GetDescriptor = ''ohos.usb.IUsbSrv''"

definition OnRemoteRequest ::
  "'p parcel_ops \<Rightarrow> uec_codes \<Rightarrow> 'w ext \<Rightarrow> (u32 \<Rightarrow> 'p \<Rightarrow> 'p \<Rightarrow> 'w \<Rightarrow> (i32 \<times> 'p) \<times> 'w) \<Rightarrow>
     i32 \<Rightarrow> u32 \<Rightarrow> 'p \<Rightarrow> 'p \<Rightarrow> UsbService \<Rightarrow> 'w \<Rightarrow> ('p, 'w) stub_result" where
  "OnRemoteRequest P E x base junk code data reply sv w =
     (let (remoteDescriptor, data) = p_ReadInterfaceToken P data
      in if IUsbSrv_GetDescriptor \<noteq> remoteDescriptor
         then answer (UEC_SERVICE_INNER_ERR E) reply sv w
         else
           (case StubHost P E x junk code data reply sv w of
              Some res \<Rightarrow> res
            | None \<Rightarrow>
                (case StubDevice P E x code data reply sv w of
                   Some res \<Rightarrow> res
                 | None \<Rightarrow> (let ((ret, reply), w1) = base code data reply w
                            in answer ret reply sv w1))))"

end
