(* ===== verification/Usb_Proxy.thy ===== *)
theory Usb_Proxy
  imports Usb_Stub
begin

text \<open>
  The client side of the IPC interface (\<open>usb_srv_proxy.cpp\<close>): every operation writes the
  interface token and its arguments into a message, sends the request to the remote object and
  reads the reply.
\<close>

section \<open>The remote object\<close>

text \<open>
  \<open>SendRequest\<close> is the IPC library's: it takes the code, the message and an empty reply and
  changes a state of its own.  It is a parameter; the pointer to the remote object may be null.
\<close>

type_synonym ('p, 's) sender = "u32 \<Rightarrow> 'p \<Rightarrow> 'p \<Rightarrow> 's \<Rightarrow> ((i32 \<times> 'p) \<times> 's) run"
type_synonym ('v, 's) call = "('v \<times> 's) run"

definition returns :: "'v \<Rightarrow> 's \<Rightarrow> ('v, 's) call" where
  "returns v s = Some (Mem (v, s))"

definition INVALID_STRING_VALUE :: string where
  "INVALID_STRING_VALUE = ''''"

text \<open>\<open>RETURN_IF_WITH_RET(remote == nullptr, ...)\<close> and \<open>WriteInterfaceToken\<close> into a new message.\<close>

definition with_message ::
  "'p parcel_ops \<Rightarrow> ('p, 's) sender option \<Rightarrow> 'r \<Rightarrow> 'r \<Rightarrow> (('p, 's) sender \<Rightarrow> 'p \<Rightarrow> 'r) \<Rightarrow> 'r" where
  "with_message P remote null_ret token_ret k =
     (case remote of
        None \<Rightarrow> null_ret
      | Some send \<Rightarrow>
          write_with_ret P (PToken IUsbSrv_GetDescriptor) (p_empty P) (\<lambda>_. token_ret) (k send))"

definition after_request ::
  "((i32 \<times> 'p) \<times> 's) run \<Rightarrow> (i32 \<Rightarrow> 'p \<Rightarrow> 's \<Rightarrow> ('v, 's) call) \<Rightarrow> ('v, 's) call" where
  "after_request r k =
     (case r of
        None \<Rightarrow> None
      | Some BadRead \<Rightarrow> Some BadRead
      | Some (Mem ((ret, reply), s)) \<Rightarrow> k ret reply s)"

definition SendRequest ::
  "'p parcel_ops \<Rightarrow> ('p, 's) sender \<Rightarrow> u32 \<Rightarrow> 'p \<Rightarrow> 's \<Rightarrow> (i32 \<Rightarrow> 'p \<Rightarrow> 's \<Rightarrow> ('v, 's) call) \<Rightarrow>
     ('v, 's) call" where
  "SendRequest P send code data s k = after_request (send code data (p_empty P) s) k"

text \<open>Most operations write bus and address and do not look at the result.\<close>

text \<open>The proxy has its own copies of the functions for buffers.\<close>

definition Proxy_SetBufferMessage :: "'p parcel_ops \<Rightarrow> uec_codes \<Rightarrow> u8 list \<Rightarrow> 'p \<Rightarrow> i32 \<times> 'p" where
  "Proxy_SetBufferMessage P E bufferData p =
     (let len = length bufferData mod 4294967296
      in write_with_ret P (P32 (of_nat len)) p
        (\<lambda>p1. (UEC_SERVICE_WRITE_PARCEL_ERROR E, p1))
        (\<lambda>p1. if len > 0
           then write_with_ret P (PBuf (take len bufferData)) p1
             (\<lambda>p2. (UEC_SERVICE_WRITE_PARCEL_ERROR E, p2)) (\<lambda>p2. (UEC_OK E, p2))
           else (UEC_OK E, p1)))"

definition Proxy_GetBufferMessage :: "'p parcel_ops \<Rightarrow> uec_codes \<Rightarrow> 'p \<Rightarrow> (i32 \<times> u8 list) \<times> 'p" where
  "Proxy_GetBufferMessage P E p =
     read_with_ret (p_Read32 P) p
       (\<lambda>p1. ((UEC_SERVICE_READ_PARCEL_ERROR E, []), p1))
       (\<lambda>dataSize p1. if dataSize = 0 then ((UEC_OK E, []), p1)
          else read_with_ret (p_ReadUnpadBuffer P (unat dataSize)) p1
            (\<lambda>p2. ((UEC_SERVICE_READ_PARCEL_ERROR E, []), p2))
            (\<lambda>readData p2. ((UEC_OK E, readData), p2)))"

lemma proxy_buffers [simp]:
  "Proxy_SetBufferMessage P E b p = SetBufferMessage P E b p"
  "Proxy_GetBufferMessage P E p = GetBufferMessage P E p"
  by (simp_all add: Proxy_SetBufferMessage_def SetBufferMessage_def Proxy_GetBufferMessage_def GetBufferMessage_def)

definition SetDeviceMessage :: "'p parcel_ops \<Rightarrow> uec_codes \<Rightarrow> u8 \<Rightarrow> u8 \<Rightarrow> 'p \<Rightarrow> i32 \<times> 'p" where
  "SetDeviceMessage P E busNum devAddr data =
     write_with_ret P (P8 busNum) data (\<lambda>data. (UEC_SERVICE_WRITE_PARCEL_ERROR E, data)) (\<lambda>data.
     write_with_ret P (P8 devAddr) data (\<lambda>data. (UEC_SERVICE_WRITE_PARCEL_ERROR E, data)) (\<lambda>data.
       (UEC_OK E, data)))"

text \<open>The parcels written by the later operations begin with the bytes of a device and a pipe.\<close>

definition write_pipe ::
  "'p parcel_ops \<Rightarrow> uec_codes \<Rightarrow> UsbDev \<Rightarrow> UsbPipe \<Rightarrow> 'p \<Rightarrow> 'r \<Rightarrow> ('p \<Rightarrow> 'r) \<Rightarrow> 'r" where
  "write_pipe P E dev pipe data fail k =
     (let (_, data) = SetDeviceMessage P E (ud_busNum dev) (ud_devAddr dev) data
      in write_with_ret P (P8 (pipe_interfaceId pipe)) data (\<lambda>_. fail) (\<lambda>data.
         write_with_ret P (P8 (pipe_endpointId pipe)) data (\<lambda>_. fail) k))"

section \<open>Devices and rights\<close>

definition Proxy_GetDevices ::
  "'p parcel_ops \<Rightarrow> uec_codes \<Rightarrow> i32 \<Rightarrow> UsbDevice \<Rightarrow> ('p, 's) sender option \<Rightarrow> UsbDevice list \<Rightarrow> 's \<Rightarrow>
     (i32 \<times> UsbDevice list, 's) call" where
  "Proxy_GetDevices P E junk junk_dev remote deviceList s =
     with_message P remote (returns (ERR_INVALID_VALUE E, deviceList) s)
       (returns (ERR_INVALID_VALUE E, deviceList) s) (\<lambda>send data.
       SendRequest P send USB_FUN_GET_DEVICES data s (\<lambda>ret reply s.
         if ret \<noteq> UEC_OK E then returns (ret, deviceList) s
         else (let ((ret, deviceList), _) =
                 GetDeviceListMessageParcel P E junk junk_dev deviceList reply
               in returns (ret, deviceList) s)))"

definition Proxy_OpenDevice ::
  "'p parcel_ops \<Rightarrow> uec_codes \<Rightarrow> ('p, 's) sender option \<Rightarrow> u8 \<Rightarrow> u8 \<Rightarrow> 's \<Rightarrow> (i32, 's) call" where
  "Proxy_OpenDevice P E remote busNum devAddr s =
     with_message P remote (returns (UEC_SERVICE_INNER_ERR E) s)
       (returns (UEC_INTERFACE_WRITE_PARCEL_ERROR E) s) (\<lambda>send data.
       let (ret, data) = SetDeviceMessage P E busNum devAddr data
       in if ret \<noteq> UEC_OK E then returns ret s
          else SendRequest P send USB_FUN_OPEN_DEVICE data s (\<lambda>ret _ s. returns ret s))"

definition Proxy_HasRight ::
  "'p parcel_ops \<Rightarrow> uec_codes \<Rightarrow> ('p, 's) sender option \<Rightarrow> string \<Rightarrow> 's \<Rightarrow> (bool, 's) call" where
  "Proxy_HasRight P E remote deviceName s =
     with_message P remote (returns False s) (returns False s) (\<lambda>send data.
       write_with_ret P (PStr deviceName) data (\<lambda>_. returns False s) (\<lambda>data.
       SendRequest P send USB_FUN_HAS_RIGHT data s (\<lambda>ret reply s.
         if ret \<noteq> UEC_OK E then returns False s
         else read_with_ret (p_ReadBool P) reply (\<lambda>_. returns False s)
           (\<lambda>result _. returns result s))))"

definition Proxy_RequestRight ::
  "'p parcel_ops \<Rightarrow> uec_codes \<Rightarrow> ('p, 's) sender option \<Rightarrow> string \<Rightarrow> 's \<Rightarrow> (i32, 's) call" where
  "Proxy_RequestRight P E remote deviceName s =
     with_message P remote (returns (UEC_INTERFACE_INVALID_VALUE E) s)
       (returns (UEC_INTERFACE_WRITE_PARCEL_ERROR E) s) (\<lambda>send data.
       write_with_ret P (PStr deviceName) data (\<lambda>_. returns (UEC_INTERFACE_WRITE_PARCEL_ERROR E) s)
         (\<lambda>data. SendRequest P send USB_FUN_REQUEST_RIGHT data s (\<lambda>ret _ s. returns ret s)))"

definition Proxy_RemoveRight ::
  "'p parcel_ops \<Rightarrow> uec_codes \<Rightarrow> ('p, 's) sender option \<Rightarrow> string \<Rightarrow> 's \<Rightarrow> (i32, 's) call" where
  "Proxy_RemoveRight P E remote deviceName s =
     with_message P remote (returns (UEC_INTERFACE_INVALID_VALUE E) s)
       (returns (UEC_INTERFACE_WRITE_PARCEL_ERROR E) s) (\<lambda>send data.
       write_with_ret P (PStr deviceName) data (\<lambda>_. returns (UEC_INTERFACE_WRITE_PARCEL_ERROR E) s)
         (\<lambda>data. SendRequest P send USB_FUN_REMOVE_RIGHT data s (\<lambda>ret _ s. returns ret s)))"

section \<open>Functions\<close>

definition Proxy_GetCurrentFunctions ::
  "'p parcel_ops \<Rightarrow> uec_codes \<Rightarrow> ('p, 's) sender option \<Rightarrow> i32 \<Rightarrow> 's \<Rightarrow> (i32 \<times> i32, 's) call" where
  "Proxy_GetCurrentFunctions P E remote funcs s =
     with_message P remote (returns (UEC_INTERFACE_INVALID_VALUE E, funcs) s)
       (returns (UEC_INTERFACE_WRITE_PARCEL_ERROR E, funcs) s) (\<lambda>send data.
       SendRequest P send USB_FUN_GET_CURRENT_FUNCTIONS data s (\<lambda>ret reply s.
         if ret \<noteq> UEC_OK E then returns (ret, funcs) s
         else read_with_ret (p_Read32 P) reply
           (\<lambda>_. returns (UEC_INTERFACE_READ_PARCEL_ERROR E, funcs) s)
           (\<lambda>funcs _. returns (ret, funcs) s)))"

definition Proxy_SetCurrentFunctions ::
  "'p parcel_ops \<Rightarrow> uec_codes \<Rightarrow> ('p, 's) sender option \<Rightarrow> i32 \<Rightarrow> 's \<Rightarrow> (i32, 's) call" where
  "Proxy_SetCurrentFunctions P E remote funcs s =
     with_message P remote (returns (UEC_INTERFACE_INVALID_VALUE E) s)
       (returns (UEC_INTERFACE_WRITE_PARCEL_ERROR E) s) (\<lambda>send data.
       write_with_ret P (P32 funcs) data (\<lambda>_. returns (UEC_INTERFACE_WRITE_PARCEL_ERROR E) s)
         (\<lambda>data. SendRequest P send USB_FUN_SET_CURRENT_FUNCTIONS data s (\<lambda>ret _ s. returns ret s)))"

text \<open>The result of these two is the value itself; a failure is one of its values.\<close>

definition Proxy_UsbFunctionsFromString ::
  "'p parcel_ops \<Rightarrow> uec_codes \<Rightarrow> ('p, 's) sender option \<Rightarrow> string \<Rightarrow> 's \<Rightarrow> (i32, 's) call" where
  "Proxy_UsbFunctionsFromString P E remote funcs s =
     with_message P remote (returns (UEC_INTERFACE_INVALID_VALUE E) s)
       (returns (UEC_INTERFACE_WRITE_PARCEL_ERROR E) s) (\<lambda>send data.
       write_with_ret P (PStr funcs) data (\<lambda>_. returns (UEC_INTERFACE_WRITE_PARCEL_ERROR E) s) (\<lambda>data.
       SendRequest P send USB_FUN_USB_FUNCTIONS_FROM_STRING data s (\<lambda>ret reply s.
         if ret \<noteq> UEC_OK E then returns (UEC_INTERFACE_INVALID_VALUE E) s
         else read_with_ret (p_Read32 P) reply (\<lambda>_. returns INVALID_USB_INT_VALUE s)
           (\<lambda>result _. returns result s))))"

definition Proxy_UsbFunctionsToString ::
  "'p parcel_ops \<Rightarrow> uec_codes \<Rightarrow> ('p, 's) sender option \<Rightarrow> i32 \<Rightarrow> 's \<Rightarrow> (string, 's) call" where
  "Proxy_UsbFunctionsToString P E remote funcs s =
     with_message P remote (returns INVALID_STRING_VALUE s) (returns INVALID_STRING_VALUE s)
       (\<lambda>send data. write_with_ret P (P32 funcs) data (\<lambda>_. returns INVALID_STRING_VALUE s) (\<lambda>data.
       SendRequest P send USB_FUN_USB_FUNCTIONS_TO_STRING data s (\<lambda>ret reply s.
         if ret \<noteq> UEC_OK E then returns INVALID_STRING_VALUE s
         else read_with_ret (p_ReadString P) reply (\<lambda>_. returns INVALID_STRING_VALUE s)
           (\<lambda>result _. returns result s))))"

section \<open>Ports\<close>

definition Proxy_GetPorts ::
  "'p parcel_ops \<Rightarrow> uec_codes \<Rightarrow> ('p, 's) sender option \<Rightarrow> UsbPort list \<Rightarrow> 's \<Rightarrow>
     (i32 \<times> UsbPort list, 's) call" where
  "Proxy_GetPorts P E remote ports s =
     with_message P remote (returns (UEC_INTERFACE_INVALID_VALUE E, ports) s)
       (returns (UEC_INTERFACE_WRITE_PARCEL_ERROR E, ports) s) (\<lambda>send data.
       SendRequest P send USB_FUN_GET_PORTS data s (\<lambda>ret reply s.
         if ret \<noteq> UEC_OK E then returns (ret, ports) s
         else read_with_ret (p_Read32 P) reply
           (\<lambda>_. returns (UEC_INTERFACE_READ_PARCEL_ERROR E, ports) s)
           (\<lambda>n reply. let (res, _) = parse_ports P E (rounds n) ports reply in returns res s)))"

definition Proxy_GetSupportedModes ::
  "'p parcel_ops \<Rightarrow> uec_codes \<Rightarrow> ('p, 's) sender option \<Rightarrow> i32 \<Rightarrow> i32 \<Rightarrow> 's \<Rightarrow> (i32 \<times> i32, 's) call" where
  "Proxy_GetSupportedModes P E remote portId modes s =
     with_message P remote (returns (UEC_INTERFACE_INVALID_VALUE E, modes) s)
       (returns (UEC_INTERFACE_WRITE_PARCEL_ERROR E, modes) s) (\<lambda>send data.
       write_with_ret P (P32 portId) data
         (\<lambda>_. returns (UEC_INTERFACE_WRITE_PARCEL_ERROR E, modes) s) (\<lambda>data.
       SendRequest P send USB_FUN_GET_SUPPORTED_MODES data s (\<lambda>ret reply s.
         if ret \<noteq> 0 then returns (ret, modes) s
         else read_with_ret (p_Read32 P) reply
           (\<lambda>_. returns (UEC_INTERFACE_READ_PARCEL_ERROR E, modes) s)
           (\<lambda>modes _. returns (ret, modes) s))))"

definition Proxy_SetPortRole ::
  "'p parcel_ops \<Rightarrow> uec_codes \<Rightarrow> ('p, 's) sender option \<Rightarrow> i32 \<Rightarrow> i32 \<Rightarrow> i32 \<Rightarrow> 's \<Rightarrow> (i32, 's) call" where
  "Proxy_SetPortRole P E remote portId powerRole dataRole s =
     (let fail = returns (UEC_INTERFACE_WRITE_PARCEL_ERROR E) s
      in with_message P remote (returns (UEC_INTERFACE_INVALID_VALUE E) s) fail (\<lambda>send data.
         write_with_ret P (P32 portId) data (\<lambda>_. fail) (\<lambda>data.
         write_with_ret P (P32 powerRole) data (\<lambda>_. fail) (\<lambda>data.
         write_with_ret P (P32 dataRole) data (\<lambda>_. fail) (\<lambda>data.
         SendRequest P send USB_FUN_SET_PORT_ROLE data s (\<lambda>ret _ s. returns ret s))))))"

section \<open>Settings of a device\<close>

text \<open>
  From here on a null remote object gives \<open>UEC_SERVICE_INNER_ERR\<close>, a token that cannot be
  written \<open>ERR_ENOUGH_DATA\<close>, and the result of \<open>SetDeviceMessage\<close> is not looked at.
\<close>

definition with_device_message ::
  "'p parcel_ops \<Rightarrow> uec_codes \<Rightarrow> ('p, 's) sender option \<Rightarrow> u8 \<Rightarrow> u8 \<Rightarrow> (i32 \<Rightarrow> 'r) \<Rightarrow>
     (('p, 's) sender \<Rightarrow> 'p \<Rightarrow> 'r) \<Rightarrow> 'r" where
  "with_device_message P E remote busNum devAddr fail k =
     with_message P remote (fail (UEC_SERVICE_INNER_ERR E)) (fail (ERR_ENOUGH_DATA E))
       (\<lambda>send data. let (_, data) = SetDeviceMessage P E busNum devAddr data in k send data)"

definition Proxy_ClaimInterface ::
  "'p parcel_ops \<Rightarrow> uec_codes \<Rightarrow> ('p, 's) sender option \<Rightarrow> u8 \<Rightarrow> u8 \<Rightarrow> u8 \<Rightarrow> u8 \<Rightarrow> 's \<Rightarrow> (i32, 's) call" where
  "Proxy_ClaimInterface P E remote busNum devAddr interface force s =
     (let fail = (\<lambda>ret. returns ret s)
      in with_device_message P E remote busNum devAddr fail (\<lambda>send data.
         write_with_ret P (P8 interface) data (\<lambda>_. fail (UEC_SERVICE_WRITE_PARCEL_ERROR E)) (\<lambda>data.
         write_with_ret P (P8 force) data (\<lambda>_. fail (UEC_SERVICE_WRITE_PARCEL_ERROR E)) (\<lambda>data.
         SendRequest P send USB_FUN_CLAIM_INTERFACE data s (\<lambda>ret _ s. returns ret s)))))"

definition Proxy_ReleaseInterface ::
  "'p parcel_ops \<Rightarrow> uec_codes \<Rightarrow> ('p, 's) sender option \<Rightarrow> u8 \<Rightarrow> u8 \<Rightarrow> u8 \<Rightarrow> 's \<Rightarrow> (i32, 's) call" where
  "Proxy_ReleaseInterface P E remote busNum devAddr interface s =
     (let fail = (\<lambda>ret. returns ret s)
      in with_device_message P E remote busNum devAddr fail (\<lambda>send data.
         write_with_ret P (P8 interface) data (\<lambda>_. fail (UEC_SERVICE_WRITE_PARCEL_ERROR E)) (\<lambda>data.
         SendRequest P send USB_FUN_RELEASE_INTERFACE data s (\<lambda>ret _ s. returns ret s))))"

definition Proxy_SetActiveConfig ::
  "'p parcel_ops \<Rightarrow> uec_codes \<Rightarrow> ('p, 's) sender option \<Rightarrow> u8 \<Rightarrow> u8 \<Rightarrow> u8 \<Rightarrow> 's \<Rightarrow> (i32, 's) call" where
  "Proxy_SetActiveConfig P E remote busNum devAddr configIndex s =
     (let fail = (\<lambda>ret. returns ret s)
      in with_device_message P E remote busNum devAddr fail (\<lambda>send data.
         write_with_ret P (P8 configIndex) data (\<lambda>_. fail (UEC_SERVICE_WRITE_PARCEL_ERROR E)) (\<lambda>data.
         SendRequest P send USB_FUN_SET_ACTIVE_CONFIG data s (\<lambda>ret _ s. returns ret s))))"

definition Proxy_SetInterface ::
  "'p parcel_ops \<Rightarrow> uec_codes \<Rightarrow> ('p, 's) sender option \<Rightarrow> u8 \<Rightarrow> u8 \<Rightarrow> u8 \<Rightarrow> u8 \<Rightarrow> 's \<Rightarrow> (i32, 's) call" where
  "Proxy_SetInterface P E remote busNum devAddr interfaceid altIndex s =
     (let fail = (\<lambda>ret. returns ret s)
      in with_device_message P E remote busNum devAddr fail (\<lambda>send data.
         write_with_ret P (P8 interfaceid) data (\<lambda>_. fail (UEC_SERVICE_WRITE_PARCEL_ERROR E)) (\<lambda>data.
         write_with_ret P (P8 altIndex) data (\<lambda>_. fail (UEC_SERVICE_WRITE_PARCEL_ERROR E)) (\<lambda>data.
         SendRequest P send USB_FUN_SET_INTERFACE data s (\<lambda>ret _ s. returns ret s)))))"

definition Proxy_RequestCancel ::
  "'p parcel_ops \<Rightarrow> uec_codes \<Rightarrow> ('p, 's) sender option \<Rightarrow> u8 \<Rightarrow> u8 \<Rightarrow> u8 \<Rightarrow> u8 \<Rightarrow> 's \<Rightarrow> (i32, 's) call" where
  "Proxy_RequestCancel P E remote busNum devAddr interfaceid endpointId s =
     (let fail = (\<lambda>ret. returns ret s)
      in with_device_message P E remote busNum devAddr fail (\<lambda>send data.
         write_with_ret P (P8 interfaceid) data (\<lambda>_. fail (UEC_SERVICE_WRITE_PARCEL_ERROR E)) (\<lambda>data.
         write_with_ret P (P8 endpointId) data (\<lambda>_. fail (UEC_SERVICE_WRITE_PARCEL_ERROR E)) (\<lambda>data.
         SendRequest P send USB_FUN_REQUEST_CANCEL data s (\<lambda>ret _ s. returns ret s)))))"

definition Proxy_Close ::
  "'p parcel_ops \<Rightarrow> uec_codes \<Rightarrow> ('p, 's) sender option \<Rightarrow> u8 \<Rightarrow> u8 \<Rightarrow> 's \<Rightarrow> (i32, 's) call" where
  "Proxy_Close P E remote busNum devAddr s =
     with_device_message P E remote busNum devAddr (\<lambda>ret. returns ret s) (\<lambda>send data.
       SendRequest P send USB_FUN_CLOSE_DEVICE data s (\<lambda>ret _ s.
         if ret \<noteq> UEC_OK E then returns ret s else returns (UEC_OK E) s))"

definition Proxy_GetActiveConfig ::
  "'p parcel_ops \<Rightarrow> uec_codes \<Rightarrow> ('p, 's) sender option \<Rightarrow> u8 \<Rightarrow> u8 \<Rightarrow> u8 \<Rightarrow> 's \<Rightarrow> (i32 \<times> u8, 's) call" where
  "Proxy_GetActiveConfig P E remote busNum devAddr configIndex s =
     with_device_message P E remote busNum devAddr (\<lambda>ret. returns (ret, configIndex) s) (\<lambda>send data.
       SendRequest P send USB_FUN_GET_ACTIVE_CONFIG data s (\<lambda>ret reply s.
         if ret \<noteq> UEC_OK E then returns (ret, configIndex) s
         else read_with_ret (p_Read8 P) reply
           (\<lambda>_. returns (UEC_SERVICE_WRITE_PARCEL_ERROR E, configIndex) s)
           (\<lambda>configIndex _. returns (ret, configIndex) s)))"

definition Proxy_GetRawDescriptor ::
  "'p parcel_ops \<Rightarrow> uec_codes \<Rightarrow> ('p, 's) sender option \<Rightarrow> u8 \<Rightarrow> u8 \<Rightarrow> u8 list \<Rightarrow> 's \<Rightarrow>
     (i32 \<times> u8 list, 's) call" where
  "Proxy_GetRawDescriptor P E remote busNum devAddr bufferData s =
     with_device_message P E remote busNum devAddr (\<lambda>ret. returns (ret, bufferData) s) (\<lambda>send data.
       SendRequest P send USB_FUN_GET_DESCRIPTOR data s (\<lambda>ret reply s.
         if ret = UEC_OK E
         then (let (res, _) = Proxy_GetBufferMessage P E reply in returns res s)
         else returns (ret, bufferData) s))"

definition Proxy_GetFileDescriptor ::
  "'p parcel_ops \<Rightarrow> uec_codes \<Rightarrow> ('p, 's) sender option \<Rightarrow> u8 \<Rightarrow> u8 \<Rightarrow> i32 \<Rightarrow> 's \<Rightarrow>
     (i32 \<times> i32, 's) call" where
  "Proxy_GetFileDescriptor P E remote busNum devAddr fd s =
     with_device_message P E remote busNum devAddr (\<lambda>ret. returns (ret, fd) s) (\<lambda>send data.
       SendRequest P send USB_FUN_GET_FILEDESCRIPTOR data s (\<lambda>ret reply s.
         if ret = UEC_OK E
         then read_with_ret (p_Read32 P) reply
           (\<lambda>_. returns (UEC_INTERFACE_READ_PARCEL_ERROR E, fd) s) (\<lambda>fd _. returns (ret, fd) s)
         else returns (ret, fd) s))"

section \<open>Transfers\<close>

definition with_pipe_message ::
  "'p parcel_ops \<Rightarrow> uec_codes \<Rightarrow> ('p, 's) sender option \<Rightarrow> UsbDev \<Rightarrow> UsbPipe \<Rightarrow> (i32 \<Rightarrow> 'r) \<Rightarrow>
     (('p, 's) sender \<Rightarrow> 'p \<Rightarrow> 'r) \<Rightarrow> 'r" where
  "with_pipe_message P E remote dev pipe fail k =
     with_message P remote (fail (UEC_SERVICE_INNER_ERR E)) (fail (ERR_ENOUGH_DATA E))
       (\<lambda>send data. write_pipe P E dev pipe data (fail (UEC_SERVICE_WRITE_PARCEL_ERROR E)) (k send))"

definition Proxy_BulkTransferRead ::
  "'p parcel_ops \<Rightarrow> uec_codes \<Rightarrow> ('p, 's) sender option \<Rightarrow> UsbDev \<Rightarrow> UsbPipe \<Rightarrow> u8 list \<Rightarrow> i32 \<Rightarrow> 's \<Rightarrow>
     (i32 \<times> u8 list, 's) call" where
  "Proxy_BulkTransferRead P E remote dev pipe bufferData timeOut s =
     (let fail = (\<lambda>ret. returns (ret, bufferData) s)
      in with_pipe_message P E remote dev pipe fail (\<lambda>send data.
         write_with_ret P (P32 timeOut) data (\<lambda>_. fail (UEC_SERVICE_WRITE_PARCEL_ERROR E)) (\<lambda>data.
         SendRequest P send USB_FUN_BULK_TRANSFER_READ data s (\<lambda>ret reply s.
           if ret \<noteq> UEC_OK E then returns (ret, bufferData) s
           else (let (res, _) = Proxy_GetBufferMessage P E reply in returns res s)))))"

definition Proxy_BulkTransferWrite ::
  "'p parcel_ops \<Rightarrow> uec_codes \<Rightarrow> ('p, 's) sender option \<Rightarrow> UsbDev \<Rightarrow> UsbPipe \<Rightarrow> u8 list \<Rightarrow> i32 \<Rightarrow> 's \<Rightarrow>
     (i32, 's) call" where
  "Proxy_BulkTransferWrite P E remote dev pipe bufferData timeOut s =
     (let fail = (\<lambda>ret. returns ret s)
      in with_pipe_message P E remote dev pipe fail (\<lambda>send data.
         write_with_ret P (P32 timeOut) data (\<lambda>_. fail (UEC_SERVICE_WRITE_PARCEL_ERROR E)) (\<lambda>data.
           let (ret, data) = Proxy_SetBufferMessage P E bufferData data
           in if UEC_OK E \<noteq> ret then returns ret s
              else SendRequest P send USB_FUN_BULK_TRANSFER_WRITE data s (\<lambda>ret _ s. returns ret s))))"

definition Proxy_ControlTransfer ::
  "'p parcel_ops \<Rightarrow> uec_codes \<Rightarrow> ('p, 's) sender option \<Rightarrow> UsbDev \<Rightarrow> UsbCtrlTransfer \<Rightarrow> u8 list \<Rightarrow> 's \<Rightarrow>
     (i32 \<times> u8 list, 's) call" where
  "Proxy_ControlTransfer P E remote dev ctrl bufferData s =
     (let fail = returns (UEC_SERVICE_WRITE_PARCEL_ERROR E, bufferData) s
      in with_message P remote (returns (UEC_SERVICE_INNER_ERR E, bufferData) s)
           (returns (UEC_SERVICE_INNER_ERR E, bufferData) s) (\<lambda>send data.
         let (_, data) = SetDeviceMessage P E (ud_busNum dev) (ud_devAddr dev) data
         in write_with_ret P (P32 (ctrl_requestType ctrl)) data (\<lambda>_. fail) (\<lambda>data.
            write_with_ret P (P32 (ctrl_requestCmd ctrl)) data (\<lambda>_. fail) (\<lambda>data.
            write_with_ret P (P32 (ctrl_value ctrl)) data (\<lambda>_. fail) (\<lambda>data.
            write_with_ret P (P32 (ctrl_index ctrl)) data (\<lambda>_. fail) (\<lambda>data.
            write_with_ret P (P32 (ctrl_timeout ctrl)) data (\<lambda>_. fail) (\<lambda>data.
              let (ret, data) = Proxy_SetBufferMessage P E bufferData data
              in if UEC_OK E \<noteq> ret then returns (ret, bufferData) s
                 else
                   (let isWrite = ctrl_requestType ctrl AND USB_ENDPOINT_DIR_MASK = USB_ENDPOINT_DIR_OUT
                    in SendRequest P send USB_FUN_CONTROL_TRANSFER data s (\<lambda>ret reply s.
                       if ret \<noteq> UEC_OK E then returns (ret, bufferData) s
                       else if \<not> isWrite
                       then (let ((ret, bufferData), _) = Proxy_GetBufferMessage P E reply
                             in if UEC_OK E \<noteq> ret then returns (ret, bufferData) s
                                else returns (UEC_OK E, bufferData) s)
                       else returns (UEC_OK E, bufferData) s)))))))))"

definition Proxy_RequestQueue ::
  "'p parcel_ops \<Rightarrow> uec_codes \<Rightarrow> ('p, 's) sender option \<Rightarrow> UsbDev \<Rightarrow> UsbPipe \<Rightarrow> u8 list \<Rightarrow> u8 list \<Rightarrow> 's \<Rightarrow>
     (i32, 's) call" where
  "Proxy_RequestQueue P E remote dev pipe clientData bufferData s =
     with_pipe_message P E remote dev pipe (\<lambda>ret. returns ret s) (\<lambda>send data.
       let (ret, data) = Proxy_SetBufferMessage P E clientData data
       in if UEC_OK E \<noteq> ret then returns (ERR_INVALID_VALUE E) s
          else
            (let (ret, data) = Proxy_SetBufferMessage P E bufferData data
             in if UEC_OK E \<noteq> ret then returns (ERR_INVALID_VALUE E) s
                else SendRequest P send USB_FUN_REQUEST_QUEUE data s (\<lambda>ret _ s. returns ret s)))"

definition Proxy_RequestWait ::
  "'p parcel_ops \<Rightarrow> uec_codes \<Rightarrow> ('p, 's) sender option \<Rightarrow> UsbDev \<Rightarrow> i32 \<Rightarrow> u8 list \<Rightarrow> u8 list \<Rightarrow> 's \<Rightarrow>
     (i32 \<times> u8 list \<times> u8 list, 's) call" where
  "Proxy_RequestWait P E remote dev timeOut clientData bufferData s =
     (let fail = (\<lambda>ret. returns (ret, clientData, bufferData) s)
      in with_device_message P E remote (ud_busNum dev) (ud_devAddr dev) fail (\<lambda>send data.
         write_with_ret P (P32 timeOut) data (\<lambda>_. fail (UEC_SERVICE_WRITE_PARCEL_ERROR E)) (\<lambda>data.
         SendRequest P send USB_FUN_REQUEST_WAIT data s (\<lambda>ret reply s.
           if ret \<noteq> UEC_OK E then returns (ret, clientData, bufferData) s
           else
             (let ((ret, clientData), reply) = Proxy_GetBufferMessage P E reply
              in if ret \<noteq> UEC_OK E then returns (ret, clientData, bufferData) s
                 else
                   (let ((ret, bufferData), _) = Proxy_GetBufferMessage P E reply
                    in returns (ret, clientData, bufferData) s))))))"

section \<open>Asynchronous transfers\<close>

definition Proxy_RegBulkCallback ::
  "'p parcel_ops \<Rightarrow> uec_codes \<Rightarrow> ('p, 's) sender option \<Rightarrow> UsbDev \<Rightarrow> UsbPipe \<Rightarrow> nat option \<Rightarrow> 's \<Rightarrow> (i32, 's) call" where
  "Proxy_RegBulkCallback P E remote dev pipe cb s =
     (let fail = (\<lambda>ret. returns ret s)
      in with_pipe_message P E remote dev pipe fail (\<lambda>send data.
         write_with_ret P (PObj cb) data (\<lambda>_. fail (UEC_SERVICE_WRITE_PARCEL_ERROR E)) (\<lambda>data.
         SendRequest P send USB_FUN_REG_BULK_CALLBACK data s (\<lambda>ret _ s. returns ret s))))"

definition Proxy_UnRegBulkCallback ::
  "'p parcel_ops \<Rightarrow> uec_codes \<Rightarrow> ('p, 's) sender option \<Rightarrow> UsbDev \<Rightarrow> UsbPipe \<Rightarrow> 's \<Rightarrow> (i32, 's) call" where
  "Proxy_UnRegBulkCallback P E remote dev pipe s =
     (let fail = (\<lambda>ret. returns ret s)
      in with_pipe_message P E remote dev pipe fail (\<lambda>send data.
         SendRequest P send USB_FUN_UNREG_BULK_CALLBACK data s (\<lambda>ret _ s. returns ret s)))"

definition Proxy_BulkRead ::
  "'p parcel_ops \<Rightarrow> uec_codes \<Rightarrow> ('p, 's) sender option \<Rightarrow> UsbDev \<Rightarrow> UsbPipe \<Rightarrow> nat option \<Rightarrow> 's \<Rightarrow> (i32, 's) call" where
  "Proxy_BulkRead P E remote dev pipe ashmem s =
     (let fail = (\<lambda>ret. returns ret s)
      in with_pipe_message P E remote dev pipe fail (\<lambda>send data.
         write_with_ret P (PObj ashmem) data (\<lambda>_. fail (UEC_SERVICE_WRITE_PARCEL_ERROR E)) (\<lambda>data.
         SendRequest P send USB_FUN_BULK_AYSNC_READ data s (\<lambda>ret _ s. returns ret s))))"

definition Proxy_BulkWrite ::
  "'p parcel_ops \<Rightarrow> uec_codes \<Rightarrow> ('p, 's) sender option \<Rightarrow> UsbDev \<Rightarrow> UsbPipe \<Rightarrow> nat option \<Rightarrow> 's \<Rightarrow> (i32, 's) call" where
  "Proxy_BulkWrite P E remote dev pipe ashmem s =
     (let fail = (\<lambda>ret. returns ret s)
      in with_pipe_message P E remote dev pipe fail (\<lambda>send data.
         write_with_ret P (PObj ashmem) data (\<lambda>_. fail (UEC_SERVICE_WRITE_PARCEL_ERROR E)) (\<lambda>data.
         SendRequest P send USB_FUN_BULK_AYSNC_WRITE data s (\<lambda>ret _ s. returns ret s))))"

definition Proxy_BulkCancel ::
  "'p parcel_ops \<Rightarrow> uec_codes \<Rightarrow> ('p, 's) sender option \<Rightarrow> UsbDev \<Rightarrow> UsbPipe \<Rightarrow> 's \<Rightarrow> (i32, 's) call" where
  "Proxy_BulkCancel P E remote dev pipe s =
     (let fail = (\<lambda>ret. returns ret s)
      in with_pipe_message P E remote dev pipe fail (\<lambda>send data.
         SendRequest P send USB_FUN_BULK_AYSNC_CANCEL data s (\<lambda>ret _ s. returns ret s)))"

end
