(* ===== verification/Usb_Client.thy ===== *)
theory Usb_Client
  imports Usb_Proxy
begin

text \<open>
  The client library an application links: the connection to the service (\<open>usb_srv_client.cpp\<close>),
  opened devices (\<open>usb_device_pipe.cpp\<close>), requests (\<open>usb_request.cpp\<close>) and the stub that
  receives the results of asynchronous transfers (\<open>usbd_bulk_callback.cpp\<close>).
\<close>

section \<open>The connection\<close>

text \<open>
  Remote objects and proxies are pointers, numbers here.  Finding the service, casting a remote
  object to the interface (which may give the null pointer), the remote object of a proxy and
  what its requests do are functions of the system, a parameter.
\<close>

record ('p, 's) client_env =
  ce_HasSystemAbilityManager :: "'s \<Rightarrow> bool"
  ce_CheckSystemAbility :: "'s \<Rightarrow> nat option \<times> 's"
  ce_iface_cast :: "nat \<Rightarrow> nat option"
  ce_AsObject :: "nat \<Rightarrow> nat option"
  ce_remote :: "nat \<Rightarrow> ('p, 's) sender option"
  ce_RemoveDeathRecipient :: "nat \<Rightarrow> 's \<Rightarrow> 's"

text \<open>The member \<open>deathRecipient_\<close> is never set, so it is not part of the state.\<close>

record UsbSrvClient =
  cl_proxy :: "nat option"

definition Connect ::
  "uec_codes \<Rightarrow> ('p, 's) client_env \<Rightarrow> UsbSrvClient \<Rightarrow> 's \<Rightarrow> (i32 \<times> UsbSrvClient) \<times> 's" where
  "Connect E N cl s =
     (if cl_proxy cl \<noteq> None then ((UEC_OK E, cl), s)
      else if \<not> ce_HasSystemAbilityManager N s
      then ((UEC_INTERFACE_GET_SYSTEM_ABILITY_MANAGER_FAILED E, cl), s)
      else
        (let (remoteObject, s1) = ce_CheckSystemAbility N s
         in case remoteObject of
              None \<Rightarrow> ((UEC_INTERFACE_GET_USB_SERVICE_FAILED E, cl), s1)
            | Some r \<Rightarrow> ((UEC_OK E, cl\<lparr>cl_proxy := ce_iface_cast N r\<rparr>), s1)))"

definition UsbSrvClient_new ::
  "uec_codes \<Rightarrow> ('p, 's) client_env \<Rightarrow> 's \<Rightarrow> UsbSrvClient \<times> 's" where
  "UsbSrvClient_new E N s = (let ((_, cl), s1) = Connect E N \<lparr>cl_proxy = None\<rparr> s in (cl, s1))"

text \<open>\<open>remote\<close> is what the weak pointer is promoted to.\<close>

definition ResetProxy ::
  "('p, 's) client_env \<Rightarrow> nat option \<Rightarrow> UsbSrvClient \<Rightarrow> 's \<Rightarrow> UsbSrvClient \<times> 's" where
  "ResetProxy N remote cl s =
     (case cl_proxy cl of
        None \<Rightarrow> (cl, s)
      | Some proxy \<Rightarrow>
          (case ce_AsObject N proxy of
             None \<Rightarrow> (cl, s)
           | Some serviceRemote \<Rightarrow>
               if Some serviceRemote = remote
               then (cl\<lparr>cl_proxy := None\<rparr>, ce_RemoveDeathRecipient N serviceRemote s)
               else (cl, s)))"

text \<open>\<open>remote\<close> is the weak pointer, \<open>None\<close> when it is null.\<close>

definition OnRemoteDied ::
  "('p, 's) client_env \<Rightarrow> nat option \<Rightarrow> UsbSrvClient \<Rightarrow> 's \<Rightarrow> UsbSrvClient \<times> 's" where
  "OnRemoteDied N remote cl s = (if remote = None then (cl, s) else ResetProxy N remote cl s)"

section \<open>Calls\<close>

type_synonym ('v, 's) client_call = "('v \<times> UsbSrvClient \<times> 's) run"

definition cl_return :: "'v \<Rightarrow> UsbSrvClient \<Rightarrow> 's \<Rightarrow> ('v, 's) client_call" where
  "cl_return v cl s = Some (Mem (v, cl, s))"

text \<open>
  A call through \<open>proxy_\<close> is a bad read when the pointer is null; \<open>res\<close> is what the client makes
  of its result.
\<close>

definition call_proxy ::
  "('p, 's) client_env \<Rightarrow> UsbSrvClient \<Rightarrow> 's \<Rightarrow> (('p, 's) sender option \<Rightarrow> 's \<Rightarrow> ('v, 's) call) \<Rightarrow>
     ('v \<Rightarrow> 'u) \<Rightarrow> ('u, 's) client_call" where
  "call_proxy N cl s call res =
     (case cl_proxy cl of
        None \<Rightarrow> Some BadRead
      | Some proxy \<Rightarrow> run_bind (call (ce_remote N proxy) s) (\<lambda>(v, s1). cl_return (res v) cl s1))"

text \<open>\<open>RETURN_IF_WITH_RET(Connect() != UEC_OK, fail)\<close>, and \<open>RETURN_IF_WITH_RET(proxy_ == nullptr, fail)\<close>.\<close>

definition with_connection ::
  "uec_codes \<Rightarrow> ('p, 's) client_env \<Rightarrow> 'v \<Rightarrow> UsbSrvClient \<Rightarrow> 's \<Rightarrow>
     (UsbSrvClient \<Rightarrow> 's \<Rightarrow> ('v, 's) client_call) \<Rightarrow> ('v, 's) client_call" where
  "with_connection E N fail cl s k =
     (let ((ret, cl1), s1) = Connect E N cl s
      in if ret \<noteq> UEC_OK E then cl_return fail cl1 s1 else k cl1 s1)"

definition when_connected ::
  "'v \<Rightarrow> UsbSrvClient \<Rightarrow> 's \<Rightarrow> ('v, 's) client_call \<Rightarrow> ('v, 's) client_call" where
  "when_connected fail cl s k = (if cl_proxy cl = None then cl_return fail cl s else k)"

section \<open>Data of the client\<close>

record USBDevicePipe =
  dp_busNum :: u8
  dp_devAddr :: u8

record UsbRequest =
  rq_pipe :: USBDevicePipe
  rq_endpoint :: USBEndpoint
  rq_clientData :: "u8 list"
  rq_reqData :: "u8 list"

definition pipe_dev :: "USBDevicePipe \<Rightarrow> UsbDev" where
  "pipe_dev pipe = \<lparr>ud_busNum = dp_busNum pipe, ud_devAddr = dp_devAddr pipe\<rparr>"

text \<open>The endpoint's address is a \<open>uint32_t\<close>; the pipe of the driver interface keeps its low byte.\<close>

definition endpoint_pipe :: "USBEndpoint \<Rightarrow> UsbPipe" where
  "endpoint_pipe ep =
     \<lparr>pipe_interfaceId = USBEndpoint_GetInterfaceId ep, pipe_endpointId = ucast (ep_address ep)\<rparr>"

definition CLAIM_FORCE_1 :: u8 where "CLAIM_FORCE_1 = 1"

section \<open>Devices and rights\<close>

definition Client_OpenDevice ::
  "'p parcel_ops \<Rightarrow> uec_codes \<Rightarrow> ('p, 's) client_env \<Rightarrow> UsbDevice \<Rightarrow> USBDevicePipe \<Rightarrow> UsbSrvClient \<Rightarrow> 's \<Rightarrow>
     (i32 \<times> USBDevicePipe, 's) client_call" where
  "Client_OpenDevice P E N device pipe cl s =
     with_connection E N (UEC_INTERFACE_NO_INIT E, pipe) cl s (\<lambda>cl s.
       call_proxy N cl s (\<lambda>remote. Proxy_OpenDevice P E remote (dev_busNum device) (dev_devAddr device))
         (\<lambda>ret. if ret \<noteq> UEC_OK E then (ret, pipe)
            else (UEC_OK E, pipe\<lparr>dp_busNum := dev_busNum device, dp_devAddr := dev_devAddr device\<rparr>)))"

definition Client_HasRight ::
  "'p parcel_ops \<Rightarrow> uec_codes \<Rightarrow> ('p, 's) client_env \<Rightarrow> string \<Rightarrow> UsbSrvClient \<Rightarrow> 's \<Rightarrow>
     (bool, 's) client_call" where
  "Client_HasRight P E N deviceName cl s =
     with_connection E N False cl s (\<lambda>cl s.
       call_proxy N cl s (\<lambda>remote. Proxy_HasRight P E remote deviceName) (\<lambda>right. right))"

definition Client_RequestRight ::
  "'p parcel_ops \<Rightarrow> uec_codes \<Rightarrow> ('p, 's) client_env \<Rightarrow> string \<Rightarrow> UsbSrvClient \<Rightarrow> 's \<Rightarrow>
     (i32, 's) client_call" where
  "Client_RequestRight P E N deviceName cl s =
     with_connection E N (UEC_INTERFACE_NO_INIT E) cl s (\<lambda>cl s.
       call_proxy N cl s (\<lambda>remote. Proxy_RequestRight P E remote deviceName) (\<lambda>ret. ret))"

definition Client_RemoveRight ::
  "'p parcel_ops \<Rightarrow> uec_codes \<Rightarrow> ('p, 's) client_env \<Rightarrow> string \<Rightarrow> UsbSrvClient \<Rightarrow> 's \<Rightarrow>
     (i32, 's) client_call" where
  "Client_RemoveRight P E N deviceName cl s =
     with_connection E N (UEC_INTERFACE_NO_INIT E) cl s (\<lambda>cl s.
       call_proxy N cl s (\<lambda>remote. Proxy_RemoveRight P E remote deviceName) (\<lambda>ret. ret))"

definition Client_GetDevices ::
  "'p parcel_ops \<Rightarrow> uec_codes \<Rightarrow> ('p, 's) client_env \<Rightarrow> i32 \<Rightarrow> UsbDevice \<Rightarrow> UsbDevice list \<Rightarrow>
     UsbSrvClient \<Rightarrow> 's \<Rightarrow> (i32 \<times> UsbDevice list, 's) client_call" where
  "Client_GetDevices P E N junk junk_dev deviceList cl s =
     with_connection E N (UEC_INTERFACE_NO_INIT E, deviceList) cl s (\<lambda>cl s.
       call_proxy N cl s (\<lambda>remote. Proxy_GetDevices P E junk junk_dev remote deviceList) (\<lambda>r. r))"

section \<open>Functions and ports\<close>

definition Client_GetCurrentFunctions ::
  "'p parcel_ops \<Rightarrow> uec_codes \<Rightarrow> ('p, 's) client_env \<Rightarrow> i32 \<Rightarrow> UsbSrvClient \<Rightarrow> 's \<Rightarrow>
     (i32 \<times> i32, 's) client_call" where
  "Client_GetCurrentFunctions P E N funcs cl s =
     with_connection E N (UEC_INTERFACE_NO_INIT E, funcs) cl s (\<lambda>cl s.
       call_proxy N cl s (\<lambda>remote. Proxy_GetCurrentFunctions P E remote funcs) (\<lambda>r. r))"

text \<open>The result without a connection is the boolean \<open>false\<close> as a number.\<close>

definition Client_SetCurrentFunctions ::
  "'p parcel_ops \<Rightarrow> uec_codes \<Rightarrow> ('p, 's) client_env \<Rightarrow> i32 \<Rightarrow> UsbSrvClient \<Rightarrow> 's \<Rightarrow>
     (i32, 's) client_call" where
  "Client_SetCurrentFunctions P E N funcs cl s =
     with_connection E N 0 cl s (\<lambda>cl s.
       call_proxy N cl s (\<lambda>remote. Proxy_SetCurrentFunctions P E remote funcs) (\<lambda>ret. ret))"

definition Client_UsbFunctionsFromString ::
  "'p parcel_ops \<Rightarrow> uec_codes \<Rightarrow> ('p, 's) client_env \<Rightarrow> string \<Rightarrow> UsbSrvClient \<Rightarrow> 's \<Rightarrow>
     (i32, 's) client_call" where
  "Client_UsbFunctionsFromString P E N funcs cl s =
     with_connection E N (UEC_INTERFACE_NO_INIT E) cl s (\<lambda>cl s.
       call_proxy N cl s (\<lambda>remote. Proxy_UsbFunctionsFromString P E remote funcs) (\<lambda>result. result))"

definition Client_UsbFunctionsToString ::
  "'p parcel_ops \<Rightarrow> uec_codes \<Rightarrow> ('p, 's) client_env \<Rightarrow> i32 \<Rightarrow> UsbSrvClient \<Rightarrow> 's \<Rightarrow>
     (string, 's) client_call" where
  "Client_UsbFunctionsToString P E N funcs cl s =
     with_connection E N '''' cl s (\<lambda>cl s.
       call_proxy N cl s (\<lambda>remote. Proxy_UsbFunctionsToString P E remote funcs) (\<lambda>result. result))"

definition Client_GetPorts ::
  "'p parcel_ops \<Rightarrow> uec_codes \<Rightarrow> ('p, 's) client_env \<Rightarrow> UsbPort list \<Rightarrow> UsbSrvClient \<Rightarrow> 's \<Rightarrow>
     (i32 \<times> UsbPort list, 's) client_call" where
  "Client_GetPorts P E N usbports cl s =
     with_connection E N (UEC_INTERFACE_NO_INIT E, usbports) cl s (\<lambda>cl s.
       call_proxy N cl s (\<lambda>remote. Proxy_GetPorts P E remote usbports) (\<lambda>r. r))"

definition Client_GetSupportedModes ::
  "'p parcel_ops \<Rightarrow> uec_codes \<Rightarrow> ('p, 's) client_env \<Rightarrow> i32 \<Rightarrow> i32 \<Rightarrow> UsbSrvClient \<Rightarrow> 's \<Rightarrow>
     (i32 \<times> i32, 's) client_call" where
  "Client_GetSupportedModes P E N portId result cl s =
     with_connection E N (UEC_INTERFACE_NO_INIT E, result) cl s (\<lambda>cl s.
       call_proxy N cl s (\<lambda>remote. Proxy_GetSupportedModes P E remote portId result) (\<lambda>r. r))"

definition Client_SetPortRole ::
  "'p parcel_ops \<Rightarrow> uec_codes \<Rightarrow> ('p, 's) client_env \<Rightarrow> i32 \<Rightarrow> i32 \<Rightarrow> i32 \<Rightarrow> UsbSrvClient \<Rightarrow> 's \<Rightarrow>
     (i32, 's) client_call" where
  "Client_SetPortRole P E N portId powerRole dataRole cl s =
     with_connection E N (UEC_INTERFACE_NO_INIT E) cl s (\<lambda>cl s.
       call_proxy N cl s (\<lambda>remote. Proxy_SetPortRole P E remote portId powerRole dataRole) (\<lambda>ret. ret))"

section \<open>Opened devices\<close>

text \<open>
  These operations do not connect.  The numbers of interfaces and configurations are \<open>int32_t\<close>
  and are passed as \<open>uint8_t\<close>.
\<close>

definition Client_ClaimInterface ::
  "'p parcel_ops \<Rightarrow> uec_codes \<Rightarrow> ('p, 's) client_env \<Rightarrow> USBDevicePipe \<Rightarrow> UsbInterface \<Rightarrow> bool \<Rightarrow>
     UsbSrvClient \<Rightarrow> 's \<Rightarrow> (i32, 's) client_call" where
  "Client_ClaimInterface P E N pipe interface force cl s =
     when_connected (UEC_INTERFACE_NO_INIT E) cl s
       (call_proxy N cl s (\<lambda>remote. Proxy_ClaimInterface P E remote (dp_busNum pipe) (dp_devAddr pipe)
          (ucast (if_id interface)) (if force then 1 else 0)) (\<lambda>ret. ret))"

definition Client_ReleaseInterface ::
  "'p parcel_ops \<Rightarrow> uec_codes \<Rightarrow> ('p, 's) client_env \<Rightarrow> USBDevicePipe \<Rightarrow> UsbInterface \<Rightarrow>
     UsbSrvClient \<Rightarrow> 's \<Rightarrow> (i32, 's) client_call" where
  "Client_ReleaseInterface P E N pipe interface cl s =
     when_connected (UEC_INTERFACE_NO_INIT E) cl s
       (call_proxy N cl s (\<lambda>remote. Proxy_ReleaseInterface P E remote (dp_busNum pipe) (dp_devAddr pipe)
          (ucast (if_id interface))) (\<lambda>ret. ret))"

definition Client_BulkTransfer ::
  "'p parcel_ops \<Rightarrow> uec_codes \<Rightarrow> ('p, 's) client_env \<Rightarrow> USBDevicePipe \<Rightarrow> USBEndpoint \<Rightarrow> u8 list \<Rightarrow> i32 \<Rightarrow>
     UsbSrvClient \<Rightarrow> 's \<Rightarrow> (i32 \<times> u8 list, 's) client_call" where
  "Client_BulkTransfer P E N pipe endpoint bufferData timeOut cl s =
     when_connected (UEC_INTERFACE_NO_INIT E, bufferData) cl s
       (if USB_ENDPOINT_DIR_IN = USBEndpoint_GetDirection endpoint
        then call_proxy N cl s (\<lambda>remote. Proxy_BulkTransferRead P E remote (pipe_dev pipe)
               (endpoint_pipe endpoint) bufferData timeOut) (\<lambda>r. r)
        else if USB_ENDPOINT_DIR_OUT = USBEndpoint_GetDirection endpoint
        then call_proxy N cl s (\<lambda>remote. Proxy_BulkTransferWrite P E remote (pipe_dev pipe)
               (endpoint_pipe endpoint) bufferData timeOut) (\<lambda>ret. (ret, bufferData))
        else cl_return (UEC_INTERFACE_INVALID_VALUE E, bufferData) cl s)"

definition Client_ControlTransfer ::
  "'p parcel_ops \<Rightarrow> uec_codes \<Rightarrow> ('p, 's) client_env \<Rightarrow> USBDevicePipe \<Rightarrow> UsbCtrlTransfer \<Rightarrow> u8 list \<Rightarrow>
     UsbSrvClient \<Rightarrow> 's \<Rightarrow> (i32 \<times> u8 list, 's) client_call" where
  "Client_ControlTransfer P E N pipe ctrl bufferData cl s =
     when_connected (UEC_INTERFACE_NO_INIT E, bufferData) cl s
       (call_proxy N cl s (\<lambda>remote. Proxy_ControlTransfer P E remote (pipe_dev pipe) ctrl bufferData)
          (\<lambda>r. r))"

definition Client_SetConfiguration ::
  "'p parcel_ops \<Rightarrow> uec_codes \<Rightarrow> ('p, 's) client_env \<Rightarrow> USBDevicePipe \<Rightarrow> USBConfig \<Rightarrow>
     UsbSrvClient \<Rightarrow> 's \<Rightarrow> (i32, 's) client_call" where
  "Client_SetConfiguration P E N pipe config cl s =
     when_connected (UEC_INTERFACE_NO_INIT E) cl s
       (call_proxy N cl s (\<lambda>remote. Proxy_SetActiveConfig P E remote (dp_busNum pipe) (dp_devAddr pipe)
          (ucast (cfg_id config))) (\<lambda>ret. ret))"

definition Client_SetInterface ::
  "'p parcel_ops \<Rightarrow> uec_codes \<Rightarrow> ('p, 's) client_env \<Rightarrow> USBDevicePipe \<Rightarrow> UsbInterface \<Rightarrow>
     UsbSrvClient \<Rightarrow> 's \<Rightarrow> (i32, 's) client_call" where
  "Client_SetInterface P E N pipe interface cl s =
     when_connected (UEC_INTERFACE_NO_INIT E) cl s
       (call_proxy N cl s (\<lambda>remote. Proxy_SetInterface P E remote (dp_busNum pipe) (dp_devAddr pipe)
          (ucast (if_id interface)) (ucast (if_alternateSetting interface))) (\<lambda>ret. ret))"

text \<open>The two descriptor queries do connect.\<close>

definition Client_GetRawDescriptors ::
  "'p parcel_ops \<Rightarrow> uec_codes \<Rightarrow> ('p, 's) client_env \<Rightarrow> USBDevicePipe \<Rightarrow> u8 list \<Rightarrow>
     UsbSrvClient \<Rightarrow> 's \<Rightarrow> (i32 \<times> u8 list, 's) client_call" where
  "Client_GetRawDescriptors P E N pipe bufferData cl s =
     with_connection E N (UEC_INTERFACE_NO_INIT E, bufferData) cl s (\<lambda>cl s.
       call_proxy N cl s (\<lambda>remote. Proxy_GetRawDescriptor P E remote (dp_busNum pipe) (dp_devAddr pipe)
         bufferData) (\<lambda>r. r))"

definition Client_GetFileDescriptor ::
  "'p parcel_ops \<Rightarrow> uec_codes \<Rightarrow> ('p, 's) client_env \<Rightarrow> USBDevicePipe \<Rightarrow> i32 \<Rightarrow>
     UsbSrvClient \<Rightarrow> 's \<Rightarrow> (i32 \<times> i32, 's) client_call" where
  "Client_GetFileDescriptor P E N pipe fd cl s =
     with_connection E N (UEC_INTERFACE_NO_INIT E, fd) cl s (\<lambda>cl s.
       call_proxy N cl s (\<lambda>remote. Proxy_GetFileDescriptor P E remote (dp_busNum pipe) (dp_devAddr pipe)
         fd) (\<lambda>r. r))"

definition Client_Close ::
  "'p parcel_ops \<Rightarrow> uec_codes \<Rightarrow> ('p, 's) client_env \<Rightarrow> USBDevicePipe \<Rightarrow> UsbSrvClient \<Rightarrow> 's \<Rightarrow>
     (bool, 's) client_call" where
  "Client_Close P E N pipe cl s =
     when_connected False cl s
       (call_proxy N cl s (\<lambda>remote. Proxy_Close P E remote (dp_busNum pipe) (dp_devAddr pipe))
          (\<lambda>ret. ret = UEC_OK E))"

section \<open>Requests\<close>

text \<open>The time is an \<open>int64_t\<close>, passed on as an \<open>int32_t\<close>.\<close>

definition Client_PipeRequestWait ::
  "'p parcel_ops \<Rightarrow> uec_codes \<Rightarrow> ('p, 's) client_env \<Rightarrow> USBDevicePipe \<Rightarrow> 64 word \<Rightarrow> UsbRequest \<Rightarrow>
     UsbSrvClient \<Rightarrow> 's \<Rightarrow> (i32 \<times> UsbRequest, 's) client_call" where
  "Client_PipeRequestWait P E N pipe timeOut req cl s =
     when_connected (UEC_INTERFACE_NO_INIT E, req) cl s
       (call_proxy N cl s (\<lambda>remote. Proxy_RequestWait P E remote (pipe_dev pipe) (ucast timeOut) [] [])
          (\<lambda>(ret, clientData, bufferData). if ret \<noteq> UEC_OK E then (ret, req)
             else (ret, req\<lparr>rq_pipe := pipe, rq_clientData := clientData, rq_reqData := bufferData\<rparr>)))"

definition Client_RequestInitialize ::
  "'p parcel_ops \<Rightarrow> uec_codes \<Rightarrow> ('p, 's) client_env \<Rightarrow> UsbRequest \<Rightarrow> UsbSrvClient \<Rightarrow> 's \<Rightarrow>
     (i32, 's) client_call" where
  "Client_RequestInitialize P E N request cl s =
     when_connected (UEC_INTERFACE_NO_INIT E) cl s
       (call_proxy N cl s (\<lambda>remote. Proxy_ClaimInterface P E remote (dp_busNum (rq_pipe request))
          (dp_devAddr (rq_pipe request)) (USBEndpoint_GetInterfaceId (rq_endpoint request)) CLAIM_FORCE_1)
          (\<lambda>ret. ret))"

definition Client_RequestFree ::
  "'p parcel_ops \<Rightarrow> uec_codes \<Rightarrow> ('p, 's) client_env \<Rightarrow> UsbRequest \<Rightarrow> UsbSrvClient \<Rightarrow> 's \<Rightarrow>
     (i32, 's) client_call" where
  "Client_RequestFree P E N request cl s =
     when_connected (UEC_INTERFACE_NO_INIT E) cl s
       (call_proxy N cl s (\<lambda>remote. Proxy_RequestCancel P E remote (dp_busNum (rq_pipe request))
          (dp_devAddr (rq_pipe request)) (USBEndpoint_GetInterfaceId (rq_endpoint request))
          (ucast (ep_address (rq_endpoint request)))) (\<lambda>ret. ret))"

definition Client_RequestAbort ::
  "'p parcel_ops \<Rightarrow> uec_codes \<Rightarrow> ('p, 's) client_env \<Rightarrow> UsbRequest \<Rightarrow> UsbSrvClient \<Rightarrow> 's \<Rightarrow>
     (i32, 's) client_call" where
  "Client_RequestAbort P E N request cl s =
     when_connected (UEC_INTERFACE_NO_INIT E) cl s
       (call_proxy N cl s (\<lambda>remote. Proxy_RequestCancel P E remote (dp_busNum (rq_pipe request))
          (dp_devAddr (rq_pipe request)) (USBEndpoint_GetInterfaceId (rq_endpoint request))
          (ucast (ep_address (rq_endpoint request)))) (\<lambda>ret. ret))"

definition Client_RequestQueue ::
  "'p parcel_ops \<Rightarrow> uec_codes \<Rightarrow> ('p, 's) client_env \<Rightarrow> UsbRequest \<Rightarrow> UsbSrvClient \<Rightarrow> 's \<Rightarrow>
     (i32, 's) client_call" where
  "Client_RequestQueue P E N request cl s =
     when_connected (UEC_INTERFACE_NO_INIT E) cl s
       (call_proxy N cl s (\<lambda>remote. Proxy_RequestQueue P E remote (pipe_dev (rq_pipe request))
          (endpoint_pipe (rq_endpoint request)) (rq_clientData request) (rq_reqData request)) (\<lambda>ret. ret))"

definition UsbRequest_Initialize ::
  "'p parcel_ops \<Rightarrow> uec_codes \<Rightarrow> ('p, 's) client_env \<Rightarrow> USBDevicePipe \<Rightarrow> USBEndpoint \<Rightarrow> UsbRequest \<Rightarrow>
     UsbSrvClient \<Rightarrow> 's \<Rightarrow> (i32 \<times> UsbRequest, 's) client_call" where
  "UsbRequest_Initialize P E N pipe endpoint req cl s =
     (let req1 = req\<lparr>rq_pipe := pipe, rq_endpoint := endpoint\<rparr>
      in run_bind (Client_RequestInitialize P E N req1 cl s) (\<lambda>(ret, cl, s). cl_return (ret, req1) cl s))"

definition UsbRequest_Queue ::
  "'p parcel_ops \<Rightarrow> uec_codes \<Rightarrow> ('p, 's) client_env \<Rightarrow> UsbRequest \<Rightarrow> UsbSrvClient \<Rightarrow> 's \<Rightarrow>
     (i32, 's) client_call" where
  "UsbRequest_Queue P E N req cl s = Client_RequestQueue P E N req cl s"

definition UsbRequest_Free ::
  "'p parcel_ops \<Rightarrow> uec_codes \<Rightarrow> ('p, 's) client_env \<Rightarrow> UsbRequest \<Rightarrow> UsbSrvClient \<Rightarrow> 's \<Rightarrow>
     (i32, 's) client_call" where
  "UsbRequest_Free P E N req cl s = Client_RequestFree P E N req cl s"

definition UsbRequest_Abort ::
  "'p parcel_ops \<Rightarrow> uec_codes \<Rightarrow> ('p, 's) client_env \<Rightarrow> UsbRequest \<Rightarrow> UsbSrvClient \<Rightarrow> 's \<Rightarrow>
     (i32, 's) client_call" where
  "UsbRequest_Abort P E N req cl s = Client_RequestAbort P E N req cl s"

section \<open>Pipes\<close>

definition DevicePipe_Close ::
  "'p parcel_ops \<Rightarrow> uec_codes \<Rightarrow> ('p, 's) client_env \<Rightarrow> USBDevicePipe \<Rightarrow> UsbSrvClient \<Rightarrow> 's \<Rightarrow>
     (i32, 's) client_call" where
  "DevicePipe_Close P E N pipe cl s =
     run_bind (Client_Close P E N pipe cl s)
       (\<lambda>(bSuccess, cl, s). cl_return (if \<not> bSuccess then ERR_INVALID_VALUE E else ERR_OK E) cl s)"

definition DevicePipe_ClaimInterface ::
  "'p parcel_ops \<Rightarrow> uec_codes \<Rightarrow> ('p, 's) client_env \<Rightarrow> UsbInterface \<Rightarrow> bool \<Rightarrow> USBDevicePipe \<Rightarrow>
     UsbSrvClient \<Rightarrow> 's \<Rightarrow> (i32, 's) client_call" where
  "DevicePipe_ClaimInterface P E N interface force pipe cl s =
     Client_ClaimInterface P E N pipe interface force cl s"

definition DevicePipe_ReleaseInterface ::
  "'p parcel_ops \<Rightarrow> uec_codes \<Rightarrow> ('p, 's) client_env \<Rightarrow> UsbInterface \<Rightarrow> USBDevicePipe \<Rightarrow>
     UsbSrvClient \<Rightarrow> 's \<Rightarrow> (i32, 's) client_call" where
  "DevicePipe_ReleaseInterface P E N interface pipe cl s = Client_ReleaseInterface P E N pipe interface cl s"

definition DevicePipe_BulkTransfer ::
  "'p parcel_ops \<Rightarrow> uec_codes \<Rightarrow> ('p, 's) client_env \<Rightarrow> USBEndpoint \<Rightarrow> u8 list \<Rightarrow> i32 \<Rightarrow> USBDevicePipe \<Rightarrow>
     UsbSrvClient \<Rightarrow> 's \<Rightarrow> (i32 \<times> u8 list, 's) client_call" where
  "DevicePipe_BulkTransfer P E N endpoint bufferData timeOut pipe cl s =
     Client_BulkTransfer P E N pipe endpoint bufferData timeOut cl s"

definition DevicePipe_ControlTransfer ::
  "'p parcel_ops \<Rightarrow> uec_codes \<Rightarrow> ('p, 's) client_env \<Rightarrow> UsbCtrlTransfer \<Rightarrow> u8 list \<Rightarrow> USBDevicePipe \<Rightarrow>
     UsbSrvClient \<Rightarrow> 's \<Rightarrow> (i32 \<times> u8 list, 's) client_call" where
  "DevicePipe_ControlTransfer P E N ctrl bufferData pipe cl s =
     Client_ControlTransfer P E N pipe ctrl bufferData cl s"

definition DevicePipe_SetConfiguration ::
  "'p parcel_ops \<Rightarrow> uec_codes \<Rightarrow> ('p, 's) client_env \<Rightarrow> USBConfig \<Rightarrow> USBDevicePipe \<Rightarrow>
     UsbSrvClient \<Rightarrow> 's \<Rightarrow> (i32, 's) client_call" where
  "DevicePipe_SetConfiguration P E N config pipe cl s = Client_SetConfiguration P E N pipe config cl s"

definition DevicePipe_SetInterface ::
  "'p parcel_ops \<Rightarrow> uec_codes \<Rightarrow> ('p, 's) client_env \<Rightarrow> UsbInterface \<Rightarrow> USBDevicePipe \<Rightarrow>
     UsbSrvClient \<Rightarrow> 's \<Rightarrow> (i32, 's) client_call" where
  "DevicePipe_SetInterface P E N interface pipe cl s = Client_SetInterface P E N pipe interface cl s"

section \<open>Asynchronous transfers\<close>

definition Client_RegBulkCallback ::
  "'p parcel_ops \<Rightarrow> uec_codes \<Rightarrow> ('p, 's) client_env \<Rightarrow> USBDevicePipe \<Rightarrow> USBEndpoint \<Rightarrow> nat option \<Rightarrow>
     UsbSrvClient \<Rightarrow> 's \<Rightarrow> (i32, 's) client_call" where
  "Client_RegBulkCallback P E N pip endpoint cb cl s =
     when_connected (UEC_INTERFACE_NO_INIT E) cl s
       (call_proxy N cl s (\<lambda>remote. Proxy_RegBulkCallback P E remote (pipe_dev pip)
          (endpoint_pipe endpoint) cb) (\<lambda>ret. ret))"

definition Client_UnRegBulkCallback ::
  "'p parcel_ops \<Rightarrow> uec_codes \<Rightarrow> ('p, 's) client_env \<Rightarrow> USBDevicePipe \<Rightarrow> USBEndpoint \<Rightarrow>
     UsbSrvClient \<Rightarrow> 's \<Rightarrow> (i32, 's) client_call" where
  "Client_UnRegBulkCallback P E N pip endpoint cl s =
     when_connected (UEC_INTERFACE_NO_INIT E) cl s
       (call_proxy N cl s (\<lambda>remote. Proxy_UnRegBulkCallback P E remote (pipe_dev pip)
          (endpoint_pipe endpoint)) (\<lambda>ret. ret))"

definition Client_BulkRead ::
  "'p parcel_ops \<Rightarrow> uec_codes \<Rightarrow> ('p, 's) client_env \<Rightarrow> USBDevicePipe \<Rightarrow> USBEndpoint \<Rightarrow> nat option \<Rightarrow>
     UsbSrvClient \<Rightarrow> 's \<Rightarrow> (i32, 's) client_call" where
  "Client_BulkRead P E N pip endpoint ashmem cl s =
     when_connected (UEC_INTERFACE_NO_INIT E) cl s
       (call_proxy N cl s (\<lambda>remote. Proxy_BulkRead P E remote (pipe_dev pip)
          (endpoint_pipe endpoint) ashmem) (\<lambda>ret. ret))"

definition Client_BulkWrite ::
  "'p parcel_ops \<Rightarrow> uec_codes \<Rightarrow> ('p, 's) client_env \<Rightarrow> USBDevicePipe \<Rightarrow> USBEndpoint \<Rightarrow> nat option \<Rightarrow>
     UsbSrvClient \<Rightarrow> 's \<Rightarrow> (i32, 's) client_call" where
  "Client_BulkWrite P E N pip endpoint ashmem cl s =
     when_connected (UEC_INTERFACE_NO_INIT E) cl s
       (call_proxy N cl s (\<lambda>remote. Proxy_BulkWrite P E remote (pipe_dev pip)
          (endpoint_pipe endpoint) ashmem) (\<lambda>ret. ret))"

definition Client_BulkCancel ::
  "'p parcel_ops \<Rightarrow> uec_codes \<Rightarrow> ('p, 's) client_env \<Rightarrow> USBDevicePipe \<Rightarrow> USBEndpoint \<Rightarrow>
     UsbSrvClient \<Rightarrow> 's \<Rightarrow> (i32, 's) client_call" where
  "Client_BulkCancel P E N pip endpoint cl s =
     when_connected (UEC_INTERFACE_NO_INIT E) cl s
       (call_proxy N cl s (\<lambda>remote. Proxy_BulkCancel P E remote (pipe_dev pip)
          (endpoint_pipe endpoint)) (\<lambda>ret. ret))"

section \<open>The callback stub\<close>

definition CMD_USBD_BULK_CALLBACK_READ :: u32 where "CMD_USBD_BULK_CALLBACK_READ = 0"
definition CMD_USBD_BULK_CALLBACK_WRITE :: u32 where "CMD_USBD_BULK_CALLBACK_WRITE = 1"

definition BulkCallBack_descriptor :: string where
  "BulkCallBack_descriptor = ''UsbdBulkCallback.V1_0''"

text \<open>
  The two cases read the same items and differ in the application's callback \<open>cb\<close>, which gets
  the status and the length; \<open>base\<close> is the base class.
\<close>

definition bulk_callback_case ::
  "'p parcel_ops \<Rightarrow> uec_codes \<Rightarrow> (i32 \<Rightarrow> i32 \<Rightarrow> 's \<Rightarrow> 's) \<Rightarrow> 'p \<Rightarrow> 's \<Rightarrow> i32 \<times> 's" where
  "bulk_callback_case P E cb data s =
     (let (token, data) = p_ReadInterfaceToken P data;
          fail = (\<lambda>_. (UEC_SERVICE_WRITE_PARCEL_ERROR E, s))
      in if token \<noteq> BulkCallBack_descriptor then (UEC_SERVICE_WRITE_PARCEL_ERROR E, s)
         else read_with_ret (p_Read32 P) data fail (\<lambda>status data.
           read_with_ret (p_Read32 P) data fail (\<lambda>actLength _.
             (UEC_OK E, cb status actLength s))))"

definition BulkCallBack_OnRemoteRequest ::
  "'p parcel_ops \<Rightarrow> uec_codes \<Rightarrow> (i32 \<Rightarrow> i32 \<Rightarrow> 's \<Rightarrow> 's) \<Rightarrow> (i32 \<Rightarrow> i32 \<Rightarrow> 's \<Rightarrow> 's) \<Rightarrow>
     (u32 \<Rightarrow> 'p \<Rightarrow> 'p \<Rightarrow> 's \<Rightarrow> i32 \<times> 's) \<Rightarrow> u32 \<Rightarrow> 'p \<Rightarrow> 'p \<Rightarrow> 's \<Rightarrow> i32 \<times> 's" where
  "BulkCallBack_OnRemoteRequest P E on_write on_read base code data reply s =
     (if code = CMD_USBD_BULK_CALLBACK_WRITE then bulk_callback_case P E on_write data s
      else if code = CMD_USBD_BULK_CALLBACK_READ then bulk_callback_case P E on_read data s
      else base code data reply s)"


section \<open>Version\<close>

definition MAXVERSION :: string where "MAXVERSION = ''001''"
definition SUBVERSION :: string where "SUBVERSION = ''001''"
definition DLPVERSION :: string where "DLPVERSION = ''025''"
definition SEVVERSION :: string where
  "SEVVERSION = MAXVERSION @ ''.'' @ SUBVERSION @ ''.'' @ DLPVERSION"

definition Client_GetVersion :: string where "Client_GetVersion = SEVVERSION"

end
