(* ===== verification/Usb_Marshal.thy ===== *)
theory Usb_Marshal
  imports Usb_Parcel
begin

text \<open>
  Marshalling is faithful: what one side writes the other side reads.  The contract of a pair of
  a writer and a reader is the locale \<open>parcel_codec\<close>; it extends to loops over vectors, and is
  interpreted on the buffers, endpoints, interfaces, configurations, devices and ports.
\<close>

section \<open>Steps\<close>

text \<open>The outcome \<open>x\<close> with the items \<open>rest\<close> left to read.\<close>

definition yields :: "('p \<Rightarrow> pitem list) \<Rightarrow> 'x \<times> 'p \<Rightarrow> 'x \<Rightarrow> pitem list \<Rightarrow> bool" where
  "yields items r x rest \<longleftrightarrow> fst r = x \<and> items (snd r) = rest"

lemma yields_pair [simp]: "yields items (y, p) x rest \<longleftrightarrow> y = x \<and> items p = rest"
  by (simp add: yields_def)

lemma parcel_okD:
  assumes "parcel_ok P items"
  shows "items (p_empty P) = []"
    and "p_Write P it p = (True, p') \<Longrightarrow> items p' = items p @ [it]"
    and "items p = P8 a # rest \<Longrightarrow> \<exists>p'. p_Read8 P p = (Some a, p') \<and> items p' = rest"
    and "items p = P16 b # rest \<Longrightarrow> \<exists>p'. p_Read16 P p = (Some b, p') \<and> items p' = rest"
    and "items p = P32 c # rest \<Longrightarrow> \<exists>p'. p_Read32 P p = (Some c, p') \<and> items p' = rest"
    and "items p = PBool t # rest \<Longrightarrow> \<exists>p'. p_ReadBool P p = (Some t, p') \<and> items p' = rest"
    and "items p = PStr s # rest \<Longrightarrow> \<exists>p'. p_ReadString P p = (Some s, p') \<and> items p' = rest"
    and "items p = PBuf u # rest \<Longrightarrow>
      \<exists>p'. p_ReadUnpadBuffer P (length u) p = (Some u, p') \<and> items p' = rest"
    and "items p = PToken s # rest \<Longrightarrow> \<exists>p'. p_ReadInterfaceToken P p = (s, p') \<and> items p' = rest"
    and "items p = PObj n # rest \<Longrightarrow> \<exists>p'. p_ReadObject P p = (n, p') \<and> items p' = rest"
  by (insert assms [unfolded parcel_ok_def], (elim conjE, simp; fail)+)

lemma write_step:
  assumes "write_with_ret P it p (\<lambda>p. (e, p)) k = (g, p')" and "parcel_ok P items" and "e \<noteq> g"
  obtains p1 where "items p1 = items p @ [it]" and "k p1 = (g, p')"
proof -
  obtain b p1 where w: "p_Write P it p = (b, p1)" by (metis surj_pair)
  with assms(1,3) have "b" "k p1 = (g, p')" by (auto simp: write_with_ret_def split: if_splits)
  with w parcel_okD(2) [OF assms(2), of it p p1] that show thesis by simp
qed

lemma read_step:
  assumes "rd p = (Some v, p1)" and "items p1 = rest"
    and "\<And>p1. items p1 = rest \<Longrightarrow> yields items (k v p1) x rest'"
  shows "yields items (read_with_ret rd p fail k) x rest'"
  using assms by (simp add: read_with_ret_def)

lemma read_steps:
  assumes "parcel_ok P items"
  shows "items p = P8 a # rest \<Longrightarrow> (\<And>p1. items p1 = rest \<Longrightarrow> yields items (k8 a p1) x rest') \<Longrightarrow>
      yields items (read_with_ret (p_Read8 P) p fail k8) x rest'"
    and "items p = P16 b # rest \<Longrightarrow> (\<And>p1. items p1 = rest \<Longrightarrow> yields items (k16 b p1) x rest') \<Longrightarrow>
      yields items (read_with_ret (p_Read16 P) p fail k16) x rest'"
    and "items p = P32 c # rest \<Longrightarrow> (\<And>p1. items p1 = rest \<Longrightarrow> yields items (k32 c p1) x rest') \<Longrightarrow>
      yields items (read_with_ret (p_Read32 P) p fail k32) x rest'"
    and "items p = PStr s # rest \<Longrightarrow> (\<And>p1. items p1 = rest \<Longrightarrow> yields items (ks s p1) x rest') \<Longrightarrow>
      yields items (read_with_ret (p_ReadString P) p fail ks) x rest'"
    and "items p = PBool t # rest \<Longrightarrow> (\<And>p1. items p1 = rest \<Longrightarrow> yields items (kb t p1) x rest') \<Longrightarrow>
      yields items (read_with_ret (p_ReadBool P) p fail kb) x rest'"
    and "items p = PBuf u # rest \<Longrightarrow> length u = n \<Longrightarrow>
      (\<And>p1. items p1 = rest \<Longrightarrow> yields items (ku u p1) x rest') \<Longrightarrow>
      yields items (read_with_ret (p_ReadUnpadBuffer P n) p fail ku) x rest'"
  by ((drule parcel_okD(3) [OF assms] parcel_okD(4) [OF assms] parcel_okD(5) [OF assms]
        parcel_okD(6) [OF assms] parcel_okD(7) [OF assms] parcel_okD(8) [OF assms],
      auto simp: read_with_ret_def))+

section \<open>The contract\<close>

text \<open>
  \<open>good\<close> is the success code, \<open>env\<close> the assumptions about the environment, \<open>fits\<close> the values
  small enough for their counts, \<open>received\<close> what the reader makes of a value.
\<close>

locale parcel_codec =
  fixes env :: bool
    and items :: "'p \<Rightarrow> pitem list"
    and good :: i32
    and wr :: "'a \<Rightarrow> 'p \<Rightarrow> i32 \<times> 'p"
    and rd :: "'p \<Rightarrow> (i32 \<times> 'a) \<times> 'p"
    and enc :: "'a \<Rightarrow> pitem list"
    and fits :: "'a \<Rightarrow> bool"
    and received :: "'a \<Rightarrow> 'a"
  assumes wr_enc: "env \<Longrightarrow> fits a \<Longrightarrow> wr a p = (good, p') \<Longrightarrow> items p' = items p @ enc a"
    and rd_enc: "env \<Longrightarrow> fits a \<Longrightarrow> items p = enc a @ rest \<Longrightarrow> yields items (rd p) (good, received a) rest"
begin

lemma roundtrip:
  assumes env and "fits a" and "items p = []" and "wr a p = (good, p')"
  shows "yields items (rd p') (good, received a) []"
  using assms wr_enc [of a p p'] rd_enc [of a p' "[]"] by simp

lemma write_loop_enc:
  assumes env and "UEC_OK E = good" and "good = 0"
  shows "\<forall>a \<in> set xs. fits a \<Longrightarrow> write_loop E wr xs p = (good, p') \<Longrightarrow> items p' = items p @ concat (map enc xs)"
proof (induction xs arbitrary: p)
  case (Cons x xs)
  obtain r p1 where w: "wr x p = (r, p1)" by (metis surj_pair)
  with Cons.prems assms have "r = good" "write_loop E wr xs p1 = (good, p')"
    by (auto split: if_splits)
  with Cons.IH [of p1] Cons.prems(1) wr_enc [of x p p1] w assms(1) show ?case by simp
qed (use assms in simp)

lemma read_loop_enc:
  assumes env and "UEC_OK E = good" and "good = 0"
  shows "\<forall>a \<in> set as. fits a \<Longrightarrow> items p = concat (map enc as) @ rest \<Longrightarrow>
    yields items (read_loop E rd (length as) xs p) (good, xs @ map received as) rest"
proof (induction as arbitrary: p xs)
  case (Cons a as)
  obtain r y p1 where rd: "rd p = ((r, y), p1)" by (metis surj_pair)
  with rd_enc [of a p "concat (map enc as) @ rest"] Cons.prems assms
  have "r = good" "y = received a" "items p1 = concat (map enc as) @ rest" by simp_all
  with Cons.IH [of p1 "xs @ [y]"] Cons.prems rd assms show ?case by simp
qed (use assms in simp)

lemma read_loop_ignoring_enc:
  assumes env and "UEC_OK E = good"
  shows "\<forall>a \<in> set as. fits a \<Longrightarrow> items p = concat (map enc as) @ rest \<Longrightarrow>
    yields items (read_loop_ignoring E rd (length as) xs p) (good, xs @ map received as) rest"
proof (induction as arbitrary: p xs)
  case (Cons a as)
  obtain r y p1 where rd: "rd p = ((r, y), p1)" by (metis surj_pair)
  with rd_enc [of a p "concat (map enc as) @ rest"] Cons.prems assms
  have "r = good" "y = received a" "items p1 = concat (map enc as) @ rest" by simp_all
  with Cons.IH [of p1 "xs @ [y]"] Cons.prems rd assms show ?case by simp
qed (use assms in simp)

end

text \<open>The environment: lawful parcels and error codes.\<close>

definition ipc_env :: "'p parcel_ops \<Rightarrow> uec_codes \<Rightarrow> ('p \<Rightarrow> pitem list) \<Rightarrow> bool" where
  "ipc_env P E items \<longleftrightarrow> parcel_ok P items \<and> codes_ok E"

lemma ipc_env_write:
  assumes "write_with_ret P it p (\<lambda>p. (UEC_SERVICE_WRITE_PARCEL_ERROR E, p)) k = (UEC_OK E, p')"
    and "ipc_env P E items"
  obtains p1 where "items p1 = items p @ [it]" and "k p1 = (UEC_OK E, p')"
  using write_step [OF assms(1)] assms(2) by (metis ipc_env_def codes_ok_def)

lemma ipc_env_ok: "ipc_env P E items \<Longrightarrow> UEC_OK E = 0" "ipc_env P E items \<Longrightarrow> parcel_ok P items"
  by (simp_all add: ipc_env_def codes_ok_def)

section \<open>Buffers\<close>

definition buffer_items :: "u8 list \<Rightarrow> pitem list" where
  "buffer_items b = (if b = [] then [P32 0] else [P32 (of_nat (length b)), PBuf b])"

definition small :: "'a list \<Rightarrow> bool" where
  "small xs \<longleftrightarrow> length xs < 2147483648"

lemma SetBufferMessage_items:
  assumes "ipc_env P E items" and "small b" and "SetBufferMessage P E b p = (UEC_OK E, p')"
  shows "items p' = items p @ buffer_items b"
proof -
  have len: "length b mod 4294967296 = length b" using assms(2) by (simp add: small_def)
  let ?k = "\<lambda>p1. if b \<noteq> []
      then write_with_ret P (PBuf b) p1
        (\<lambda>p2. (UEC_SERVICE_WRITE_PARCEL_ERROR E, p2)) (\<lambda>p2. (UEC_OK E, p2))
      else (UEC_OK E, p1)"
  have "write_with_ret P (P32 (of_nat (length b))) p
      (\<lambda>p1. (UEC_SERVICE_WRITE_PARCEL_ERROR E, p1)) ?k = (UEC_OK E, p')"
    using assms(3) by (simp add: SetBufferMessage_def Let_def len cong: if_cong)
  then obtain p1 where p1: "items p1 = items p @ [P32 (of_nat (length b))]" and k: "?k p1 = (UEC_OK E, p')"
    by (rule ipc_env_write [OF _ assms(1)]) blast
  show ?thesis
  proof (cases "b = []")
    case True
    then show ?thesis using k p1 by (simp add: buffer_items_def)
  next
    case False
    then have "write_with_ret P (PBuf b) p1 (\<lambda>p2. (UEC_SERVICE_WRITE_PARCEL_ERROR E, p2))
        (\<lambda>p2. (UEC_OK E, p2)) = (UEC_OK E, p')" using k by simp
    then obtain p2 where "items p2 = items p1 @ [PBuf b]" "p2 = p'"
      by (rule ipc_env_write [OF _ assms(1)]) simp
    with False p1 show ?thesis by (simp add: buffer_items_def)
  qed
qed

lemma GetBufferMessage_items:
  assumes "ipc_env P E items" and "small b" and "items p = buffer_items b @ rest"
  shows "yields items (GetBufferMessage P E p) (UEC_OK E, b) rest"
proof (cases "b = []")
  case True
  with assms(3) show ?thesis unfolding GetBufferMessage_def
    by (intro read_steps(3) [OF ipc_env_ok(2) [OF assms(1)], of p 0 rest])
      (simp_all add: buffer_items_def)
next
  case False
  let ?n = "of_nat (length b) :: u32"
  have n: "unat ?n = length b"
    using assms(2) unfolding unat_of_nat by (simp add: small_def)
  with False have "?n \<noteq> 0" by (metis length_0_conv unat_0)
  moreover have "items p = P32 ?n # PBuf b # rest" using assms(3) False by (simp add: buffer_items_def)
  ultimately show ?thesis unfolding GetBufferMessage_def
    by (intro read_steps(3) [OF ipc_env_ok(2) [OF assms(1)], of p ?n "PBuf b # rest"])
      (auto intro: read_steps(6) [OF ipc_env_ok(2) [OF assms(1)], where u = b and rest = rest] simp: n)
qed

interpretation buffer_codec: parcel_codec "ipc_env P E items" items "UEC_OK E"
  "SetBufferMessage P E" "GetBufferMessage P E" buffer_items small "\<lambda>b. b" for P E items
  by unfold_locales (auto simp: SetBufferMessage_items GetBufferMessage_items)

section \<open>Endpoints, interfaces, configurations, devices\<close>

lemma rounds_length: "small xs \<Longrightarrow> rounds (of_nat (length xs)) = length xs"
  by (simp add: rounds_def small_def sint_of_nat_small)

lemma unat_length: "small xs \<Longrightarrow> unat (of_nat (length xs) :: u32) = length xs"
  unfolding unat_of_nat by (simp add: small_def)

definition endpoint_items :: "USBEndpoint \<Rightarrow> pitem list" where
  "endpoint_items ep = [P32 (ep_address ep), P32 (ep_attributes ep), P32 (ep_interval ep),
     P32 (ep_maxPacketSize ep)]"

text \<open>The reader does not get the interface id; the caller sets it.\<close>

definition endpoint_received :: "USBEndpoint \<Rightarrow> USBEndpoint" where
  "endpoint_received ep = ep\<lparr>ep_interfaceId := 255\<rparr>"

lemma SetDeviceEndpoint_items:
  assumes "ipc_env P E items" and "SetDeviceEndpoint P E ep p = (UEC_OK E, p')"
  shows "items p' = items p @ endpoint_items ep"
  using assms(2) unfolding SetDeviceEndpoint_def Let_def
  by (elim ipc_env_write [OF _ assms(1)]) (simp add: endpoint_items_def)

lemma GetDeviceEndpoint_items:
  assumes "ipc_env P E items" and "items p = endpoint_items ep @ rest"
  shows "yields items (GetDeviceEndpoint P E p) (UEC_OK E, endpoint_received ep) rest"
  using assms(2) unfolding GetDeviceEndpoint_def Let_def endpoint_items_def append_Cons append_Nil
  by (elim read_steps [OF ipc_env_ok(2) [OF assms(1)]])
    (simp add: endpoint_received_def USBEndpoint_new_def)

interpretation endpoint_codec: parcel_codec "ipc_env P E items" items "UEC_OK E"
  "SetDeviceEndpoint P E" "GetDeviceEndpoint P E" endpoint_items "\<lambda>_. True" endpoint_received
  for P E items
  by unfold_locales (auto simp: SetDeviceEndpoint_items GetDeviceEndpoint_items)

definition interface_items :: "UsbInterface \<Rightarrow> pitem list" where
  "interface_items i = [P32 (if_id i), P32 (if_klass i), P32 (if_subClass i),
     P32 (if_alternateSetting i), P32 (if_protocol i), P8 (if_iInterface i), PStr (if_name i),
     P32 (of_nat (length (if_endpoints i)))] @ concat (map endpoint_items (if_endpoints i))"

definition interface_received :: "UsbInterface \<Rightarrow> UsbInterface" where
  "interface_received i =
     i\<lparr>if_endpoints := map (\<lambda>ep. ep\<lparr>ep_interfaceId := ucast (if_id i)\<rparr>) (if_endpoints i)\<rparr>"

definition interface_fits :: "UsbInterface \<Rightarrow> bool" where
  "interface_fits i \<longleftrightarrow> small (if_endpoints i)"

lemma endpoints_written:
  assumes "ipc_env P E items" and "write_loop E (SetDeviceEndpoint P E) eps p = (UEC_OK E, p')"
  shows "items p' = items p @ concat (map endpoint_items eps)"
  using endpoint_codec.write_loop_enc [OF assms(1) refl ipc_env_ok(1) [OF assms(1)] _ assms(2)] by simp

lemma SetDeviceInterface_items:
  assumes "ipc_env P E items" and "SetDeviceInterface P E i p = (UEC_OK E, p')"
  shows "items p' = items p @ interface_items i"
  using assms(2) unfolding SetDeviceInterface_def Let_def SetDeviceEndpointsMessageParcel_def
    UsbInterface_GetEndpointCount_def
  by (elim ipc_env_write [OF _ assms(1)])
    (drule endpoints_written [OF assms(1)], simp add: interface_items_def)

lemma GetDeviceEndpoints_items:
  assumes "ipc_env P E items" and "small eps"
    and "items p = P32 (of_nat (length eps)) # concat (map endpoint_items eps) @ rest"
  shows "yields items (GetDeviceEndpointsMessageParcel P E p) (UEC_OK E, map endpoint_received eps) rest"
  unfolding GetDeviceEndpointsMessageParcel_def
  by (rule read_steps(3) [OF ipc_env_ok(2) [OF assms(1)] assms(3)])
    (use endpoint_codec.read_loop_enc [OF assms(1) refl ipc_env_ok(1) [OF assms(1)], of eps _ rest "[]"]
      in \<open>simp add: rounds_length [OF assms(2)]\<close>)

lemma GetDeviceInterface_items:
  assumes "ipc_env P E items" and "interface_fits i" and "items p = interface_items i @ rest"
  shows "yields items (GetDeviceInterface P E p) (UEC_OK E, interface_received i) rest"
proof -
  have eps: "yields items
      (let ((ret, eps), p) = GetDeviceEndpointsMessageParcel P E q
       in if ret \<noteq> UEC_OK E then ((ret, UsbInterface_new), p)
          else ((UEC_OK E, UsbInterface_new\<lparr>if_id := if_id i, if_klass := if_klass i,
            if_subClass := if_subClass i, if_alternateSetting := if_alternateSetting i,
            if_protocol := if_protocol i, if_iInterface := if_iInterface i, if_name := if_name i,
            if_endpoints := map (\<lambda>ep. ep\<lparr>ep_interfaceId := ucast (if_id i)\<rparr>) eps\<rparr>), p))
      (UEC_OK E, interface_received i) rest"
    if "items q = P32 (of_nat (length (if_endpoints i))) # concat (map endpoint_items (if_endpoints i)) @ rest"
    for q
    using GetDeviceEndpoints_items [OF assms(1) _ that] assms(2)
    by (auto simp: interface_fits_def yields_def interface_received_def UsbInterface_new_def
        endpoint_received_def split: prod.splits)
  show ?thesis
    using assms(3)
    unfolding GetDeviceInterface_def Let_def interface_items_def append_Cons append_Nil
    by (elim read_steps [OF ipc_env_ok(2) [OF assms(1)]]) (use eps in \<open>simp add: Let_def\<close>)
qed

interpretation interface_codec: parcel_codec "ipc_env P E items" items "UEC_OK E"
  "SetDeviceInterface P E" "GetDeviceInterface P E" interface_items interface_fits interface_received
  for P E items
  by unfold_locales (auto simp: SetDeviceInterface_items GetDeviceInterface_items)

definition config_items :: "USBConfig \<Rightarrow> pitem list" where
  "config_items c = [P32 (cfg_id c), P32 (cfg_attributes c), P32 (cfg_maxPower c * 2),
     P8 (cfg_iConfiguration c), PStr (cfg_name c), P32 (of_nat (length (cfg_interfaces c)))] @
     concat (map interface_items (cfg_interfaces c))"

text \<open>The writer sends \<open>GetMaxPower()\<close>, which the reader stores as the member.\<close>

definition config_received :: "USBConfig \<Rightarrow> USBConfig" where
  "config_received c = c\<lparr>cfg_maxPower := cfg_maxPower c * 2,
     cfg_interfaces := map interface_received (cfg_interfaces c)\<rparr>"

definition config_fits :: "USBConfig \<Rightarrow> bool" where
  "config_fits c \<longleftrightarrow> small (cfg_interfaces c) \<and> (\<forall>i \<in> set (cfg_interfaces c). interface_fits i)"

lemma interfaces_written:
  assumes "ipc_env P E items" and "\<forall>i \<in> set is. interface_fits i"
    and "write_loop E (SetDeviceInterface P E) is p = (UEC_OK E, p')"
  shows "items p' = items p @ concat (map interface_items is)"
  using interface_codec.write_loop_enc [OF assms(1) refl ipc_env_ok(1) [OF assms(1)] assms(2,3)] .

lemma SetDeviceConfig_items:
  assumes "ipc_env P E items" and "config_fits c" and "SetDeviceConfig P E c p = (UEC_OK E, p')"
  shows "items p' = items p @ config_items c"
  using assms(3) unfolding SetDeviceConfig_def Let_def SetDeviceInterfacesMessageParcel_def
    USBConfig_GetInterfaceCount_def USBConfig_GetMaxPower_def
  by (elim ipc_env_write [OF _ assms(1)])
    (drule interfaces_written [OF assms(1), rotated],
     use assms(2) in \<open>simp_all add: config_items_def config_fits_def\<close>)

lemma GetDeviceInterfaces_items:
  assumes "ipc_env P E items" and "small is" and "\<forall>i \<in> set is. interface_fits i"
    and "items p = P32 (of_nat (length is)) # concat (map interface_items is) @ rest"
  shows "yields items (GetDeviceInterfacesMessageParcel P E junk p)
    (UEC_OK E, map interface_received is) rest"
  unfolding GetDeviceInterfacesMessageParcel_def
  by (rule read_steps(3) [OF ipc_env_ok(2) [OF assms(1)] assms(4)])
    (use interface_codec.read_loop_enc [OF assms(1) refl ipc_env_ok(1) [OF assms(1)] assms(3), of _ rest "[]"]
      in \<open>simp add: rounds_length [OF assms(2)]\<close>)

lemma GetDeviceConfig_items:
  assumes "ipc_env P E items" and "config_fits c" and "items p = config_items c @ rest"
  shows "yields items (GetDeviceConfig P E junk p) (UEC_OK E, config_received c) rest"
proof -
  have ifs: "yields items
      (let ((ret, is), p) = GetDeviceInterfacesMessageParcel P E junk q
       in if ret \<noteq> UEC_OK E then ((ret, USBConfig_new), p)
          else ((UEC_OK E, USBConfig_new\<lparr>cfg_id := cfg_id c, cfg_attributes := cfg_attributes c,
            cfg_maxPower := cfg_maxPower c * 2, cfg_iConfiguration := cfg_iConfiguration c,
            cfg_name := cfg_name c, cfg_interfaces := is\<rparr>), p))
      (UEC_OK E, config_received c) rest"
    if "items q = P32 (of_nat (length (cfg_interfaces c))) # concat (map interface_items (cfg_interfaces c)) @ rest"
    for q
    using GetDeviceInterfaces_items [OF assms(1) _ _ that, of junk] assms(2)
    by (auto simp: config_fits_def yields_def config_received_def USBConfig_new_def split: prod.splits)
  show ?thesis
    using assms(3)
    unfolding GetDeviceConfig_def Let_def config_items_def append_Cons append_Nil
    by (elim read_steps [OF ipc_env_ok(2) [OF assms(1)]]) (use ifs in \<open>simp add: Let_def\<close>)
qed

interpretation config_codec: parcel_codec "ipc_env P E items" items "UEC_OK E"
  "SetDeviceConfig P E" "GetDeviceConfig P E junk" config_items config_fits config_received
  for P E items junk
  by unfold_locales (auto simp: SetDeviceConfig_items GetDeviceConfig_items)

definition device_items :: "UsbDevice \<Rightarrow> pitem list" where
  "device_items d = [P32 (ucast (dev_busNum d)), P32 (ucast (dev_devAddr d)), P32 (dev_vendorId d),
     P32 (dev_productId d), P32 (dev_klass d), P32 (dev_subClass d), P32 (dev_protocol d),
     P8 (dev_iManufacturer d), P8 (dev_iProduct d), P8 (dev_iSerialNumber d),
     P8 (dev_bMaxPacketSize0 d), P16 (dev_bcdUSB d), P16 (dev_bcdDevice d), PStr (dev_name d),
     PStr (dev_manufacturerName d), PStr (dev_productName d), PStr (dev_version d),
     PStr (dev_serial d), P32 (of_nat (length (dev_configs d)))] @
     concat (map config_items (dev_configs d))"

text \<open>The configuration count of the descriptor is not sent; it keeps its initial value.\<close>

definition device_received :: "UsbDevice \<Rightarrow> UsbDevice" where
  "device_received d = d\<lparr>dev_descConfigCount := 255, dev_configs := map config_received (dev_configs d)\<rparr>"

definition device_fits :: "UsbDevice \<Rightarrow> bool" where
  "device_fits d \<longleftrightarrow> small (dev_configs d) \<and> (\<forall>c \<in> set (dev_configs d). config_fits c)"

lemma configs_written:
  assumes "ipc_env P E items" and "\<forall>c \<in> set cs. config_fits c"
    and "write_loop E (SetDeviceConfig P E) cs p = (UEC_OK E, p')"
  shows "items p' = items p @ concat (map config_items cs)"
  using config_codec.write_loop_enc [OF assms(1) refl ipc_env_ok(1) [OF assms(1)] assms(2,3)] .

lemma SetDeviceMessageParcel_items:
  assumes "ipc_env P E items" and "device_fits d" and "SetDeviceMessageParcel P E d p = (UEC_OK E, p')"
  shows "items p' = items p @ device_items d"
  using assms(3) unfolding SetDeviceMessageParcel_def Let_def SetDeviceConfigsMessageParcel_def
    UsbDevice_GetConfigCount_def
  by (elim ipc_env_write [OF _ assms(1)])
    (drule configs_written [OF assms(1), rotated],
     use assms(2) in \<open>simp_all add: device_items_def device_fits_def\<close>)

lemma GetDeviceConfigs_items:
  assumes "ipc_env P E items" and "small cs" and "\<forall>c \<in> set cs. config_fits c"
    and "items p = P32 (of_nat (length cs)) # concat (map config_items cs) @ rest"
  shows "yields items (GetDeviceConfigsMessageParcel P E junk p) (UEC_OK E, map config_received cs) rest"
  unfolding GetDeviceConfigsMessageParcel_def
  by (rule read_steps(3) [OF ipc_env_ok(2) [OF assms(1)] assms(4)])
    (use config_codec.read_loop_enc [OF assms(1) refl ipc_env_ok(1) [OF assms(1)] assms(3), of _ rest junk "[]"]
      in \<open>simp add: unat_length [OF assms(2)]\<close>)

lemma GetDeviceMessageParcel_items:
  assumes "ipc_env P E items" and "device_fits d" and "items p = device_items d @ rest"
  shows "yields items (GetDeviceMessageParcel P E junk (UsbDevice_new junk_dev) p)
    (UEC_OK E, device_received d) rest"
proof -
  have cs: "yields items
      (let ((ret, cs), p) = GetDeviceConfigsMessageParcel P E junk q
       in ((UEC_OK E, e\<lparr>dev_configs := cs\<rparr>), p))
      (UEC_OK E, device_received d) rest"
    if "items q = P32 (of_nat (length (dev_configs d))) # concat (map config_items (dev_configs d)) @ rest"
      and "e\<lparr>dev_configs := map config_received (dev_configs d)\<rparr> = device_received d" for q e
    using GetDeviceConfigs_items [OF assms(1) _ _ that(1), of junk] assms(2) that(2)
    by (auto simp: device_fits_def yields_def split: prod.splits)
  show ?thesis
    using assms(3)
    unfolding GetDeviceMessageParcel_def Let_def device_items_def append_Cons append_Nil
    by (elim read_steps [OF ipc_env_ok(2) [OF assms(1)]])
      (rule cs [unfolded Let_def], assumption,
       rule UsbDevice.equality; simp add: device_received_def UsbDevice_new_def)
qed

interpretation device_codec: parcel_codec "ipc_env P E items" items "UEC_OK E"
  "SetDeviceMessageParcel P E" "GetDeviceMessageParcel P E junk (UsbDevice_new junk_dev)"
  device_items device_fits device_received
  for P E items junk junk_dev
  by unfold_locales (auto simp: SetDeviceMessageParcel_items GetDeviceMessageParcel_items)

lemma devices_written:
  assumes "ipc_env P E items" and "\<forall>d \<in> set ds. device_fits d"
    and "write_loop E (SetDeviceMessageParcel P E) ds p = (UEC_OK E, p')"
  shows "items p' = items p @ concat (map device_items ds)"
  using device_codec.write_loop_enc [OF assms(1) refl ipc_env_ok(1) [OF assms(1)] assms(2,3)] .

definition device_list_fits :: "UsbDevice list \<Rightarrow> bool" where
  "device_list_fits ds \<longleftrightarrow> small ds \<and> (\<forall>d \<in> set ds. device_fits d)"

lemma SetDeviceList_items:
  assumes "ipc_env P E items" and "device_list_fits ds"
    and "SetDeviceListMessageParcel P E ds p = (UEC_OK E, p')"
  shows "items p' = items p @ P32 (of_nat (length ds)) # concat (map device_items ds)"
proof -
  have n: "take (rounds (of_nat (length ds))) ds = ds"
    using assms(2) rounds_length [of ds] by (simp add: device_list_fits_def)
  from assms(3) show ?thesis
    unfolding SetDeviceListMessageParcel_def Let_def n
    by (elim ipc_env_write [OF _ assms(1)])
      (drule devices_written [OF assms(1), rotated], use assms(2) in \<open>simp_all add: device_list_fits_def\<close>)
qed

lemma GetDeviceList_items:
  assumes "ipc_env P E items" and "device_list_fits ds"
    and "items p = P32 (of_nat (length ds)) # concat (map device_items ds) @ rest"
  shows "yields items (GetDeviceListMessageParcel P E junk junk_dev acc p)
    (UEC_OK E, acc @ map device_received ds) rest"
  unfolding GetDeviceListMessageParcel_def
  by (rule read_steps(3) [OF ipc_env_ok(2) [OF assms(1)] assms(3)])
    (use device_codec.read_loop_ignoring_enc [OF assms(1) refl, of ds _ rest junk junk_dev acc] assms(2)
      in \<open>simp add: rounds_length device_list_fits_def\<close>)

text \<open>A lawful parcel, for the witnesses: the list of its items.\<close>

definition list_parcel :: "pitem list parcel_ops" where
  "list_parcel = \<lparr>p_empty = [],
     p_Write = (\<lambda>it p. (True, p @ [it])),
     p_Read8 = (\<lambda>p. case p of P8 v # r \<Rightarrow> (Some v, r) | _ \<Rightarrow> (None, p)),
     p_Read16 = (\<lambda>p. case p of P16 v # r \<Rightarrow> (Some v, r) | _ \<Rightarrow> (None, p)),
     p_Read32 = (\<lambda>p. case p of P32 v # r \<Rightarrow> (Some v, r) | _ \<Rightarrow> (None, p)),
     p_ReadBool = (\<lambda>p. case p of PBool v # r \<Rightarrow> (Some v, r) | _ \<Rightarrow> (None, p)),
     p_ReadString = (\<lambda>p. case p of PStr v # r \<Rightarrow> (Some v, r) | _ \<Rightarrow> (None, p)),
     p_ReadUnpadBuffer = (\<lambda>n p. case p of PBuf v # r \<Rightarrow> if length v = n then (Some v, r) else (None, p)
       | _ \<Rightarrow> (None, p)),
     p_ReadInterfaceToken = (\<lambda>p. case p of PToken v # r \<Rightarrow> (v, r) | _ \<Rightarrow> ('''', p)),
     p_ReadObject = (\<lambda>p. case p of PObj v # r \<Rightarrow> (v, r) | _ \<Rightarrow> (None, p))\<rparr>"

lemma list_parcel_ok: "parcel_ok list_parcel (\<lambda>p. p)"
  by (simp add: parcel_ok_def list_parcel_def)

lemma sample_env: "ipc_env list_parcel sample_codes (\<lambda>p. p)"
  by (simp add: ipc_env_def list_parcel_ok)

text \<open>
  C25: A device list the service writes into a message is read back by the client completely and
  in order, and nothing is left over.  Every device arrives as it was except for two members:
  the configuration count of the descriptor, which is not sent, and the maximum power of each
  configuration, which arrives doubled (and the endpoints carry the id of their interface).
\<close>

theorem device_list_roundtrip:
  assumes "parcel_ok P items" and "codes_ok E" and "device_list_fits ds" and "items p = []"
    and "SetDeviceListMessageParcel P E ds p = (UEC_OK E, p')"
  shows "\<exists>p2. GetDeviceListMessageParcel P E junk junk_dev acc p' =
      ((UEC_OK E, acc @ map device_received ds), p2) \<and> items p2 = []"
proof -
  have env: "ipc_env P E items" using assms(1,2) by (simp add: ipc_env_def)
  have "items p' = P32 (of_nat (length ds)) # concat (map device_items ds) @ []"
    using SetDeviceList_items [OF env assms(3,5)] assms(4) by simp
  from GetDeviceList_items [OF env assms(3) this, of junk junk_dev acc] show ?thesis
    by (auto simp: yields_def) (metis prod.collapse)
qed

definition sample_usb_device :: UsbDevice where
  "sample_usb_device = UsbDevice_zero\<lparr>dev_busNum := 1, dev_devAddr := 2, dev_name := ''1-2'',
     dev_configs := [USBConfig_new\<lparr>cfg_maxPower := 50, cfg_interfaces := [UsbInterface_new\<lparr>if_id := 3,
       if_endpoints := [USBEndpoint_new\<lparr>ep_address := 0x81\<rparr>]\<rparr>]\<rparr>]\<rparr>"

theorem device_list_roundtrip_witness:
  "\<exists>p2 d. GetDeviceListMessageParcel list_parcel sample_codes 0 UsbDevice_zero []
      (snd (SetDeviceListMessageParcel list_parcel sample_codes [sample_usb_device] [])) =
      ((0, [d]), p2) \<and> USBConfig_GetMaxPower (hd (dev_configs d)) = 200 \<and>
      USBConfig_GetMaxPower (hd (dev_configs sample_usb_device)) = 100"
proof -
  have fits: "device_list_fits [sample_usb_device]"
    by (simp add: device_list_fits_def small_def device_fits_def config_fits_def interface_fits_def
        sample_usb_device_def)
  have "fst (SetDeviceListMessageParcel list_parcel sample_codes [sample_usb_device] []) = 0"
    by code_simp
  then have w: "SetDeviceListMessageParcel list_parcel sample_codes [sample_usb_device] [] =
      (UEC_OK sample_codes, snd (SetDeviceListMessageParcel list_parcel sample_codes [sample_usb_device] []))"
    by (simp add: prod_eq_iff sample_codes_def)
  have pow: "USBConfig_GetMaxPower (hd (dev_configs (device_received sample_usb_device))) = 200"
    "USBConfig_GetMaxPower (hd (dev_configs sample_usb_device)) = 100"
    by (simp_all add: sample_usb_device_def device_received_def config_received_def USBConfig_GetMaxPower_def)
  from device_list_roundtrip [OF list_parcel_ok codes_ok_sample fits refl w, of 0 UsbDevice_zero "[]"] pow
  show ?thesis by (auto simp: sample_codes_def)
qed

section \<open>Ports\<close>

definition port_items :: "UsbPort \<Rightarrow> pitem list" where
  "port_items port = [P32 (port_id port), P32 (supportedModes port),
     P32 (currentMode (usbPortStatus port)), P32 (currentPowerRole (usbPortStatus port)),
     P32 (currentDataRole (usbPortStatus port))]"

lemma WriteUsbPort_items:
  assumes "ipc_env P E items" and "WriteUsbPort P E port p = (UEC_OK E, p')"
  shows "items p' = items p @ port_items port"
  using assms(2) unfolding WriteUsbPort_def Let_def
  by (elim ipc_env_write [OF _ assms(1)]) (simp add: port_items_def)

lemma ParseUsbPort_items:
  assumes "ipc_env P E items" and "items p = port_items port @ rest"
  shows "yields items (ParseUsbPort P E ports p) (UEC_OK E, ports @ [port]) rest"
  using assms(2) unfolding ParseUsbPort_def read32_or_0_def port_items_def append_Cons append_Nil
  by (elim read_steps [OF ipc_env_ok(2) [OF assms(1)]]) simp

definition read_port :: "'p parcel_ops \<Rightarrow> uec_codes \<Rightarrow> 'p \<Rightarrow> (i32 \<times> UsbPort) \<times> 'p" where
  "read_port P E p = (let ((r, ports), p1) = ParseUsbPort P E [] p in ((r, hd ports), p1))"

interpretation port_codec: parcel_codec "ipc_env P E items" items "UEC_OK E"
  "WriteUsbPort P E" "read_port P E" port_items "\<lambda>_. True" "\<lambda>port. port"
  for P E items
proof
  fix a p rest
  assume "ipc_env P E items" "items p = port_items a @ rest"
  from ParseUsbPort_items [OF this, of "[]"]
  show "yields items (read_port P E p) (UEC_OK E, a) rest"
    by (auto simp: read_port_def yields_def split: prod.splits)
qed (simp add: WriteUsbPort_items)

lemma parse_ports_items:
  assumes "ipc_env P E items"
  shows "items p = concat (map port_items ps) @ rest \<Longrightarrow>
    yields items (parse_ports P E (length ps) ports p) (UEC_OK E, ports @ ps) rest"
proof (induction ps arbitrary: p ports)
  case (Cons port ps)
  then have "yields items (ParseUsbPort P E ports p) (UEC_OK E, ports @ [port])
      (concat (map port_items ps) @ rest)"
    by (intro ParseUsbPort_items [OF assms]) simp
  with Cons.IH [of _ "ports @ [port]"] ipc_env_ok(1) [OF assms] show ?case
    by (auto simp: yields_def split: prod.splits)
qed simp

end
