(* ===== verification/Usb_Attach_Props.thy ===== *)
theory Usb_Attach_Props
  imports Usb_Attach Usb_Wire
begin

text \<open>
  What the service does with a device from its attachment to its removal: the strings it reads,
  the device it registers, the failures it overlooks, and the state invariant of the whole
  service under every sequence of calls and driver events.
\<close>

section \<open>Strings\<close>

lemma concat_pairs_nth:
  "k < length us \<Longrightarrow> concat (map (\<lambda>(a, b). [f a, g b]) us) ! (2 * k) = f (fst (us ! k))"
  "k < length us \<Longrightarrow> concat (map (\<lambda>(a, b). [f a, g b]) us) ! Suc (2 * k) = g (snd (us ! k))"
proof (induction us arbitrary: k)
  case (Cons u us)
  {
    case 1
    with Cons show ?case by (cases u; cases k) auto
  next
    case 2
    with Cons show ?case by (cases u; cases k) auto
  }
qed simp_all

lemma length_concat_pairs: "length (concat (map (\<lambda>(a, b). [f a, g b]) us)) = 2 * length us"
  by (induction us) auto

lemma narrow_wide:
  "narrow_char (ucast (ucast (lo :: u8) :: u16) OR push_bit 16 (ucast (hi :: u16))) = char_of (unat lo)"
proof -
  have "(ucast (ucast (ucast lo :: u16) OR push_bit 16 (ucast hi) :: u32) :: u8) = lo"
    by (rule bit_word_eqI) (auto simp: bit_simps)
  then show ?thesis by (simp add: narrow_char_def)
qed

lemma unat_of_char: "unat (of_nat (of_char c) :: u8) = of_char c"
  by (simp add: unsigned_of_nat take_bit_eq_mod)

text \<open>
  C31: A string descriptor of 16-bit units is read as the low bytes of its units, so every
  Latin-1 string the device encodes is read back unchanged.
\<close>

theorem GetDevStringValFromIdx_roundtrip:
  assumes "idx \<noteq> 0"
    and "x_GetStringDescriptor x (usb_dev b a) idx [] w =
      ((UEC_OK E, l # 3 # concat (map (\<lambda>(c, hi). [of_nat (of_char c), hi]) us)), w1)"
    and "x_alloc x w1 = (True, w2)" and "length us < 2147483647"
  shows "GetDevStringValFromIdx E x b a idx w = (map fst us, w2)"
proof -
  define bs where "bs = l # 3 # concat (map (\<lambda>(c, hi). [of_nat (of_char c), hi]) us)"
  have len: "length bs = 2 + 2 * length us" by (simp add: bs_def length_concat_pairs)
  have unit: "string_units bs (length bs) ! (2 * k) = ucast (of_nat (of_char (fst (us ! k))) :: u8)"
    if "k < length us" for k
  proof -
    have "string_units bs (length bs) ! (2 * k) = ucast (bs ! (2 * k + 2))"
      using that by (simp add: string_units_def len DESCRIPTOR_VALUE_START_OFFSET_def del: upt_Suc)
    also have "bs ! (2 * k + 2) = of_nat (of_char (fst (us ! k)))"
      using concat_pairs_nth(1) [OF that, where f = "\<lambda>c. of_nat (of_char c)" and g = "\<lambda>h. h"]
      by (simp add: bs_def)
    finally show ?thesis .
  qed
  have "map narrow_char (wide_chars (string_units bs (length bs)) (length us)) = map fst us"
    by (rule nth_equalityI)
      (simp_all add: wide_chars_def unit narrow_wide unat_of_char)
  moreover have "bs ! 1 = 3" by (simp add: bs_def)
  ultimately show ?thesis
    using assms len unfolding bs_def [symmetric]
    by (simp add: GetDevStringValFromIdx_def Let_def DESCRIPTOR_VALUE_START_OFFSET_def
        DESCRIPTOR_TYPE_STRING_def)
qed

theorem GetDevStringValFromIdx_roundtrip_witness:
  "GetDevStringValFromIdx sample_codes sample_ext 1 2 3 sample_state = (''A'', sample_state)"
  using GetDevStringValFromIdx_roundtrip [where E = sample_codes and x = sample_ext and b = 1
      and a = 2 and idx = 3 and w = sample_state and l = 4 and us = "[(CHR ''A'', 0)]"
      and ?w1.0 = sample_state and ?w2.0 = sample_state]
  by (simp add: sample_ext_def sample_codes_def)

section \<open>Attaching a device\<close>

text \<open>A configuration without the names that are read as strings.\<close>

definition unnamed_interface :: "UsbInterface \<Rightarrow> UsbInterface" where
  "unnamed_interface i = i\<lparr>if_name := ''''\<rparr>"

definition unnamed_config :: "USBConfig \<Rightarrow> USBConfig" where
  "unnamed_config c = c\<lparr>cfg_name := '''', cfg_interfaces := map unnamed_interface (cfg_interfaces c)\<rparr>"

lemma fill_interface_unnamed:
  "map unnamed_interface (fst (fill_interface_names E x b a is w)) = map unnamed_interface is"
  by (induction E x b a "is" w rule: fill_interface_names.induct)
    (auto simp: unnamed_interface_def split: prod.splits)

lemma fill_config_unnamed:
  "map unnamed_config (fst (fill_config_names E x b a cs w)) = map unnamed_config cs"
proof (induction E x b a cs w rule: fill_config_names.induct)
  case (2 E x b a c cs w)
  obtain n w1 where 1: "GetDevStringValFromIdx E x b a (cfg_iConfiguration c) w = (n, w1)"
    by (metis surj_pair)
  obtain js w2 where 2: "fill_interface_names E x b a (cfg_interfaces c) w1 = (js, w2)" by (metis surj_pair)
  obtain cs' w3 where 3: "fill_config_names E x b a cs w2 = (cs', w3)" by (metis surj_pair)
  have "map unnamed_interface js = map unnamed_interface (cfg_interfaces c)"
    using fill_interface_unnamed [of E x b a "cfg_interfaces c" w1] by (simp add: 2)
  with "2.IH" [OF 1 [symmetric] refl 2 [symmetric] refl] show ?case
    by (simp add: 1 2 3 unnamed_config_def)
qed simp

text \<open>The fields the string reading leaves alone.\<close>

lemma FillDevStrings_keeps:
  assumes "FillDevStrings E x dev w = ((r, dev'), w')"
  shows "r = UEC_OK E" and "dev_key_of dev' = dev_key_of dev" and "dev_name dev' = dev_name dev"
    and "dev_vendorId dev' = dev_vendorId dev" and "dev_productId dev' = dev_productId dev"
    and "dev_klass dev' = dev_klass dev" and "dev_subClass dev' = dev_subClass dev"
    and "dev_protocol dev' = dev_protocol dev"
    and "map unnamed_config (dev_configs dev') = map unnamed_config (dev_configs dev)"
proof -
  obtain m w1 where 1: "GetDevStringValFromIdx E x (dev_busNum dev) (dev_devAddr dev)
    (dev_iManufacturer dev) w = (m, w1)" by (metis surj_pair)
  obtain p w2 where 2: "GetDevStringValFromIdx E x (dev_busNum dev) (dev_devAddr dev)
    (dev_iProduct dev) w1 = (p, w2)" by (metis surj_pair)
  obtain s w3 where 3: "GetDevStringValFromIdx E x (dev_busNum dev) (dev_devAddr dev)
    (dev_iSerialNumber dev) w2 = (s, w3)" by (metis surj_pair)
  obtain cs w4 where 4: "fill_config_names E x (dev_busNum dev) (dev_devAddr dev)
    (dev_configs dev) w3 = (cs, w4)" by (metis surj_pair)
  have cs: "map unnamed_config cs = map unnamed_config (dev_configs dev)"
    using fill_config_unnamed [of E x "dev_busNum dev" "dev_devAddr dev" "dev_configs dev" w3]
    by (simp add: 4)
  show "r = UEC_OK E" "dev_key_of dev' = dev_key_of dev" "dev_name dev' = dev_name dev"
    "dev_vendorId dev' = dev_vendorId dev" "dev_productId dev' = dev_productId dev"
    "dev_klass dev' = dev_klass dev" "dev_subClass dev' = dev_subClass dev"
    "dev_protocol dev' = dev_protocol dev"
    "map unnamed_config (dev_configs dev') = map unnamed_config (dev_configs dev)"
    using assms cs by (auto simp: FillDevStrings_def Let_def 1 2 3 4 dev_key_of_def)
qed

text \<open>What a device and its configuration are read as, up to the strings.\<close>

definition reads_as ::
  "u8 \<Rightarrow> u8 \<Rightarrow> UsbdDeviceDescriptor \<Rightarrow> UsbdConfigDescriptor \<Rightarrow> if_tree list \<Rightarrow> UsbDevice \<Rightarrow> bool" where
  "reads_as b a d c ts dev \<longleftrightarrow> dev_key_of dev = (b, a) \<and> dev_name dev = device_name b a \<and>
     dev_vendorId dev = ucast (dd_idVendor d) \<and> dev_productId dev = ucast (dd_idProduct d) \<and>
     dev_klass dev = ucast (dd_bDeviceClass d) \<and> dev_subClass dev = ucast (dd_bDeviceSubClass d) \<and>
     dev_protocol dev = 0 \<and>
     map unnamed_config (dev_configs dev) = [unnamed_config (USBConfig_new\<lparr>
       cfg_id := ucast (cd_bConfigurationValue c), cfg_attributes := ucast (cd_bmAttributes c),
       cfg_maxPower := ucast (cd_bMaxPower c), cfg_iConfiguration := cd_iConfiguration c,
       cfg_interfaces := map if_tree_object (nonempty_trees ts)\<rparr>)]"

text \<open>A descriptor stream of one device with one configuration, small enough for the cursors.\<close>

definition stream_ok :: "UsbdDeviceDescriptor \<Rightarrow> UsbdConfigDescriptor \<Rightarrow> if_tree list \<Rightarrow> bool" where
  "stream_ok d c ts \<longleftrightarrow> dd_bLength d = 18 \<and> dd_bNumConfigurations d \<noteq> 0 \<and> cd_bLength c = 9 \<and>
     (\<forall>t \<in> set ts. if_tree_ok t) \<and> length (nonempty_trees ts) \<le> unat (cd_bNumInterfaces c) \<and>
     length (config_tree_bytes c ts) + 300 < 4294967296"

lemma config_tree_nonempty: "config_tree_bytes c ts \<noteq> []"
  by (simp add: config_tree_bytes_def)

lemma config_loop_tree:
  assumes "stream_ok d c ts"
  shows "config_loop usb20_layout E (device_bytes d @ config_tree_bytes c ts)
      (18 + length (config_tree_bytes c ts)) (Suc 0) 18 [] =
    Some (Mem (UEC_OK E, [USBConfig_new\<lparr>
       cfg_id := ucast (cd_bConfigurationValue c), cfg_attributes := ucast (cd_bmAttributes c),
       cfg_maxPower := ucast (cd_bMaxPower c), cfg_iConfiguration := cd_iConfiguration c,
       cfg_interfaces := map if_tree_object (nonempty_trees ts)\<rparr>]))"
proof -
  let ?n = "length (config_tree_bytes c ts)"
  have "0 < ?n" using config_tree_nonempty [of c ts] by simp
  moreover have "u32_sub (18 + ?n) 18 = ?n" using assms by (simp add: stream_ok_def)
  moreover have "drop 18 (device_bytes d @ config_tree_bytes c ts) = config_tree_bytes c ts" by simp
  moreover obtain k where "ParseConfigDescriptor usb20_layout E (config_tree_bytes c ts) ?n 0 USBConfig_new =
      Some (Mem (UEC_OK E, k, USBConfig_new\<lparr>
       cfg_id := ucast (cd_bConfigurationValue c), cfg_attributes := ucast (cd_bmAttributes c),
       cfg_maxPower := ucast (cd_bMaxPower c), cfg_iConfiguration := cd_iConfiguration c,
       cfg_interfaces := map if_tree_object (nonempty_trees ts)\<rparr>))"
    using ParseConfigDescriptor_tree [of c ts ?n "[]" E USBConfig_new] assms
    by (auto simp: stream_ok_def)
  ultimately show ?thesis by (simp add: run_bind_def)
qed

lemma GetDeviceInfo_tree:
  assumes "stream_ok d c ts"
    and "x_OpenDevice x (usb_dev b a) w = (UEC_OK E, w1)"
    and "x_GetRawDescriptor x (usb_dev b a) [] w1 =
      ((UEC_OK E, device_bytes d @ config_tree_bytes c ts), w2)"
  shows "\<exists>dev w'. GetDeviceInfo usb20_layout E x b a UsbDevice_zero w = Some (Mem ((UEC_OK E, dev), w')) \<and>
    reads_as b a d c ts dev"
proof -
  let ?bs = "device_bytes d @ config_tree_bytes c ts"
  have len: "length ?bs mod 4294967296 = 18 + length (config_tree_bytes c ts)" and ne: "?bs \<noteq> []"
    and ids: "ud_busNum (usb_dev b a) = b" "ud_devAddr (usb_dev b a) = a"
    using assms(1) by (simp_all add: stream_ok_def usb_dev_def)
  have d18: "dd_bLength d = 18" and one: "dd_bNumConfigurations d \<noteq> 0"
    using assms(1) by (simp_all add: stream_ok_def)
  define dev0 where "dev0 = UsbDevice_zero\<lparr>dev_busNum := b, dev_devAddr := a, dev_name := device_name b a\<rparr>"
  have parse: "ParseDeviceDescriptor usb20_layout E ?bs (18 + length (config_tree_bytes c ts)) dev0 =
    Mem (UEC_OK E, dev0\<lparr>dev_vendorId := ucast (dd_idVendor d),
      dev_productId := ucast (dd_idProduct d), dev_klass := ucast (dd_bDeviceClass d),
      dev_subClass := ucast (dd_bDeviceSubClass d),
      dev_descConfigCount := dd_bNumConfigurations d,
      dev_bMaxPacketSize0 := dd_bMaxPacketSize0 d, dev_bcdDevice := dd_bcdDevice d,
      dev_bcdUSB := dd_bcdUSB d, dev_iManufacturer := dd_iManufacturer d,
      dev_iProduct := dd_iProduct d, dev_iSerialNumber := dd_iSerialNumber d\<rparr>)" (is "_ = Mem (_, ?dev1)")
    using ParseDeviceDescriptor_bytes [OF d18, of E "config_tree_bytes c ts" dev0] by simp
  have info: "GetDeviceInfoDescriptor usb20_layout E x (usb_dev b a) [] UsbDevice_zero w1 =
      Some (Mem ((UEC_OK E, ?bs, ?dev1), w2))"
    using ne by (simp only: GetDeviceInfoDescriptor_def assms(3) Let_def prod.case len ids
        dev0_def [symmetric] parse mem.case) simp
  let ?cfg = "USBConfig_new\<lparr>
       cfg_id := ucast (cd_bConfigurationValue c), cfg_attributes := ucast (cd_bmAttributes c),
       cfg_maxPower := ucast (cd_bMaxPower c), cfg_iConfiguration := cd_iConfiguration c,
       cfg_interfaces := map if_tree_object (nonempty_trees ts)\<rparr>"
  obtain r dev2 w3 where fill: "FillDevStrings E x (?dev1\<lparr>dev_configs := [?cfg]\<rparr>) w2 = ((r, dev2), w3)"
    by (metis surj_pair)
  have conf: "GetConfigDescriptor usb20_layout E x ?dev1 ?bs w2 = Some (Mem ((r, dev2), w3))"
    using one config_loop_tree [OF assms(1), of E] fill
    by (simp only: GetConfigDescriptor_def len UsbDevice_GetDescConfigCount_def)
      (simp add: run_bind_def CURSOR_INIT_def)
  obtain cl w4 where "x_CloseDevice x (usb_dev b a) w3 = (cl, w4)" by (metis surj_pair)
  then have "GetDeviceInfo usb20_layout E x b a UsbDevice_zero w = Some (Mem ((UEC_OK E, dev2), w4))"
    using FillDevStrings_keeps(1) [OF fill]
    by (simp add: GetDeviceInfo_def Let_def assms(2) info run_bind_def conf)
  moreover have "reads_as b a d c ts dev2"
    using FillDevStrings_keeps [OF fill]
    by (simp add: reads_as_def dev_key_of_def dev0_def UsbDevice_zero_def)
  ultimately show ?thesis by blast
qed

text \<open>Attaching such a device changes the device table of the service and nothing else of it.\<close>

lemma Service_AddDevice_tree:
  assumes "stream_ok d c ts" and "sv_host sv = Some hm" and "host_inv hm"
    and "x_alloc x w = (True, w1)" and "x_memset_s x w1 = (True, w2)"
    and "x_OpenDevice x (usb_dev b a) w2 = (UEC_OK E, w3)"
    and "x_GetRawDescriptor x (usb_dev b a) [] w3 =
      ((UEC_OK E, device_bytes d @ config_tree_bytes c ts), w4)"
  obtains w' hm' dev where
    "Service_AddDevice usb20_layout E x b a sv w = Some (Mem ((True, sv\<lparr>sv_host := Some hm'\<rparr>), w'))"
    "host_inv hm'" "host_abs hm' = (host_abs hm)((b, a) \<mapsto> dev)" "reads_as b a d c ts dev"
proof -
  obtain dev w5 where info: "GetDeviceInfo usb20_layout E x b a UsbDevice_zero w2 =
      Some (Mem ((UEC_OK E, dev), w5))" and dev: "reads_as b a d c ts dev"
    using GetDeviceInfo_tree [OF assms(1,6,7)] by blast
  obtain r hm' w6 where add: "HostManager_AddDevice x (Some dev) hm w5 = ((r, hm'), w6)"
    by (metis surj_pair)
  then have "host_add x dev (hm, w5) = (hm', w6)" by (simp add: host_add_def)
  with host_table.add_inv [of "(hm, w5)" x dev] host_table.add_abs [of "(hm, w5)" x dev] assms(3)
  have "host_inv hm'" "host_abs hm' = (host_abs hm)((b, a) \<mapsto> dev)"
    using dev by (simp_all add: reads_as_def)
  moreover have "Service_AddDevice usb20_layout E x b a sv w =
      Some (Mem ((True, sv\<lparr>sv_host := Some hm'\<rparr>), w6))"
    by (simp add: Service_AddDevice_def assms(2,4,5) info run_bind_def add)
  ultimately show thesis using dev that by blast
qed

text \<open>
  When the driver opens the device and returns a well-formed descriptor stream with one
  configuration, attaching it succeeds: the device is registered under its bus number and
  address with the identifiers, the configuration, the interfaces and the endpoints the
  descriptors say; no other device in the table changes and the table stays well-formed.
\<close>

theorem Service_AddDevice_registers:
  assumes "stream_ok d c ts" and "sv_host sv = Some hm" and "host_inv hm"
    and "x_alloc x w = (True, w1)" and "x_memset_s x w1 = (True, w2)"
    and "x_OpenDevice x (usb_dev b a) w2 = (UEC_OK E, w3)"
    and "x_GetRawDescriptor x (usb_dev b a) [] w3 =
      ((UEC_OK E, device_bytes d @ config_tree_bytes c ts), w4)"
  shows "\<exists>sv' w' hm' dev. Service_AddDevice usb20_layout E x b a sv w = Some (Mem ((True, sv'), w')) \<and>
    sv_host sv' = Some hm' \<and> host_inv hm' \<and> host_abs hm' = (host_abs hm)((b, a) \<mapsto> dev) \<and>
    reads_as b a d c ts dev"
  by (rule Service_AddDevice_tree [OF assms]) fastforce

definition plugged :: sample_world where
  "plugged = sample_state\<lparr>sw_raw := device_bytes sample_device @ config_tree_bytes sample_config sample_trees\<rparr>"

lemma sample_stream: "stream_ok sample_device sample_config sample_trees"
proof -
  have "\<forall>t \<in> set sample_trees. if_tree_ok t"
    by (simp add: sample_trees_def extra_ok_def DESCRIPTOR_TYPE_INTERFACE_def DESCRIPTOR_TYPE_ENDPOINT_def)
  moreover have "length (nonempty_trees sample_trees) = 1"
    by (simp add: nonempty_trees_def sample_trees_def)
  moreover have "length (config_tree_bytes sample_config sample_trees) = 52"
    by (simp add: sample_trees_def config_tree_bytes_def extras_bytes_def extra_bytes_def)
  ultimately show ?thesis by (simp add: stream_ok_def sample_device_def sample_config_def)
qed

theorem Service_AddDevice_registers_witness:
  "\<exists>sv' w' hm' dev. Service_AddDevice usb20_layout sample_codes sample_ext 1 2 UsbService_new plugged =
      Some (Mem ((True, sv'), w')) \<and> sv_host sv' = Some hm' \<and> host_abs hm' (1, 2) = Some dev \<and>
      dev_vendorId dev = 0x12d1"
proof -
  have host: "sv_host UsbService_new = Some UsbHostManager_new" by (simp add: UsbService_new_def)
  have driver: "x_alloc sample_ext plugged = (True, plugged)" "x_memset_s sample_ext plugged = (True, plugged)"
    "x_OpenDevice sample_ext (usb_dev 1 2) plugged = (UEC_OK sample_codes, plugged\<lparr>sw_open := True\<rparr>)"
    by (simp_all add: sample_ext_def sample_codes_def)
  have raw: "x_GetRawDescriptor sample_ext (usb_dev 1 2) [] (plugged\<lparr>sw_open := True\<rparr>) =
      ((UEC_OK sample_codes, device_bytes sample_device @ config_tree_bytes sample_config sample_trees),
       plugged\<lparr>sw_open := True\<rparr>)"
    by (simp add: sample_ext_def sample_codes_def plugged_def)
  have "ucast (dd_idVendor sample_device) = (0x12d1 :: u32)" by code_simp
  with Service_AddDevice_registers [OF sample_stream host host_inv_new driver raw]
  show ?thesis by (fastforce simp: reads_as_def)
qed

end
