(* ===== verification/Usb_Service_Props.thy ===== *)
theory Usb_Service_Props
  imports Usb_Attach_Props
begin

text \<open>
  Properties of the service as a whole: its state invariant under every sequence of calls and
  driver events, start-up, the guard of \<open>OpenDevice\<close>, and what the code overlooks.
\<close>

section \<open>Invariant of the service\<close>

definition service_inv :: "UsbService \<Rightarrow> bool" where
  "service_inv sv \<longleftrightarrow>
     (case sv_host sv of None \<Rightarrow> False | Some hm \<Rightarrow> host_inv hm) \<and>
     (case sv_right sv of None \<Rightarrow> False | Some rm \<Rightarrow> right_inv rm) \<and>
     (case sv_port sv of None \<Rightarrow> False | Some pm \<Rightarrow> port_inv pm) \<and> sv_device sv \<noteq> None"

lemma service_inv_new [simp]: "service_inv UsbService_new"
  by (simp add: service_inv_def UsbService_new_def)

text \<open>The parts of the service an operation leaves alone.\<close>

definition same_managers :: "UsbService \<Rightarrow> UsbService \<Rightarrow> bool" where
  "same_managers sv sv' \<longleftrightarrow> sv_host sv' = sv_host sv \<and> sv_right sv' = sv_right sv \<and>
     sv_port sv' = sv_port sv \<and> sv_device sv' = sv_device sv"

lemma same_managers_inv: "same_managers sv sv' \<Longrightarrow> service_inv sv' = service_inv sv"
  by (simp add: same_managers_def service_inv_def)

lemma same_managers_refl [simp]: "same_managers sv sv"
  by (simp add: same_managers_def)

lemma Service_Init_same: "same_managers sv (snd (fst (Service_Init x sv w)))"
  by (simp add: Service_Init_def same_managers_def Let_def split: prod.splits)

lemma InitUsbd_same: "same_managers sv (snd (fst (InitUsbd E x sv w)))"
  by (simp add: InitUsbd_def same_managers_def Let_def split: prod.splits)

lemma start_loop_same: "same_managers sv (snd (fst (start_loop E x n sv w)))"
proof (induction E x n sv w rule: start_loop.induct)
  case (1 E x n sv w)
  obtain b sv1 w1 where i: "InitUsbd E x sv w = ((b, sv1), w1)" by (metis surj_pair)
  have "same_managers sv sv1" using InitUsbd_same [of sv E x w] by (simp add: i)
  with 1 i show ?case
    by (subst start_loop.simps) (auto simp: same_managers_def)
qed

lemma OnStart_inv [usb_inv]:
  assumes "service_inv sv"
  shows "service_inv (fst (OnStart E x sv w))"
proof -
  obtain ok sv1 w1 where 1: "Service_Init x sv w = ((ok, sv1), w1)" by (metis surj_pair)
  obtain b sv2 w2 where 2: "start_loop E x 0 sv1 w1 = ((b, sv2), w2)" by (metis surj_pair)
  have sv1: "service_inv sv1"
    using Service_Init_same [of sv x w] assms by (simp add: 1 same_managers_inv)
  then have sv2: "service_inv sv2"
    using start_loop_same [of sv1 E x 0 w1] by (simp add: 2 same_managers_inv)
  then obtain pm where pm: "sv_port sv2 = Some pm" "port_inv pm"
    by (auto simp: service_inv_def split: option.splits)
  obtain pm1 w3 where 3: "PortManager_Init x pm w2 = (pm1, w3)" by (metis surj_pair)
  have "port_inv pm1"
    using QueryPort_spec [OF pm(2), where x = x and w = w2] 3
    by (auto simp: PortManager_Init_def split: prod.splits)
  with sv1 sv2 pm assms show ?thesis
    by (auto simp: OnStart_def 1 2 3 service_inv_def)
qed

lemma OnStop_inv [usb_inv]: "service_inv sv \<Longrightarrow> service_inv (fst (OnStop x sv w))"
  by (auto simp: OnStop_def service_inv_def split: prod.splits)

lemma Service_RequestRight_inv [usb_inv]:
  assumes "service_inv sv" and "codes_ok E"
    and "Service_RequestRight E x d sv w = Some ((r, sv'), w')"
  shows "service_inv sv'"
proof -
  obtain rm where rm: "sv_right sv = Some rm" "right_inv rm"
    using assms(1) by (auto simp: service_inv_def split: option.splits)
  obtain ok b w1 where 1: "GetBundleName x '''' w = ((ok, b), w1)" by (metis surj_pair)
  show ?thesis
  proof (cases ok)
    case True
    with assms(3) obtain rm1 where req: "RightManager_RequestRight E x d b rm w1 = Some ((r, rm1), w')"
      and sv': "sv' = sv\<lparr>sv_right := Some rm1\<rparr>"
      by (auto simp: Service_RequestRight_def 1 rm split: option.splits)
    have "right_inv rm1"
    proof (cases "RightManager_HasRight d b rm")
      case True
      with req rm show ?thesis by (simp add: RightManager_RequestRight_def)
    next
      case False
      with req obtain a rm2 w2 where "GetUserAgreementByDiag x d b rm w1 = Some ((a, rm2), w2)"
        and "after_agreement E d b a rm2 = (r, rm1)"
        by (auto simp: RightManager_RequestRight_def split: option.splits prod.splits)
      with GetUserAgreement_spec [where x = x and d = d and b = b and rm = rm and w = w1] rm
        after_agreement_spec(1) [OF _ assms(2), of rm2 d b a]
      show ?thesis by simp
    qed
    with assms(1) show ?thesis by (simp add: sv' service_inv_def)
  qed (use assms in \<open>auto simp: Service_RequestRight_def 1\<close>)
qed

lemma Service_RemoveRight_inv [usb_inv]:
  assumes "service_inv sv"
  shows "service_inv (snd (Service_RemoveRight E d sv))"
proof -
  obtain rm where rm: "sv_right sv = Some rm" "right_inv rm"
    using assms by (auto simp: service_inv_def split: option.splits)
  obtain r rm1 where "RightManager_RemoveDeviceRight d rm = (r, rm1)" by (metis surj_pair)
  with RemoveDeviceRight_inv [OF rm(2), of d] assms show ?thesis
    by (simp add: Service_RemoveRight_def rm service_inv_def)
qed

lemma Service_SetCurrentFunctions_inv [usb_inv]:
  "service_inv sv \<Longrightarrow> service_inv (snd (fst (Service_SetCurrentFunctions E x f sv w)))"
  by (auto simp: Service_SetCurrentFunctions_def service_inv_def Let_def split: option.splits prod.splits)

lemma PortManager_GetPorts_inv:
  assumes "port_inv pm"
  shows "port_inv (snd (fst (PortManager_GetPorts E x ports pm w)))"
  using QueryPort_spec [OF assms, where x = x and w = w] assms
  by (auto simp: PortManager_GetPorts_def split: prod.splits)

lemma Service_GetPorts_inv [usb_inv]:
  assumes "service_inv sv"
  shows "service_inv (snd (fst (Service_GetPorts E x ports sv w)))"
proof -
  obtain pm where pm: "sv_port sv = Some pm" "port_inv pm"
    using assms by (auto simp: service_inv_def split: option.splits)
  obtain res pm1 w1 where "PortManager_GetPorts E x ports pm w = ((res, pm1), w1)" by (metis surj_pair)
  with PortManager_GetPorts_inv [OF pm(2), where E = E and x = x and ports = ports and w = w] assms
  show ?thesis by (simp add: Service_GetPorts_def pm service_inv_def)
qed

lemma Service_UpdateUsbPort_inv [usb_inv]:
  "service_inv sv \<Longrightarrow> service_inv (Service_UpdateUsbPort i p d m sv)"
  using UpdatePort_all(1)
  by (auto simp: Service_UpdateUsbPort_def service_inv_def split: option.splits)

lemma Service_UpdateDeviceState_inv [usb_inv]:
  "service_inv sv \<Longrightarrow> Service_UpdateDeviceState A x s sv w = Some (sv', w') \<Longrightarrow> service_inv sv'"
  by (auto simp: Service_UpdateDeviceState_def service_inv_def split: option.splits)

lemma HostManager_inv:
  assumes "host_inv hm"
  shows "host_inv (snd (fst (HostManager_AddDevice x dev hm w)))"
    and "host_inv (snd (fst (HostManager_DelDevice x b a hm w)))"
proof -
  show "host_inv (snd (fst (HostManager_AddDevice x dev hm w)))"
  proof (cases dev)
    case (Some d)
    with host_table.add_inv [of "(hm, w)" x d] assms show ?thesis
      by (simp add: host_add_def split_beta)
  qed (use assms in \<open>simp add: HostManager_AddDevice_def\<close>)
  show "host_inv (snd (fst (HostManager_DelDevice x b a hm w)))"
    using host_table.del_inv [of "(hm, w)" x "(b, a)"] assms by (simp add: host_del_def split_beta)
qed

text \<open>What \<open>AddDevice\<close> does to the service, whatever it reads: only the device table changes.\<close>

lemma Service_AddDevice_shape:
  assumes "Service_AddDevice L E x b a sv w = Some (Mem ((r, sv'), w'))"
  shows "sv' = sv \<or> (\<exists>hm dev w1. sv_host sv = Some hm \<and>
    sv' = sv\<lparr>sv_host := Some (snd (fst (HostManager_AddDevice x (Some dev) hm w1)))\<rparr>)"
  using assms
  by (auto simp: Service_AddDevice_def run_bind_def Let_def
      split: if_splits prod.splits option.splits mem.splits) (metis fst_conv snd_conv)

lemma Service_DelDevice_shape:
  assumes "Service_DelDevice x b a sv w = ((r, sv'), w')"
  shows "sv' = sv \<or> (\<exists>hm w1. sv_host sv = Some hm \<and>
    sv' = sv\<lparr>sv_host := Some (snd (fst (HostManager_DelDevice x b a hm w1)))\<rparr>)"
  using assms by (auto simp: Service_DelDevice_def split: prod.splits option.splits)
    (metis fst_conv snd_conv)

lemma Service_devices_inv [usb_inv]:
  assumes "service_inv sv"
  shows "Service_AddDevice L E x b a sv w = Some (Mem ((r, sv'), w')) \<Longrightarrow> service_inv sv'"
    and "Service_DelDevice x b a sv w = ((r, sv'), w') \<Longrightarrow> service_inv sv'"
  using assms HostManager_inv
  by (auto dest!: Service_AddDevice_shape Service_DelDevice_shape
      simp: service_inv_def split: option.splits)

lemma DeviceEvent_cases:
  assumes "DeviceEvent L E A x info (Some sv) w = Some (Mem ((r, svo), w'))"
  obtains (state) sv' where "svo = Some sv'"
      and "Service_UpdateDeviceState A x (info_devInfoStatus info) sv w = Some (sv', w')"
    | (add) sv' added where "svo = Some sv'"
      and "Service_AddDevice L E x (ucast (info_devInfoBusNum info)) (ucast (info_devInfoDevNum info)) sv w =
        Some (Mem ((added, sv'), w'))"
    | (del) sv' removed where "svo = Some sv'"
      and "Service_DelDevice x (ucast (info_devInfoBusNum info)) (ucast (info_devInfoDevNum info)) sv w =
        ((removed, sv'), w')"
  using assms
  by (auto simp: DeviceEvent_def Let_def run_bind_def
      split: if_splits option.splits prod.splits mem.splits)

section \<open>Every sequence of calls and events\<close>

text \<open>
  The calls that change the service and the events of the subscriber, one at a time; the world
  may change between them.  A call that does not return has no step.
\<close>

inductive service_step ::
  "usbd_layout \<Rightarrow> uec_codes \<Rightarrow> usbd_acts \<Rightarrow> 'w ext \<Rightarrow> UsbService \<times> 'w \<Rightarrow> UsbService \<times> 'w \<Rightarrow> bool"
  for L :: usbd_layout and E :: uec_codes and A :: usbd_acts and x :: "'w ext" where
  "OnStart E x sv w = (sv', w') \<Longrightarrow> service_step L E A x (sv, w) (sv', w')"
| "OnStop x sv w = (sv', w') \<Longrightarrow> service_step L E A x (sv, w) (sv', w')"
| "Service_RequestRight E x d sv w = Some ((r, sv'), w') \<Longrightarrow> service_step L E A x (sv, w) (sv', w')"
| "Service_RemoveRight E d sv = (r, sv') \<Longrightarrow> service_step L E A x (sv, w) (sv', w)"
| "Service_SetCurrentFunctions E x f sv w = ((r, sv'), w') \<Longrightarrow> service_step L E A x (sv, w) (sv', w')"
| "Service_GetPorts E x ports sv w = ((res, sv'), w') \<Longrightarrow> service_step L E A x (sv, w) (sv', w')"
| "PortChangedEvent E x i p d m (Some sv) w = ((r, Some sv'), w') \<Longrightarrow>
     service_step L E A x (sv, w) (sv', w')"
| "DeviceEvent L E A x info (Some sv) w = Some (Mem ((r, Some sv'), w')) \<Longrightarrow>
     service_step L E A x (sv, w) (sv', w')"
| "service_step L E A x (sv, w) (sv, w')"

inductive service_reachable ::
  "usbd_layout \<Rightarrow> uec_codes \<Rightarrow> usbd_acts \<Rightarrow> 'w ext \<Rightarrow> UsbService \<times> 'w \<Rightarrow> bool"
  for L :: usbd_layout and E :: uec_codes and A :: usbd_acts and x :: "'w ext" where
  "service_reachable L E A x (UsbService_new, w)"
| "service_reachable L E A x s \<Longrightarrow> service_step L E A x s s' \<Longrightarrow> service_reachable L E A x s'"

lemma service_step_inv [usb_inv]:
  assumes "codes_ok E" and "service_step L E A x s s'" and "service_inv (fst s)"
  shows "service_inv (fst s')"
  using assms(2)
proof cases
  case (1 sv w sv' w')
  then show ?thesis using OnStart_inv [of sv E x w] assms(3) by simp
next
  case (2 sv w sv' w')
  then show ?thesis using OnStop_inv [of sv x w] assms(3) by simp
next
  case (3 d sv w r sv' w')
  then show ?thesis using Service_RequestRight_inv [OF _ assms(1) 3(3)] assms(3) by simp
next
  case (4 d sv r sv' w)
  then show ?thesis using Service_RemoveRight_inv [of sv E d] assms(3) by simp
next
  case (5 f sv w r sv' w')
  then show ?thesis using Service_SetCurrentFunctions_inv [of sv E x f w] assms(3) by simp
next
  case (6 ports sv w res sv' w')
  then show ?thesis
    using Service_GetPorts_inv [where sv = sv and E = E and x = x and ports = ports and w = w] assms(3)
    by simp
next
  case (7 i p d m sv w r sv' w')
  then have "sv' = Service_UpdateUsbPort i p d m sv"
    by (simp add: PortChangedEvent_def Let_def split: prod.splits)
  then show ?thesis using 7 Service_UpdateUsbPort_inv [of sv i p d m] assms(3) by simp
next
  case (8 info sv w r sv' w')
  from 8(3) show ?thesis
    by (cases rule: DeviceEvent_cases)
      (use 8 assms(3) Service_UpdateDeviceState_inv Service_devices_inv in auto)
next
  case (9 sv w w')
  then show ?thesis using assms(3) by simp
qed

lemma service_reachable_inv:
  assumes "codes_ok E" and "service_reachable L E A x s"
  shows "service_inv (fst s)"
  using assms(2)
proof (induction rule: service_reachable.induct)
  case (2 s s')
  then show ?case using service_step_inv [OF assms(1)] by blast
qed simp

text \<open>
  In every state the service can reach, all four managers exist and are well-formed: the
  device table is sorted, without null pointers and keyed by the devices' own names, the right
  table lists no application twice, and every port is stored under its id.
\<close>

theorem service_reachable_service_inv:
  assumes "codes_ok E" and "service_reachable L E A x (sv, w)"
  shows "service_inv sv"
  using service_reachable_inv [OF assms] by simp

lemma sample_reachable:
  "service_reachable usb20_layout sample_codes sample_acts sample_ext
     (Service_UpdateUsbPort 1 2 2 2 UsbService_new, sample_state\<lparr>sw_log := [
       \<lparr>ev_action = COMMON_EVENT_USB_PORT_CHANGED, ev_params = [],
        ev_data = JObj [(''portId'', JInt 1), (''powerRole'', JInt 2), (''dataRole'', JInt 2),
          (''mode'', JInt 2)], ev_ordered = True\<rparr>]\<rparr>)"
proof (rule service_reachable.intros(2) [OF service_reachable.intros(1)])
  show "service_step usb20_layout sample_codes sample_acts sample_ext (UsbService_new, sample_state)
    (Service_UpdateUsbPort 1 2 2 2 UsbService_new, sample_state\<lparr>sw_log := [
       \<lparr>ev_action = COMMON_EVENT_USB_PORT_CHANGED, ev_params = [],
        ev_data = JObj [(''portId'', JInt 1), (''powerRole'', JInt 2), (''dataRole'', JInt 2),
          (''mode'', JInt 2)], ev_ordered = True\<rparr>]\<rparr>)"
    by (rule service_step.intros(7) [where i = 1 and p = 2 and d = 2 and m = 2 and r = 1])
      (simp add: PortChangedEvent_def sample_ext_def sample_state_def json_of_i32_def)
qed

theorem service_reachable_service_inv_witness:
  "service_inv (Service_UpdateUsbPort 1 2 2 2 UsbService_new)"
  by (rule service_reachable_service_inv [OF codes_ok_sample sample_reachable])

section \<open>The list of devices\<close>

lemma copy_devices_host:
  assumes "\<forall>(n, p) \<in> set m. p \<noteq> None"
  shows "copy_devices m acc = Mem (acc @ map (\<lambda>e. the (snd e)) m)"
  using assms by (induction m acc rule: copy_devices.induct) auto

text \<open>The devices of the table, in the order of their names.\<close>

definition host_devices :: "UsbHostManager \<Rightarrow> UsbDevice list" where
  "host_devices hm = map (\<lambda>e. the (snd e)) (hm_devices hm)"

lemma host_inv_entries:
  assumes "host_inv hm"
  shows "\<forall>e \<in> set (hm_devices hm). \<exists>d. snd e = Some d \<and>
    fst e = device_name (dev_busNum d) (dev_devAddr d)"
  using assms by (auto simp: host_inv_def split: option.splits)

lemma host_devices_iff:
  assumes "host_inv hm"
  shows "d \<in> set (host_devices hm) \<longleftrightarrow> host_abs hm (dev_key_of d) = Some d"
proof -
  have ok: "cmap_ok (hm_devices hm)" using assms by (simp add: host_inv_def)
  have "d \<in> set (host_devices hm) \<longleftrightarrow>
      (device_name (dev_busNum d) (dev_devAddr d), Some d) \<in> set (hm_devices hm)"
    using host_inv_entries [OF assms] by (force simp: host_devices_def)
  then show ?thesis
    by (simp add: cmap_find_in [OF ok] host_abs_def dev_key_of_def split: option.splits)
qed

lemma host_devices_sorted:
  assumes "host_inv hm"
  shows "sorted_wrt (<) (map (\<lambda>d. device_name (dev_busNum d) (dev_devAddr d)) (host_devices hm))"
proof -
  have "map (\<lambda>d. device_name (dev_busNum d) (dev_devAddr d)) (host_devices hm) =
      map fst (hm_devices hm)"
    using host_inv_entries [OF assms] by (auto simp: host_devices_def)
  with assms show ?thesis by (simp add: host_inv_def cmap_ok_def)
qed

lemma Service_GetDevices_host:
  assumes "sv_host sv = Some hm" and "host_inv hm"
  shows "Service_GetDevices E acc sv = Mem (UEC_OK E, acc @ host_devices hm)"
  using copy_devices_host [of "hm_devices hm" acc] host_inv_entries [OF assms(2)] assms(1)
  by (fastforce simp: Service_GetDevices_def HostManager_GetDevices_def host_devices_def)

lemma service_inv_host:
  assumes "service_inv sv"
  obtains hm where "sv_host sv = Some hm" "host_inv hm"
  using assms by (auto simp: service_inv_def split: option.splits)

text \<open>
  In every reachable state \<open>GetDevices\<close> succeeds and never reads through a null pointer; it
  appends exactly the devices of the table to the caller's list, each once, in the order of
  their names.
\<close>

theorem Service_GetDevices_lists_table:
  assumes "codes_ok E" and "service_reachable L E A x (sv, w)"
  shows "\<exists>hm ds. sv_host sv = Some hm \<and> Service_GetDevices E acc sv = Mem (UEC_OK E, acc @ ds) \<and>
    (\<forall>d. d \<in> set ds \<longleftrightarrow> host_abs hm (dev_key_of d) = Some d) \<and>
    sorted_wrt (<) (map (\<lambda>d. device_name (dev_busNum d) (dev_devAddr d)) ds)"
proof -
  have "service_inv sv" using service_reachable_inv [OF assms] by simp
  then obtain hm where "sv_host sv = Some hm" "host_inv hm" by (rule service_inv_host)
  then show ?thesis
    using Service_GetDevices_host host_devices_iff host_devices_sorted by blast
qed

theorem Service_GetDevices_lists_table_witness:
  "\<exists>ds. Service_GetDevices sample_codes [] (Service_UpdateUsbPort 1 2 2 2 UsbService_new) = Mem (0, ds)"
proof -
  have "UEC_OK sample_codes = 0" by (simp add: sample_codes_def)
  with Service_GetDevices_lists_table [OF codes_ok_sample sample_reachable, of "[]"]
  show ?thesis by auto
qed

section \<open>Opening a device\<close>

text \<open>
  The bundle name the service finds for the caller: empty when the bundle manager does not know
  it, since only its absence counts as a failure.
\<close>

definition caller_bundle :: "'w ext \<Rightarrow> 'w \<Rightarrow> string" where
  "caller_bundle x w = snd (fst (x_GetBundleNameForUid x (x_GetCallingUid x w) '''' w))"

definition bundles_available :: "'w ext \<Rightarrow> 'w \<Rightarrow> bool" where
  "bundles_available x w \<longleftrightarrow> x_HasSystemAbilityManager x w \<and> x_HasBundleMgr x w"

lemma GetBundleName_eq:
  "GetBundleName x '''' w =
     (if bundles_available x w
      then ((True, caller_bundle x w), snd (x_GetBundleNameForUid x (x_GetCallingUid x w) '''' w))
      else ((False, ''''), w))"
  by (simp add: GetBundleName_def bundles_available_def caller_bundle_def Let_def split: prod.splits)

lemma Service_HasRight_eq:
  assumes "sv_right sv = Some rm"
  shows "fst (Service_HasRight x d sv w) \<longleftrightarrow> bundles_available x w \<and> (d, caller_bundle x w) \<in> rights rm"
  by (simp add: Service_HasRight_def GetBundleName_eq assms HasRight_iff)

lemma Service_OpenDevice_eq:
  assumes "sv_right sv = Some rm"
  shows "Service_OpenDevice E x b a sv w =
    (if bundles_available x w \<and> (device_name b a, caller_bundle x w) \<in> rights rm
     then x_OpenDevice x (usb_dev b a) (snd (GetBundleName x '''' w))
     else (UEC_SERVICE_PERMISSION_DENIED E, snd (GetBundleName x '''' w)))"
proof -
  obtain r w1 where h: "Service_HasRight x (device_name b a) sv w = (r, w1)" by (metis surj_pair)
  have "r \<longleftrightarrow> bundles_available x w \<and> (device_name b a, caller_bundle x w) \<in> rights rm"
    using Service_HasRight_eq [OF assms, of x "device_name b a" w] by (simp add: h)
  moreover have "w1 = snd (GetBundleName x '''' w)"
    using h by (auto simp: Service_HasRight_def assms split: prod.splits if_splits)
  ultimately show ?thesis by (simp add: Service_OpenDevice_def h usb_dev_def)
qed

text \<open>
  The service forwards an open request to the driver only if the calling application holds
  the right for exactly this bus number and address; then it returns what the driver returns.
  Otherwise it answers permission denied, and the driver is not called.
\<close>

theorem Service_OpenDevice_guarded:
  assumes "codes_ok E" and "service_reachable L E A x (sv, w0)"
  shows "\<exists>rm. sv_right sv = Some rm \<and>
    (let w1 = snd (GetBundleName x '''' w)
     in Service_OpenDevice E x b a sv w =
       (if bundles_available x w \<and> (device_name b a, caller_bundle x w) \<in> rights rm
        then x_OpenDevice x (usb_dev b a) w1
        else (UEC_SERVICE_PERMISSION_DENIED E, w1)))"
proof -
  have "service_inv sv" using service_reachable_inv [OF assms] by simp
  then obtain rm where rm: "sv_right sv = Some rm"
    by (auto simp: service_inv_def split: option.splits)
  then show ?thesis by (simp add: Service_OpenDevice_eq)
qed

theorem Service_OpenDevice_guarded_witness:
  "Service_OpenDevice sample_codes sample_ext 1 2 (Service_UpdateUsbPort 1 2 2 2 UsbService_new)
     sample_state = (102, sample_state)"
proof -
  have rights: "sv_right (Service_UpdateUsbPort 1 2 2 2 UsbService_new) = Some UsbRightManager_new"
    by (simp add: Service_UpdateUsbPort_def UsbService_new_def)
  have w: "snd (GetBundleName sample_ext '''' sample_state) = sample_state"
    "UEC_SERVICE_PERMISSION_DENIED sample_codes = 102"
    by code_simp+
  show ?thesis
    using Service_OpenDevice_guarded [OF codes_ok_sample sample_reachable, where w = sample_state
        and b = 1 and a = 2] by (simp add: rights w)
qed

lemma DeviceEvent_right:
  assumes "DeviceEvent L E A x info (Some sv) w = Some (Mem ((r, Some sv'), w'))"
  shows "sv_right sv' = sv_right sv"
  using assms
proof (cases rule: DeviceEvent_cases)
  case (state sv1)
  then show ?thesis by (auto simp: Service_UpdateDeviceState_def split: option.splits)
next
  case (add sv1 added)
  then show ?thesis using Service_AddDevice_shape by fastforce
next
  case (del sv1 removed)
  then show ?thesis using Service_DelDevice_shape by fastforce
qed

text \<open>
  No driver event touches the rights.  So when a device is detached and another one gets its
  bus number and address, every application that was allowed the old device still has the right
  to open the new one.
\<close>

theorem DeviceEvent_keeps_rights:
  assumes "DeviceEvent L E A x info (Some sv) w = Some (Mem ((r, Some sv'), w'))"
  shows "sv_right sv' = sv_right sv \<and>
    fst (Service_HasRight x d sv' w2) = fst (Service_HasRight x d sv w2)"
  using DeviceEvent_right [OF assms] by (simp add: Service_HasRight_def split_beta split: option.splits)

definition granted_service :: UsbService where
  "granted_service = UsbService_new\<lparr>sv_right := Some granted_rm\<rparr>"

theorem DeviceEvent_keeps_rights_witness:
  "fst (Service_HasRight sample_ext ''1-2'' granted_service sample_state)"
proof -
  let ?info = "\<lparr>info_devInfoStatus = 1, info_devInfoBusNum = 1, info_devInfoDevNum = 2\<rparr>"
  have "DeviceEvent usb20_layout sample_codes sample_acts sample_ext ?info (Some granted_service)
      sample_state = Some (Mem ((0, Some granted_service), sample_state))"
    by (simp add: DeviceEvent_def sample_acts_def Service_DelDevice_def Service_Close_def
        HostManager_DelDevice_def granted_service_def UsbService_new_def UsbHostManager_new_def
        sample_ext_def sample_codes_def sample_state_def)
  from DeviceEvent_keeps_rights [OF this, of "''1-2''" sample_state]
  show ?thesis by code_simp
qed

text \<open>
  When the bundle manager does not know the caller, the service goes on with the empty
  bundle name: a right that one such caller was granted is a right of every other one.
\<close>

theorem unknown_callers_share_rights:
  assumes "sv_right sv = Some rm" and "bundles_available x w"
    and "x_GetBundleNameForUid x (x_GetCallingUid x w) '''' w = ((False, ''''), w1)"
  shows "Service_HasRight x d sv w = ((d, '''') \<in> rights rm, w1)"
  using assms by (simp add: Service_HasRight_def GetBundleName_eq caller_bundle_def HasRight_iff)

theorem unknown_callers_share_rights_witness:
  "Service_HasRight sample_ext ''1-2'' granted_service (sample_state\<lparr>sw_caller := ''''\<rparr>) =
     (False, sample_state\<lparr>sw_caller := ''''\<rparr>)"
proof -
  let ?w = "sample_state\<lparr>sw_caller := ''''\<rparr>"
  have r: "sv_right granted_service = Some granted_rm" by (simp add: granted_service_def)
  have b: "bundles_available sample_ext ?w"
    by (simp add: bundles_available_def sample_ext_def)
  have n: "x_GetBundleNameForUid sample_ext (x_GetCallingUid sample_ext ?w) '''' ?w = ((False, ''''), ?w)"
    by (simp add: sample_ext_def)
  have "(''1-2'', '''') \<notin> rights granted_rm" by (simp add: rights_iff granted_rm_def)
  then show ?thesis using unknown_callers_share_rights [OF r b n, of "''1-2''"] by simp
qed

section \<open>Start-up\<close>

text \<open>One attempt to bind to the driver, and the world after \<open>n\<close> attempts.\<close>

definition bind_attempt :: "uec_codes \<Rightarrow> 'w ext \<Rightarrow> 'w \<Rightarrow> bool \<times> 'w" where
  "bind_attempt E x w =
     (let (allocated, w1) = x_alloc x w
      in if \<not> allocated then (False, w1)
         else (let (ret, w2) = x_BindUsbdSubscriber x w1 in (ret = ERR_OK E, w2)))"

definition after_attempts :: "uec_codes \<Rightarrow> 'w ext \<Rightarrow> nat \<Rightarrow> 'w \<Rightarrow> 'w" where
  "after_attempts E x n w = ((\<lambda>w. snd (bind_attempt E x w)) ^^ n) w"

lemma InitUsbd_attempt:
  "fst (fst (InitUsbd E x sv w)) = fst (bind_attempt E x w)"
  "snd (InitUsbd E x sv w) = snd (bind_attempt E x w)"
  by (simp_all add: InitUsbd_def bind_attempt_def split_beta)

lemma start_loop_attempts:
  assumes "n < SERVICE_STARTUP_MAX_TIME"
  shows "fst (fst (start_loop E x n sv w)) \<longleftrightarrow>
    (\<exists>k < SERVICE_STARTUP_MAX_TIME - n. fst (bind_attempt E x (after_attempts E x k w)))"
  using assms
proof (induction E x n sv w rule: start_loop.induct)
  case (1 E x n sv w)
  obtain b sv1 w1 where i: "InitUsbd E x sv w = ((b, sv1), w1)" by (metis surj_pair)
  have b: "b = fst (bind_attempt E x w)" and w1: "w1 = snd (bind_attempt E x w)"
    using InitUsbd_attempt [of E x sv w] by (simp_all add: i)
  have split: "(\<exists>k < Suc m. fst (bind_attempt E x (after_attempts E x k w))) \<longleftrightarrow>
      b \<or> (\<exists>k < m. fst (bind_attempt E x (after_attempts E x k w1)))" for m
    unfolding Ex_less_Suc2
    by (simp add: after_attempts_def b w1 funpow_Suc_right del: funpow.simps(2))
  show ?case
  proof (cases "b \<or> n + 1 = SERVICE_STARTUP_MAX_TIME")
    case True
    then show ?thesis using 1(2) split [of 0] split [of "SERVICE_STARTUP_MAX_TIME - Suc n"] i
      by (subst start_loop.simps) (auto simp: Suc_diff_Suc)
  next
    case False
    then show ?thesis using 1 split [of "SERVICE_STARTUP_MAX_TIME - Suc n"] i
      by (subst start_loop.simps) (auto simp: Suc_diff_Suc)
  qed
qed

lemma start_loop_ready: "sv_ready (snd (fst (start_loop E x n sv w))) = sv_ready sv"
proof (induction E x n sv w rule: start_loop.induct)
  case (1 E x n sv w)
  obtain b sv1 w1 where i: "InitUsbd E x sv w = ((b, sv1), w1)" by (metis surj_pair)
  then have "sv_ready sv1 = sv_ready sv" by (auto simp: InitUsbd_def Let_def split: prod.splits if_splits)
  with 1 i show ?case by (subst start_loop.simps) auto
qed

text \<open>
  C34: Starting the service always returns, and makes it ready exactly when the initialisation
  succeeds and one of the first thirty attempts to bind to the driver does.
\<close>

theorem OnStart_ready_iff:
  assumes "service_inv sv" and "\<not> sv_ready sv"
  shows "sv_ready (fst (OnStart E x sv w)) \<longleftrightarrow>
    (case Service_Init x sv w of ((ok, sv1), w1) \<Rightarrow>
       ok \<and> (\<exists>n < 30. fst (bind_attempt E x (after_attempts E x n w1))))"
proof -
  obtain ok sv1 w1 where 1: "Service_Init x sv w = ((ok, sv1), w1)" by (metis surj_pair)
  obtain b sv2 w2 where 2: "start_loop E x 0 sv1 w1 = ((b, sv2), w2)" by (metis surj_pair)
  have sv1: "service_inv sv1" "\<not> sv_ready sv1"
    using Service_Init_same [of sv x w] assms 1
    by (simp_all add: same_managers_inv Service_Init_def Let_def split: prod.splits if_splits) auto
  have "sv_ready sv2 = sv_ready sv1"
    using start_loop_ready [of E x 0 sv1 w1] by (simp add: 2)
  moreover have "service_inv sv2"
    using start_loop_same [of sv1 E x 0 w1] sv1 by (simp add: 2 same_managers_inv)
  then obtain pm where "sv_port sv2 = Some pm"
    by (auto simp: service_inv_def split: option.splits)
  moreover have "b \<longleftrightarrow> (\<exists>n < 30. fst (bind_attempt E x (after_attempts E x n w1)))"
    using start_loop_attempts [of 0 E x sv1 w1] by (simp add: 2 SERVICE_STARTUP_MAX_TIME_def)
  ultimately show ?thesis
    using assms(2) sv1(2) by (auto simp: OnStart_def 1 2 split: prod.splits)
qed

theorem OnStart_ready_iff_witness:
  "sv_ready (fst (OnStart sample_codes sample_ext UsbService_new sample_state))"
proof -
  have "\<not> sv_ready UsbService_new" by (simp add: UsbService_new_def)
  from OnStart_ready_iff [OF service_inv_new this, where E = sample_codes and x = sample_ext
      and w = sample_state]
  have "sv_ready (fst (OnStart sample_codes sample_ext UsbService_new sample_state)) \<longleftrightarrow>
      (case Service_Init sample_ext UsbService_new sample_state of ((ok, sv1), w1) \<Rightarrow>
       ok \<and> (\<exists>n < 30. fst (bind_attempt sample_codes sample_ext
         (after_attempts sample_codes sample_ext n w1))))" .
  moreover have "Service_Init sample_ext UsbService_new sample_state =
      ((True, UsbService_new\<lparr>sv_eventRunner := True, sv_handler := True\<rparr>), sample_state)"
    by (simp add: Service_Init_def UsbService_new_def sample_ext_def wait_common_event.simps
        COMMEVENT_REGISTER_RETRY_TIMES_def IsCommonEventServiceAbilityExist_def word_sle_eq)
  moreover have "\<exists>n < 30. fst (bind_attempt sample_codes sample_ext
      (after_attempts sample_codes sample_ext n sample_state))"
    by (rule exI [of _ 0])
      (simp add: bind_attempt_def after_attempts_def sample_ext_def sample_codes_def)
  ultimately show ?thesis by simp
qed

text \<open>
  The service stores its event handler before it publishes itself, and publishes only when
  it has none.  So after a failed publication the next initialisation succeeds without trying
  again: whatever the registry would answer now, the result is the same.
\<close>

theorem Service_Init_publishes_once:
  assumes "Service_Init x sv w = ((False, sv1), w1)" and "sv_eventRunner sv1"
  shows "sv_handler sv1 \<and> fst (fst (Service_Init x sv1 w2)) \<and>
    Service_Init (x\<lparr>x_Publish := p\<rparr>) sv1 w2 = Service_Init x sv1 w2"
proof -
  have same: "wait_common_event (x\<lparr>x_Publish := p\<rparr>) n w = wait_common_event x n w" for n w
  proof (induction x n w rule: wait_common_event.induct)
    case (1 x n w)
    have ces: "IsCommonEventServiceAbilityExist (x\<lparr>x_Publish := p\<rparr>) w = IsCommonEventServiceAbilityExist x w"
      by (simp add: IsCommonEventServiceAbilityExist_def)
    show ?case
      using 1 by (subst (1 2) wait_common_event.simps) (auto simp: ces split: prod.splits)
  qed
  have "sv_handler sv1"
    using assms by (auto simp: Service_Init_def Let_def split: prod.splits if_splits)
  with assms(2) show ?thesis by (simp add: Service_Init_def same split: prod.splits)
qed

theorem Service_Init_publishes_once_witness:
  "fst (fst (Service_Init (sample_ext\<lparr>x_Publish := \<lambda>w. (False, w)\<rparr>)
     (UsbService_new\<lparr>sv_eventRunner := True, sv_handler := True\<rparr>) sample_state))"
proof -
  let ?x = "sample_ext\<lparr>x_Publish := \<lambda>w. (False, w)\<rparr>"
  have "Service_Init ?x UsbService_new sample_state =
      ((False, UsbService_new\<lparr>sv_eventRunner := True, sv_handler := True\<rparr>), sample_state)"
    by (simp add: Service_Init_def UsbService_new_def sample_ext_def)
  from Service_Init_publishes_once [OF this, of sample_state] show ?thesis by simp
qed

section \<open>Failures that are overlooked\<close>

text \<open>
  C35: When the driver fails to return the descriptors of an attached device, or returns a stream
  without any, attaching it still reports success and registers a device with bus number 0 and
  address 0 and no configuration: the error of \<open>GetDeviceInfoDescriptor\<close> is overwritten.
\<close>

theorem Service_AddDevice_overlooks_failure:
  assumes "sv_host sv = Some hm" and "host_inv hm"
    and "x_alloc x w = (True, w1)" and "x_memset_s x w1 = (True, w2)"
    and "x_OpenDevice x (usb_dev b a) w2 = (UEC_OK E, w3)"
    and "x_GetRawDescriptor x (usb_dev b a) [] w3 = ((e, bs), w4)"
    and "e \<noteq> UEC_OK E \<or> bs = [] \<and> UEC_SERVICE_INVALID_VALUE E \<noteq> UEC_OK E"
  shows "\<exists>sv' w' hm' dev. Service_AddDevice L E x b a sv w = Some (Mem ((True, sv'), w')) \<and>
    sv_host sv' = Some hm' \<and> host_abs hm' = (host_abs hm)((0, 0) \<mapsto> dev) \<and> dev_configs dev = []"
proof -
  obtain r1 w5 where r1: "r1 \<noteq> UEC_OK E" and
    info: "GetDeviceInfoDescriptor L E x (usb_dev b a) [] UsbDevice_zero w3 =
      Some (Mem ((r1, bs, UsbDevice_zero), w5))"
  proof (cases "e = UEC_OK E")
    case True
    with assms that [of "UEC_SERVICE_INVALID_VALUE E" w4] show ?thesis
      by (simp add: GetDeviceInfoDescriptor_def)
  next
    case False
    obtain cl w5 where "x_CloseDevice x (usb_dev b a) w4 = (cl, w5)" by (metis surj_pair)
    with False assms that [of e w5] show ?thesis by (simp add: GetDeviceInfoDescriptor_def)
  qed
  obtain r dev w6 where fill: "FillDevStrings E x (UsbDevice_zero\<lparr>dev_configs := []\<rparr>) w5 = ((r, dev), w6)"
    by (metis surj_pair)
  note keeps = FillDevStrings_keeps [OF fill]
  have key: "dev_key_of dev = (0, 0)" and noconf: "dev_configs dev = []"
    using keeps(2,9) by (simp_all add: dev_key_of_def UsbDevice_zero_def)
  have conf: "GetConfigDescriptor L E x UsbDevice_zero bs w5 = Some (Mem ((UEC_OK E, dev), w6))"
    using fill keeps(1)
    by (simp add: GetConfigDescriptor_def run_bind_def UsbDevice_GetDescConfigCount_def UsbDevice_zero_def)
  obtain cl w7 where close: "x_CloseDevice x (usb_dev b a) w6 = (cl, w7)" by (metis surj_pair)
  obtain q hm' w8 where add: "HostManager_AddDevice x (Some dev) hm w7 = ((q, hm'), w8)"
    by (metis surj_pair)
  then have "host_add x dev (hm, w7) = (hm', w8)" by (simp add: host_add_def)
  with host_table.add_abs [of "(hm, w7)" x dev] assms(2) key
  have "host_abs hm' = (host_abs hm)((0, 0) \<mapsto> dev)" by simp
  moreover have "Service_AddDevice L E x b a sv w = Some (Mem ((True, sv\<lparr>sv_host := Some hm'\<rparr>), w8))"
    by (simp add: Service_AddDevice_def GetDeviceInfo_def Let_def assms(1,3,4,5) info run_bind_def
        conf close add)
  ultimately show ?thesis using noconf by auto
qed

theorem Service_AddDevice_overlooks_failure_witness:
  "\<exists>sv' w' hm' dev. Service_AddDevice usb20_layout sample_codes sample_ext 1 2 UsbService_new sample_state =
      Some (Mem ((True, sv'), w')) \<and> sv_host sv' = Some hm' \<and> host_abs hm' (1, 2) = None \<and>
      host_abs hm' (0, 0) = Some dev"
proof -
  have host: "sv_host UsbService_new = Some UsbHostManager_new" by (simp add: UsbService_new_def)
  have driver: "x_alloc sample_ext sample_state = (True, sample_state)"
    "x_memset_s sample_ext sample_state = (True, sample_state)"
    "x_OpenDevice sample_ext (usb_dev 1 2) sample_state =
      (UEC_OK sample_codes, sample_state\<lparr>sw_open := True\<rparr>)"
    by (simp_all add: sample_ext_def sample_codes_def)
  have raw: "x_GetRawDescriptor sample_ext (usb_dev 1 2) [] (sample_state\<lparr>sw_open := True\<rparr>) =
      ((0, []), sample_state\<lparr>sw_open := True\<rparr>)"
    by (simp add: sample_ext_def sample_state_def)
  have bad: "0 \<noteq> UEC_OK sample_codes \<or>
      [] = ([] :: u8 list) \<and> UEC_SERVICE_INVALID_VALUE sample_codes \<noteq> UEC_OK sample_codes"
    by (simp add: sample_codes_def)
  from Service_AddDevice_overlooks_failure [OF host host_inv_new driver raw bad, of usb20_layout]
  show ?thesis by auto
qed

text \<open>
  The port event updates the port table before it publishes, and its return value is the
  boolean of the publication: it is the success code exactly when publishing failed.
\<close>

theorem PortChangedEvent_result:
  assumes "codes_ok E"
  shows "case PortChangedEvent E x i p d m (Some sv) w of ((r, svo), w') \<Rightarrow>
    svo = Some (Service_UpdateUsbPort i p d m sv) \<and>
    (\<exists>e. ev_action e = COMMON_EVENT_USB_PORT_CHANGED \<and> w' = snd (x_PublishCommonEvent x e w) \<and>
       (r = UEC_OK E \<longleftrightarrow> \<not> fst (x_PublishCommonEvent x e w)))"
proof -
  let ?e = "\<lparr>ev_action = COMMON_EVENT_USB_PORT_CHANGED, ev_params = [],
    ev_data = JObj [(''portId'', json_of_i32 i), (''powerRole'', json_of_i32 p),
      (''dataRole'', json_of_i32 d), (''mode'', json_of_i32 m)], ev_ordered = True\<rparr>"
  obtain b w' where "x_PublishCommonEvent x ?e w = (b, w')" by (metis surj_pair)
  then show ?thesis
    using assms by (auto simp: PortChangedEvent_def codes_okD intro: exI [of _ ?e])
qed

theorem PortChangedEvent_result_witness:
  "fst (fst (PortChangedEvent sample_codes sample_ext 1 1 1 1 (Some UsbService_new) sample_state)) = 1 \<and>
   1 \<noteq> UEC_OK sample_codes"
proof -
  have "fst (fst (PortChangedEvent sample_codes sample_ext 1 1 1 1 (Some UsbService_new) sample_state)) = 1"
    by (simp add: PortChangedEvent_def sample_ext_def)
  then show ?thesis
    using PortChangedEvent_result [OF codes_ok_sample, where x = sample_ext and i = 1 and p = 1
        and d = 1 and m = 1 and sv = UsbService_new and w = sample_state]
    by (simp add: sample_codes_def)
qed

end
