(* ===== verification/Usb_Ipc.thy ===== *)
theory Usb_Ipc
  imports Usb_Proxy Usb_Marshal Usb_Service_Props
begin

text \<open>
  Both sides of the IPC interface together: the proxy's remote object is the stub of the
  service.  A call through the proxy then does what the call of the service does, the request
  and the reply carrying every argument and result.
\<close>

section \<open>Bus number and address\<close>

lemma SetDeviceMessage_items:
  assumes "ipc_env P E items" and "SetDeviceMessage P E b a p = (UEC_OK E, p')"
  shows "items p' = items p @ [P8 b, P8 a]"
  using assms(2) unfolding SetDeviceMessage_def
  by (elim ipc_env_write [OF _ assms(1)]) simp

lemma GetDeviceMessage_reads:
  "GetDeviceMessage P E x y p =
     read_with_ret (p_Read8 P) p (\<lambda>p. ((UEC_SERVICE_READ_PARCEL_ERROR E, x, y), p)) (\<lambda>b p.
       read_with_ret (p_Read8 P) p (\<lambda>p. ((UEC_SERVICE_READ_PARCEL_ERROR E, b, y), p)) (\<lambda>a p.
         ((UEC_OK E, b, a), p)))"
  by (simp add: GetDeviceMessage_def read_with_ret_def)

lemma GetDeviceMessage_items:
  assumes "ipc_env P E items" and "items p = [P8 b, P8 a] @ rest"
  shows "yields items (GetDeviceMessage P E x y p) (UEC_OK E, b, a) rest"
  using assms(2) unfolding GetDeviceMessage_reads append_Cons append_Nil
  by (elim read_steps [OF ipc_env_ok(2) [OF assms(1)]]) simp

interpretation address_codec: parcel_codec "ipc_env P E items" items "UEC_OK E"
  "\<lambda>(b, a). SetDeviceMessage P E b a" "GetDeviceMessage P E x y" "\<lambda>(b, a). [P8 b, P8 a]" "\<lambda>_. True" "\<lambda>v. v"
  for P E items x y
  by unfold_locales (auto simp: SetDeviceMessage_items GetDeviceMessage_items)

section \<open>The service as the remote object\<close>

definition service_remote ::
  "'p parcel_ops \<Rightarrow> uec_codes \<Rightarrow> 'w ext \<Rightarrow> (u32 \<Rightarrow> 'p \<Rightarrow> 'p \<Rightarrow> 'w \<Rightarrow> (i32 \<times> 'p) \<times> 'w) \<Rightarrow> i32 \<Rightarrow>
     ('p, UsbService \<times> 'w) sender" where
  "service_remote P E x base junk code data reply s =
     OnRemoteRequest P E x base junk code data reply (fst s) (snd s)"

text \<open>A link: lawful parcels with room for what is written, and the error codes.\<close>

definition ipc_link :: "'p parcel_ops \<Rightarrow> uec_codes \<Rightarrow> ('p \<Rightarrow> pitem list) \<Rightarrow> bool" where
  "ipc_link P E items \<longleftrightarrow> ipc_env P E items \<and> (\<forall>it p. fst (p_Write P it p))"

lemma ipc_linkD:
  assumes "ipc_link P E items"
  shows "ipc_env P E items" and "parcel_ok P items" and "UEC_OK E = 0" and "items (p_empty P) = []"
  using assms ipc_env_ok [of P E items] parcel_okD(1) [of P items] by (simp_all add: ipc_link_def)

lemma link_codes:
  assumes "ipc_link P E items"
  shows "UEC_SERVICE_READ_PARCEL_ERROR E \<noteq> UEC_OK E" and "UEC_SERVICE_WRITE_PARCEL_ERROR E \<noteq> UEC_OK E"
    and "UEC_SERVICE_INNER_ERR E \<noteq> UEC_OK E"
  using assms by (simp_all add: ipc_link_def ipc_env_def codes_ok_def)

section \<open>Steps of a message\<close>

lemma link_write:
  assumes "items p = xs" and "ipc_link P E items"
    and "\<And>p1. items p1 = xs @ [it] \<Longrightarrow> k p1 = R"
  shows "write_with_ret P it p fail k = R"
proof -
  obtain b p1 where w: "p_Write P it p = (b, p1)" by (metis surj_pair)
  with assms(2) have b by (metis fst_conv ipc_link_def)
  with w parcel_okD(2) [OF ipc_linkD(2) [OF assms(2)], of it p p1] assms(1,3) show ?thesis
    by (simp add: write_with_ret_def)
qed

lemma link_reads:
  assumes "ipc_link P E items"
  shows "items p = P8 a # rest \<Longrightarrow> (\<And>p1. items p1 = rest \<Longrightarrow> k8 a p1 = R) \<Longrightarrow>
      read_with_ret (p_Read8 P) p fail k8 = R"
    and "items p = P32 c # rest \<Longrightarrow> (\<And>p1. items p1 = rest \<Longrightarrow> k32 c p1 = R) \<Longrightarrow>
      read_with_ret (p_Read32 P) p fail k32 = R"
    and "items p = PStr t # rest \<Longrightarrow> (\<And>p1. items p1 = rest \<Longrightarrow> ks t p1 = R) \<Longrightarrow>
      read_with_ret (p_ReadString P) p fail ks = R"
    and "items p = PBool b # rest \<Longrightarrow> (\<And>p1. items p1 = rest \<Longrightarrow> kb b p1 = R) \<Longrightarrow>
      read_with_ret (p_ReadBool P) p fail kb = R"
    and "items p = PToken t # rest \<Longrightarrow> (\<And>p1. items p1 = rest \<Longrightarrow> kt t p1 = R) \<Longrightarrow>
      case_prod kt (p_ReadInterfaceToken P p) = R"
    and "items p = PObj n # rest \<Longrightarrow> (\<And>p1. items p1 = rest \<Longrightarrow> ko n p1 = R) \<Longrightarrow>
      case_prod ko (p_ReadObject P p) = R"
proof -
  note ok = ipc_linkD(2) [OF assms]
  show "items p = P8 a # rest \<Longrightarrow> (\<And>p1. items p1 = rest \<Longrightarrow> k8 a p1 = R) \<Longrightarrow>
      read_with_ret (p_Read8 P) p fail k8 = R"
    by (drule parcel_okD(3) [OF ok]) (auto simp: read_with_ret_def)
  show "items p = P32 c # rest \<Longrightarrow> (\<And>p1. items p1 = rest \<Longrightarrow> k32 c p1 = R) \<Longrightarrow>
      read_with_ret (p_Read32 P) p fail k32 = R"
    by (drule parcel_okD(5) [OF ok]) (auto simp: read_with_ret_def)
  show "items p = PStr t # rest \<Longrightarrow> (\<And>p1. items p1 = rest \<Longrightarrow> ks t p1 = R) \<Longrightarrow>
      read_with_ret (p_ReadString P) p fail ks = R"
    by (drule parcel_okD(7) [OF ok]) (auto simp: read_with_ret_def)
  show "items p = PBool b # rest \<Longrightarrow> (\<And>p1. items p1 = rest \<Longrightarrow> kb b p1 = R) \<Longrightarrow>
      read_with_ret (p_ReadBool P) p fail kb = R"
    by (drule parcel_okD(6) [OF ok]) (auto simp: read_with_ret_def)
  show "items p = PToken t # rest \<Longrightarrow> (\<And>p1. items p1 = rest \<Longrightarrow> kt t p1 = R) \<Longrightarrow>
      case_prod kt (p_ReadInterfaceToken P p) = R"
    by (drule parcel_okD(9) [OF ok]) auto
  show "items p = PObj n # rest \<Longrightarrow> (\<And>p1. items p1 = rest \<Longrightarrow> ko n p1 = R) \<Longrightarrow>
      case_prod ko (p_ReadObject P p) = R"
    by (drule parcel_okD(10) [OF ok]) auto
qed

text \<open>What follows a request moves into the handler.\<close>

lemma after_request_simps:
  "after_request (answer ret reply sv w) k = k ret reply (sv, w)"
  "after_request (read_with_ret rd p f g) k =
     read_with_ret rd p (\<lambda>p. after_request (f p) k) (\<lambda>v p. after_request (g v p) k)"
  "after_request (write_with_ret P it p f' g') k =
     write_with_ret P it p (\<lambda>p. after_request (f' p) k) (\<lambda>p. after_request (g' p) k)"
  "after_request (if c then r1 else r2) k = (if c then after_request r1 k else after_request r2 k)"
  by (auto simp: after_request_def answer_def read_with_ret_def write_with_ret_def
      split: prod.splits option.splits)

lemma after_request_case: "after_request (case_prod f t) k = (case t of (a, b) \<Rightarrow> after_request (f a b) k)"
  by (simp split: prod.splits)

lemma link_message:
  assumes "ipc_link P E items"
    and "\<And>p. items p = [PToken IUsbSrv_GetDescriptor] \<Longrightarrow> k send p = R"
  shows "with_message P (Some send) r1 r2 k = R"
  unfolding with_message_def option.case
  by (rule link_write [OF ipc_linkD(4) [OF assms(1)] assms(1)]) (use assms(2) in simp)

lemma link_request:
  assumes "items p = PToken IUsbSrv_GetDescriptor # args" and "ipc_link P E items"
    and "\<And>p1. items p1 = args \<Longrightarrow> after_request (case StubHost P E x junk code p1 (p_empty P) sv w of
        Some res \<Rightarrow> res
      | None \<Rightarrow> (case StubDevice P E x code p1 (p_empty P) sv w of
          Some res \<Rightarrow> res
        | None \<Rightarrow> (let ((ret, reply), w1) = base code p1 (p_empty P) w in answer ret reply sv w1))) k = R"
  shows "SendRequest P (service_remote P E x base junk) code p (sv, w) k = R"
  unfolding SendRequest_def service_remote_def OnRemoteRequest_def Let_def fst_conv snd_conv
    after_request_case
  by (rule link_reads(5) [OF assms(2,1)]) (use assms(3) [unfolded Let_def] in simp)

lemma link_device:
  assumes "items p = xs" and "ipc_link P E items"
    and "\<And>p1. items p1 = xs @ [P8 busNum, P8 devAddr] \<Longrightarrow> k (UEC_OK E) p1 = R"
  shows "case_prod k (SetDeviceMessage P E busNum devAddr p) = R"
proof -
  have push: "case_prod k (write_with_ret P it q f g) =
      write_with_ret P it q (\<lambda>q. case_prod k (f q)) (\<lambda>q. case_prod k (g q))" for it q f g
    by (simp add: write_with_ret_def split: prod.splits)
  show ?thesis unfolding SetDeviceMessage_def push
    by (rule link_write [OF assms(1,2)], erule link_write [OF _ assms(2)]) (use assms(3) in simp)
qed

lemma write_ret_total: "ipc_link P E items \<Longrightarrow> write_with_ret P it p fail k = k (snd (p_Write P it p))"
  by (simp add: write_with_ret_def ipc_link_def prod.case_eq_if)

lemma link_set_buffer:
  assumes "items p = xs" and "ipc_link P E items" and "small b"
    and "\<And>p1. items p1 = xs @ buffer_items b \<Longrightarrow> k (UEC_OK E) p1 = R"
  shows "case_prod k (SetBufferMessage P E b p) = R"
proof -
  have "fst (SetBufferMessage P E b p) = UEC_OK E"
    by (simp add: SetBufferMessage_def Let_def write_ret_total [OF assms(2)])
  then obtain p1 where set: "SetBufferMessage P E b p = (UEC_OK E, p1)" by (metis surjective_pairing)
  with SetBufferMessage_items [OF ipc_linkD(1) [OF assms(2)] assms(3) set] assms(1,4) show ?thesis by simp
qed

lemma link_get_buffer:
  assumes "ipc_link P E items" and "small b"
  shows "items p = buffer_items b @ rest \<Longrightarrow> (\<And>p1. items p1 = rest \<Longrightarrow> k (UEC_OK E, b) p1 = R) \<Longrightarrow>
      case_prod k (GetBufferMessage P E p) = R"
    and "items p = buffer_items b \<Longrightarrow> (\<And>p1. items p1 = [] \<Longrightarrow> k (UEC_OK E, b) p1 = R) \<Longrightarrow>
      case_prod k (GetBufferMessage P E p) = R"
proof -
  show *: "items p = buffer_items b @ rest \<Longrightarrow> (\<And>p1. items p1 = rest \<Longrightarrow> k (UEC_OK E, b) p1 = R) \<Longrightarrow>
      case_prod k (GetBufferMessage P E p) = R" for rest
    by (drule GetBufferMessage_items [OF ipc_linkD(1) [OF assms(1)] assms(2)]) (auto simp: yields_def split: prod.splits)
  show "items p = buffer_items b \<Longrightarrow> (\<And>p1. items p1 = [] \<Longrightarrow> k (UEC_OK E, b) p1 = R) \<Longrightarrow>
      case_prod k (GetBufferMessage P E p) = R"
    using * [of "[]"] by simp
qed

lemmas served_defs = read_dev_def read_dev2_def after_request_simps after_request_case Let_def

lemmas dispatch_defs = StubHost_def StubDevice_def request_codes

section \<open>Rights and devices\<close>

lemmas served_open = with_device_message_def with_pipe_message_def write_pipe_def

section \<open>Devices and rights\<close>

lemma Proxy_OpenDevice_served:
  assumes link: "ipc_link P E items"
  shows "Proxy_OpenDevice P E (Some (service_remote P E x base junk)) busNum devAddr (sv, w) =
    (let (ret, w1) = Service_OpenDevice E x busNum devAddr sv w
     in returns ret (sv, w1))"
proof -
  obtain ret w1 where srv: "Service_OpenDevice E x busNum devAddr sv w = (ret, w1)"
    by (metis surj_pair)
  show ?thesis
    unfolding Proxy_OpenDevice_def served_open Let_def
    by (cases "ret = UEC_OK E"; (rule link_message [OF link],
      (erule link_device [OF _ link] link_request [OF _ link] link_reads [OF link]
       | simp only: append.simps append_assoc
       | simp add: srv link_codes [OF link] dispatch_defs DoOpenDevice_def served_defs
           split del: if_split
       | (auto simp: after_request_simps; fail))+))
qed

lemma Proxy_HasRight_served:
  assumes link: "ipc_link P E items"
  shows "Proxy_HasRight P E (Some (service_remote P E x base junk)) deviceName (sv, w) =
    (let (right, w1) = Service_HasRight x deviceName sv w
     in returns right (sv, w1))"
proof -
  obtain right w1 where srv: "Service_HasRight x deviceName sv w = (right, w1)"
    by (metis surj_pair)
  show ?thesis
    unfolding Proxy_HasRight_def served_open Let_def
    by ((rule link_message [OF link],
      (erule link_write [OF _ link] link_request [OF _ link] link_reads [OF link]
       | rule link_write [OF ipc_linkD(4) [OF link] link] | simp only: append.simps append_assoc
       | simp add: srv link_codes [OF link] dispatch_defs DoHasRight_def served_defs
           split del: if_split
       | (auto simp: after_request_simps; fail))+))
qed

lemma Proxy_RemoveRight_served:
  assumes link: "ipc_link P E items"
  shows "Proxy_RemoveRight P E (Some (service_remote P E x base junk)) deviceName (sv, w) =
    (let (ret, sv1) = Service_RemoveRight E deviceName sv
     in returns ret (sv1, w))"
proof -
  obtain ret sv1 where srv: "Service_RemoveRight E deviceName sv = (ret, sv1)"
    by (metis surj_pair)
  show ?thesis
    unfolding Proxy_RemoveRight_def served_open Let_def
    by (cases "ret = UEC_OK E"; (rule link_message [OF link],
      (erule link_write [OF _ link] link_request [OF _ link] link_reads [OF link]
       | simp only: append.simps append_assoc
       | simp add: srv link_codes [OF link] dispatch_defs DoRemoveRight_def served_defs
           split del: if_split
       | (auto simp: after_request_simps; fail))+))
qed

lemma after_request_None [simp]: "after_request None k = None"
  by (simp add: after_request_def)

lemma Proxy_RequestRight_served:
  assumes link: "ipc_link P E items"
  shows "Proxy_RequestRight P E (Some (service_remote P E x base junk)) deviceName (sv, w) =
    (case Service_RequestRight E x deviceName sv w of
       None \<Rightarrow> None
     | Some ((ret, sv1), w1) \<Rightarrow> returns ret (sv1, w1))"
  unfolding Proxy_RequestRight_def
  by (rule link_message [OF link], erule link_write [OF _ link], simp only: append.simps,
    erule link_request [OF _ link], simp add: dispatch_defs,
    simp add: DoRequestRight_def served_defs, erule link_reads [OF link],
    simp add: after_request_simps split: option.splits prod.splits)

section \<open>Functions\<close>

lemma Proxy_GetCurrentFunctions_served:
  assumes link: "ipc_link P E items"
  shows "Proxy_GetCurrentFunctions P E (Some (service_remote P E x base junk)) funcs (sv, w) =
    (let ((ret, val), w1) = Service_GetCurrentFunctions x junk w
     in returns (ret, if ret = UEC_OK E then val else funcs) (sv, w1))"
proof -
  obtain ret val w1 where srv: "Service_GetCurrentFunctions x junk w = ((ret, val), w1)"
    by (metis surj_pair)
  show ?thesis
    unfolding Proxy_GetCurrentFunctions_def served_open Let_def
    by (cases "ret = UEC_OK E"; (rule link_message [OF link],
      (erule link_request [OF _ link] link_reads [OF link]
       | rule link_write [OF ipc_linkD(4) [OF link] link] | simp only: append.simps append_assoc
       | simp add: srv link_codes [OF link] dispatch_defs DoGetCurrentFunctions_def served_defs
           split del: if_split
       | (auto simp: after_request_simps; fail))+))
qed

lemma Proxy_SetCurrentFunctions_served:
  assumes link: "ipc_link P E items"
  shows "Proxy_SetCurrentFunctions P E (Some (service_remote P E x base junk)) funcs (sv, w) =
    (let ((ret, sv1), w1) = Service_SetCurrentFunctions E x funcs sv w
     in returns ret (sv1, w1))"
proof -
  obtain ret sv1 w1 where srv: "Service_SetCurrentFunctions E x funcs sv w = ((ret, sv1), w1)"
    by (metis surj_pair)
  show ?thesis
    unfolding Proxy_SetCurrentFunctions_def served_open Let_def
    by (cases "ret = UEC_OK E"; (rule link_message [OF link],
      (erule link_write [OF _ link] link_request [OF _ link] link_reads [OF link]
       | simp only: append.simps append_assoc
       | simp add: srv link_codes [OF link] dispatch_defs DoSetCurrentFunctions_def served_defs
           split del: if_split
       | (auto simp: after_request_simps; fail))+))
qed

lemma Proxy_UsbFunctionsFromString_served:
  assumes link: "ipc_link P E items"
  shows "Proxy_UsbFunctionsFromString P E (Some (service_remote P E x base junk)) funcs (sv, w) =
    returns (UsbFunctionsFromString E funcs) (sv, w)"
  unfolding Proxy_UsbFunctionsFromString_def served_open Let_def
  by ((rule link_message [OF link],
      (erule link_write [OF _ link] link_request [OF _ link] link_reads [OF link]
       | rule link_write [OF ipc_linkD(4) [OF link] link] | simp only: append.simps append_assoc
       | simp add: link_codes [OF link] dispatch_defs DoUsbFunctionsFromString_def served_defs
           split del: if_split
       | (auto simp: after_request_simps; fail))+))

lemma Proxy_UsbFunctionsToString_served:
  assumes link: "ipc_link P E items"
  shows "Proxy_UsbFunctionsToString P E (Some (service_remote P E x base junk)) funcs (sv, w) =
    returns (UsbFunctionsToString funcs) (sv, w)"
  unfolding Proxy_UsbFunctionsToString_def served_open Let_def
  by ((rule link_message [OF link],
      (erule link_write [OF _ link] link_request [OF _ link] link_reads [OF link]
       | rule link_write [OF ipc_linkD(4) [OF link] link] | simp only: append.simps append_assoc
       | simp add: link_codes [OF link] dispatch_defs DoUsbFunctionsToString_def served_defs
           split del: if_split
       | (auto simp: after_request_simps; fail))+))

section \<open>Ports\<close>

lemma Proxy_GetSupportedModes_served:
  assumes link: "ipc_link P E items"
  shows "Proxy_GetSupportedModes P E (Some (service_remote P E x base junk)) portId modes (sv, w) =
    (let (ret, val) = Service_GetSupportedModes E portId 0 sv
     in returns (ret, if ret = UEC_OK E then val else modes) (sv, w))"
proof -
  obtain ret val where srv: "Service_GetSupportedModes E portId 0 sv = (ret, val)"
    by (metis surj_pair)
  show ?thesis
    unfolding Proxy_GetSupportedModes_def served_open Let_def
    by (cases "ret = UEC_OK E"; (rule link_message [OF link],
      (erule link_write [OF _ link] link_request [OF _ link] link_reads [OF link]
       | rule link_write [OF ipc_linkD(4) [OF link] link] | simp only: append.simps append_assoc
       | simp add: srv link_codes [OF link] dispatch_defs DoGetSupportedModes_def served_defs
           ipc_linkD(3) [OF link] split del: if_split
       | (auto simp: after_request_simps; fail))+))
qed

lemma Proxy_SetPortRole_served:
  assumes link: "ipc_link P E items"
  shows "Proxy_SetPortRole P E (Some (service_remote P E x base junk)) portId powerRole dataRole (sv, w) =
    (let (ret, w1) = Service_SetPortRole x portId powerRole dataRole w
     in returns ret (sv, w1))"
proof -
  obtain ret w1 where srv: "Service_SetPortRole x portId powerRole dataRole w = (ret, w1)"
    by (metis surj_pair)
  show ?thesis
    unfolding Proxy_SetPortRole_def served_open Let_def
    by (cases "ret = UEC_OK E"; (rule link_message [OF link],
      (erule link_write [OF _ link] link_request [OF _ link] link_reads [OF link]
       | simp only: append.simps append_assoc
       | simp add: srv link_codes [OF link] dispatch_defs DoSetPortRole_def served_defs
           split del: if_split
       | (auto simp: after_request_simps; fail))+))
qed

section \<open>Settings\<close>

lemma Proxy_ClaimInterface_served:
  assumes link: "ipc_link P E items"
  shows "Proxy_ClaimInterface P E (Some (service_remote P E x base junk)) busNum devAddr interface force (sv, w) =
    (let (ret, w1) = Service_ClaimInterface x busNum devAddr interface force w
     in returns ret (sv, w1))"
proof -
  obtain ret w1 where srv: "Service_ClaimInterface x busNum devAddr interface force w = (ret, w1)"
    by (metis surj_pair)
  show ?thesis
    unfolding Proxy_ClaimInterface_def served_open Let_def
    by (cases "ret = UEC_OK E"; (rule link_message [OF link],
      (erule link_device [OF _ link] link_write [OF _ link] link_request [OF _ link] link_reads [OF link]
       | simp only: append.simps append_assoc
       | simp add: srv link_codes [OF link] dispatch_defs DoClaimInterface_def served_defs
           split del: if_split
       | (auto simp: after_request_simps; fail))+))
qed

lemma Proxy_ReleaseInterface_served:
  assumes link: "ipc_link P E items"
  shows "Proxy_ReleaseInterface P E (Some (service_remote P E x base junk)) busNum devAddr interface (sv, w) =
    (let (ret, w1) = Service_ReleaseInterface x busNum devAddr interface w
     in returns ret (sv, w1))"
proof -
  obtain ret w1 where srv: "Service_ReleaseInterface x busNum devAddr interface w = (ret, w1)"
    by (metis surj_pair)
  show ?thesis
    unfolding Proxy_ReleaseInterface_def served_open Let_def
    by (cases "ret = UEC_OK E"; (rule link_message [OF link],
      (erule link_device [OF _ link] link_write [OF _ link] link_request [OF _ link] link_reads [OF link]
       | simp only: append.simps append_assoc
       | simp add: srv link_codes [OF link] dispatch_defs DoReleaseInterface_def served_defs
           split del: if_split
       | (auto simp: after_request_simps; fail))+))
qed

lemma Proxy_SetActiveConfig_served:
  assumes link: "ipc_link P E items"
  shows "Proxy_SetActiveConfig P E (Some (service_remote P E x base junk)) busNum devAddr config (sv, w) =
    (let (ret, w1) = Service_SetActiveConfig x busNum devAddr config w
     in returns ret (sv, w1))"
proof -
  obtain ret w1 where srv: "Service_SetActiveConfig x busNum devAddr config w = (ret, w1)"
    by (metis surj_pair)
  show ?thesis
    unfolding Proxy_SetActiveConfig_def served_open Let_def
    by (cases "ret = UEC_OK E"; (rule link_message [OF link],
      (erule link_device [OF _ link] link_write [OF _ link] link_request [OF _ link] link_reads [OF link]
       | simp only: append.simps append_assoc
       | simp add: srv link_codes [OF link] dispatch_defs DoSetActiveConfig_def served_defs
           split del: if_split
       | (auto simp: after_request_simps; fail))+))
qed

lemma Proxy_SetInterface_served:
  assumes link: "ipc_link P E items"
  shows "Proxy_SetInterface P E (Some (service_remote P E x base junk)) busNum devAddr interface altIndex (sv, w) =
    (let (ret, w1) = Service_SetInterface x busNum devAddr interface altIndex w
     in returns ret (sv, w1))"
proof -
  obtain ret w1 where srv: "Service_SetInterface x busNum devAddr interface altIndex w = (ret, w1)"
    by (metis surj_pair)
  show ?thesis
    unfolding Proxy_SetInterface_def served_open Let_def
    by (cases "ret = UEC_OK E"; (rule link_message [OF link],
      (erule link_device [OF _ link] link_write [OF _ link] link_request [OF _ link] link_reads [OF link]
       | simp only: append.simps append_assoc
       | simp add: srv link_codes [OF link] dispatch_defs DoSetInterface_def served_defs
           split del: if_split
       | (auto simp: after_request_simps; fail))+))
qed

lemma Proxy_RequestCancel_served:
  assumes link: "ipc_link P E items"
  shows "Proxy_RequestCancel P E (Some (service_remote P E x base junk)) busNum devAddr interface endpoint (sv, w) =
    (let (ret, w1) = Service_RequestCancel x busNum devAddr interface endpoint w
     in returns ret (sv, w1))"
proof -
  obtain ret w1 where srv: "Service_RequestCancel x busNum devAddr interface endpoint w = (ret, w1)"
    by (metis surj_pair)
  show ?thesis
    unfolding Proxy_RequestCancel_def served_open Let_def
    by (cases "ret = UEC_OK E"; (rule link_message [OF link],
      (erule link_device [OF _ link] link_write [OF _ link] link_request [OF _ link] link_reads [OF link]
       | simp only: append.simps append_assoc
       | simp add: srv link_codes [OF link] dispatch_defs DoRequestCancel_def served_defs
           split del: if_split
       | (auto simp: after_request_simps; fail))+))
qed

lemma Proxy_Close_served:
  assumes link: "ipc_link P E items"
  shows "Proxy_Close P E (Some (service_remote P E x base junk)) busNum devAddr (sv, w) =
    (let (ret, w1) = Service_Close x busNum devAddr w
     in returns ret (sv, w1))"
proof -
  obtain ret w1 where srv: "Service_Close x busNum devAddr w = (ret, w1)"
    by (metis surj_pair)
  show ?thesis
    unfolding Proxy_Close_def served_open Let_def
    by (cases "ret = UEC_OK E"; (rule link_message [OF link],
      (erule link_device [OF _ link] link_request [OF _ link] link_reads [OF link]
       | simp only: append.simps append_assoc
       | simp add: srv link_codes [OF link] dispatch_defs DoClose_def served_defs
           split del: if_split
       | (auto simp: after_request_simps; fail))+))
qed

lemma Proxy_GetFileDescriptor_served:
  assumes link: "ipc_link P E items"
  shows "Proxy_GetFileDescriptor P E (Some (service_remote P E x base junk)) busNum devAddr fd (sv, w) =
    (let ((ret, val), w1) = Service_GetFileDescriptor x busNum devAddr (- 1) w
     in returns (ret, if ret = UEC_OK E then val else fd) (sv, w1))"
proof -
  obtain ret val w1 where srv: "Service_GetFileDescriptor x busNum devAddr (- 1) w = ((ret, val), w1)"
    by (metis surj_pair)
  show ?thesis
    unfolding Proxy_GetFileDescriptor_def served_open Let_def
    by (cases "ret = UEC_OK E"; (rule link_message [OF link],
      (erule link_device [OF _ link] link_request [OF _ link] link_reads [OF link]
       | rule link_write [OF ipc_linkD(4) [OF link] link] | simp only: append.simps append_assoc
       | simp add: srv link_codes [OF link] dispatch_defs DoGetFileDescriptor_def served_defs
           split del: if_split
       | (auto simp: after_request_simps; fail))+))
qed

lemma Proxy_GetRawDescriptor_served:
  assumes link: "ipc_link P E items"
    and fits: "small (snd (fst (Service_GetRawDescriptor x busNum devAddr [] w)))"
  shows "Proxy_GetRawDescriptor P E (Some (service_remote P E x base junk)) busNum devAddr bufferData (sv, w) =
    (let ((ret, val), w1) = Service_GetRawDescriptor x busNum devAddr [] w
     in returns (ret, if ret = UEC_OK E then val else bufferData) (sv, w1))"
proof -
  obtain ret val w1 where srv: "Service_GetRawDescriptor x busNum devAddr [] w = ((ret, val), w1)"
    by (metis surj_pair)
  from fits srv have sm: "small val" by simp
  show ?thesis
    unfolding Proxy_GetRawDescriptor_def served_open Let_def
    by (cases "ret = UEC_OK E"; (rule link_message [OF link],
      (erule link_get_buffer [OF link sm] link_device [OF _ link] link_set_buffer [OF _ link sm] link_request [OF _ link] link_reads [OF link]
       | rule link_set_buffer [OF ipc_linkD(4) [OF link] link sm] | simp only: append.simps append_assoc
       | simp add: srv link_codes [OF link] dispatch_defs DoGetRawDescriptor_def served_defs
           split del: if_split
       | (auto simp: after_request_simps; fail))+))
qed

section \<open>Transfers\<close>

lemma usb_dev_eta [simp]: "usb_dev (ud_busNum dev) (ud_devAddr dev) = dev"
  and usb_pipe_eta [simp]: "usb_pipe (pipe_interfaceId pipe) (pipe_endpointId pipe) = pipe"
  by (simp_all add: usb_dev_def usb_pipe_def)

lemma usb_ctrl_eta [simp]: "\<lparr>ctrl_requestType = ctrl_requestType ctrl, ctrl_requestCmd = ctrl_requestCmd ctrl,
    ctrl_value = ctrl_value ctrl, ctrl_index = ctrl_index ctrl, ctrl_timeout = ctrl_timeout ctrl\<rparr> = ctrl"
  by simp

lemma Proxy_BulkTransferRead_served:
  assumes link: "ipc_link P E items"
    and fits: "small (snd (fst (Service_BulkTransferRead x dev pipe [] timeOut w)))"
  shows "Proxy_BulkTransferRead P E (Some (service_remote P E x base junk)) dev pipe bufferData timeOut (sv, w) =
    (let ((ret, val), w1) = Service_BulkTransferRead x dev pipe [] timeOut w
     in returns (ret, if ret = UEC_OK E then val else bufferData) (sv, w1))"
proof -
  obtain ret val w1 where srv: "Service_BulkTransferRead x dev pipe [] timeOut w = ((ret, val), w1)"
    by (metis surj_pair)
  from fits srv have sm: "small val" by simp
  show ?thesis
    unfolding Proxy_BulkTransferRead_def served_open Let_def
    by (cases "ret = UEC_OK E"; (rule link_message [OF link],
      (erule link_get_buffer [OF link sm] link_device [OF _ link] link_set_buffer [OF _ link sm] link_write [OF _ link] link_request [OF _ link] link_reads [OF link]
       | rule link_set_buffer [OF ipc_linkD(4) [OF link] link sm] | simp only: append.simps append_assoc
       | simp add: srv link_codes [OF link] dispatch_defs DoBulkTransferRead_def served_defs
           split del: if_split
       | (auto simp: after_request_simps; fail))+))
qed

lemma Proxy_BulkTransferWrite_served:
  assumes link: "ipc_link P E items"
    and fits: "small bufferData"
  shows "Proxy_BulkTransferWrite P E (Some (service_remote P E x base junk)) dev pipe bufferData timeOut (sv, w) =
    (let (ret, w1) = Service_BulkTransferWrite x dev pipe bufferData timeOut w
     in returns ret (sv, w1))"
proof -
  obtain ret w1 where srv: "Service_BulkTransferWrite x dev pipe bufferData timeOut w = (ret, w1)"
    by (metis surj_pair)
  show ?thesis
    unfolding Proxy_BulkTransferWrite_def served_open Let_def
    by (cases "ret = UEC_OK E"; (rule link_message [OF link],
      (erule link_get_buffer [OF link fits] link_device [OF _ link] link_set_buffer [OF _ link fits] link_write [OF _ link] link_request [OF _ link] link_reads [OF link]
       | simp only: append.simps append_assoc
       | simp add: srv link_codes [OF link] dispatch_defs DoBulkTransferWrite_def served_defs
           split del: if_split
       | (auto simp: after_request_simps; fail))+))
qed

lemma Proxy_ControlTransfer_served:
  assumes link: "ipc_link P E items"
    and fits: "small bufferData" and fits_out: "small (snd (fst (Service_ControlTransfer x dev ctrl bufferData w)))"
  shows "Proxy_ControlTransfer P E (Some (service_remote P E x base junk)) dev ctrl bufferData (sv, w) =
    (let ((ret, val), w1) = Service_ControlTransfer x dev ctrl bufferData w
     in returns (ret, if ret = UEC_OK E \<and>
          ctrl_requestType ctrl AND USB_ENDPOINT_DIR_MASK \<noteq> USB_ENDPOINT_DIR_OUT
        then val else bufferData) (sv, w1))"
proof -
  obtain ret val w1 where srv: "Service_ControlTransfer x dev ctrl bufferData w = ((ret, val), w1)"
    by (metis surj_pair)
  from fits_out srv have sm: "small val" by simp
  show ?thesis
    unfolding Proxy_ControlTransfer_def served_open Let_def
    by (cases "ret = UEC_OK E"; cases "ctrl_requestType ctrl AND USB_ENDPOINT_DIR_MASK = USB_ENDPOINT_DIR_OUT";
      (rule link_message [OF link],
      (erule link_get_buffer [OF link fits] link_get_buffer [OF link sm] link_device [OF _ link] link_set_buffer [OF _ link fits] link_set_buffer [OF _ link sm] link_write [OF _ link] link_request [OF _ link] link_reads [OF link]
       | rule link_set_buffer [OF ipc_linkD(4) [OF link] link fits] | rule link_set_buffer [OF ipc_linkD(4) [OF link] link sm] | simp only: append.simps append_assoc
       | simp add: srv link_codes [OF link] dispatch_defs DoControlTransfer_def served_defs
           split del: if_split
       | (auto simp: after_request_simps; fail))+))
qed

section \<open>Requests\<close>

lemma Proxy_RequestQueue_served:
  assumes link: "ipc_link P E items"
    and fits: "small clientData" "small bufferData"
  shows "Proxy_RequestQueue P E (Some (service_remote P E x base junk)) dev pipe clientData bufferData (sv, w) =
    (let (ret, w1) = Service_RequestQueue x dev pipe clientData bufferData w
     in returns ret (sv, w1))"
proof -
  obtain ret w1 where srv: "Service_RequestQueue x dev pipe clientData bufferData w = (ret, w1)"
    by (metis surj_pair)
  show ?thesis
    unfolding Proxy_RequestQueue_def served_open Let_def
    by (cases "ret = UEC_OK E"; (rule link_message [OF link],
      (erule link_get_buffer [OF link fits(1)] link_get_buffer [OF link fits(2)] link_device [OF _ link] link_set_buffer [OF _ link fits(1)] link_set_buffer [OF _ link fits(2)] link_write [OF _ link] link_request [OF _ link] link_reads [OF link]
       | simp only: append.simps append_assoc
       | simp add: srv link_codes [OF link] dispatch_defs DoRequestQueue_def served_defs
           split del: if_split
       | (auto simp: after_request_simps; fail))+))
qed

lemma Proxy_RequestWait_served:
  assumes link: "ipc_link P E items"
    and fits: "small (fst (snd (fst (Service_RequestWait x dev timeOut [] [] w))))" "small (snd (snd (fst (Service_RequestWait x dev timeOut [] [] w))))"
  shows "Proxy_RequestWait P E (Some (service_remote P E x base junk)) dev timeOut clientData bufferData (sv, w) =
    (let ((ret, client, val), w1) = Service_RequestWait x dev timeOut [] [] w
     in returns (ret, if ret = UEC_OK E then client else clientData,
        if ret = UEC_OK E then val else bufferData) (sv, w1))"
proof -
  obtain ret client val w1 where srv: "Service_RequestWait x dev timeOut [] [] w = ((ret, client, val), w1)"
    by (metis surj_pair)
  from fits srv have sm: "small client" "small val" by simp_all
  show ?thesis
    unfolding Proxy_RequestWait_def served_open Let_def
    by (cases "ret = UEC_OK E"; (rule link_message [OF link],
      (erule link_get_buffer [OF link sm(1)] link_get_buffer [OF link sm(2)] link_device [OF _ link] link_set_buffer [OF _ link sm(1)] link_set_buffer [OF _ link sm(2)] link_write [OF _ link] link_request [OF _ link] link_reads [OF link]
       | rule link_set_buffer [OF ipc_linkD(4) [OF link] link sm(1)] | rule link_set_buffer [OF ipc_linkD(4) [OF link] link sm(2)] | simp only: append.simps append_assoc
       | simp add: srv link_codes [OF link] dispatch_defs DoRequestWait_def served_defs
           split del: if_split
       | (auto simp: after_request_simps; fail))+))
qed

section \<open>Asynchronous transfers\<close>

lemma Proxy_RegBulkCallback_served:
  assumes link: "ipc_link P E items"
  shows "Proxy_RegBulkCallback P E (Some (service_remote P E x base junk)) dev pipe cb (sv, w) =
    (let (ret, w1) = Service_RegBulkCallback x dev pipe cb w
     in returns ret (sv, w1))"
proof -
  obtain ret w1 where srv: "Service_RegBulkCallback x dev pipe cb w = (ret, w1)"
    by (metis surj_pair)
  show ?thesis
    unfolding Proxy_RegBulkCallback_def served_open Let_def
    by (cases "ret = UEC_OK E"; (rule link_message [OF link],
      (erule link_device [OF _ link] link_write [OF _ link] link_request [OF _ link] link_reads [OF link]
       | simp only: append.simps append_assoc
       | simp add: srv link_codes [OF link] dispatch_defs DoRegBulkCallback_def served_defs
           split del: if_split
       | (auto simp: after_request_simps; fail))+))
qed

lemma Proxy_UnRegBulkCallback_served:
  assumes link: "ipc_link P E items"
  shows "Proxy_UnRegBulkCallback P E (Some (service_remote P E x base junk)) dev pipe (sv, w) =
    (let (ret, w1) = Service_UnRegBulkCallback x dev pipe w
     in returns ret (sv, w1))"
proof -
  obtain ret w1 where srv: "Service_UnRegBulkCallback x dev pipe w = (ret, w1)"
    by (metis surj_pair)
  show ?thesis
    unfolding Proxy_UnRegBulkCallback_def served_open Let_def
    by (cases "ret = UEC_OK E"; (rule link_message [OF link],
      (erule link_device [OF _ link] link_write [OF _ link] link_request [OF _ link] link_reads [OF link]
       | simp only: append.simps append_assoc
       | simp add: srv link_codes [OF link] dispatch_defs DoUnRegBulkCallback_def served_defs
           split del: if_split
       | (auto simp: after_request_simps; fail))+))
qed

lemma Proxy_BulkRead_served:
  assumes link: "ipc_link P E items"
  shows "Proxy_BulkRead P E (Some (service_remote P E x base junk)) dev pipe ashmem (sv, w) =
    (let (ret, w1) = Service_BulkRead E x dev pipe ashmem w
     in returns ret (sv, w1))"
proof -
  obtain ret w1 where srv: "Service_BulkRead E x dev pipe ashmem w = (ret, w1)"
    by (metis surj_pair)
  show ?thesis
    unfolding Proxy_BulkRead_def served_open Let_def
    by (cases "ret = UEC_OK E"; (rule link_message [OF link],
      (erule link_device [OF _ link] link_write [OF _ link] link_request [OF _ link] link_reads [OF link]
       | simp only: append.simps append_assoc
       | simp add: srv link_codes [OF link] dispatch_defs DoBulkRead_def served_defs
           split del: if_split
       | (auto simp: after_request_simps; fail))+))
qed

lemma Proxy_BulkWrite_served:
  assumes link: "ipc_link P E items"
  shows "Proxy_BulkWrite P E (Some (service_remote P E x base junk)) dev pipe ashmem (sv, w) =
    (let (ret, w1) = Service_BulkWrite E x dev pipe ashmem w
     in returns ret (sv, w1))"
proof -
  obtain ret w1 where srv: "Service_BulkWrite E x dev pipe ashmem w = (ret, w1)"
    by (metis surj_pair)
  show ?thesis
    unfolding Proxy_BulkWrite_def served_open Let_def
    by (cases "ret = UEC_OK E"; (rule link_message [OF link],
      (erule link_device [OF _ link] link_write [OF _ link] link_request [OF _ link] link_reads [OF link]
       | simp only: append.simps append_assoc
       | simp add: srv link_codes [OF link] dispatch_defs DoBulkWrite_def served_defs
           split del: if_split
       | (auto simp: after_request_simps; fail))+))
qed

lemma Proxy_BulkCancel_served:
  assumes link: "ipc_link P E items"
  shows "Proxy_BulkCancel P E (Some (service_remote P E x base junk)) dev pipe (sv, w) =
    (let (ret, w1) = Service_BulkCancel x dev pipe w
     in returns ret (sv, w1))"
proof -
  obtain ret w1 where srv: "Service_BulkCancel x dev pipe w = (ret, w1)"
    by (metis surj_pair)
  show ?thesis
    unfolding Proxy_BulkCancel_def served_open Let_def
    by (cases "ret = UEC_OK E"; (rule link_message [OF link],
      (erule link_device [OF _ link] link_write [OF _ link] link_request [OF _ link] link_reads [OF link]
       | simp only: append.simps append_assoc
       | simp add: srv link_codes [OF link] dispatch_defs DoBulkCancel_def served_defs
           split del: if_split
       | (auto simp: after_request_simps; fail))+))
qed

section \<open>Lists\<close>

text \<open>On a link with room, the writers of devices and ports succeed.\<close>

lemma write_loop_total:
  assumes "UEC_OK E = 0" and "\<And>y q. fst (wr y q) = UEC_OK E"
  shows "fst (write_loop E wr xs p) = UEC_OK E"
proof (induction xs arbitrary: p)
  case (Cons y xs)
  obtain r q where "wr y p = (r, q)" by (metis surj_pair)
  with Cons assms(1) assms(2) [of y p] show ?case by simp
qed simp

lemma device_writers_total:
  assumes link: "ipc_link P E items"
  shows "fst (SetDeviceEndpoint P E ep p) = UEC_OK E"
    and "fst (SetDeviceInterface P E i p) = UEC_OK E"
    and "fst (SetDeviceConfig P E c p) = UEC_OK E"
    and "fst (SetDeviceMessageParcel P E d p) = UEC_OK E"
    and "fst (SetDeviceListMessageParcel P E ds p) = UEC_OK E"
    and "fst (WriteUsbPort P E port p) = UEC_OK E"
proof -
  note loop = write_loop_total [OF ipc_linkD(3) [OF link]]
  note total = write_ret_total [OF link]
  have e: "fst (SetDeviceEndpoint P E ep p) = UEC_OK E" for ep p
    by (simp add: SetDeviceEndpoint_def Let_def total)
  have i: "fst (SetDeviceInterface P E i p) = UEC_OK E" for i p
    by (simp add: SetDeviceInterface_def SetDeviceEndpointsMessageParcel_def Let_def total loop e)
  have c: "fst (SetDeviceConfig P E c p) = UEC_OK E" for c p
    by (simp add: SetDeviceConfig_def SetDeviceInterfacesMessageParcel_def Let_def total loop i)
  have d: "fst (SetDeviceMessageParcel P E d p) = UEC_OK E" for d p
    by (simp add: SetDeviceMessageParcel_def SetDeviceConfigsMessageParcel_def Let_def total loop c)
  have l: "fst (SetDeviceListMessageParcel P E ds p) = UEC_OK E" for ds p
    by (simp add: SetDeviceListMessageParcel_def Let_def total loop d)
  have u: "fst (WriteUsbPort P E port p) = UEC_OK E" for port p
    by (simp add: WriteUsbPort_def Let_def total)
  from e i c d l u show "fst (SetDeviceEndpoint P E ep p) = UEC_OK E"
    "fst (SetDeviceInterface P E i p) = UEC_OK E" "fst (SetDeviceConfig P E c p) = UEC_OK E"
    "fst (SetDeviceMessageParcel P E d p) = UEC_OK E"
    "fst (SetDeviceListMessageParcel P E ds p) = UEC_OK E" "fst (WriteUsbPort P E port p) = UEC_OK E"
    by simp_all
qed

lemma link_devices:
  assumes "ipc_link P E items" and "device_list_fits ds"
    and "SetDeviceListMessageParcel P E ds (p_empty P) = (r, reply)"
  shows "r = UEC_OK E"
    and "yields items (GetDeviceListMessageParcel P E junk junk_dev acc reply)
      (UEC_OK E, acc @ map device_received ds) []"
proof -
  show r: "r = UEC_OK E" using device_writers_total(5) [OF assms(1), of ds "p_empty P"] assms(3) by simp
  have "items reply = P32 (of_nat (length ds)) # concat (map device_items ds) @ []"
    using SetDeviceList_items [OF ipc_linkD(1) [OF assms(1)] assms(2) assms(3) [unfolded r]]
      ipc_linkD(4) [OF assms(1)] by simp
  then show "yields items (GetDeviceListMessageParcel P E junk junk_dev acc reply)
      (UEC_OK E, acc @ map device_received ds) []"
    by (rule GetDeviceList_items [OF ipc_linkD(1) [OF assms(1)] assms(2)])
qed

lemma Proxy_GetDevices_served:
  assumes link: "ipc_link P E items"
    and srv: "Service_GetDevices E [] sv = Mem (ret, ds)" and fits: "device_list_fits ds"
  shows "Proxy_GetDevices P E junk1 junk_dev (Some (service_remote P E x base junk)) deviceList (sv, w) =
    returns (ret, if ret = UEC_OK E then deviceList @ map device_received ds else deviceList) (sv, w)"
proof -
  obtain r reply where set: "SetDeviceListMessageParcel P E ds (p_empty P) = (r, reply)" by (metis surj_pair)
  obtain q where get: "GetDeviceListMessageParcel P E junk1 junk_dev deviceList reply =
      ((UEC_OK E, deviceList @ map device_received ds), q)"
    using link_devices(2) [OF link fits set, of junk1 junk_dev deviceList]
    by (metis fst_conv surj_pair yields_def)
  show ?thesis
    unfolding Proxy_GetDevices_def Let_def
    by (rule link_message [OF link], erule link_request [OF _ link], simp add: dispatch_defs,
      simp add: DoGetDevices_def srv served_defs set link_devices(1) [OF link fits set] get)
qed

lemma link_ports:
  assumes "ipc_link P E items"
  shows "\<exists>q. write_loop E (WriteUsbPort P E) ports p = (UEC_OK E, q) \<and>
    items q = items p @ concat (map port_items ports)"
proof -
  obtain r q where w: "write_loop E (WriteUsbPort P E) ports p = (r, q)" by (metis surj_pair)
  have "r = UEC_OK E"
    using write_loop_total [of E "WriteUsbPort P E" ports p] ipc_linkD(3) [OF assms]
      device_writers_total(6) [OF assms] w by simp
  with w port_codec.write_loop_enc [OF ipc_linkD(1) [OF assms] refl ipc_linkD(3) [OF assms], of ports p q]
  show ?thesis by simp
qed

lemma Proxy_GetPorts_served:
  assumes link: "ipc_link P E items"
    and srv: "Service_GetPorts E x [] sv w = (((ret, ps), sv1), w1)" and fits: "small ps"
  shows "Proxy_GetPorts P E (Some (service_remote P E x base junk)) ports (sv, w) =
    returns (ret, if ret = UEC_OK E then ports @ ps else ports) (sv1, w1)"
proof (cases "ret = UEC_OK E")
  case False
  show ?thesis unfolding Proxy_GetPorts_def Let_def
    by (rule link_message [OF link], erule link_request [OF _ link], simp add: dispatch_defs,
      simp add: DoGetPorts_def srv served_defs False)
next
  case True
  have n: "take (unat (of_nat (length ps) :: u32)) ps = ps"
    using fits unfolding unat_of_nat by (simp add: small_def)
  have r: "rounds (of_nat (length ps)) = length ps" using fits by (rule rounds_length)
  have reply: "(case write_loop E (WriteUsbPort P E) ps p1 of (r, reply) \<Rightarrow> k r reply) = R"
    if "items p1 = [P32 (of_nat (length ps))]"
      and "\<And>q. items q = P32 (of_nat (length ps)) # concat (map port_items ps) \<Longrightarrow> k (UEC_OK E) q = R"
    for p1 k R using link_ports [OF link, of ps p1] that by auto
  have parse: "(case parse_ports P E (length ps) ports q of (res, _) \<Rightarrow> returns res (sv1, w1)) =
      returns (UEC_OK E, ports @ ps) (sv1, w1)" if "items q = concat (map port_items ps)" for q
    using parse_ports_items [OF ipc_linkD(1) [OF link], where ports = ports and rest = "[]" and p = q and ps = ps] that
    by (auto simp: yields_def prod.case_eq_if)
  show ?thesis unfolding Proxy_GetPorts_def Let_def
    by (rule link_message [OF link], erule link_request [OF _ link], simp add: dispatch_defs,
      simp add: DoGetPorts_def srv served_defs True n,
      rule link_write [OF ipc_linkD(4) [OF link] link], simp only: append.simps,
      erule reply, simp add: after_request_simps, erule link_reads [OF link], simp add: r parse)
qed

end
