(* ===== verification/Usb_Client_Props.thy ===== *)
theory Usb_Client_Props
  imports Usb_Client Usb_Ipc
begin

text \<open>
  What an application gets from the client library when it is connected to the service, when
  there is no service, and when the service has died.
\<close>

section \<open>Connected clients\<close>

lemma with_connection_connected:
  "cl_proxy cl = Some h \<Longrightarrow> with_connection E N fail cl s k = k cl s"
  by (simp add: with_connection_def Connect_def)

lemma when_connected_connected: "cl_proxy cl = Some h \<Longrightarrow> when_connected fail cl s k = k"
  by (simp add: when_connected_def)

lemma call_proxy_returns:
  "cl_proxy cl = Some h \<Longrightarrow> call (ce_remote N h) s = returns v s1 \<Longrightarrow>
    call_proxy N cl s call res = cl_return (res v) cl s1"
  by (simp add: call_proxy_def returns_def run_bind_def)

lemma run_bind_return: "run_bind (cl_return v cl s) k = k (v, cl, s)"
  by (simp add: run_bind_def cl_return_def)

lemmas connected_simps = with_connection_connected when_connected_connected call_proxy_returns
  run_bind_return

text \<open>The client is connected through the proxy \<open>h\<close>, and its requests reach the service.\<close>

definition connected_to ::
  "('p, 's) client_env \<Rightarrow> UsbSrvClient \<Rightarrow> ('p, 's) sender \<Rightarrow> bool" where
  "connected_to N cl send \<longleftrightarrow> (\<exists>h. cl_proxy cl = Some h \<and> ce_remote N h = Some send)"

lemma connected_toE:
  assumes "connected_to N cl send"
  obtains h where "cl_proxy cl = Some h" and "ce_remote N h = Some send"
  using assms by (auto simp: connected_to_def)

lemma endpoint_pipe_usb: "endpoint_pipe ep = usb_pipe (ep_interfaceId ep) (ucast (ep_address ep))"
  by (simp add: endpoint_pipe_def usb_pipe_def USBEndpoint_GetInterfaceId_def)

lemma pipe_dev_usb: "pipe_dev pipe = usb_dev (dp_busNum pipe) (dp_devAddr pipe)"
  by (simp add: pipe_dev_def usb_dev_def)

lemma returns_case: "(case t of (r, w1) \<Rightarrow> returns r (sv, w1)) = returns (fst t) (sv, snd t)"
  by (simp add: case_prod_beta)

text \<open>
  Opening a device from an application.  The driver is asked only if the calling application
  holds the right for the device; its answer is returned.  Only when it is the success code, the
  pipe gets the bus number and the address of the device; in every other case it is unchanged.
\<close>

theorem client_OpenDevice_guarded:
  assumes "ipc_link P E items" and "connected_to N cl (service_remote P E x base junk)"
    and "sv_right sv = Some rm"
  shows "Client_OpenDevice P E N device pipe cl (sv, w) =
    (let w1 = snd (GetBundleName x '''' w);
         allowed = bundles_available x w \<and>
           (device_name (dev_busNum device) (dev_devAddr device), caller_bundle x w) \<in> rights rm;
         (ret, w2) = (if allowed then x_OpenDevice x (usb_dev (dev_busNum device) (dev_devAddr device)) w1
                      else (UEC_SERVICE_PERMISSION_DENIED E, w1))
     in cl_return (ret, if ret = UEC_OK E then \<lparr>dp_busNum = dev_busNum device, dp_devAddr = dev_devAddr device\<rparr>
                        else pipe) cl (sv, w2))"
proof -
  obtain h where h: "cl_proxy cl = Some h" "ce_remote N h = Some (service_remote P E x base junk)"
    using assms(2) by (rule connected_toE)
  obtain ret w2 where srv: "Service_OpenDevice E x (dev_busNum device) (dev_devAddr device) sv w = (ret, w2)"
    by (metis surj_pair)
  have "Proxy_OpenDevice P E (ce_remote N h) (dev_busNum device) (dev_devAddr device) (sv, w) =
      returns ret (sv, w2)"
    by (simp add: h Proxy_OpenDevice_served [OF assms(1)] srv)
  note call = call_proxy_returns [OF h(1), where call = "\<lambda>remote. Proxy_OpenDevice P E remote
    (dev_busNum device) (dev_devAddr device)", OF this]
  show ?thesis
    unfolding Client_OpenDevice_def with_connection_connected [OF h(1)] call Let_def
      Service_OpenDevice_eq [OF assms(3), of E x "dev_busNum device" "dev_devAddr device" w, symmetric] srv
    by (cases pipe) simp
qed

text \<open>A connected client and the service, for the witnesses.\<close>

definition sample_env_of :: "('p, 's) sender \<Rightarrow> ('p, 's) client_env" where
  "sample_env_of send = \<lparr>ce_HasSystemAbilityManager = (\<lambda>_. True), ce_CheckSystemAbility = (\<lambda>s. (Some 7, s)),
     ce_iface_cast = Some, ce_AsObject = Some, ce_remote = (\<lambda>h. if h = 7 then Some send else None),
     ce_RemoveDeathRecipient = (\<lambda>_ s. s)\<rparr>"

definition client_link_base :: "u32 \<Rightarrow> pitem list \<Rightarrow> pitem list \<Rightarrow> sample_world \<Rightarrow> (i32 \<times> pitem list) \<times> sample_world" where
  "client_link_base code data reply w = ((305, reply), w)"

definition sample_send :: "(pitem list, UsbService \<times> sample_world) sender" where
  "sample_send = service_remote list_parcel sample_codes sample_ext client_link_base 0"

definition sample_client :: UsbSrvClient where
  "sample_client = \<lparr>cl_proxy = Some 7\<rparr>"

lemma sample_connected: "connected_to (sample_env_of send) sample_client send"
  by (simp add: connected_to_def sample_client_def sample_env_of_def)

lemma list_link: "ipc_link list_parcel sample_codes (\<lambda>p. p)"
  by (simp add: ipc_link_def sample_env) (simp add: list_parcel_def)

theorem client_OpenDevice_guarded_witness:
  "Client_OpenDevice list_parcel sample_codes (sample_env_of sample_send)
      (UsbDevice_zero\<lparr>dev_busNum := 1, dev_devAddr := 2\<rparr>) \<lparr>dp_busNum = 9, dp_devAddr = 9\<rparr> sample_client
      (UsbService_new, sample_state) =
    cl_return (102, \<lparr>dp_busNum = 9, dp_devAddr = 9\<rparr>) sample_client (UsbService_new, sample_state)"
proof -
  have rm: "sv_right UsbService_new = Some UsbRightManager_new" by (simp add: UsbService_new_def)
  have w: "snd (GetBundleName sample_ext '''' sample_state) = sample_state"
    "UEC_SERVICE_PERMISSION_DENIED sample_codes = 102" "UEC_OK sample_codes = 0"
    by code_simp+
  show ?thesis
    using client_OpenDevice_guarded [OF list_link sample_connected [of sample_send, unfolded sample_send_def] rm,
        where w = sample_state and device = "UsbDevice_zero\<lparr>dev_busNum := 1, dev_devAddr := 2\<rparr>"
          and pipe = "\<lparr>dp_busNum = 9, dp_devAddr = 9\<rparr>"]
    by (simp add: w sample_send_def)
qed

section \<open>Transfers\<close>

text \<open>
  A bulk transfer goes the way of its endpoint: the direction bit of the address decides between
  reading from the driver into the caller's buffer and writing the caller's buffer, and there is
  no third case.  The driver gets the device of the pipe, the interface of the endpoint and the
  low byte of its address.
\<close>

theorem client_BulkTransfer_direction:
  assumes "ipc_link P E items" and "connected_to N cl (service_remote P E x base junk)"
    and "small bufferData"
    and "small (snd (fst (x_BulkTransferRead x (pipe_dev pipe) (endpoint_pipe ep) timeOut [] w)))"
  shows "Client_BulkTransfer P E N pipe ep bufferData timeOut cl (sv, w) =
    (if USBEndpoint_GetDirection ep = USB_ENDPOINT_DIR_IN
     then (let ((ret, bytes), w1) = x_BulkTransferRead x (pipe_dev pipe) (endpoint_pipe ep) timeOut [] w
           in cl_return (ret, if ret = UEC_OK E then bytes else bufferData) cl (sv, w1))
     else (let (ret, w1) = x_BulkTransferWrite x (pipe_dev pipe) (endpoint_pipe ep) timeOut bufferData w
           in cl_return (ret, bufferData) cl (sv, w1)))"
proof -
  obtain h where h: "cl_proxy cl = Some h" "ce_remote N h = Some (service_remote P E x base junk)"
    using assms(2) by (rule connected_toE)
  obtain r1 b1 w1 where rd: "x_BulkTransferRead x (pipe_dev pipe) (endpoint_pipe ep) timeOut [] w = ((r1, b1), w1)"
    by (metis surj_pair)
  obtain r2 w2 where wr: "x_BulkTransferWrite x (pipe_dev pipe) (endpoint_pipe ep) timeOut bufferData w = (r2, w2)"
    by (metis surj_pair)
  have read: "Proxy_BulkTransferRead P E (ce_remote N h) (pipe_dev pipe) (endpoint_pipe ep) bufferData timeOut
      (sv, w) = returns (r1, if r1 = UEC_OK E then b1 else bufferData) (sv, w1)"
    using Proxy_BulkTransferRead_served [OF assms(1), of x "pipe_dev pipe" "endpoint_pipe ep" timeOut w base junk]
      assms(4) by (simp add: h Service_BulkTransferRead_def rd)
  have "write": "Proxy_BulkTransferWrite P E (ce_remote N h) (pipe_dev pipe) (endpoint_pipe ep) bufferData timeOut
      (sv, w) = returns r2 (sv, w2)"
    using Proxy_BulkTransferWrite_served [OF assms(1,3), of x base junk "pipe_dev pipe" "endpoint_pipe ep" timeOut]
    by (simp add: h Service_BulkTransferWrite_def wr)
  have dirs: "USB_ENDPOINT_DIR_IN \<noteq> USB_ENDPOINT_DIR_OUT" by (simp add: usb_masks)
  note calls = call_proxy_returns [OF h(1), where call = "\<lambda>remote. Proxy_BulkTransferRead P E remote
      (pipe_dev pipe) (endpoint_pipe ep) bufferData timeOut", OF read]
    call_proxy_returns [OF h(1), where call = "\<lambda>remote. Proxy_BulkTransferWrite P E remote
      (pipe_dev pipe) (endpoint_pipe ep) bufferData timeOut", OF "write"]
  show ?thesis
    using GetDirection_cases [of ep] dirs
    unfolding Client_BulkTransfer_def when_connected_connected [OF h(1)] calls
    by (auto simp: rd wr)
qed

theorem client_BulkTransfer_direction_witness:
  "Client_BulkTransfer list_parcel sample_codes (sample_env_of sample_send) \<lparr>dp_busNum = 1, dp_devAddr = 2\<rparr>
      (USBEndpoint_new\<lparr>ep_address := 0x81\<rparr>) [5] 100 sample_client (UsbService_new, sample_state) =
    cl_return (0, []) sample_client (UsbService_new, sample_state)"
proof -
  have dir: "USBEndpoint_GetDirection (USBEndpoint_new\<lparr>ep_address := 0x81\<rparr>) = USB_ENDPOINT_DIR_IN"
    by code_simp
  have rd: "x_BulkTransferRead sample_ext dev pipe t b w = ((0, b), w)" for dev pipe t b w
    by (simp add: sample_ext_def)
  have small: "small [5 :: u8]" "small ([] :: u8 list)" by (simp_all add: small_def)
  show ?thesis
    using client_BulkTransfer_direction [OF list_link sample_connected [of sample_send, unfolded sample_send_def]
        small(1), where ep = "USBEndpoint_new\<lparr>ep_address := 0x81\<rparr>" and timeOut = 100 and w = sample_state
        and sv = UsbService_new and pipe = "\<lparr>dp_busNum = 1, dp_devAddr = 2\<rparr>"]
    by (simp add: dir rd small sample_send_def sample_codes_def)
qed

section \<open>Requests\<close>

text \<open>What a connected client's call gives, from what the proxy's operation gives on the service.\<close>

lemma client_call:
  assumes "connected_to N cl send" and "call (Some send) s = returns v s1"
  shows "when_connected fail cl s (call_proxy N cl s call res) = cl_return (res v) cl s1"
    and "with_connection E N fail cl s (\<lambda>cl s. call_proxy N cl s call res) = cl_return (res v) cl s1"
  using assms by (auto simp: connected_simps elim!: connected_toE)

text \<open>
  The life of a request.  Initialising it stores the pipe and the endpoint in it and claims the
  endpoint's interface by force; queueing it hands the driver the device of the pipe, the
  endpoint and both buffers of the request; cancelling it, by \<open>Free\<close> as by \<open>Abort\<close>, names the
  same device and endpoint.  The driver's code is the result of each.
\<close>

theorem client_requests:
  assumes "ipc_link P E items" and "connected_to N cl (service_remote P E x base junk)"
    and "small (rq_clientData req)" and "small (rq_reqData req)"
  shows "UsbRequest_Initialize P E N pipe ep req cl (sv, w) =
      (let (ret, w1) = x_ClaimInterface x (pipe_dev pipe) (USBEndpoint_GetInterfaceId ep) CLAIM_FORCE_1 w
       in cl_return (ret, req\<lparr>rq_pipe := pipe, rq_endpoint := ep\<rparr>) cl (sv, w1)) \<and>
    UsbRequest_Queue P E N req cl (sv, w) =
      (let (ret, w1) = x_RequestQueue x (pipe_dev (rq_pipe req)) (endpoint_pipe (rq_endpoint req))
         (rq_clientData req) (rq_reqData req) w in cl_return ret cl (sv, w1)) \<and>
    UsbRequest_Free P E N req cl (sv, w) =
      (let (ret, w1) = x_RequestCancel x (pipe_dev (rq_pipe req)) (endpoint_pipe (rq_endpoint req)) w
       in cl_return ret cl (sv, w1)) \<and>
    UsbRequest_Abort P E N req cl (sv, w) = UsbRequest_Free P E N req cl (sv, w)"
proof -
  note call = client_call(1) [OF assms(2)]
  let ?claim = "x_ClaimInterface x (pipe_dev pipe) (USBEndpoint_GetInterfaceId ep) CLAIM_FORCE_1 w"
  let ?queue = "x_RequestQueue x (pipe_dev (rq_pipe req)) (endpoint_pipe (rq_endpoint req))
     (rq_clientData req) (rq_reqData req) w"
  let ?cancel = "x_RequestCancel x (pipe_dev (rq_pipe req)) (endpoint_pipe (rq_endpoint req)) w"
  note usb = pipe_dev_def endpoint_pipe_def usb_dev_def
  have claim: "Proxy_ClaimInterface P E (Some (service_remote P E x base junk)) (dp_busNum pipe) (dp_devAddr pipe)
      (USBEndpoint_GetInterfaceId ep) CLAIM_FORCE_1 (sv, w) = returns (fst ?claim) (sv, snd ?claim)"
    by (simp add: Proxy_ClaimInterface_served [OF assms(1)] Service_ClaimInterface_def usb case_prod_beta)
  have queue: "Proxy_RequestQueue P E (Some (service_remote P E x base junk)) (pipe_dev (rq_pipe req))
      (endpoint_pipe (rq_endpoint req)) (rq_clientData req) (rq_reqData req) (sv, w) =
      returns (fst ?queue) (sv, snd ?queue)"
    by (simp add: Proxy_RequestQueue_served [OF assms(1,3,4)] Service_RequestQueue_def case_prod_beta)
  have cancel: "Proxy_RequestCancel P E (Some (service_remote P E x base junk)) (dp_busNum (rq_pipe req))
      (dp_devAddr (rq_pipe req)) (USBEndpoint_GetInterfaceId (rq_endpoint req)) (ucast (ep_address (rq_endpoint req)))
      (sv, w) = returns (fst ?cancel) (sv, snd ?cancel)"
    by (simp add: Proxy_RequestCancel_served [OF assms(1)] Service_RequestCancel_def usb case_prod_beta)
  show ?thesis
    by (simp add: UsbRequest_Initialize_def Client_RequestInitialize_def UsbRequest_Queue_def
        Client_RequestQueue_def UsbRequest_Free_def Client_RequestFree_def UsbRequest_Abort_def
        Client_RequestAbort_def call [where call = "\<lambda>remote. Proxy_ClaimInterface P E remote (dp_busNum pipe)
          (dp_devAddr pipe) (USBEndpoint_GetInterfaceId ep) CLAIM_FORCE_1", OF claim]
        call [where call = "\<lambda>remote. Proxy_RequestQueue P E remote (pipe_dev (rq_pipe req))
          (endpoint_pipe (rq_endpoint req)) (rq_clientData req) (rq_reqData req)", OF queue]
        call [where call = "\<lambda>remote. Proxy_RequestCancel P E remote (dp_busNum (rq_pipe req))
          (dp_devAddr (rq_pipe req)) (USBEndpoint_GetInterfaceId (rq_endpoint req))
          (ucast (ep_address (rq_endpoint req)))", OF cancel] run_bind_return case_prod_beta)
qed

theorem client_requests_witness:
  "UsbRequest_Queue list_parcel sample_codes (sample_env_of sample_send)
      \<lparr>rq_pipe = \<lparr>dp_busNum = 1, dp_devAddr = 2\<rparr>, rq_endpoint = USBEndpoint_new, rq_clientData = [1], rq_reqData = []\<rparr>
      sample_client (UsbService_new, sample_state) = cl_return 0 sample_client (UsbService_new, sample_state)"
proof -
  let ?req = "\<lparr>rq_pipe = \<lparr>dp_busNum = 1, dp_devAddr = 2\<rparr>, rq_endpoint = USBEndpoint_new,
    rq_clientData = [1], rq_reqData = []\<rparr>"
  have fits: "small (rq_clientData ?req)" "small (rq_reqData ?req)" by (simp_all add: small_def)
  have queue: "x_RequestQueue sample_ext dev pipe c b w = (0, w)" for dev pipe c b w
    by (simp add: sample_ext_def)
  show ?thesis
    using client_requests [OF list_link sample_connected [of sample_send, unfolded sample_send_def] fits,
        where w = sample_state and sv = UsbService_new]
    by (simp add: queue sample_send_def)
qed

text \<open>
  Waiting for a request keeps the low 32 bits of the time only, as a signed number; the pipe and
  both buffers are stored in the request when the driver succeeds, and in no other case.
\<close>

theorem client_RequestWait:
  assumes "ipc_link P E items" and "connected_to N cl (service_remote P E x base junk)"
    and "x_RequestWait x (pipe_dev pipe) [] [] (ucast timeOut) w = ((ret, client, val), w1)"
    and "small client" and "small val"
  shows "Client_PipeRequestWait P E N pipe timeOut req cl (sv, w) =
    cl_return (ret, if ret = UEC_OK E
      then req\<lparr>rq_pipe := pipe, rq_clientData := client, rq_reqData := val\<rparr> else req) cl (sv, w1)"
proof -
  have "Proxy_RequestWait P E (Some (service_remote P E x base junk)) (pipe_dev pipe) (ucast timeOut) [] [] (sv, w) =
      returns (ret, if ret = UEC_OK E then client else [], if ret = UEC_OK E then val else []) (sv, w1)"
    using Proxy_RequestWait_served [OF assms(1), of x "pipe_dev pipe" "ucast timeOut" w base junk "[]" "[]" sv] assms(3-)
    by (simp add: Service_RequestWait_def)
  note call = client_call(1) [OF assms(2), where call = "\<lambda>remote. Proxy_RequestWait P E remote (pipe_dev pipe)
      (ucast timeOut) [] []", OF this]
  show ?thesis
    by (simp add: Client_PipeRequestWait_def call)
qed

theorem client_RequestWait_witness:
  "Client_PipeRequestWait list_parcel sample_codes (sample_env_of sample_send) \<lparr>dp_busNum = 1, dp_devAddr = 2\<rparr>
      4294967296 req sample_client (UsbService_new, sample_state) =
    cl_return (0, req\<lparr>rq_pipe := \<lparr>dp_busNum = 1, dp_devAddr = 2\<rparr>, rq_clientData := [], rq_reqData := []\<rparr>)
      sample_client (UsbService_new, sample_state)"
proof -
  let ?pipe = "\<lparr>dp_busNum = 1, dp_devAddr = 2\<rparr>"
  have wait: "x_RequestWait sample_ext (pipe_dev ?pipe) [] [] (ucast (4294967296 :: 64 word)) sample_state =
      ((0, [], []), sample_state)" by (simp add: sample_ext_def)
  have fits: "small ([] :: u8 list)" by (simp add: small_def)
  show ?thesis
    using client_RequestWait [OF list_link sample_connected [of sample_send, unfolded sample_send_def] wait fits fits,
        where sv = UsbService_new and req = req]
    by (simp add: sample_send_def sample_codes_def)
qed

section \<open>No service\<close>

lemmas client_defs =
  Client_OpenDevice_def Client_HasRight_def Client_RequestRight_def Client_RemoveRight_def
  Client_GetDevices_def Client_GetCurrentFunctions_def Client_SetCurrentFunctions_def
  Client_UsbFunctionsFromString_def Client_UsbFunctionsToString_def Client_GetPorts_def
  Client_GetSupportedModes_def Client_SetPortRole_def Client_ClaimInterface_def
  Client_ReleaseInterface_def Client_BulkTransfer_def Client_ControlTransfer_def
  Client_SetConfiguration_def Client_SetInterface_def Client_GetRawDescriptors_def
  Client_GetFileDescriptor_def Client_Close_def Client_PipeRequestWait_def
  Client_RequestInitialize_def Client_RequestFree_def Client_RequestAbort_def
  Client_RequestQueue_def Client_RegBulkCallback_def Client_UnRegBulkCallback_def
  Client_BulkRead_def Client_BulkWrite_def Client_BulkCancel_def

text \<open>The client has no proxy and the system does not give it the service.\<close>

definition no_service :: "('p, 's) client_env \<Rightarrow> UsbSrvClient \<Rightarrow> 's \<Rightarrow> bool" where
  "no_service N cl s \<longleftrightarrow> cl_proxy cl = None \<and>
     (\<not> ce_HasSystemAbilityManager N s \<or> ce_CheckSystemAbility N s = (None, s))"

lemma no_service_simps:
  assumes "no_service N cl s" and "codes_ok E"
  shows "with_connection E N fail cl s k = cl_return fail cl s"
    and "when_connected fail cl s call = cl_return fail cl s"
  using assms by (auto simp: no_service_def with_connection_def when_connected_def Connect_def codes_ok_def)

text \<open>
  Without a service the client is not stopped and nothing changes: every operation returns that
  the client is not initialised, with the arguments it would have filled left as they are.  The
  exceptions are the result types without a code: no right, an empty text, and setting the
  functions, which returns 0, the code of success.
\<close>

theorem client_without_service:
  assumes "no_service N cl s" and "codes_ok E"
  shows "Client_OpenDevice P E N device pipe cl s = cl_return (UEC_INTERFACE_NO_INIT E, pipe) cl s \<and>
    Client_HasRight P E N deviceName cl s = cl_return False cl s \<and>
    Client_RequestRight P E N deviceName cl s = cl_return (UEC_INTERFACE_NO_INIT E) cl s \<and>
    Client_GetDevices P E N junk junk_dev deviceList cl s = cl_return (UEC_INTERFACE_NO_INIT E, deviceList) cl s \<and>
    Client_UsbFunctionsToString P E N funcs cl s = cl_return '''' cl s \<and>
    Client_SetCurrentFunctions P E N funcs cl s = cl_return (UEC_OK E) cl s \<and>
    DevicePipe_BulkTransfer P E N ep bufferData timeOut pipe cl s =
      cl_return (UEC_INTERFACE_NO_INIT E, bufferData) cl s \<and>
    DevicePipe_Close P E N pipe cl s = cl_return (ERR_INVALID_VALUE E) cl s"
  using assms(2)
  by (simp add: client_defs DevicePipe_BulkTransfer_def DevicePipe_Close_def no_service_simps [OF assms]
      run_bind_return codes_ok_def)

theorem client_without_service_witness:
  "Client_SetCurrentFunctions list_parcel sample_codes
      \<lparr>ce_HasSystemAbilityManager = (\<lambda>_. False), ce_CheckSystemAbility = (\<lambda>s. (None, s)), ce_iface_cast = Some,
        ce_AsObject = Some, ce_remote = (\<lambda>_. None), ce_RemoveDeathRecipient = (\<lambda>_ s. s)\<rparr> 4 \<lparr>cl_proxy = None\<rparr> () =
    cl_return (UEC_OK sample_codes) \<lparr>cl_proxy = None\<rparr> ()"
  by (rule client_without_service [THEN conjunct2, THEN conjunct2, THEN conjunct2, THEN conjunct2, THEN conjunct2,
      THEN conjunct1]) (simp_all add: no_service_def)

section \<open>Callbacks\<close>

text \<open>
  C39: The callback stub hands status and length of a finished transfer to the application's callback
  for the direction the code names, and only when the request carries the stub's own token; a
  request with another token or with too few numbers changes nothing and is answered with the
  write error.
\<close>

theorem bulk_callback_delivers:
  assumes "parcel_ok P items" and "items data = PToken tok # P32 status # P32 len # rest"
    and "code = (if to_write then CMD_USBD_BULK_CALLBACK_WRITE else CMD_USBD_BULK_CALLBACK_READ)"
  shows "BulkCallBack_OnRemoteRequest P E on_write on_read base code data reply s =
    (if tok = BulkCallBack_descriptor
     then (UEC_OK E, (if to_write then on_write else on_read) status len s)
     else (UEC_SERVICE_WRITE_PARCEL_ERROR E, s))"
proof -
  obtain d1 where 1: "p_ReadInterfaceToken P data = (tok, d1)" "items d1 = P32 status # P32 len # rest"
    using parcel_okD(9) [OF assms(1,2)] by blast
  obtain d2 where 2: "p_Read32 P d1 = (Some status, d2)" "items d2 = P32 len # rest"
    using parcel_okD(5) [OF assms(1) 1(2)] by blast
  obtain d3 where 3: "p_Read32 P d2 = (Some len, d3)"
    using parcel_okD(5) [OF assms(1) 2(2)] by blast
  show ?thesis
    by (simp add: BulkCallBack_OnRemoteRequest_def bulk_callback_case_def assms(3) 1 2 3 read_with_ret_def
        CMD_USBD_BULK_CALLBACK_WRITE_def CMD_USBD_BULK_CALLBACK_READ_def)
qed

theorem bulk_callback_delivers_witness:
  "BulkCallBack_OnRemoteRequest list_parcel sample_codes (\<lambda>st n s. s @ [(st, n)]) (\<lambda>_ _ s. s)
      (\<lambda>_ _ _ s. (305, s)) CMD_USBD_BULK_CALLBACK_WRITE
      [PToken BulkCallBack_descriptor, P32 0, P32 512] [] [] = (UEC_OK sample_codes, [(0, 512)])"
  using bulk_callback_delivers [OF ipc_linkD(2) [OF list_link], where tok = BulkCallBack_descriptor and status = 0
      and len = 512 and rest = "[]" and to_write = True and E = sample_codes
      and on_write = "\<lambda>st n s. s @ [(st, n)]" and on_read = "\<lambda>_ _ s. s" and base = "\<lambda>_ _ _ s. (305, s)" and s = "[]"]
  by simp

section \<open>A dead service\<close>

text \<open>One operation of the client that returns.\<close>

inductive client_step ::
  "'p parcel_ops \<Rightarrow> uec_codes \<Rightarrow> ('p, 's) client_env \<Rightarrow> UsbSrvClient \<times> 's \<Rightarrow> UsbSrvClient \<times> 's \<Rightarrow> bool"
  for P :: "'p parcel_ops" and E :: uec_codes and N :: "('p, 's) client_env" where
  step_OpenDevice: "Client_OpenDevice P E N device pipe cl s = Some (Mem (v0, cl1, s1)) \<Longrightarrow>
    client_step P E N (cl, s) (cl1, s1)"
| step_HasRight: "Client_HasRight P E N deviceName cl s = Some (Mem (v1, cl1, s1)) \<Longrightarrow>
    client_step P E N (cl, s) (cl1, s1)"
| step_RequestRight: "Client_RequestRight P E N deviceName cl s = Some (Mem (v2, cl1, s1)) \<Longrightarrow>
    client_step P E N (cl, s) (cl1, s1)"
| step_RemoveRight: "Client_RemoveRight P E N deviceName cl s = Some (Mem (v3, cl1, s1)) \<Longrightarrow>
    client_step P E N (cl, s) (cl1, s1)"
| step_GetDevices: "Client_GetDevices P E N junk junk_dev deviceList cl s = Some (Mem (v4, cl1, s1)) \<Longrightarrow>
    client_step P E N (cl, s) (cl1, s1)"
| step_GetCurrentFunctions: "Client_GetCurrentFunctions P E N funcs cl s = Some (Mem (v5, cl1, s1)) \<Longrightarrow>
    client_step P E N (cl, s) (cl1, s1)"
| step_SetCurrentFunctions: "Client_SetCurrentFunctions P E N funcs cl s = Some (Mem (v6, cl1, s1)) \<Longrightarrow>
    client_step P E N (cl, s) (cl1, s1)"
| step_UsbFunctionsFromString: "Client_UsbFunctionsFromString P E N names cl s = Some (Mem (v7, cl1, s1)) \<Longrightarrow>
    client_step P E N (cl, s) (cl1, s1)"
| step_UsbFunctionsToString: "Client_UsbFunctionsToString P E N funcs cl s = Some (Mem (v8, cl1, s1)) \<Longrightarrow>
    client_step P E N (cl, s) (cl1, s1)"
| step_GetPorts: "Client_GetPorts P E N ports cl s = Some (Mem (v9, cl1, s1)) \<Longrightarrow>
    client_step P E N (cl, s) (cl1, s1)"
| step_GetSupportedModes: "Client_GetSupportedModes P E N portId modes cl s = Some (Mem (v10, cl1, s1)) \<Longrightarrow>
    client_step P E N (cl, s) (cl1, s1)"
| step_SetPortRole: "Client_SetPortRole P E N portId powerRole dataRole cl s = Some (Mem (v11, cl1, s1)) \<Longrightarrow>
    client_step P E N (cl, s) (cl1, s1)"
| step_ClaimInterface: "Client_ClaimInterface P E N pipe interface force cl s = Some (Mem (v12, cl1, s1)) \<Longrightarrow>
    client_step P E N (cl, s) (cl1, s1)"
| step_ReleaseInterface: "Client_ReleaseInterface P E N pipe interface cl s = Some (Mem (v13, cl1, s1)) \<Longrightarrow>
    client_step P E N (cl, s) (cl1, s1)"
| step_BulkTransfer: "Client_BulkTransfer P E N pipe ep bufferData timeOut cl s = Some (Mem (v14, cl1, s1)) \<Longrightarrow>
    client_step P E N (cl, s) (cl1, s1)"
| step_ControlTransfer: "Client_ControlTransfer P E N pipe ctrl bufferData cl s = Some (Mem (v15, cl1, s1)) \<Longrightarrow>
    client_step P E N (cl, s) (cl1, s1)"
| step_SetConfiguration: "Client_SetConfiguration P E N pipe config cl s = Some (Mem (v16, cl1, s1)) \<Longrightarrow>
    client_step P E N (cl, s) (cl1, s1)"
| step_SetInterface: "Client_SetInterface P E N pipe interface cl s = Some (Mem (v17, cl1, s1)) \<Longrightarrow>
    client_step P E N (cl, s) (cl1, s1)"
| step_GetRawDescriptors: "Client_GetRawDescriptors P E N pipe bufferData cl s = Some (Mem (v18, cl1, s1)) \<Longrightarrow>
    client_step P E N (cl, s) (cl1, s1)"
| step_GetFileDescriptor: "Client_GetFileDescriptor P E N pipe fd cl s = Some (Mem (v19, cl1, s1)) \<Longrightarrow>
    client_step P E N (cl, s) (cl1, s1)"
| step_Close: "Client_Close P E N pipe cl s = Some (Mem (v20, cl1, s1)) \<Longrightarrow>
    client_step P E N (cl, s) (cl1, s1)"
| step_PipeRequestWait: "Client_PipeRequestWait P E N pipe wait req cl s = Some (Mem (v21, cl1, s1)) \<Longrightarrow>
    client_step P E N (cl, s) (cl1, s1)"
| step_RequestInitialize: "Client_RequestInitialize P E N req cl s = Some (Mem (v22, cl1, s1)) \<Longrightarrow>
    client_step P E N (cl, s) (cl1, s1)"
| step_RequestFree: "Client_RequestFree P E N req cl s = Some (Mem (v23, cl1, s1)) \<Longrightarrow>
    client_step P E N (cl, s) (cl1, s1)"
| step_RequestAbort: "Client_RequestAbort P E N req cl s = Some (Mem (v24, cl1, s1)) \<Longrightarrow>
    client_step P E N (cl, s) (cl1, s1)"
| step_RequestQueue: "Client_RequestQueue P E N req cl s = Some (Mem (v25, cl1, s1)) \<Longrightarrow>
    client_step P E N (cl, s) (cl1, s1)"
| step_RegBulkCallback: "Client_RegBulkCallback P E N pipe ep cb cl s = Some (Mem (v26, cl1, s1)) \<Longrightarrow>
    client_step P E N (cl, s) (cl1, s1)"
| step_UnRegBulkCallback: "Client_UnRegBulkCallback P E N pipe ep cl s = Some (Mem (v27, cl1, s1)) \<Longrightarrow>
    client_step P E N (cl, s) (cl1, s1)"
| step_BulkRead: "Client_BulkRead P E N pipe ep ashmem cl s = Some (Mem (v28, cl1, s1)) \<Longrightarrow>
    client_step P E N (cl, s) (cl1, s1)"
| step_BulkWrite: "Client_BulkWrite P E N pipe ep ashmem cl s = Some (Mem (v29, cl1, s1)) \<Longrightarrow>
    client_step P E N (cl, s) (cl1, s1)"
| step_BulkCancel: "Client_BulkCancel P E N pipe ep cl s = Some (Mem (v30, cl1, s1)) \<Longrightarrow>
    client_step P E N (cl, s) (cl1, s1)"

lemma call_proxy_keeps:
  "call_proxy N cl s call res = Some (Mem (v, cl1, s1)) \<Longrightarrow> cl1 = cl"
  by (auto simp: call_proxy_def run_bind_def cl_return_def split: option.splits mem.splits)

lemma client_step_keeps:
  assumes "client_step P E N (cl, s) (cl1, s1)" and "cl_proxy cl = Some h"
  shows "cl1 = cl"
  using assms
  by cases (auto simp: client_defs connected_simps cl_return_def split: if_splits dest: call_proxy_keeps)

interpretation kept_proxy: step_invariant "client_step P E N" "\<lambda>x. fst x = cl \<and> cl_proxy cl \<noteq> None"
  by unfold_locales (auto dest: client_step_keeps)

lemma client_steps_keep:
  assumes "(client_step P E N)\<^sup>*\<^sup>* (cl, s) (cl1, s1)" and "cl_proxy cl = Some h"
  shows "cl1 = cl"
  using kept_proxy.steps_inv [OF assms(1), of cl] assms(2) by simp

text \<open>Every request to the remote object fails with the same code and changes nothing.\<close>

definition fails_with :: "i32 \<Rightarrow> ('p, 's) sender \<Rightarrow> bool" where
  "fails_with err send \<longleftrightarrow> (\<forall>code data reply t. send code data reply t = Some (Mem ((err, reply), t)))"

lemma failing_request:
  "fails_with err send \<Longrightarrow> SendRequest P send code data s k = k err (p_empty P) s"
  by (simp add: fails_with_def SendRequest_def after_request_def)

lemma link_message_total:
  "ipc_link P E items \<Longrightarrow> with_message P (Some send) r1 r2 k =
     k send (snd (p_Write P (PToken IUsbSrv_GetDescriptor) (p_empty P)))"
  by (simp add: with_message_def write_ret_total)

lemma link_buffers_total:
  assumes "ipc_link P E items"
  shows "fst (SetDeviceMessage P E b a p) = UEC_OK E" and "fst (SetBufferMessage P E bytes p) = UEC_OK E"
  by (simp_all add: SetDeviceMessage_def SetBufferMessage_def Let_def write_ret_total [OF assms])

lemmas proxy_defs =
  Proxy_GetDevices_def Proxy_OpenDevice_def Proxy_HasRight_def Proxy_RequestRight_def Proxy_RemoveRight_def
  Proxy_GetCurrentFunctions_def Proxy_SetCurrentFunctions_def Proxy_UsbFunctionsFromString_def
  Proxy_UsbFunctionsToString_def Proxy_GetPorts_def Proxy_GetSupportedModes_def Proxy_SetPortRole_def
  Proxy_ClaimInterface_def Proxy_ReleaseInterface_def Proxy_SetActiveConfig_def Proxy_SetInterface_def
  Proxy_RequestCancel_def Proxy_Close_def Proxy_GetRawDescriptor_def Proxy_GetFileDescriptor_def
  Proxy_BulkTransferRead_def Proxy_BulkTransferWrite_def Proxy_ControlTransfer_def Proxy_RequestQueue_def
  Proxy_RequestWait_def Proxy_RegBulkCallback_def Proxy_UnRegBulkCallback_def Proxy_BulkRead_def
  Proxy_BulkWrite_def Proxy_BulkCancel_def with_device_message_def with_pipe_message_def write_pipe_def

text \<open>
  C38: A connected client stays with its proxy: whatever operations it performs, it never asks for the
  service again.  So when the service behind the proxy has died and every request to it fails
  with an error, every operation of the client goes on failing, also when the system has a new
  service to offer.  Most return the error of the request; the query of a right and closing
  answer false, the text of functions is empty and functions from a text are the code of an invalid value.
  Nothing the caller passed is changed.  Only a death notice for exactly this remote object makes the client
  connect again.
\<close>

theorem client_stays_with_dead_service:
  assumes "(client_step P E N)\<^sup>*\<^sup>* (cl, s) (cl1, s1)" and "cl_proxy cl = Some h"
    and "ipc_link P E items" and "ce_remote N h = Some dead" and "fails_with err dead" and "err \<noteq> UEC_OK E"
    and "ce_AsObject N h = Some r"
  shows "Client_OpenDevice P E N device pipe cl1 s1 = cl_return (err, pipe) cl s1 \<and>
    Client_HasRight P E N name cl1 s1 = cl_return False cl s1 \<and>
    Client_RequestRight P E N name cl1 s1 = cl_return err cl s1 \<and>
    Client_RemoveRight P E N name cl1 s1 = cl_return err cl s1 \<and>
    Client_GetDevices P E N junk junk_dev devices cl1 s1 = cl_return (err, devices) cl s1 \<and>
    Client_GetCurrentFunctions P E N funcs cl1 s1 = cl_return (err, funcs) cl s1 \<and>
    Client_SetCurrentFunctions P E N funcs cl1 s1 = cl_return err cl s1 \<and>
    Client_UsbFunctionsFromString P E N names cl1 s1 = cl_return (UEC_INTERFACE_INVALID_VALUE E) cl s1 \<and>
    Client_UsbFunctionsToString P E N funcs cl1 s1 = cl_return '''' cl s1 \<and>
    Client_GetPorts P E N ports cl1 s1 = cl_return (err, ports) cl s1 \<and>
    Client_GetSupportedModes P E N portId modes cl1 s1 = cl_return (err, modes) cl s1 \<and>
    Client_SetPortRole P E N portId powerRole dataRole cl1 s1 = cl_return err cl s1 \<and>
    Client_ClaimInterface P E N pipe interface force cl1 s1 = cl_return err cl s1 \<and>
    Client_ReleaseInterface P E N pipe interface cl1 s1 = cl_return err cl s1 \<and>
    Client_BulkTransfer P E N pipe ep bytes timeOut cl1 s1 = cl_return (err, bytes) cl s1 \<and>
    Client_ControlTransfer P E N pipe ctrl bytes cl1 s1 = cl_return (err, bytes) cl s1 \<and>
    Client_SetConfiguration P E N pipe config cl1 s1 = cl_return err cl s1 \<and>
    Client_SetInterface P E N pipe interface cl1 s1 = cl_return err cl s1 \<and>
    Client_GetRawDescriptors P E N pipe bytes cl1 s1 = cl_return (err, bytes) cl s1 \<and>
    Client_GetFileDescriptor P E N pipe fd cl1 s1 = cl_return (err, fd) cl s1 \<and>
    Client_Close P E N pipe cl1 s1 = cl_return False cl s1 \<and>
    Client_PipeRequestWait P E N pipe wait req cl1 s1 = cl_return (err, req) cl s1 \<and>
    Client_RequestInitialize P E N req cl1 s1 = cl_return err cl s1 \<and>
    Client_RequestFree P E N req cl1 s1 = cl_return err cl s1 \<and>
    Client_RequestAbort P E N req cl1 s1 = cl_return err cl s1 \<and>
    Client_RequestQueue P E N req cl1 s1 = cl_return err cl s1 \<and>
    Client_RegBulkCallback P E N pipe ep cb cl1 s1 = cl_return err cl s1 \<and>
    Client_UnRegBulkCallback P E N pipe ep cl1 s1 = cl_return err cl s1 \<and>
    Client_BulkRead P E N pipe ep ashmem cl1 s1 = cl_return err cl s1 \<and>
    Client_BulkWrite P E N pipe ep ashmem cl1 s1 = cl_return err cl s1 \<and>
    Client_BulkCancel P E N pipe ep cl1 s1 = cl_return err cl s1 \<and>
    (\<forall>remote. remote \<noteq> Some r \<longrightarrow> OnRemoteDied N remote cl1 s1 = (cl, s1)) \<and>
    cl_proxy (fst (OnRemoteDied N (Some r) cl1 s1)) = None"
proof -
  have cl: "cl1 = cl" by (rule client_steps_keep [OF assms(1,2)])
  have died: "(\<forall>remote. remote \<noteq> Some r \<longrightarrow> OnRemoteDied N remote cl s1 = (cl, s1)) \<and>
      cl_proxy (fst (OnRemoteDied N (Some r) cl s1)) = None"
    by (auto simp: OnRemoteDied_def ResetProxy_def assms(2,7))
  note request = link_message_total [OF assms(3)] write_ret_total [OF assms(3)] link_buffers_total [OF assms(3)]
    failing_request [OF assms(5)]
  show ?thesis
    unfolding cl using died assms(6) ipc_linkD(3) [OF assms(3)] GetDirection_cases [of ep]
    by (elim disjE; simp add: client_defs with_connection_connected [OF assms(2)]
        when_connected_connected [OF assms(2)] call_proxy_def assms(2,4) proxy_defs request returns_def run_bind_def
        INVALID_STRING_VALUE_def Let_def split_beta)
qed

definition dead_service :: "('p, 's) sender" where
  "dead_service code data reply t = Some (Mem ((29189, reply), t))"

theorem client_stays_with_dead_service_witness:
  "Client_GetDevices list_parcel sample_codes (sample_env_of dead_service) 0 UsbDevice_zero []
      sample_client () = cl_return (29189, []) sample_client () \<and>
    Client_HasRight list_parcel sample_codes (sample_env_of dead_service) ''1-2'' sample_client () =
      cl_return False sample_client () \<and>
    Client_RequestRight list_parcel sample_codes (sample_env_of dead_service) ''1-2'' sample_client () =
      cl_return 29189 sample_client ()"
proof -
  have step: "(client_step list_parcel sample_codes (sample_env_of dead_service))\<^sup>*\<^sup>*
      (sample_client, ()) (sample_client, ())" by simp
  have c: "cl_proxy sample_client = Some 7" "ce_remote (sample_env_of dead_service) 7 = Some dead_service"
    "ce_AsObject (sample_env_of dead_service) 7 = Some 7"
    by (simp_all add: sample_client_def sample_env_of_def)
  have dead: "fails_with 29189 (dead_service :: (pitem list, unit) sender)"
    by (simp add: fails_with_def dead_service_def)
  have err: "(29189 :: i32) \<noteq> UEC_OK sample_codes" by (simp add: sample_codes_def)
  show ?thesis
    using client_stays_with_dead_service [OF step c(1) list_link c(2) dead err c(3), where junk = 0 and
        junk_dev = UsbDevice_zero and devices = "[]" and name = "''1-2''"] by simp
qed

end
