(* ===== verification/Usb_Consent.thy ===== *)
theory Usb_Consent
  imports Usb_Client_Props
begin

text \<open>
  The promise of the permission dialog, for the service as a whole: requests for rights on several
  threads, which wait for the user, interleave with everything else the service does, and still
  no application opens a device for which the user did not allow it.
\<close>

section \<open>What leaves the rights alone\<close>

named_theorems keeps_right

lemma OnStart_right [keeps_right]: "OnStart E x sv w = (sv1, w1) \<Longrightarrow> sv_right sv1 = sv_right sv"
proof -
  assume start: "OnStart E x sv w = (sv1, w1)"
  obtain ok sv2 w2 where 1: "Service_Init x sv w = ((ok, sv2), w2)" by (metis surj_pair)
  obtain b sv3 w3 where 2: "start_loop E x 0 sv2 w2 = ((b, sv3), w3)" by (metis surj_pair)
  have "sv_right sv2 = sv_right sv" "sv_right sv3 = sv_right sv2"
    using Service_Init_same [of sv x w] start_loop_same [of sv2 E x 0 w2] by (simp_all add: 1 2 same_managers_def)
  with start show ?thesis by (auto simp: OnStart_def 1 2 split: if_splits option.splits prod.splits)
qed

lemma client_calls_right [keeps_right]:
  "OnStop x sv w = (sv1, w1) \<Longrightarrow> sv_right sv1 = sv_right sv"
  "Service_SetCurrentFunctions E x f sv w = ((r, sv1), w1) \<Longrightarrow> sv_right sv1 = sv_right sv"
  "Service_GetPorts E x ports sv w = ((res, sv1), w1) \<Longrightarrow> sv_right sv1 = sv_right sv"
  "PortChangedEvent E x i p d m (Some sv) w = ((r, Some sv1), w1) \<Longrightarrow> sv_right sv1 = sv_right sv"
  by (auto simp: OnStop_def Service_SetCurrentFunctions_def Service_GetPorts_def PortChangedEvent_def
      Service_UpdateUsbPort_def Let_def split: if_splits option.splits prod.splits)

lemmas DeviceEvent_keeps [keeps_right] = DeviceEvent_right

section \<open>The system\<close>

text \<open>
  The service, the threads in \<open>RequestRight\<close>, the pairs of device and application the user ever
  allowed (an observer's record that no step reads), and the world.
\<close>

type_synonym 'w system = "UsbService \<times> right_thread list \<times> (string \<times> string) set \<times> 'w"

inductive system_step ::
  "usbd_layout \<Rightarrow> uec_codes \<Rightarrow> usbd_acts \<Rightarrow> 'w ext \<Rightarrow> 'w system \<Rightarrow> 'w system \<Rightarrow> bool"
  for L :: usbd_layout and E :: uec_codes and A :: usbd_acts and x :: "'w ext" where
  rights: "sv_right sv = Some rm \<Longrightarrow> right_step E x (rm, ts, al, w) (rm1, ts1, al1, w1) \<Longrightarrow>
    system_step L E A x (sv, ts, al, w) (sv\<lparr>sv_right := Some rm1\<rparr>, ts1, al1, w1)"
| start: "OnStart E x sv w = (sv1, w1) \<Longrightarrow> system_step L E A x (sv, ts, al, w) (sv1, ts, al, w1)"
| stop: "OnStop x sv w = (sv1, w1) \<Longrightarrow> system_step L E A x (sv, ts, al, w) (sv1, ts, al, w1)"
| set_functions: "Service_SetCurrentFunctions E x f sv w = ((r, sv1), w1) \<Longrightarrow>
    system_step L E A x (sv, ts, al, w) (sv1, ts, al, w1)"
| get_ports: "Service_GetPorts E x ports sv w = ((res, sv1), w1) \<Longrightarrow>
    system_step L E A x (sv, ts, al, w) (sv1, ts, al, w1)"
| port_event: "PortChangedEvent E x i p d m (Some sv) w = ((r, Some sv1), w1) \<Longrightarrow>
    system_step L E A x (sv, ts, al, w) (sv1, ts, al, w1)"
| device_event: "DeviceEvent L E A x info (Some sv) w = Some (Mem ((r, Some sv1), w1)) \<Longrightarrow>
    system_step L E A x (sv, ts, al, w) (sv1, ts, al, w1)"

text \<open>The requests that change the rights are such steps, however many threads are waiting.\<close>

lemma put_right_back: "sv_right sv = Some rm \<Longrightarrow> sv\<lparr>sv_right := Some rm\<rparr> = sv"
  by (cases sv) simp

lemma RemoveRight_is_step:
  assumes "sv_right sv \<noteq> None"
  shows "system_step L E A x (sv, ts, al, w) (snd (Service_RemoveRight E d sv), ts, al, w)"
proof -
  obtain rm where rm: "sv_right sv = Some rm" using assms by blast
  obtain r rm1 where remove: "RightManager_RemoveDeviceRight d rm = (r, rm1)" by (metis surj_pair)
  from system_step.rights [OF rm right_step.revoke [OF remove]] show ?thesis
    by (simp add: Service_RemoveRight_def rm remove)
qed

lemma RequestRight_steps:
  assumes "sv_right sv = Some rm" and "RightManager_RequestRight E x d b rm w = Some ((r, rm1), w1)"
  shows "\<exists>al1. (system_step L E A x)\<^sup>*\<^sup>* (sv, ts, al, w) (sv\<lparr>sv_right := Some rm1\<rparr>, ts, al1, w1)"
proof -
  consider (same) "rm1 = rm" "w1 = w" | (asked) "\<not> RightManager_HasRight d b rm" "\<not> 0 \<le>s rm_dialogId rm"
    using assms(2)
    by (auto simp: RightManager_RequestRight_def GetUserAgreementByDiag_def after_agreement_def split: if_splits)
  then show ?thesis
  proof cases
    case same
    then show ?thesis
      using system_step.rights [OF assms(1) right_step.others, of L E A x ts al w w] by (simp add: put_right_back assms(1)) blast
  next
    case asked
    obtain ans rm2 w2 where shown: "show_dialog x d b rm w = ((ans, rm2), w2)" by (metis surj_pair)
    with asked assms(2) obtain cb event where ans: "ans = Some (cb, event)"
      by (auto simp: RightManager_RequestRight_def GetUserAgreementByDiag_def split: option.splits)
    obtain a rm3 w3 where answer: "dialog_callback x cb event False rm2 w2 = ((a, rm3), w3)" by (metis surj_pair)
    have finish: "after_agreement E d b a rm3 = (r, rm1)" "w3 = w1"
      using asked assms(2) by (auto simp: RightManager_RequestRight_def GetUserAgreementByDiag_def shown ans answer)
    let ?sv = "\<lambda>rm. sv\<lparr>sv_right := Some rm\<rparr>"
    let ?al = "if event = ''EVENT_ALLOW'' then insert (d, b) al else al"
    have "system_step L E A x (sv, ts, al, w) (?sv rm2, (d, b, Asking) # ts, al, w2)"
      by (rule system_step.rights [OF assms(1) right_step.ask [OF asked shown]])
    moreover have "system_step L E A x (?sv rm2, (d, b, Asking) # ts, al, w2)
        (?sv rm3, (d, b, Answered a) # ts, ?al, w3)"
      using system_step.rights [OF _ right_step.answer [OF answer, where us = "[]" and vs = ts], of "?sv rm2"] by simp
    moreover have "system_step L E A x (?sv rm3, (d, b, Answered a) # ts, ?al, w3) (?sv rm1, ts, ?al, w3)"
      using system_step.rights [OF _ right_step.finish [OF finish(1), where us = "[]" and vs = ts], of "?sv rm3"] by auto
    ultimately show ?thesis
      using finish(2) by (meson converse_rtranclp_into_rtranclp r_into_rtranclp)
  qed
qed

lemma Service_RequestRight_steps:
  assumes "sv_right sv \<noteq> None" and "Service_RequestRight E x d sv w = Some ((r, sv1), w1)"
  shows "\<exists>al1. (system_step L E A x)\<^sup>*\<^sup>* (sv, ts, al, w) (sv1, ts, al1, w1)"
proof -
  obtain rm where rm: "sv_right sv = Some rm" using assms(1) by blast
  obtain ok b w0 where caller: "GetBundleName x '''' w = ((ok, b), w0)" by (metis surj_pair)
  have world: "system_step L E A x (sv, ts, al, w) (sv, ts, al, w0)"
    using system_step.rights [OF rm right_step.others, of L E A x ts al w w0] by (simp add: put_right_back rm)
  show ?thesis
  proof (cases ok)
    case True
    with assms(2) obtain rm1 where "RightManager_RequestRight E x d b rm w0 = Some ((r, rm1), w1)"
      and "sv1 = sv\<lparr>sv_right := Some rm1\<rparr>"
      by (auto simp: Service_RequestRight_def caller rm split: option.splits)
    with RequestRight_steps [OF rm this(1), of L A ts al] world show ?thesis
      by (meson converse_rtranclp_into_rtranclp)
  next
    case False
    with assms(2) world show ?thesis by (auto simp: Service_RequestRight_def caller)
  qed
qed

section \<open>Consent\<close>

definition system_inv :: "'w system \<Rightarrow> bool" where
  "system_inv s \<longleftrightarrow> (case s of (sv, ts, al, w) \<Rightarrow>
     (case sv_right sv of None \<Rightarrow> False | Some rm \<Rightarrow> consent_inv (rm, ts, al, w)))"

lemma consent_world: "consent_inv (rm, ts, al, w) \<Longrightarrow> consent_inv (rm, ts, al, w1)"
  by (simp add: consent_inv_def)

lemma system_step_inv:
  assumes "codes_ok E" and "system_step L E A x s s1" and "system_inv s"
  shows "system_inv s1"
  using assms(2)
proof cases
  case (rights sv rm ts al w rm1 ts1 al1 w1)
  with assms(3) consent_step [OF assms(1) rights(4)] show ?thesis by (simp add: system_inv_def)
qed (use assms(3) in \<open>auto simp: system_inv_def dest!: keeps_right split: option.splits intro: consent_world\<close>)

lemma system_consent:
  assumes "codes_ok E" and "(system_step L E A x)\<^sup>*\<^sup>* (UsbService_new, [], {}, w0) (sv, ts, al, w)"
  obtains rm where "sv_right sv = Some rm" and "rights rm \<subseteq> al"
proof -
  have inv: "step_invariant (system_step L E A x) system_inv"
    by unfold_locales (rule system_step_inv [OF assms(1)])
  have "system_inv (UsbService_new, [], {}, w0)"
    by (simp add: system_inv_def UsbService_new_def consent_inv_def)
  from step_invariant.steps_inv [OF inv assms(2) this] that show thesis
    by (auto simp: system_inv_def consent_inv_def split: option.splits)
qed

text \<open>
  Whatever threads ask for rights, users answer and applications revoke, and whatever else happens
  to the service, in any order: an application whose user never allowed it the device does not
  open it.  Its client library answers permission denied, and the driver is not asked.
\<close>

theorem no_open_without_consent:
  assumes "codes_ok E" and "ipc_link P E items" and "connected_to C cl (service_remote P E x base junk)"
    and "(system_step L E A x)\<^sup>*\<^sup>* (UsbService_new, [], {}, w0) (sv, ts, allowed, w)"
    and "(device_name (dev_busNum device) (dev_devAddr device), caller_bundle x w) \<notin> allowed"
  shows "Client_OpenDevice P E C device pipe cl (sv, w) =
    cl_return (UEC_SERVICE_PERMISSION_DENIED E, pipe) cl (sv, snd (GetBundleName x '''' w))"
proof -
  obtain rm where rm: "sv_right sv = Some rm" "rights rm \<subseteq> allowed"
    by (rule system_consent [OF assms(1,4)])
  have "UEC_SERVICE_PERMISSION_DENIED E \<noteq> UEC_OK E" using assms(1) by (simp add: codes_ok_def)
  with rm(2) assms(5) client_OpenDevice_guarded [OF assms(2,3) rm(1), of device pipe w] show ?thesis
    by (auto simp: Let_def)
qed

text \<open>The runs of the right manager alone are runs of the system.\<close>

lemma right_reachable_system:
  "right_reachable E x s \<Longrightarrow> (case s of (rm, ts, al, w) \<Rightarrow> \<exists>w0. (system_step L E A x)\<^sup>*\<^sup>*
     (UsbService_new, [], {}, w0) (UsbService_new\<lparr>sv_right := Some rm\<rparr>, ts, al, w))"
proof (induction rule: right_reachable.induct)
  case (start w)
  have "UsbService_new\<lparr>sv_right := Some UsbRightManager_new\<rparr> = UsbService_new" by (simp add: UsbService_new_def)
  then show ?case by auto
next
  case (step s s1)
  obtain rm ts al w rm1 ts1 al1 w1 where s: "s = (rm, ts, al, w)" "s1 = (rm1, ts1, al1, w1)"
    by (metis surj_pair)
  from step.IH obtain w0 where "(system_step L E A x)\<^sup>*\<^sup>* (UsbService_new, [], {}, w0)
      (UsbService_new\<lparr>sv_right := Some rm\<rparr>, ts, al, w)" by (auto simp: s)
  moreover have "system_step L E A x (UsbService_new\<lparr>sv_right := Some rm\<rparr>, ts, al, w)
      (UsbService_new\<lparr>sv_right := Some rm1\<rparr>, ts1, al1, w1)"
    using system_step.rights [OF _ step.hyps(2) [unfolded s], of "UsbService_new\<lparr>sv_right := Some rm\<rparr>"] by simp
  ultimately show ?case by (auto simp: s intro: rtranclp.rtrancl_into_rtrancl)
qed

text \<open>The application com.b, after the user allowed com.a the device 1-2.\<close>

theorem no_open_without_consent_witness:
  "Client_OpenDevice list_parcel sample_codes (sample_env_of sample_send)
      (UsbDevice_zero\<lparr>dev_busNum := 1, dev_devAddr := 2\<rparr>) \<lparr>dp_busNum = 9, dp_devAddr = 9\<rparr> sample_client
      (UsbService_new\<lparr>sv_right := Some granted_rm\<rparr>, sample_state\<lparr>sw_caller := ''com.b''\<rparr>) =
    cl_return (102, \<lparr>dp_busNum = 9, dp_devAddr = 9\<rparr>) sample_client
      (UsbService_new\<lparr>sv_right := Some granted_rm\<rparr>, sample_state\<lparr>sw_caller := ''com.b''\<rparr>)"
proof -
  let ?w = "sample_state\<lparr>sw_caller := ''com.b''\<rparr>"
  have "right_reachable sample_codes sample_ext (granted_rm, [], {(''1-2'', ''com.a'')}, ?w)"
    by (rule right_reachable.step [OF granted_reachable right_step.others])
  from right_reachable_system [OF this] obtain w0 where
    run: "(system_step usb20_layout sample_codes sample_acts sample_ext)\<^sup>*\<^sup>* (UsbService_new, [], {}, w0)
      (UsbService_new\<lparr>sv_right := Some granted_rm\<rparr>, [], {(''1-2'', ''com.a'')}, ?w)"
    by auto
  have caller: "caller_bundle sample_ext ?w = ''com.b''" "snd (GetBundleName sample_ext '''' ?w) = ?w"
    "UEC_SERVICE_PERMISSION_DENIED sample_codes = 102"
    by code_simp+
  show ?thesis
    using no_open_without_consent [OF codes_ok_sample list_link
        sample_connected [of sample_send, unfolded sample_send_def] run,
        where device = "UsbDevice_zero\<lparr>dev_busNum := 1, dev_devAddr := 2\<rparr>" and pipe = "\<lparr>dp_busNum = 9, dp_devAddr = 9\<rparr>"]
    by (simp add: caller sample_send_def)
qed

section \<open>What the dialog shows\<close>

text \<open>
  The names are put into the parameters of the dialog as they are.  The parameters tell which device and
  which application are meant as long as no name has a quotation mark; but the name of the device
  comes from the application, which can make up a second member \<open>bundleName\<close>.  \<open>Usb_Dialog\<close> follows
  the parameters to the page.
\<close>

lemma quoted_split:
  "q \<notin> set a \<Longrightarrow> q \<notin> set b \<Longrightarrow> a @ q # s = b @ q # t \<longleftrightarrow> a = b \<and> s = t"
proof (induction a arbitrary: b)
  case Nil
  then show ?case by (cases b) auto
next
  case (Cons c a)
  then show ?case by (cases b) auto
qed

theorem dialog_params_eq_iff:
  assumes "CHR 0x22 \<notin> set d" and "CHR 0x22 \<notin> set b" and "CHR 0x22 \<notin> set d1" and "CHR 0x22 \<notin> set b1"
  shows "dialog_params d b = dialog_params d1 b1 \<longleftrightarrow> d = d1 \<and> b = b1"
  using assms by (auto simp: dialog_params_def quoted_split)

theorem dialog_params_forged:
  \<open>dialog_params (d @ ''", "bundleName":"'' @ b1) b =
     ''{"bundleName":"'' @ b @ ''", "deviceName":"'' @ d @ ''", "bundleName":"'' @ b1 @ ''"}''\<close>
  by (simp add: dialog_params_def)

end
