(* ===== verification/Usb_Js.thy ===== *)
theory Usb_Js
  imports Usb_Client "HOL-Library.State_Monad"
begin

text \<open>
  The JavaScript engine as far as the bindings (\<open>interfaces/kits/js/napi\<close>) use it, and the
  conversions of \<open>napi_util.cpp\<close>.  The engine is not part of the repository: its N-API functions
  are the parameter \<open>napi\<close>.
\<close>

section \<open>Values and the engine\<close>

text \<open>The values the bindings build; a promise is named by its deferred.\<close>

datatype js =
  JsUndefined
| JsBool bool
| JsInt i32
| JsUint u32
| JsString string
| JsObject "(string \<times> js) list"
| JsArray "js list"
| JsUint8Array "u8 list"
| JsPromise nat

datatype napi_valuetype =
  napi_undefined | napi_null | napi_boolean | napi_number | napi_string | napi_symbol | napi_object |
  napi_function | napi_external | napi_bigint

text \<open>
  \<open>'v\<close> are handles of values of the engine and \<open>'e\<close> its state, with the memory of buffers.  A
  result \<open>None\<close> is a status other than \<open>napi_ok\<close>, with which the function leaves its out
  parameter alone; functions that may run code of the application change the state.  \<open>n_value\<close>
  is the handle of a value the bindings built.  \<open>n_assert_failed\<close> is what the macros \<open>NAPI_ASSERT\<close>,
  \<open>NAPI_ASSERT_RETURN_VOID\<close> and \<open>NAPI_ASSERT_BASE\<close> do with their message when the condition is
  false, before they return; \<open>n_throw_last\<close> the same of \<open>NAPI_CALL\<close>.  \<open>n_uninit\<close> and
  \<open>n_uninit_type\<close> to \<open>n_uninit_device\<close> are what local variables hold before their first assignment.  Pointers are
  numbers, the null pointer is \<open>None\<close>.
\<close>

record ('v, 'e) napi =
  n_value :: "js \<Rightarrow> 'v"
  n_uninit :: 'v
  n_uninit_type :: napi_valuetype
  n_uninit_int :: i32
  n_uninit_pipe :: USBDevicePipe
  n_uninit_device :: UsbDevice
  n_typeof :: "'v \<Rightarrow> 'e \<Rightarrow> napi_valuetype option"
  n_has_named_property :: "'v \<Rightarrow> string \<Rightarrow> 'e \<Rightarrow> bool option \<times> 'e"
  n_get_named_property :: "'v \<Rightarrow> string \<Rightarrow> 'e \<Rightarrow> 'v option \<times> 'e"
  n_get_value_int32 :: "'v \<Rightarrow> 'e \<Rightarrow> i32 option"
  n_get_value_uint32 :: "'v \<Rightarrow> 'e \<Rightarrow> u32 option"
  n_get_value_bool :: "'v \<Rightarrow> 'e \<Rightarrow> bool option"
  n_get_value_string_utf8 :: "'v \<Rightarrow> nat \<Rightarrow> 'e \<Rightarrow> string option"
  n_is_array :: "'v \<Rightarrow> 'e \<Rightarrow> bool option"
  n_get_array_length :: "'v \<Rightarrow> 'e \<Rightarrow> u32 option"
  n_get_element :: "'v \<Rightarrow> u32 \<Rightarrow> 'e \<Rightarrow> 'v option \<times> 'e"
  n_is_typedarray :: "'v \<Rightarrow> 'e \<Rightarrow> bool option"
  n_get_typedarray_info :: "'v \<Rightarrow> 'e \<Rightarrow> (bool \<times> nat \<times> nat option) option"
  n_assert_failed :: "string \<Rightarrow> 'e \<Rightarrow> 'e"
  n_throw_last :: "'e \<Rightarrow> 'e"
  n_throw_error :: "string \<Rightarrow> 'e \<Rightarrow> 'e"
  n_create_promise :: "'e \<Rightarrow> nat option \<times> 'e"
  n_resolve_deferred :: "nat \<Rightarrow> js \<Rightarrow> 'e \<Rightarrow> 'e"
  n_reject_deferred :: "nat \<Rightarrow> js \<Rightarrow> 'e \<Rightarrow> 'e"
  n_create_async_work :: "'e \<Rightarrow> bool \<times> 'e"
  n_alloc :: "'e \<Rightarrow> bool \<times> 'e"
  n_new :: "nat \<Rightarrow> 'e \<Rightarrow> nat option \<times> 'e"
  n_create_arraybuffer :: "nat \<Rightarrow> 'e \<Rightarrow> nat option \<times> 'e"
  n_delete :: "nat option \<Rightarrow> 'e \<Rightarrow> 'e"
  n_read :: "nat option \<Rightarrow> nat \<Rightarrow> 'e \<Rightarrow> u8 list"
  n_memset_s :: "nat \<Rightarrow> 'e \<Rightarrow> bool"
  n_memcpy_s :: "nat option \<Rightarrow> nat \<Rightarrow> u8 list \<Rightarrow> 'e \<Rightarrow> i32 \<times> 'e"

text \<open>The success code of the bounds-checking C functions.\<close>

definition EOK :: i32 where "EOK = 0"

text \<open>Calls that leave the variable \<open>old\<close> alone when they fail.\<close>

definition typeof_or :: "('v, 'e) napi \<Rightarrow> napi_valuetype \<Rightarrow> 'v \<Rightarrow> 'e \<Rightarrow> napi_valuetype" where
  "typeof_or N old v e = (case n_typeof N v e of None \<Rightarrow> old | Some t \<Rightarrow> t)"

definition get_int32_or :: "('v, 'e) napi \<Rightarrow> i32 \<Rightarrow> 'v \<Rightarrow> 'e \<Rightarrow> i32" where
  "get_int32_or N old v e = (case n_get_value_int32 N v e of None \<Rightarrow> old | Some x \<Rightarrow> x)"

definition reads :: "('e \<Rightarrow> 'a) \<Rightarrow> ('e, 'a) state" where
  "reads f = State (\<lambda>e. (f e, e))"

definition modifies :: "('e \<Rightarrow> 'e) \<Rightarrow> ('e, unit) state" where
  "modifies f = State (\<lambda>e. ((), f e))"

definition has_property :: "('v, 'e) napi \<Rightarrow> 'v \<Rightarrow> string \<Rightarrow> ('e, bool) state" where
  "has_property N obj field = do {
     has \<leftarrow> State (n_has_named_property N obj field);
     State_Monad.return (case has of None \<Rightarrow> False | Some b \<Rightarrow> b) }"

definition property_or :: "('v, 'e) napi \<Rightarrow> 'v \<Rightarrow> 'v \<Rightarrow> string \<Rightarrow> ('e, 'v) state" where
  "property_or N old obj field = do {
     got \<leftarrow> State (n_get_named_property N obj field);
     State_Monad.return (case got of None \<Rightarrow> old | Some v \<Rightarrow> v) }"

text \<open>\<open>NAPI_ASSERT_RETURN_VOID\<close> and \<open>NAPI_ASSERT_BASE\<close> in a conversion that gives \<open>fail\<close>.\<close>

definition assert_or :: "('v, 'e) napi \<Rightarrow> bool \<Rightarrow> string \<Rightarrow> 'a \<Rightarrow> ('e, 'a) state \<Rightarrow> ('e, 'a) state" where
  "assert_or N cond msg fail k =
     (if cond then k else do { modifies (n_assert_failed N msg); State_Monad.return fail })"

section \<open>From JavaScript\<close>

definition MAX_STR_LENGTH :: i32 where "MAX_STR_LENGTH = 1024"

text \<open>
  The out parameter is an argument and the result.  The buffer has one byte more than \<open>bufLen\<close> and
  is cleared first; the text ends at the first null byte.
\<close>

definition buffer_text :: "('v, 'e) napi \<Rightarrow> 'v \<Rightarrow> i32 \<Rightarrow> 'e \<Rightarrow> string" where
  "buffer_text N v actBufLen e =
     takeWhile (\<lambda>c. c \<noteq> CHR 0x00)
       (case n_get_value_string_utf8 N v (unat actBufLen) e of None \<Rightarrow> '''' | Some t \<Rightarrow> t)"

definition JsValueToString :: "('v, 'e) napi \<Rightarrow> 'v \<Rightarrow> i32 \<Rightarrow> string \<Rightarrow> ('e, string) state" where
  "JsValueToString N v bufLen target =
     (if bufLen \<le>s 0 \<or> MAX_STR_LENGTH <s bufLen then State_Monad.return target
      else do {
        ok \<leftarrow> reads (n_memset_s N (unat (bufLen + 1)));
        assert_or N ok ''JsValueToString memset_s failed.'' target
          (reads (buffer_text N v (bufLen + 1))) })"

definition JsObjectToString :: "('v, 'e) napi \<Rightarrow> 'v \<Rightarrow> string \<Rightarrow> i32 \<Rightarrow> string \<Rightarrow> ('e, string) state" where
  "JsObjectToString N obj fieldStr bufLen fieldRef =
     (if bufLen \<le>s 0 then State_Monad.return fieldRef
      else do {
        has \<leftarrow> has_property N obj fieldStr;
        if \<not> has then State_Monad.return fieldRef
        else do {
          field \<leftarrow> property_or N (n_uninit N) obj fieldStr;
          valueType \<leftarrow> reads (typeof_or N (n_uninit_type N) field);
          assert_or N (valueType = napi_string) ''Wrong argument type. String expected.'' fieldRef (do {
            ok \<leftarrow> reads (n_memset_s N (unat (bufLen + 1)));
            assert_or N ok ''JsObjectToString memset_s failed.'' fieldRef
              (reads (buffer_text N field (bufLen + 1))) }) } })"

definition JsObjectGetProperty :: "('v, 'e) napi \<Rightarrow> 'v \<Rightarrow> string \<Rightarrow> 'v \<Rightarrow> ('e, bool \<times> 'v) state" where
  "JsObjectGetProperty N obj fieldStr val = do {
     has \<leftarrow> has_property N obj fieldStr;
     if has then do { v \<leftarrow> property_or N val obj fieldStr; State_Monad.return (has, v) }
     else State_Monad.return (has, val) }"

definition JsObjectToInt :: "('v, 'e) napi \<Rightarrow> 'v \<Rightarrow> string \<Rightarrow> i32 \<Rightarrow> ('e, i32) state" where
  "JsObjectToInt N obj fieldStr fieldRef = do {
     has \<leftarrow> has_property N obj fieldStr;
     if \<not> has then State_Monad.return fieldRef
     else do {
       field \<leftarrow> property_or N (n_uninit N) obj fieldStr;
       valueType \<leftarrow> reads (typeof_or N (n_uninit_type N) field);
       assert_or N (valueType = napi_number) ''Wrong argument type. Number expected.'' fieldRef
         (reads (get_int32_or N fieldRef field)) } }"

text \<open>Here every status is looked at.\<close>

definition JsObjectToUint :: "('v, 'e) napi \<Rightarrow> 'v \<Rightarrow> string \<Rightarrow> u32 \<Rightarrow> ('e, u32) state" where
  "JsObjectToUint N obj fieldStr fieldRef = do {
     has \<leftarrow> State (n_has_named_property N obj fieldStr);
     if has \<noteq> Some True then State_Monad.return fieldRef
     else do {
       got \<leftarrow> State (n_get_named_property N obj fieldStr);
       case got of
         None \<Rightarrow> State_Monad.return fieldRef
       | Some field \<Rightarrow> do {
           valueType \<leftarrow> reads (n_typeof N field);
           case valueType of
             None \<Rightarrow> State_Monad.return fieldRef
           | Some t \<Rightarrow> assert_or N (t = napi_number) ''Wrong argument type. Number expected.'' fieldRef
               (reads (\<lambda>e. case n_get_value_uint32 N field e of None \<Rightarrow> fieldRef | Some x \<Rightarrow> x)) } } }"

text \<open>
  Buffer and size are set before the element type is looked at, so they are out parameters also
  when the result is \<open>False\<close>.  The offset is not used by any caller.
\<close>

definition JsUint8ArrayParse ::
  "('v, 'e) napi \<Rightarrow> 'v \<Rightarrow> nat option \<Rightarrow> nat \<Rightarrow> 'e \<Rightarrow> bool \<times> nat option \<times> nat" where
  "JsUint8ArrayParse N obj uint8Buffer bufferSize e =
     (if n_is_typedarray N obj e \<noteq> Some True then (False, uint8Buffer, bufferSize)
      else
        (case n_get_typedarray_info N obj e of
           None \<Rightarrow> (False, uint8Buffer, bufferSize)
         | Some (is_uint8, size1, data) \<Rightarrow>
             if \<not> is_uint8 then (False, data, size1)
             else if size1 = 0 then (False, data, size1)
             else (True, data, size1)))"

section \<open>To JavaScript\<close>

text \<open>
  An object is built by setting its properties one after the other.  Creating values and setting
  properties of objects the bindings have just created is taken to succeed.
\<close>

definition SetValueUtf8String :: "string \<Rightarrow> string \<Rightarrow> (string \<times> js) list \<Rightarrow> (string \<times> js) list" where
  "SetValueUtf8String fieldStr str result = result @ [(fieldStr, JsString (takeWhile (\<lambda>c. c \<noteq> CHR 0x00) str))]"

definition SetValueInt32 :: "string \<Rightarrow> i32 \<Rightarrow> (string \<times> js) list \<Rightarrow> (string \<times> js) list" where
  "SetValueInt32 fieldStr intValue result = result @ [(fieldStr, JsInt intValue)]"

definition SetValueUint32 :: "string \<Rightarrow> u32 \<Rightarrow> (string \<times> js) list \<Rightarrow> (string \<times> js) list" where
  "SetValueUint32 fieldStr uintValue result = result @ [(fieldStr, JsUint uintValue)]"

definition SetValueBool :: "string \<Rightarrow> bool \<Rightarrow> (string \<times> js) list \<Rightarrow> (string \<times> js) list" where
  "SetValueBool fieldStr boolValue result = result @ [(fieldStr, JsBool boolValue)]"

text \<open>\<open>None\<close> when copying fails: then \<open>result\<close> keeps the value the caller left uninitialised.\<close>

definition Uint8ArrayToJsValue :: "('v, 'e) napi \<Rightarrow> u8 list \<Rightarrow> nat \<Rightarrow> ('e, js option) state" where
  "Uint8ArrayToJsValue N uint8Buffer bufferSize = do {
     nativeArraybuffer \<leftarrow> State (n_create_arraybuffer N bufferSize);
     ret \<leftarrow> State (n_memcpy_s N nativeArraybuffer bufferSize (take bufferSize uint8Buffer));
     State_Monad.return (if ret \<noteq> EOK then None else Some (JsUint8Array (take bufferSize uint8Buffer))) }"

end
