(* ===== verification/Usb_Json_Read.thy ===== *)
theory Usb_Json_Read
  imports Usb_Json "HOL-Library.Monad_Syntax"
begin

text \<open>
  The constructors of the data classes from a \<open>Json::Value\<close>, and the constructors from the
  members.  How a \<open>Json::Value\<close> is read belongs to the JSON library: member access, the
  conversions and the indexing of arrays are the parameter \<open>json_ops\<close>, where \<open>None\<close> is an
  exception.  What the code relies on is \<open>json_ok\<close>.
\<close>

section \<open>Reading a value\<close>

record json_ops =
  j_member :: "json \<Rightarrow> string \<Rightarrow> json option"
  j_asInt :: "json \<Rightarrow> i32 option"
  j_asUInt :: "json \<Rightarrow> u32 option"
  j_asString :: "json \<Rightarrow> string option"
  j_size :: "json \<Rightarrow> nat"
  j_at :: "json \<Rightarrow> nat \<Rightarrow> json option"

text \<open>
  A member of an object is the value assigned to it; a number is converted when it is in the
  range of the wanted type; null has no elements, an array those that were appended to it.
\<close>

definition json_ok :: "json_ops \<Rightarrow> bool" where
  "json_ok J \<longleftrightarrow>
     (\<forall>ms k v. map_of ms k = Some v \<and> distinct (map fst ms) \<longrightarrow> j_member J (JObj ms) k = Some v) \<and>
     (\<forall>x. j_asInt J (JInt (sint (x :: i32))) = Some x) \<and>
     (\<forall>x. j_asUInt J (JUInt (unat (x :: u32))) = Some x) \<and>
     (\<forall>x. j_asUInt J (JInt (int (unat (x :: u32)))) = Some x) \<and>
     (\<forall>s. j_asString J (JStr s) = Some s) \<and>
     j_size J JNull = 0 \<and> (\<forall>js. j_size J (JArr js) = length js) \<and>
     (\<forall>js n. n < length js \<longrightarrow> j_at J (JArr js) n = Some (js ! n))"

definition member_int :: "json_ops \<Rightarrow> json \<Rightarrow> string \<Rightarrow> i32 option" where
  "member_int J v k = j_member J v k \<bind> j_asInt J"

definition member_uint :: "json_ops \<Rightarrow> json \<Rightarrow> string \<Rightarrow> u32 option" where
  "member_uint J v k = j_member J v k \<bind> j_asUInt J"

definition member_string :: "json_ops \<Rightarrow> json \<Rightarrow> string \<Rightarrow> string option" where
  "member_string J v k = j_member J v k \<bind> j_asString J"

text \<open>The loop that appends an object for every element.\<close>

fun emplace_loop :: "json_ops \<Rightarrow> (json \<Rightarrow> 'a option) \<Rightarrow> json \<Rightarrow> nat list \<Rightarrow> 'a list \<Rightarrow> 'a list option" where
  "emplace_loop J con v [] xs = Some xs"
| "emplace_loop J con v (idx # idxs) xs =
     do { e \<leftarrow> j_at J v idx; y \<leftarrow> con e; emplace_loop J con v idxs (xs @ [y]) }"

definition emplace_all :: "json_ops \<Rightarrow> (json \<Rightarrow> 'a option) \<Rightarrow> json \<Rightarrow> 'a list \<Rightarrow> 'a list option" where
  "emplace_all J con v xs = emplace_loop J con v [0..<j_size J v] xs"

section \<open>Constructors from JSON\<close>

definition USBEndpoint_fromJson :: "json_ops \<Rightarrow> json \<Rightarrow> USBEndpoint option" where
  "USBEndpoint_fromJson J v = do {
     address \<leftarrow> member_uint J v ''address'';
     attributes \<leftarrow> member_uint J v ''attributes'';
     interval \<leftarrow> member_int J v ''interval'';
     maxPacketSize \<leftarrow> member_int J v ''maxPacketSize'';
     interfaceId \<leftarrow> member_uint J v ''interfaceId'';
     Some (USBEndpoint_new\<lparr>ep_address := address, ep_attributes := attributes, ep_interval := interval,
       ep_maxPacketSize := maxPacketSize, ep_interfaceId := ucast interfaceId\<rparr>) }"

definition UsbInterface_fromJson :: "json_ops \<Rightarrow> json \<Rightarrow> UsbInterface option" where
  "UsbInterface_fromJson J v = do {
     i \<leftarrow> member_int J v ''id'';
     protocol \<leftarrow> member_int J v ''protocol'';
     klass \<leftarrow> member_int J v ''clazz'';
     subClass \<leftarrow> member_int J v ''subClass'';
     alternateSetting \<leftarrow> member_int J v ''alternateSetting'';
     name \<leftarrow> member_string J v ''name'';
     endpoints \<leftarrow> j_member J v ''endpoints'';
     eps \<leftarrow> emplace_all J (USBEndpoint_fromJson J) endpoints (if_endpoints UsbInterface_new);
     Some (UsbInterface_new\<lparr>if_id := i, if_protocol := protocol, if_klass := klass,
       if_subClass := subClass, if_alternateSetting := alternateSetting, if_name := name,
       if_endpoints := eps\<rparr>) }"

definition USBConfig_fromJson :: "json_ops \<Rightarrow> json \<Rightarrow> USBConfig option" where
  "USBConfig_fromJson J v = do {
     i \<leftarrow> member_int J v ''id'';
     attributes \<leftarrow> member_uint J v ''attributes'';
     maxPower \<leftarrow> member_int J v ''maxPower'';
     name \<leftarrow> member_string J v ''name'';
     interfaces \<leftarrow> j_member J v ''interfaces'';
     is \<leftarrow> emplace_all J (UsbInterface_fromJson J) interfaces (cfg_interfaces USBConfig_new);
     Some (USBConfig_new\<lparr>cfg_id := i, cfg_attributes := attributes, cfg_maxPower := maxPower,
       cfg_name := name, cfg_interfaces := is\<rparr>) }"

text \<open>The members without an initialiser that the constructor does not set keep \<open>junk\<close>.\<close>

definition UsbDevice_fromJson :: "json_ops \<Rightarrow> UsbDevice \<Rightarrow> json \<Rightarrow> UsbDevice option" where
  "UsbDevice_fromJson J junk v = do {
     busNum \<leftarrow> member_uint J v ''busNum'';
     devAddr \<leftarrow> member_uint J v ''devAddress'';
     serial \<leftarrow> member_string J v ''serial'';
     name \<leftarrow> member_string J v ''name'';
     manufacturerName \<leftarrow> member_string J v ''manufacturerName'';
     productName \<leftarrow> member_string J v ''productName'';
     version \<leftarrow> member_string J v ''version'';
     vendorId \<leftarrow> member_int J v ''vendorId'';
     productId \<leftarrow> member_int J v ''productId'';
     klass \<leftarrow> member_int J v ''clazz'';
     subClass \<leftarrow> member_int J v ''subClass'';
     protocol \<leftarrow> member_int J v ''protocol'';
     configs \<leftarrow> j_member J v ''configs'';
     cs \<leftarrow> emplace_all J (USBConfig_fromJson J) configs (dev_configs (UsbDevice_new junk));
     Some ((UsbDevice_new junk)\<lparr>dev_busNum := ucast busNum, dev_devAddr := ucast devAddr, dev_serial := serial,
       dev_name := name, dev_manufacturerName := manufacturerName, dev_productName := productName,
       dev_version := version, dev_vendorId := vendorId, dev_productId := productId,
       dev_klass := klass, dev_subClass := subClass, dev_protocol := protocol, dev_configs := cs\<rparr>) }"

section \<open>Constructors from the members\<close>

text \<open>\<open>UsbInterface\<close> does not store its argument \<open>name\<close>.\<close>

definition USBEndpoint_of :: "u32 \<Rightarrow> u32 \<Rightarrow> u32 \<Rightarrow> u32 \<Rightarrow> USBEndpoint" where
  "USBEndpoint_of address attributes interval maxPacketSize =
     USBEndpoint_new\<lparr>ep_address := address, ep_attributes := attributes, ep_interval := interval,
       ep_maxPacketSize := maxPacketSize\<rparr>"

definition UsbInterface_of ::
  "i32 \<Rightarrow> i32 \<Rightarrow> i32 \<Rightarrow> i32 \<Rightarrow> i32 \<Rightarrow> string \<Rightarrow> USBEndpoint list \<Rightarrow> UsbInterface" where
  "UsbInterface_of i protocol interfaceClass subClass alternateSetting name endpoints =
     UsbInterface_new\<lparr>if_id := i, if_protocol := protocol, if_klass := interfaceClass,
       if_subClass := subClass, if_alternateSetting := alternateSetting, if_endpoints := endpoints\<rparr>"

definition USBConfig_of :: "u32 \<Rightarrow> u32 \<Rightarrow> string \<Rightarrow> u32 \<Rightarrow> UsbInterface list \<Rightarrow> USBConfig" where
  "USBConfig_of i attributes name maxPower interfaces =
     USBConfig_new\<lparr>cfg_id := i, cfg_attributes := attributes, cfg_maxPower := maxPower,
       cfg_name := name, cfg_interfaces := interfaces\<rparr>"

definition UsbDevice_of ::
  "UsbDevice \<Rightarrow> string \<Rightarrow> string \<Rightarrow> string \<Rightarrow> string \<Rightarrow> u8 \<Rightarrow> u8 \<Rightarrow> i32 \<Rightarrow> i32 \<Rightarrow> i32 \<Rightarrow> i32 \<Rightarrow> i32 \<Rightarrow>
     USBConfig list \<Rightarrow> UsbDevice" where
  "UsbDevice_of junk name manufacturerName productName version devAddr busNum vendorId productId klass subClass
     protocol configs =
     (UsbDevice_new junk)\<lparr>dev_name := name, dev_manufacturerName := manufacturerName,
       dev_productName := productName, dev_version := version, dev_devAddr := devAddr, dev_busNum := busNum,
       dev_vendorId := vendorId, dev_productId := productId, dev_klass := klass, dev_subClass := subClass,
       dev_protocol := protocol, dev_configs := configs\<rparr>"

section \<open>Reading what was written\<close>

lemma json_okD:
  assumes "json_ok J"
  shows "map_of ms k = Some v \<Longrightarrow> distinct (map fst ms) \<Longrightarrow> j_member J (JObj ms) k = Some v"
    and "j_asInt J (json_of_i32 x) = Some x"
    and "j_asUInt J (json_of_u32 y) = Some y"
    and "j_asUInt J (json_of_u8 b) = Some (ucast b)"
    and "j_asString J (JStr s) = Some s"
    and "j_size J (json_array js) = length js"
    and "n < length js \<Longrightarrow> j_at J (json_array js) n = Some (js ! n)"
proof -
  have "unat b < 2 ^ 8" using unsigned_less [of b, where ?'a = nat] by simp
  then have "unat b < 2 ^ 32" by (rule less_trans) simp
  then have "unat (ucast b :: u32) = unat b" by (simp add: unsigned_ucast_eq take_bit_nat_eq_self)
  with assms have "j_asUInt J (JInt (int (unat b))) = Some (ucast b)"
    unfolding json_ok_def by metis
  with assms show "map_of ms k = Some v \<Longrightarrow> distinct (map fst ms) \<Longrightarrow> j_member J (JObj ms) k = Some v"
    and "j_asInt J (json_of_i32 x) = Some x" and "j_asUInt J (json_of_u32 y) = Some y"
    and "j_asUInt J (json_of_u8 b) = Some (ucast b)" and "j_asString J (JStr s) = Some s"
    and "j_size J (json_array js) = length js"
    and "n < length js \<Longrightarrow> j_at J (json_array js) n = Some (js ! n)"
    by (auto simp: json_ok_def json_of_i32_def json_of_u32_def json_of_u8_def json_array_def)
qed

lemma emplace_loop_written:
  assumes "json_ok J" and "\<And>y. y \<in> set ys \<Longrightarrow> con (wr y) = Some (rd y)"
  shows "n \<le> length ys \<Longrightarrow> emplace_loop J con (json_array (map wr ys)) [n..<length ys] xs =
    Some (xs @ map rd (drop n ys))"
proof (induction "length ys - n" arbitrary: n xs)
  case (Suc k)
  then have n: "n < length ys" by simp
  have step: "emplace_loop J con (json_array (map wr ys)) [Suc n..<length ys] (xs @ [rd (ys ! n)]) =
      Some ((xs @ [rd (ys ! n)]) @ map rd (drop (Suc n) ys))"
    using Suc.hyps(2) n by (intro Suc.hyps(1)) simp_all
  from n have "drop n ys = ys ! n # drop (Suc n) ys" by (simp add: Cons_nth_drop_Suc)
  with n step show ?case
    using assms(2) [of "ys ! n"]
    by (simp add: upt_conv_Cons json_okD(7) [OF assms(1)])
qed simp

lemma emplace_all_written:
  assumes "json_ok J" and "\<And>y. y \<in> set ys \<Longrightarrow> con (wr y) = Some (rd y)"
  shows "emplace_all J con (json_array (map wr ys)) [] = Some (map rd ys)"
  using emplace_loop_written [where con = con and wr = wr and rd = rd and ys = ys and n = 0 and xs = "[]", OF assms]
  by (simp add: emplace_all_def json_okD(6) [OF assms(1)])

lemmas member_defs = member_int_def member_uint_def member_string_def

lemma USBEndpoint_fromJson_written:
  assumes "json_ok J"
  shows "USBEndpoint_fromJson J (USBEndpoint_ToJson e) = Some e"
  by (simp add: USBEndpoint_fromJson_def USBEndpoint_ToJson_def member_defs json_okD [OF assms]
      USBEndpoint_new_def ucast_u8_u32)

definition interface_parsed :: "UsbInterface \<Rightarrow> UsbInterface" where
  "interface_parsed i = i\<lparr>if_iInterface := 255\<rparr>"

definition config_parsed :: "USBConfig \<Rightarrow> USBConfig" where
  "config_parsed c = c\<lparr>cfg_iConfiguration := 255, cfg_interfaces := map interface_parsed (cfg_interfaces c)\<rparr>"

definition device_parsed :: "UsbDevice \<Rightarrow> UsbDevice" where
  "device_parsed d = d\<lparr>dev_descConfigCount := 255, dev_bMaxPacketSize0 := 255, dev_bcdUSB := 0xffff,
     dev_bcdDevice := 0xffff, dev_iManufacturer := 255, dev_iProduct := 255, dev_iSerialNumber := 255,
     dev_configs := map config_parsed (dev_configs d)\<rparr>"

lemma UsbInterface_fromJson_written:
  assumes "json_ok J"
  shows "UsbInterface_fromJson J (UsbInterface_ToJson i) = Some (interface_parsed i)"
  by (simp add: UsbInterface_fromJson_def UsbInterface_ToJson_def member_defs json_okD [OF assms]
      UsbInterface_new_def interface_parsed_def
      emplace_all_written [where con = "USBEndpoint_fromJson J" and wr = USBEndpoint_ToJson and rd = "\<lambda>e. e",
        OF assms USBEndpoint_fromJson_written [OF assms]])

lemma USBConfig_fromJson_written:
  assumes "json_ok J"
  shows "USBConfig_fromJson J (USBConfig_ToJson c) = Some (config_parsed c)"
  by (simp add: USBConfig_fromJson_def USBConfig_ToJson_def member_defs json_okD [OF assms]
      USBConfig_new_def config_parsed_def
      emplace_all_written [where con = "UsbInterface_fromJson J" and wr = UsbInterface_ToJson and rd = interface_parsed,
        OF assms UsbInterface_fromJson_written [OF assms]])

lemma UsbDevice_fromJson_written:
  assumes "json_ok J"
  shows "UsbDevice_fromJson J junk (UsbDevice_ToJson d) = Some (device_parsed d)"
  by (simp add: UsbDevice_fromJson_def UsbDevice_ToJson_def member_defs json_okD [OF assms]
      UsbDevice_new_def device_parsed_def
      emplace_all_written [where con = "USBConfig_fromJson J" and wr = USBConfig_ToJson and rd = config_parsed,
        OF assms USBConfig_fromJson_written [OF assms]])

text \<open>
  C37: The document of a device can be read back: the constructor from JSON raises no exception
  and gives the device with everything the document shows, and the initial values of the members
  it does not carry.  Writing the result again gives the same document.
\<close>

theorem UsbDevice_json_roundtrip:
  assumes "json_ok J"
  shows "UsbDevice_fromJson J junk (UsbDevice_ToJson d) = Some (device_parsed d) \<and>
    device_shown (device_parsed d) = device_shown d \<and>
    UsbDevice_ToJson (device_parsed d) = UsbDevice_ToJson d"
proof -
  have shown: "device_shown (device_parsed d) = device_shown d"
    by (simp add: device_shown_def device_parsed_def config_shown_def config_parsed_def
        interface_shown_def interface_parsed_def)
  have i: "UsbInterface_ToJson (interface_parsed i) = UsbInterface_ToJson i" for i
    by (simp add: UsbInterface_ToJson_def interface_parsed_def)
  have c: "USBConfig_ToJson (config_parsed c) = USBConfig_ToJson c" for c
    by (simp add: USBConfig_ToJson_def config_parsed_def i USBConfig_IsRemoteWakeup_def
        USBConfig_IsSelfPowered_def comp_def)
  have "UsbDevice_ToJson (device_parsed d) = UsbDevice_ToJson d"
    by (simp add: UsbDevice_ToJson_def device_parsed_def c comp_def)
  with shown UsbDevice_fromJson_written [OF assms, of junk d] show ?thesis by simp
qed

text \<open>A lawful reading of JSON values.\<close>

definition sample_json :: json_ops where
  "sample_json = \<lparr>
     j_member = (\<lambda>v k. case v of
        JObj ms \<Rightarrow> Some (case map_of ms k of None \<Rightarrow> JNull | Some w \<Rightarrow> w)
      | JNull \<Rightarrow> Some JNull | _ \<Rightarrow> None),
     j_asInt = (\<lambda>v. case v of
        JInt i \<Rightarrow> if - 2147483648 \<le> i \<and> i < 2147483648 then Some (word_of_int i) else None
      | JUInt n \<Rightarrow> if n < 2147483648 then Some (of_nat n) else None | JNull \<Rightarrow> Some 0 | _ \<Rightarrow> None),
     j_asUInt = (\<lambda>v. case v of
        JInt i \<Rightarrow> if 0 \<le> i \<and> i < 4294967296 then Some (word_of_int i) else None
      | JUInt n \<Rightarrow> if n < 4294967296 then Some (of_nat n) else None | JNull \<Rightarrow> Some 0 | _ \<Rightarrow> None),
     j_asString = (\<lambda>v. case v of JStr s \<Rightarrow> Some s | JNull \<Rightarrow> Some '''' | _ \<Rightarrow> None),
     j_size = (\<lambda>v. case v of JArr js \<Rightarrow> length js | JObj ms \<Rightarrow> length ms | _ \<Rightarrow> 0),
     j_at = (\<lambda>v n. case v of JArr js \<Rightarrow> Some (if n < length js then js ! n else JNull)
      | JNull \<Rightarrow> Some JNull | _ \<Rightarrow> None)\<rparr>"

lemma sample_json_ok: "json_ok sample_json"
proof -
  have s: "- 2147483648 \<le> sint x \<and> sint x < 2147483648" for x :: i32
    using sint_ge [of x] sint_lt [of x] by simp
  have u: "unat x < 4294967296" for x :: u32
    using unsigned_less [of x, where ?'a = nat] by simp
  have "int (unat x) < 4294967296" for x :: u32 using u [of x] by linarith
  with s u show ?thesis by (auto simp: json_ok_def sample_json_def)
qed

theorem UsbDevice_json_roundtrip_witness:
  "UsbDevice_fromJson sample_json UsbDevice_zero
      (UsbDevice_ToJson (UsbDevice_zero\<lparr>dev_busNum := 1, dev_bcdUSB := 0x200\<rparr>)) =
    Some (device_parsed (UsbDevice_zero\<lparr>dev_busNum := 1, dev_bcdUSB := 0x200\<rparr>))"
  using UsbDevice_json_roundtrip [OF sample_json_ok] by blast

end
