(* ===== verification/Usb_Js_Data.thy ===== *)
theory Usb_Js_Data
  imports Usb_Js Usb_Json_Read
begin

text \<open>
  The conversions of the data classes between C++ and JavaScript (\<open>usb_info.cpp\<close>).
\<close>

section \<open>Constants\<close>

definition STR_DEFAULT_SIZE :: i32 where "STR_DEFAULT_SIZE = 256"
definition DEFAULT_DESCRIPTION_SIZE :: i32 where "DEFAULT_DESCRIPTION_SIZE = 32"

section \<open>To JavaScript\<close>

definition CreateUsbDevicePipe :: "USBDevicePipe \<Rightarrow> js" where
  "CreateUsbDevicePipe pipe = JsObject
     (SetValueInt32 ''devAddress'' (ucast (dp_devAddr pipe))
     (SetValueInt32 ''busNum'' (ucast (dp_busNum pipe)) []))"

text \<open>The interface id is an \<open>int8_t\<close>, so it is extended with its sign.\<close>

definition CtoJSUsbEndpoint :: "USBEndpoint \<Rightarrow> js" where
  "CtoJSUsbEndpoint ep = JsObject
     (SetValueInt32 ''interfaceId'' (scast (USBEndpoint_GetInterfaceId ep))
     (SetValueUint32 ''type'' (USBEndpoint_GetType ep)
     (SetValueUint32 ''number'' (USBEndpoint_GetEndpointNumber ep)
     (SetValueUint32 ''direction'' (USBEndpoint_GetDirection ep)
     (SetValueInt32 ''maxPacketSize'' (ep_maxPacketSize ep)
     (SetValueInt32 ''interval'' (ep_interval ep)
     (SetValueUint32 ''attributes'' (ep_attributes ep)
     (SetValueUint32 ''address'' (ep_address ep) []))))))))"

text \<open>\<open>None\<close>: an endpoint is missing and the function returns before it sets \<open>endpoints\<close>.\<close>

fun endpoint_values :: "UsbInterface \<Rightarrow> nat list \<Rightarrow> js list \<Rightarrow> js list option" where
  "endpoint_values i [] arr = Some arr"
| "endpoint_values i (k # ks) arr =
     (case UsbInterface_GetEndpoint i (of_nat k) of
        None \<Rightarrow> None
      | Some ep \<Rightarrow> endpoint_values i ks (arr @ [CtoJSUsbEndpoint ep]))"

definition CtoJSUsbInterface :: "UsbInterface \<Rightarrow> js" where
  "CtoJSUsbInterface i =
     (let obj =
        SetValueUtf8String ''name'' (if_name i)
        (SetValueInt32 ''alternateSetting'' (if_alternateSetting i)
        (SetValueInt32 ''subclass'' (if_subClass i)
        (SetValueInt32 ''clazz'' (if_klass i)
        (SetValueInt32 ''protocol'' (if_protocol i)
        (SetValueInt32 ''id'' (if_id i) [])))))
      in case endpoint_values i [0..<nat (sint (UsbInterface_GetEndpointCount i))] [] of
           None \<Rightarrow> JsObject obj
         | Some arr \<Rightarrow> JsObject (obj @ [(''endpoints'', JsArray arr)]))"

definition CtoJSUsbConfig :: "USBConfig \<Rightarrow> js" where
  "CtoJSUsbConfig c =
     (let obj =
        SetValueUtf8String ''name'' (cfg_name c)
        (SetValueInt32 ''maxPower'' (USBConfig_GetMaxPower c)
        (SetValueBool ''isSelfPowered'' (USBConfig_IsSelfPowered c)
        (SetValueBool ''isRemoteWakeup'' (USBConfig_IsRemoteWakeup c)
        (SetValueUint32 ''attributes'' (cfg_attributes c)
        (SetValueInt32 ''id'' (cfg_id c) [])))));
          arr = map (\<lambda>i. CtoJSUsbInterface (snd (USBConfig_GetInterface c (of_nat i) UsbInterface_new)))
                  [0..<unat (USBConfig_GetInterfaceCount c)]
      in JsObject (obj @ [(''interfaces'', JsArray arr)]))"

definition CtoJSUsbDevice :: "uec_codes \<Rightarrow> UsbDevice \<Rightarrow> js" where
  "CtoJSUsbDevice E d =
     (let obj =
        SetValueInt32 ''busNum'' (ucast (dev_busNum d))
        (SetValueInt32 ''devAddress'' (ucast (dev_devAddr d))
        (SetValueInt32 ''protocol'' (dev_protocol d)
        (SetValueInt32 ''subclass'' (dev_subClass d)
        (SetValueInt32 ''clazz'' (dev_klass d)
        (SetValueInt32 ''productId'' (dev_productId d)
        (SetValueInt32 ''vendorId'' (dev_vendorId d)
        (SetValueUtf8String ''version'' (dev_version d)
        (SetValueUtf8String ''productName'' (dev_productName d)
        (SetValueUtf8String ''manufacturerName'' (dev_manufacturerName d)
        (SetValueUtf8String ''serial'' (dev_serial d)
        (SetValueUtf8String ''name'' (dev_name d) [])))))))))));
          arr = map (\<lambda>i. CtoJSUsbConfig (snd (UsbDevice_GetConfig E d (of_nat i) USBConfig_new)))
                  [0..<nat (sint (UsbDevice_GetConfigCount d))]
      in JsObject (obj @ [(''configs'', JsArray arr)]))"

definition port_value :: "UsbPort \<Rightarrow> js" where
  "port_value port =
     (let status =
        SetValueInt32 ''currentDataRole'' (currentDataRole (usbPortStatus port))
        (SetValueInt32 ''currentPowerRole'' (currentPowerRole (usbPortStatus port))
        (SetValueInt32 ''currentMode'' (currentMode (usbPortStatus port)) []))
      in JsObject (SetValueInt32 ''supportedModes'' (supportedModes port)
           (SetValueInt32 ''id'' (port_id port) []) @ [(''status'', JsObject status)]))"

section \<open>From JavaScript\<close>

definition ParseUsbDevicePipe :: "('v, 'e) napi \<Rightarrow> 'v \<Rightarrow> USBDevicePipe \<Rightarrow> ('e, USBDevicePipe) state" where
  "ParseUsbDevicePipe N obj pipe = do {
     valueType \<leftarrow> reads (typeof_or N (n_uninit_type N) obj);
     assert_or N (valueType = napi_object) ''Wrong argument type. object expected.'' pipe (do {
       busNum \<leftarrow> JsObjectToInt N obj ''busNum'' 0;
       devAddr \<leftarrow> JsObjectToInt N obj ''devAddress'' 0;
       State_Monad.return (pipe\<lparr>dp_busNum := ucast busNum, dp_devAddr := ucast devAddr\<rparr>) }) }"

definition ParseEndpointObj :: "('v, 'e) napi \<Rightarrow> 'v \<Rightarrow> ('e, USBEndpoint) state" where
  "ParseEndpointObj N endpointObj = do {
     address \<leftarrow> JsObjectToInt N endpointObj ''address'' 0;
     attributes \<leftarrow> JsObjectToInt N endpointObj ''attributes'' 0;
     interval \<leftarrow> JsObjectToInt N endpointObj ''interval'' 0;
     maxPacketSize \<leftarrow> JsObjectToInt N endpointObj ''maxPacketSize'' 0;
     interfaceId \<leftarrow> JsObjectToInt N endpointObj ''interfaceId'' 0;
     State_Monad.return
       ((USBEndpoint_of address attributes interval maxPacketSize)\<lparr>ep_interfaceId := ucast interfaceId\<rparr>) }"

text \<open>The loop that parses the elements \<open>ks\<close> of an array; it stops when an element cannot be had.\<close>

fun parse_elements ::
  "('v, 'e) napi \<Rightarrow> ('v \<Rightarrow> ('e, 'a) state) \<Rightarrow> 'v \<Rightarrow> nat list \<Rightarrow> 'a list \<Rightarrow> ('e, bool \<times> 'a list) state" where
  "parse_elements N parse objs [] xs = State_Monad.return (True, xs)"
| "parse_elements N parse objs (k # ks) xs = do {
     got \<leftarrow> State (n_get_element N objs (of_nat k));
     case got of
       None \<Rightarrow> State_Monad.return (False, xs)
     | Some obj \<Rightarrow> do { x \<leftarrow> parse obj; parse_elements N parse objs ks (xs @ [x]) } }"

text \<open>The common body of \<open>ParseEndpointsObjs\<close> and \<open>ParseInterfacesObjs\<close>.\<close>

definition parse_array ::
  "('v, 'e) napi \<Rightarrow> ('v \<Rightarrow> ('e, 'a) state) \<Rightarrow> 'v \<Rightarrow> string \<Rightarrow> 'a list \<Rightarrow> ('e, bool \<times> 'a list) state" where
  "parse_array N parse obj field xs = do {
     (isGetObjSuccess, objs) \<leftarrow> JsObjectGetProperty N obj field (n_uninit N);
     if \<not> isGetObjSuccess then State_Monad.return (False, xs)
     else do {
       result \<leftarrow> reads (n_is_array N objs);
       if result \<noteq> Some True then State_Monad.return (False, xs)
       else do {
         count \<leftarrow> reads (n_get_array_length N objs);
         case count of
           None \<Rightarrow> State_Monad.return (False, xs)
         | Some n \<Rightarrow> parse_elements N parse objs [0..<unat n] xs } } }"

definition ParseEndpointsObjs ::
  "('v, 'e) napi \<Rightarrow> 'v \<Rightarrow> USBEndpoint list \<Rightarrow> ('e, bool \<times> USBEndpoint list) state" where
  "ParseEndpointsObjs N interfaceObj eps = parse_array N (ParseEndpointObj N) interfaceObj ''endpoints'' eps"

definition ParseInterfaceObj :: "('v, 'e) napi \<Rightarrow> 'v \<Rightarrow> UsbInterface \<Rightarrow> ('e, UsbInterface) state" where
  "ParseInterfaceObj N interfaceObj interface = do {
     i \<leftarrow> JsObjectToInt N interfaceObj ''id'' 0;
     protocol \<leftarrow> JsObjectToInt N interfaceObj ''protocol'' 0;
     clzz \<leftarrow> JsObjectToInt N interfaceObj ''clazz'' 0;
     subClass \<leftarrow> JsObjectToInt N interfaceObj ''subclass'' 0;
     alternateSetting \<leftarrow> JsObjectToInt N interfaceObj ''alternateSetting'' 0;
     name \<leftarrow> JsObjectToString N interfaceObj ''name'' DEFAULT_DESCRIPTION_SIZE '''';
     (ret, eps) \<leftarrow> ParseEndpointsObjs N interfaceObj [];
     assert_or N ret ''Parse endpointers error.'' interface
       (State_Monad.return (UsbInterface_of i protocol clzz subClass alternateSetting name eps)) }"

definition ParseInterfacesObjs ::
  "('v, 'e) napi \<Rightarrow> 'v \<Rightarrow> UsbInterface list \<Rightarrow> ('e, bool \<times> UsbInterface list) state" where
  "ParseInterfacesObjs N configObj interfaces =
     parse_array N (\<lambda>obj. ParseInterfaceObj N obj UsbInterface_new) configObj ''interfaces'' interfaces"

definition ParseConfigObj :: "('v, 'e) napi \<Rightarrow> 'v \<Rightarrow> USBConfig \<Rightarrow> ('e, USBConfig) state" where
  "ParseConfigObj N configObj config = do {
     i \<leftarrow> JsObjectToInt N configObj ''id'' 0;
     attributes \<leftarrow> JsObjectToInt N configObj ''attributes'' 0;
     maxPower \<leftarrow> JsObjectToInt N configObj ''maxPower'' 0;
     name \<leftarrow> JsObjectToString N configObj ''name'' DEFAULT_DESCRIPTION_SIZE '''';
     (ret, interfaces) \<leftarrow> ParseInterfacesObjs N configObj [];
     assert_or N ret ''Parse interfaces error.'' config
       (State_Monad.return (USBConfig_of i attributes name maxPower interfaces)) }"

text \<open>The configurations are read without looking at the status of the calls.\<close>

fun parse_configs :: "('v, 'e) napi \<Rightarrow> 'v \<Rightarrow> nat list \<Rightarrow> USBConfig list \<Rightarrow> ('e, USBConfig list) state" where
  "parse_configs N objs [] configs = State_Monad.return configs"
| "parse_configs N objs (k # ks) configs = do {
     got \<leftarrow> State (n_get_element N objs (of_nat k));
     config \<leftarrow> ParseConfigObj N (case got of None \<Rightarrow> n_uninit N | Some obj \<Rightarrow> obj) USBConfig_new;
     parse_configs N objs ks (configs @ [config]) }"

definition ParseConfigsObjs :: "('v, 'e) napi \<Rightarrow> 'v \<Rightarrow> USBConfig list \<Rightarrow> ('e, USBConfig list) state" where
  "ParseConfigsObjs N deviceObj configs = do {
     (_, configsObj) \<leftarrow> JsObjectGetProperty N deviceObj ''configs'' (n_uninit N);
     valueType \<leftarrow> reads (typeof_or N (n_uninit_type N) configsObj);
     assert_or N (valueType = napi_object) ''Wrong argument type. object expected.'' configs (do {
       count \<leftarrow> reads (n_get_array_length N configsObj);
       parse_configs N configsObj [0..<(case count of None \<Rightarrow> 0 | Some n \<Rightarrow> unat n)] configs }) }"

definition ParseDeviceObj :: "('v, 'e) napi \<Rightarrow> 'v \<Rightarrow> UsbDevice \<Rightarrow> ('e, UsbDevice) state" where
  "ParseDeviceObj N deviceObj dev = do {
     name \<leftarrow> JsObjectToString N deviceObj ''name'' DEFAULT_DESCRIPTION_SIZE '''';
     manufacturerName \<leftarrow> JsObjectToString N deviceObj ''manufacturerName'' DEFAULT_DESCRIPTION_SIZE '''';
     productName \<leftarrow> JsObjectToString N deviceObj ''productName'' DEFAULT_DESCRIPTION_SIZE '''';
     version \<leftarrow> JsObjectToString N deviceObj ''version'' DEFAULT_DESCRIPTION_SIZE '''';
     devAddr \<leftarrow> JsObjectToInt N deviceObj ''devAddress'' 0;
     busNum \<leftarrow> JsObjectToInt N deviceObj ''busNum'' 0;
     vendorId \<leftarrow> JsObjectToInt N deviceObj ''vendorId'' 0;
     productId \<leftarrow> JsObjectToInt N deviceObj ''productId'' 0;
     clazz \<leftarrow> JsObjectToInt N deviceObj ''clazz'' 0;
     subclass \<leftarrow> JsObjectToInt N deviceObj ''subclass'' 0;
     protocol \<leftarrow> JsObjectToInt N deviceObj ''protocol'' 0;
     configs \<leftarrow> ParseConfigsObjs N deviceObj [];
     State_Monad.return (UsbDevice_of dev name manufacturerName productName version (ucast devAddr) (ucast busNum)
       vendorId productId clazz subclass protocol configs) }"

section \<open>Parameters of a control transfer\<close>

record PipeControlParam =
  pc_request :: i32
  pc_target :: i32
  pc_reqType :: u32
  pc_value :: i32
  pc_index :: i32
  pc_data :: "nat option"
  pc_dataLength :: nat

text \<open>The result of parsing the array is not looked at.\<close>

definition ParsePipeControlParam :: "('v, 'e) napi \<Rightarrow> 'v \<Rightarrow> ('e, PipeControlParam) state" where
  "ParsePipeControlParam N jsObj = do {
     request \<leftarrow> JsObjectToInt N jsObj ''request'' 0;
     target \<leftarrow> JsObjectToInt N jsObj ''target'' 0;
     reqType \<leftarrow> JsObjectToUint N jsObj ''reqType'' 0;
     val \<leftarrow> JsObjectToInt N jsObj ''value'' 0;
     index \<leftarrow> JsObjectToInt N jsObj ''index'' 0;
     (_, dataValue) \<leftarrow> JsObjectGetProperty N jsObj ''data'' (n_uninit N);
     (_, data, dataLength) \<leftarrow> reads (JsUint8ArrayParse N dataValue None 0);
     State_Monad.return \<lparr>pc_request = request, pc_target = target, pc_reqType = reqType, pc_value = val,
       pc_index = index, pc_data = data, pc_dataLength = dataLength\<rparr> }"

end
