(* ===== verification/Usb_Js_Api.thy ===== *)
theory Usb_Js_Api
  imports Usb_Js_Data
begin

text \<open>
  The functions the bindings export to JavaScript and the work they leave to other threads
  (\<open>usb_info.cpp\<close>, \<open>usb_async_context.h\<close>).
\<close>

section \<open>Contexts of asynchronous work\<close>

text \<open>
  A context is zeroed when it is created; the status \<open>napi_ok\<close> is zero.  Buffers are pointers.
\<close>

record USBAsyncContext =
  ac_deferred :: "nat option"
  ac_ok :: bool

record USBRightAsyncContext = USBAsyncContext +
  rc_deviceName :: string
  rc_hasRight :: bool

record USBFunctionAsyncContext = USBAsyncContext +
  fc_functions :: i32

record USBPortRoleAsyncContext = USBAsyncContext +
  pr_portId :: i32
  pr_powerRole :: i32
  pr_dataRole :: i32

record USBControlTransferAsyncContext = USBAsyncContext +
  ct_pipe :: USBDevicePipe
  ct_request :: i32
  ct_target :: i32
  ct_reqType :: u32
  ct_directon :: i32
  ct_value :: i32
  ct_index :: i32
  ct_buffer :: "nat option"
  ct_bufferLength :: u32
  ct_dataSize :: u32
  ct_timeOut :: i32

record USBBulkTransferAsyncContext = USBAsyncContext +
  bt_buffer :: "nat option"
  bt_bufferLength :: u32
  bt_dataSize :: u32
  bt_timeOut :: i32
  bt_pipe :: USBDevicePipe
  bt_endpoint :: USBEndpoint

datatype js_work =
  RightWork USBRightAsyncContext
| FunctionWork USBFunctionAsyncContext
| PortRoleWork USBPortRoleAsyncContext
| ControlWork USBControlTransferAsyncContext
| BulkWork USBBulkTransferAsyncContext

section \<open>Calls from JavaScript\<close>

text \<open>
  The engine with the work that was given to it.  A function returns a value or the null
  pointer; the connection of the client and the system behind it are threaded through.
\<close>

record 'e js_state =
  js_engine :: 'e
  js_queue :: "js_work list"

type_synonym ('e, 's) js_call = "(js option \<times> 'e js_state \<times> UsbSrvClient \<times> 's) run"

definition js_return :: "js option \<Rightarrow> 'e js_state \<Rightarrow> UsbSrvClient \<Rightarrow> 's \<Rightarrow> ('e, 's) js_call" where
  "js_return v t cl s = Some (Mem (v, t, cl, s))"

definition js_do :: "('e, 'a) state \<Rightarrow> 'e js_state \<Rightarrow> ('a \<Rightarrow> 'e js_state \<Rightarrow> 'r) \<Rightarrow> 'r" where
  "js_do m t k = (case run_state m (js_engine t) of (a, e) \<Rightarrow> k a (t\<lparr>js_engine := e\<rparr>))"

definition js_assert ::
  "('v, 'e) napi \<Rightarrow> bool \<Rightarrow> string \<Rightarrow> 'e js_state \<Rightarrow> UsbSrvClient \<Rightarrow> 's \<Rightarrow> ('e, 's) js_call \<Rightarrow> ('e, 's) js_call" where
  "js_assert N cond msg t cl s k =
     (if cond then k else js_return None (t\<lparr>js_engine := n_assert_failed N msg (js_engine t)\<rparr>) cl s)"

text \<open>
  \<open>napi_get_cb_info\<close> gives the arguments of the call, or fails (\<open>None\<close>); arguments that were not
  given are undefined.
\<close>

definition with_args ::
  "('v, 'e) napi \<Rightarrow> 'v list option \<Rightarrow> nat \<Rightarrow> string \<Rightarrow> 'e js_state \<Rightarrow> UsbSrvClient \<Rightarrow> 's \<Rightarrow>
     ('v list \<Rightarrow> ('e, 's) js_call) \<Rightarrow> ('e, 's) js_call" where
  "with_args N args least msg t cl s k =
     js_assert N (args \<noteq> None \<and> least \<le> length (the args)) msg t cl s (k (the args))"

definition arg :: "('v, 'e) napi \<Rightarrow> 'v list \<Rightarrow> nat \<Rightarrow> 'v" where
  "arg N argv i = (if i < length argv then argv ! i else n_value N JsUndefined)"

text \<open>The type test behind \<open>napi_typeof\<close>, and behind \<open>NAPI_CALL(napi_typeof)\<close>.\<close>

definition expect_type ::
  "('v, 'e) napi \<Rightarrow> napi_valuetype \<Rightarrow> 'v \<Rightarrow> napi_valuetype \<Rightarrow> string \<Rightarrow> 'e js_state \<Rightarrow> UsbSrvClient \<Rightarrow> 's \<Rightarrow>
     ('e, 's) js_call \<Rightarrow> ('e, 's) js_call" where
  "expect_type N old v wanted msg t cl s k =
     js_assert N (typeof_or N old v (js_engine t) = wanted) msg t cl s k"

definition call_type ::
  "('v, 'e) napi \<Rightarrow> 'v \<Rightarrow> napi_valuetype \<Rightarrow> string \<Rightarrow> 'e js_state \<Rightarrow> UsbSrvClient \<Rightarrow> 's \<Rightarrow>
     ('e, 's) js_call \<Rightarrow> ('e, 's) js_call" where
  "call_type N v wanted msg t cl s k =
     (case n_typeof N v (js_engine t) of
        None \<Rightarrow> js_return None (t\<lparr>js_engine := n_throw_last N (js_engine t)\<rparr>) cl s
      | Some ty \<Rightarrow> js_assert N (ty = wanted) msg t cl s k)"

definition js_client ::
  "('a, 's) client_call \<Rightarrow> ('a \<Rightarrow> UsbSrvClient \<Rightarrow> 's \<Rightarrow> ('e, 's) js_call) \<Rightarrow> ('e, 's) js_call" where
  "js_client call k = run_bind call (\<lambda>(v, cl, s). k v cl s)"

section \<open>Promises and work\<close>

definition ProcessPromise :: "('v, 'e) napi \<Rightarrow> nat option \<Rightarrow> bool \<Rightarrow> js \<Rightarrow> 'e \<Rightarrow> 'e" where
  "ProcessPromise N deferred ok result e =
     (case deferred of
        None \<Rightarrow> e
      | Some d \<Rightarrow> if ok then n_resolve_deferred N d result e else n_reject_deferred N d result e)"

text \<open>
  The end of the asynchronous functions: a promise is made, and the work, which gets its
  deferred, is handed to the engine; nobody looks at whether it was accepted.
\<close>

definition queue_work :: "('v, 'e) napi \<Rightarrow> js_work \<Rightarrow> 'e js_state \<Rightarrow> 'e js_state" where
  "queue_work N work t =
     (let (accepted, e) = n_create_async_work N (js_engine t)
      in t\<lparr>js_engine := e, js_queue := js_queue t @ (if accepted then [work] else [])\<rparr>)"

definition promise_work ::
  "('v, 'e) napi \<Rightarrow> (nat option \<Rightarrow> js_work) \<Rightarrow> 'e js_state \<Rightarrow> UsbSrvClient \<Rightarrow> 's \<Rightarrow> ('e, 's) js_call" where
  "promise_work N work t cl s =
     js_do (State (n_create_promise N)) t (\<lambda>deferred t.
       js_return (map_option JsPromise deferred) (queue_work N (work deferred) t) cl s)"

section \<open>Core functions\<close>

definition CoreGetDevices ::
  "'p parcel_ops \<Rightarrow> uec_codes \<Rightarrow> ('p, 's) client_env \<Rightarrow> ('v, 'e) napi \<Rightarrow>
     'v list option \<Rightarrow> 'e js_state \<Rightarrow> UsbSrvClient \<Rightarrow> 's \<Rightarrow> ('e, 's) js_call" where
  "CoreGetDevices P E C N args t cl s =
     js_assert N (args = Some []) ''CoreGetDevices failed to get cb info'' t cl s
       (js_client (Client_GetDevices P E C (n_uninit_int N) (n_uninit_device N) [] cl s) (\<lambda>(ret, deviceList) cl s.
          if ret \<noteq> UEC_OK E then js_return (Some JsUndefined) t cl s
          else js_return (Some (JsArray (map (CtoJSUsbDevice E) deviceList))) t cl s))"

definition CoreConnectDevice ::
  "'p parcel_ops \<Rightarrow> uec_codes \<Rightarrow> ('p, 's) client_env \<Rightarrow> ('v, 'e) napi \<Rightarrow>
     'v list option \<Rightarrow> 'e js_state \<Rightarrow> UsbSrvClient \<Rightarrow> 's \<Rightarrow> ('e, 's) js_call" where
  "CoreConnectDevice P E C N args t cl s =
     with_args N args 1 ''ConnectDevice failed to get cb info'' t cl s (\<lambda>argv.
       expect_type N (n_uninit_type N) (arg N argv 0) napi_object ''Wrong argument type. Object expected.'' t cl s
         (js_do (ParseDeviceObj N (arg N argv 0) (UsbDevice_new (n_uninit_device N))) t (\<lambda>dev t.
            js_client (Client_OpenDevice P E C dev (n_uninit_pipe N) cl s) (\<lambda>(ret, pipe) cl s.
              if ret = UEC_OK E then js_return (Some (CreateUsbDevicePipe pipe)) t cl s
              else if ret = UEC_SERVICE_PERMISSION_DENIED E \<or> ret = UEC_INTERFACE_PERMISSION_DENIED E
              then js_return None (t\<lparr>js_engine := n_throw_error N
                     ''permission denied, need call requestRight to get permission'' (js_engine t)\<rparr>) cl s
              else js_return (Some JsUndefined) t cl s))))"

definition CoreHasRight ::
  "'p parcel_ops \<Rightarrow> uec_codes \<Rightarrow> ('p, 's) client_env \<Rightarrow> ('v, 'e) napi \<Rightarrow>
     'v list option \<Rightarrow> 'e js_state \<Rightarrow> UsbSrvClient \<Rightarrow> 's \<Rightarrow> ('e, 's) js_call" where
  "CoreHasRight P E C N args t cl s =
     with_args N args 1 ''HasRight failed to get cb info'' t cl s (\<lambda>argv.
       call_type N (arg N argv 0) napi_string ''Wrong argument type. String expected.'' t cl s
         (js_do (JsValueToString N (arg N argv 0) STR_DEFAULT_SIZE '''') t (\<lambda>deviceName t.
            js_client (Client_HasRight P E C deviceName cl s) (\<lambda>result cl s.
              js_return (Some (JsBool result)) t cl s))))"

definition CoreRequestRight ::
  "'p parcel_ops \<Rightarrow> uec_codes \<Rightarrow> ('p, 's) client_env \<Rightarrow> ('v, 'e) napi \<Rightarrow>
     'v list option \<Rightarrow> 'e js_state \<Rightarrow> UsbSrvClient \<Rightarrow> 's \<Rightarrow> ('e, 's) js_call" where
  "CoreRequestRight P E C N args t cl s =
     with_args N args 1 ''RequestRight failed to get cb info'' t cl s (\<lambda>argv.
       call_type N (arg N argv 0) napi_string ''Wrong argument type. String expected.'' t cl s
         (js_do (JsValueToString N (arg N argv 0) STR_DEFAULT_SIZE '''') t (\<lambda>deviceName t.
            js_do (State (n_alloc N)) t (\<lambda>allocated t.
              js_assert N allocated ''Create USBRightAsyncContext failed.'' t cl s
                (promise_work N (\<lambda>deferred. RightWork \<lparr>ac_deferred = deferred, ac_ok = True,
                   rc_deviceName = deviceName, rc_hasRight = False\<rparr>) t cl s)))))"

definition CoreUsbFunctionsFromString ::
  "'p parcel_ops \<Rightarrow> uec_codes \<Rightarrow> ('p, 's) client_env \<Rightarrow> ('v, 'e) napi \<Rightarrow>
     'v list option \<Rightarrow> 'e js_state \<Rightarrow> UsbSrvClient \<Rightarrow> 's \<Rightarrow> ('e, 's) js_call" where
  "CoreUsbFunctionsFromString P E C N args t cl s =
     with_args N args 1 ''UsbFunctionsFromString failed to get cb info'' t cl s (\<lambda>argv.
       expect_type N (n_uninit_type N) (arg N argv 0) napi_string
         ''Wrong argument type. Function string expected.'' t cl s
         (js_do (JsValueToString N (arg N argv 0) STR_DEFAULT_SIZE '''') t (\<lambda>funcs t.
            js_client (Client_UsbFunctionsFromString P E C funcs cl s) (\<lambda>numFuncs cl s.
              js_return (Some (JsInt numFuncs)) t cl s))))"

text \<open>\<open>funcs\<close> has no initial value.\<close>

definition CoreUsbFunctionsToString ::
  "'p parcel_ops \<Rightarrow> uec_codes \<Rightarrow> ('p, 's) client_env \<Rightarrow> ('v, 'e) napi \<Rightarrow>
     'v list option \<Rightarrow> 'e js_state \<Rightarrow> UsbSrvClient \<Rightarrow> 's \<Rightarrow> ('e, 's) js_call" where
  "CoreUsbFunctionsToString P E C N args t cl s =
     with_args N args 1 ''UsbFunctionsToString failed to get cb info'' t cl s (\<lambda>argv.
       expect_type N (n_uninit_type N) (arg N argv 0) napi_number
         ''Wrong argument type. Function number expected.'' t cl s
         (let funcs = get_int32_or N (n_uninit_int N) (arg N argv 0) (js_engine t)
          in js_client (Client_UsbFunctionsToString P E C funcs cl s) (\<lambda>strFuncs cl s.
               js_return (Some (JsString (takeWhile (\<lambda>c. c \<noteq> CHR 0x00) strFuncs))) t cl s)))"

definition CoreSetCurrentFunctions ::
  "'p parcel_ops \<Rightarrow> uec_codes \<Rightarrow> ('p, 's) client_env \<Rightarrow> ('v, 'e) napi \<Rightarrow>
     'v list option \<Rightarrow> 'e js_state \<Rightarrow> UsbSrvClient \<Rightarrow> 's \<Rightarrow> ('e, 's) js_call" where
  "CoreSetCurrentFunctions P E C N args t cl s =
     with_args N args 1 ''SetCurrentFunctions failed to get cb info'' t cl s (\<lambda>argv.
       expect_type N (n_uninit_type N) (arg N argv 0) napi_number
         ''Wrong argument type. Number expected.'' t cl s
         (let funcs = get_int32_or N 0 (arg N argv 0) (js_engine t)
          in js_do (State (n_alloc N)) t (\<lambda>allocated t.
               js_assert N allocated ''Create USBFunctionAsyncContext failed.'' t cl s
                 (promise_work N (\<lambda>deferred. FunctionWork \<lparr>ac_deferred = deferred, ac_ok = True,
                    fc_functions = funcs\<rparr>) t cl s))))"

text \<open>\<open>cfuncs\<close> has no initial value.\<close>

definition CoreGetCurrentFunctions ::
  "'p parcel_ops \<Rightarrow> uec_codes \<Rightarrow> ('p, 's) client_env \<Rightarrow> ('v, 'e) napi \<Rightarrow>
     'v list option \<Rightarrow> 'e js_state \<Rightarrow> UsbSrvClient \<Rightarrow> 's \<Rightarrow> ('e, 's) js_call" where
  "CoreGetCurrentFunctions P E C N args t cl s =
     js_assert N (args = Some []) ''CoreGetCurrentFunctions failed to get cb info'' t cl s
       (js_client (Client_GetCurrentFunctions P E C (n_uninit_int N) cl s) (\<lambda>(ret, cfuncs) cl s.
          js_return (Some (if ret \<noteq> UEC_OK E then JsUndefined else JsInt cfuncs)) t cl s))"

definition CoreGetPorts ::
  "'p parcel_ops \<Rightarrow> uec_codes \<Rightarrow> ('p, 's) client_env \<Rightarrow> ('v, 'e) napi \<Rightarrow>
     'v list option \<Rightarrow> 'e js_state \<Rightarrow> UsbSrvClient \<Rightarrow> 's \<Rightarrow> ('e, 's) js_call" where
  "CoreGetPorts P E C N args t cl s =
     js_assert N (args = Some []) ''CoreGetPorts failed to get cb info'' t cl s
       (js_client (Client_GetPorts P E C [] cl s) (\<lambda>(ret, ports) cl s.
          js_return (Some (if ret \<noteq> UEC_OK E then JsUndefined else JsArray (map port_value ports))) t cl s))"

section \<open>Ports\<close>

definition PortGetSupportedModes ::
  "'p parcel_ops \<Rightarrow> uec_codes \<Rightarrow> ('p, 's) client_env \<Rightarrow> ('v, 'e) napi \<Rightarrow>
     'v list option \<Rightarrow> 'e js_state \<Rightarrow> UsbSrvClient \<Rightarrow> 's \<Rightarrow> ('e, 's) js_call" where
  "PortGetSupportedModes P E C N args t cl s =
     with_args N args 1 ''GetSupportedModes failed to get cb info'' t cl s (\<lambda>argv.
       call_type N (arg N argv 0) napi_number ''Wrong argument type. Number expected.'' t cl s
         (let portId = get_int32_or N 0 (arg N argv 0) (js_engine t)
          in js_client (Client_GetSupportedModes P E C portId 0 cl s) (\<lambda>(_, result) cl s.
               js_return (Some (JsInt result)) t cl s)))"

definition PortSetPortRole ::
  "'p parcel_ops \<Rightarrow> uec_codes \<Rightarrow> ('p, 's) client_env \<Rightarrow> ('v, 'e) napi \<Rightarrow>
     'v list option \<Rightarrow> 'e js_state \<Rightarrow> UsbSrvClient \<Rightarrow> 's \<Rightarrow> ('e, 's) js_call" where
  "PortSetPortRole P E C N args t cl s =
     with_args N args 1 ''SetPortRole failed to get cb info'' t cl s (\<lambda>argv.
       call_type N (arg N argv 0) napi_number ''Wrong argument type. Number expected.'' t cl s
         (call_type N (arg N argv 1) napi_number ''Wrong argument type. Number expected.'' t cl s
           (call_type N (arg N argv 2) napi_number ''Wrong argument type. Number expected.'' t cl s
             (let portId = get_int32_or N 0 (arg N argv 0) (js_engine t);
                  powerRole = get_int32_or N 0 (arg N argv 1) (js_engine t);
                  dataRole = get_int32_or N 0 (arg N argv 2) (js_engine t)
              in js_do (State (n_alloc N)) t (\<lambda>allocated t.
                   js_assert N allocated ''Create USBPortRoleAsyncContext failed.'' t cl s
                     (promise_work N (\<lambda>deferred. PortRoleWork \<lparr>ac_deferred = deferred, ac_ok = True,
                        pr_portId = portId, pr_powerRole = powerRole, pr_dataRole = dataRole\<rparr>) t cl s))))))"


section \<open>Pipes\<close>

text \<open>The first argument of the functions below, an object of the device's address.\<close>

definition with_pipe ::
  "('v, 'e) napi \<Rightarrow> 'v list \<Rightarrow> 'e js_state \<Rightarrow> UsbSrvClient \<Rightarrow> 's \<Rightarrow>
     (USBDevicePipe \<Rightarrow> 'e js_state \<Rightarrow> ('e, 's) js_call) \<Rightarrow> ('e, 's) js_call" where
  "with_pipe N argv t cl s k =
     expect_type N (n_uninit_type N) (arg N argv 0) napi_object ''Wrong argument type. Object expected.'' t cl s
       (js_do (ParseUsbDevicePipe N (arg N argv 0) (n_uninit_pipe N)) t k)"

definition PipeClaimInterface ::
  "'p parcel_ops \<Rightarrow> uec_codes \<Rightarrow> ('p, 's) client_env \<Rightarrow> ('v, 'e) napi \<Rightarrow>
     'v list option \<Rightarrow> 'e js_state \<Rightarrow> UsbSrvClient \<Rightarrow> 's \<Rightarrow> ('e, 's) js_call" where
  "PipeClaimInterface P E C N args t cl s =
     with_args N args 2 ''ClaimInterface failed to get cb info'' t cl s (\<lambda>argv.
       with_pipe N argv t cl s (\<lambda>pipe t.
         expect_type N napi_object (arg N argv 1) napi_object ''Wrong argument type. Object expected.'' t cl s
           (js_do (ParseInterfaceObj N (arg N argv 1) UsbInterface_new) t (\<lambda>interface t.
              let claim = (\<lambda>isForce.
                js_client (DevicePipe_ClaimInterface P E C interface isForce pipe cl s) (\<lambda>ret cl s.
                  js_return (Some (JsInt ret)) t cl s))
              in if length argv \<ge> 3
                 then expect_type N napi_object (arg N argv 2) napi_boolean
                   ''Wrong argument type. Object expected.'' t cl s
                   (claim (case n_get_value_bool N (arg N argv 2) (js_engine t) of
                      None \<Rightarrow> False | Some b \<Rightarrow> b))
                 else claim False))))"

text \<open>The type of the second argument is not tested.\<close>

definition PipeReleaseInterface ::
  "'p parcel_ops \<Rightarrow> uec_codes \<Rightarrow> ('p, 's) client_env \<Rightarrow> ('v, 'e) napi \<Rightarrow>
     'v list option \<Rightarrow> 'e js_state \<Rightarrow> UsbSrvClient \<Rightarrow> 's \<Rightarrow> ('e, 's) js_call" where
  "PipeReleaseInterface P E C N args t cl s =
     with_args N args 2 ''ReleaseInterface failed to get cb info'' t cl s (\<lambda>argv.
       with_pipe N argv t cl s (\<lambda>pipe t.
         js_do (ParseInterfaceObj N (arg N argv 1) UsbInterface_new) t (\<lambda>interface t.
           js_client (DevicePipe_ReleaseInterface P E C interface pipe cl s) (\<lambda>ret cl s.
             js_return (Some (JsInt ret)) t cl s))))"

definition PipeSetInterface ::
  "'p parcel_ops \<Rightarrow> uec_codes \<Rightarrow> ('p, 's) client_env \<Rightarrow> ('v, 'e) napi \<Rightarrow>
     'v list option \<Rightarrow> 'e js_state \<Rightarrow> UsbSrvClient \<Rightarrow> 's \<Rightarrow> ('e, 's) js_call" where
  "PipeSetInterface P E C N args t cl s =
     with_args N args 2 ''SetInterface failed to get cb info'' t cl s (\<lambda>argv.
       with_pipe N argv t cl s (\<lambda>pipe t.
         expect_type N napi_object (arg N argv 1) napi_object ''Wrong argument type. Object expected.'' t cl s
           (js_do (ParseInterfaceObj N (arg N argv 1) UsbInterface_new) t (\<lambda>interface t.
              js_client (Client_SetInterface P E C pipe interface cl s) (\<lambda>ret cl s.
                js_return (Some (JsInt ret)) t cl s)))))"

definition PipeSetConfiguration ::
  "'p parcel_ops \<Rightarrow> uec_codes \<Rightarrow> ('p, 's) client_env \<Rightarrow> ('v, 'e) napi \<Rightarrow>
     'v list option \<Rightarrow> 'e js_state \<Rightarrow> UsbSrvClient \<Rightarrow> 's \<Rightarrow> ('e, 's) js_call" where
  "PipeSetConfiguration P E C N args t cl s =
     with_args N args 2 ''SetConfiguration failed to get cb info'' t cl s (\<lambda>argv.
       with_pipe N argv t cl s (\<lambda>pipe t.
         expect_type N napi_object (arg N argv 1) napi_object ''Wrong argument type. Object expected.'' t cl s
           (js_do (ParseConfigObj N (arg N argv 1) USBConfig_new) t (\<lambda>config t.
              js_client (Client_SetConfiguration P E C pipe config cl s) (\<lambda>ret cl s.
                js_return (Some (JsInt ret)) t cl s)))))"

text \<open>
  When the bytes cannot be copied, the result is the variable without a value: \<open>uninit\<close> is the
  value it happens to hold.
\<close>

definition PipeGetRawDescriptors ::
  "js option \<Rightarrow> 'p parcel_ops \<Rightarrow> uec_codes \<Rightarrow> ('p, 's) client_env \<Rightarrow> ('v, 'e) napi \<Rightarrow>
     'v list option \<Rightarrow> 'e js_state \<Rightarrow> UsbSrvClient \<Rightarrow> 's \<Rightarrow> ('e, 's) js_call" where
  "PipeGetRawDescriptors uninit P E C N args t cl s =
     with_args N args 1 ''GetRawDescriptors failed to get cb info'' t cl s (\<lambda>argv.
       with_pipe N argv t cl s (\<lambda>pipe t.
         js_client (Client_GetRawDescriptors P E C pipe [] cl s) (\<lambda>(ret, bufferData) cl s.
           if ret = UEC_OK E
           then js_do (Uint8ArrayToJsValue N bufferData (length bufferData)) t (\<lambda>result t.
                  js_return (case result of None \<Rightarrow> uninit | Some v \<Rightarrow> Some v) t cl s)
           else js_return (Some JsUndefined) t cl s)))"

text \<open>The result of the query is not looked at; the descriptor is -1 when it fails.\<close>

definition PipeGetFileDescriptor ::
  "'p parcel_ops \<Rightarrow> uec_codes \<Rightarrow> ('p, 's) client_env \<Rightarrow> ('v, 'e) napi \<Rightarrow>
     'v list option \<Rightarrow> 'e js_state \<Rightarrow> UsbSrvClient \<Rightarrow> 's \<Rightarrow> ('e, 's) js_call" where
  "PipeGetFileDescriptor P E C N args t cl s =
     with_args N args 1 ''PipeGetFileDescriptor failed to get cb info'' t cl s (\<lambda>argv.
       with_pipe N argv t cl s (\<lambda>pipe t.
         js_client (Client_GetFileDescriptor P E C pipe (-1) cl s) (\<lambda>(_, fd) cl s.
           js_return (Some (JsInt fd)) t cl s)))"

definition PipeClose ::
  "'p parcel_ops \<Rightarrow> uec_codes \<Rightarrow> ('p, 's) client_env \<Rightarrow> ('v, 'e) napi \<Rightarrow>
     'v list option \<Rightarrow> 'e js_state \<Rightarrow> UsbSrvClient \<Rightarrow> 's \<Rightarrow> ('e, 's) js_call" where
  "PipeClose P E C N args t cl s =
     with_args N args 1 ''PipeClose failed to get cb info'' t cl s (\<lambda>argv.
       with_pipe N argv t cl s (\<lambda>pipe t.
         js_client (DevicePipe_Close P E C pipe cl s) (\<lambda>ret cl s.
           js_return (Some (JsInt ret)) t cl s)))"

section \<open>Transfers\<close>

text \<open>
  The bytes of an outgoing transfer are copied before the work is queued, because the
  application may change its array; an incoming transfer writes to the array itself.
  \<open>None\<close>: no memory, or the copy failed.
\<close>

definition transfer_buffer ::
  "('v, 'e) napi \<Rightarrow> bool \<Rightarrow> nat option \<Rightarrow> nat \<Rightarrow> 'e \<Rightarrow> (nat option option \<times> bool) \<times> 'e" where
  "transfer_buffer N out data size1 e =
     (if \<not> out then ((Some data, True), e)
      else
        (let (native, e) = n_new N size1 e
         in if native = None then ((None, False), e)
            else
              (let (ret, e) = n_memcpy_s N native size1 (n_read N data size1 e) e
               in if ret \<noteq> EOK then ((None, True), n_delete N native e) else ((Some native, True), e))))"

definition GetControlTransferParam ::
  "('v, 'e) napi \<Rightarrow> 'v list option \<Rightarrow> ('e, (USBDevicePipe \<times> PipeControlParam \<times> i32) option) state" where
  "GetControlTransferParam N args =
     (case args of
        None \<Rightarrow> State_Monad.return None
      | Some argv \<Rightarrow>
          if length argv < 2 then State_Monad.return None
          else do {
            ty \<leftarrow> reads (typeof_or N (n_uninit_type N) (arg N argv 0));
            if ty \<noteq> napi_object then State_Monad.return None
            else do {
              pipe \<leftarrow> ParseUsbDevicePipe N (arg N argv 0) (n_uninit_pipe N);
              controlParam \<leftarrow> ParsePipeControlParam N (arg N argv 1);
              timeOut \<leftarrow> (if length argv \<ge> 3 then reads (get_int32_or N 0 (arg N argv 2))
                 else State_Monad.return 0);
              State_Monad.return (Some (pipe, controlParam, timeOut)) } })"

definition PipeControlTransfer ::
  "'p parcel_ops \<Rightarrow> uec_codes \<Rightarrow> ('p, 's) client_env \<Rightarrow> ('v, 'e) napi \<Rightarrow>
     'v list option \<Rightarrow> 'e js_state \<Rightarrow> UsbSrvClient \<Rightarrow> 's \<Rightarrow> ('e, 's) js_call" where
  "PipeControlTransfer P E C N args t cl s =
     js_do (GetControlTransferParam N args) t (\<lambda>params t.
       js_assert N (params \<noteq> None) ''GetControlTransferParam failed.'' t cl s
         (case the params of (pipe, controlParam, timeOut) \<Rightarrow>
           js_do (State (n_alloc N)) t (\<lambda>allocated t.
             js_assert N allocated ''New USBControlTransferAsyncContext failed.'' t cl s
               (js_do (State (transfer_buffer N
                   (pc_reqType controlParam AND USB_ENDPOINT_DIR_MASK = USB_ENDPOINT_DIR_OUT)
                   (pc_data controlParam) (pc_dataLength controlParam))) t (\<lambda>(buffer, _) t.
                  case buffer of
                    None \<Rightarrow> js_return None t cl s
                  | Some buffer \<Rightarrow>
                      promise_work N (\<lambda>deferred. ControlWork \<lparr>ac_deferred = deferred, ac_ok = True,
                        ct_pipe = pipe, ct_request = pc_request controlParam, ct_target = pc_target controlParam,
                        ct_reqType = pc_reqType controlParam, ct_directon = 0, ct_value = pc_value controlParam,
                        ct_index = pc_index controlParam, ct_buffer = buffer,
                        ct_bufferLength = of_nat (pc_dataLength controlParam), ct_dataSize = 0,
                        ct_timeOut = timeOut\<rparr>) t cl s)))))"

text \<open>\<open>None\<close>: the parameters are rejected, with an exception where the code asserts.\<close>

definition GetBulkTransferParams ::
  "('v, 'e) napi \<Rightarrow> 'v list option \<Rightarrow> USBBulkTransferAsyncContext \<Rightarrow>
     ('e, USBBulkTransferAsyncContext option) state" where
  "GetBulkTransferParams N args asyncContext =
     assert_or N (args \<noteq> None \<and> 3 \<le> length (the args)) ''BulkTransfer failed to get cb info'' None (do {
       ty \<leftarrow> reads (typeof_or N (n_uninit_type N) (arg N (the args) 0));
       assert_or N (ty = napi_object) ''BulkTransfer wrong argument type index 0, object expected'' None (do {
         pipe \<leftarrow> ParseUsbDevicePipe N (arg N (the args) 0) (n_uninit_pipe N);
         ty1 \<leftarrow> reads (typeof_or N ty (arg N (the args) 1));
         assert_or N (ty1 = napi_object) ''BulkTransfer wrong argument type index 1. Object expected.'' None (do {
           ep \<leftarrow> ParseEndpointObj N (arg N (the args) 1);
           timeOut \<leftarrow> (if length (the args) > 3 then reads (get_int32_or N 0 (arg N (the args) 3))
              else State_Monad.return 0);
           (hasBuffer, buffer, bufferSize) \<leftarrow> reads (JsUint8ArrayParse N (arg N (the args) 2) None 0);
           if \<not> hasBuffer then State_Monad.return None
           else do {
             (buf, allocated) \<leftarrow> State (transfer_buffer N
               (USBEndpoint_GetDirection ep = USB_ENDPOINT_DIR_OUT) buffer bufferSize);
             assert_or N allocated ''nativeArraybuffer create failed.'' None
               (State_Monad.return (case buf of
                  None \<Rightarrow> None
                | Some buf \<Rightarrow> Some (asyncContext\<lparr>bt_pipe := pipe, bt_endpoint := ep, bt_buffer := buf,
                    bt_bufferLength := of_nat bufferSize, bt_timeOut := timeOut\<rparr>))) } }) }) })"

definition bulk_context_zero :: "USBBulkTransferAsyncContext" where
  "bulk_context_zero = \<lparr>ac_deferred = None, ac_ok = True, bt_buffer = None, bt_bufferLength = 0,
     bt_dataSize = 0, bt_timeOut = 0, bt_pipe = \<lparr>dp_busNum = 0, dp_devAddr = 0\<rparr>, bt_endpoint = USBEndpoint_new\<rparr>"

definition PipeBulkTransfer ::
  "'p parcel_ops \<Rightarrow> uec_codes \<Rightarrow> ('p, 's) client_env \<Rightarrow> ('v, 'e) napi \<Rightarrow>
     'v list option \<Rightarrow> 'e js_state \<Rightarrow> UsbSrvClient \<Rightarrow> 's \<Rightarrow> ('e, 's) js_call" where
  "PipeBulkTransfer P E C N args t cl s =
     js_do (State (n_alloc N)) t (\<lambda>allocated t.
       js_assert N allocated ''Create USBBulkTransferAsyncContext failed.'' t cl s
         (js_do (State (n_create_promise N)) t (\<lambda>deferred t.
            js_do (GetBulkTransferParams N args (bulk_context_zero\<lparr>ac_deferred := deferred\<rparr>)) t (\<lambda>ctx t.
              case ctx of
                None \<Rightarrow> js_return (map_option JsPromise deferred)
                  (t\<lparr>js_engine := ProcessPromise N deferred False (JsInt (-1)) (js_engine t)\<rparr>) cl s
              | Some ctx \<Rightarrow> js_return (map_option JsPromise deferred) (queue_work N (BulkWork ctx) t) cl s))))"

definition GetVersion :: "'e js_state \<Rightarrow> UsbSrvClient \<Rightarrow> 's \<Rightarrow> ('e, 's) js_call" where
  "GetVersion t cl s = js_return (Some (JsString Client_GetVersion)) t cl s"

end
