(* ===== verification/Usb_Js_Work.thy ===== *)
theory Usb_Js_Work
  imports Usb_Js_Api
begin

text \<open>
  What the engine runs for the asynchronous functions: \<open>execute\<close> on a thread of its own, and
  then \<open>complete\<close>, which settles the promise; and the table of exported functions
  (\<open>usb_info.cpp\<close>).
\<close>

section \<open>Execution\<close>

definition g_requestRightExecute ::
  "'p parcel_ops \<Rightarrow> uec_codes \<Rightarrow> ('p, 's) client_env \<Rightarrow> USBRightAsyncContext \<Rightarrow> UsbSrvClient \<Rightarrow> 's \<Rightarrow>
     (USBRightAsyncContext, 's) client_call" where
  "g_requestRightExecute P E C ctx cl s =
     run_bind (Client_RequestRight P E C (rc_deviceName ctx) cl s) (\<lambda>(ret, cl, s).
       cl_return (if ret = UEC_OK E then ctx\<lparr>ac_ok := True\<rparr> else ctx\<lparr>ac_ok := False\<rparr>) cl s)"

definition g_setCurrentFunctionExecute ::
  "'p parcel_ops \<Rightarrow> uec_codes \<Rightarrow> ('p, 's) client_env \<Rightarrow> USBFunctionAsyncContext \<Rightarrow> UsbSrvClient \<Rightarrow> 's \<Rightarrow>
     (USBFunctionAsyncContext, 's) client_call" where
  "g_setCurrentFunctionExecute P E C ctx cl s =
     run_bind (Client_SetCurrentFunctions P E C (fc_functions ctx) cl s) (\<lambda>(ret, cl, s).
       cl_return (if ret = UEC_OK E then ctx\<lparr>ac_ok := True\<rparr> else ctx\<lparr>ac_ok := False\<rparr>) cl s)"

definition g_setPortRoleExecute ::
  "'p parcel_ops \<Rightarrow> uec_codes \<Rightarrow> ('p, 's) client_env \<Rightarrow> USBPortRoleAsyncContext \<Rightarrow> UsbSrvClient \<Rightarrow> 's \<Rightarrow>
     (USBPortRoleAsyncContext, 's) client_call" where
  "g_setPortRoleExecute P E C ctx cl s =
     run_bind (Client_SetPortRole P E C (pr_portId ctx) (pr_powerRole ctx) (pr_dataRole ctx) cl s)
       (\<lambda>(ret, cl, s).
          cl_return (if ret = UEC_OK E then ctx\<lparr>ac_ok := True\<rparr> else ctx\<lparr>ac_ok := False\<rparr>) cl s)"

text \<open>
  The transfers work on a vector with a copy of the buffer.  The copy of an outgoing transfer is
  freed; the bytes of an incoming one are copied back into the buffer when the transfer succeeds.
\<close>

definition g_controlTransferExecute ::
  "'p parcel_ops \<Rightarrow> uec_codes \<Rightarrow> ('p, 's) client_env \<Rightarrow> ('v, 'e) napi \<Rightarrow> USBControlTransferAsyncContext \<Rightarrow> 'e \<Rightarrow>
     UsbSrvClient \<Rightarrow> 's \<Rightarrow> (USBControlTransferAsyncContext \<times> 'e, 's) client_call" where
  "g_controlTransferExecute P E C N ctx e cl s =
     (let bufferData = n_read N (ct_buffer ctx) (unat (ct_bufferLength ctx)) e;
          dir = ct_reqType ctx AND USB_ENDPOINT_DIR_MASK;
          (ctx, e) = (if dir = USB_ENDPOINT_DIR_OUT
             then (ctx\<lparr>ct_buffer := None\<rparr>, n_delete N (ct_buffer ctx) e) else (ctx, e));
          tctrl = \<lparr>ctrl_requestType = ct_reqType ctx, ctrl_requestCmd = ct_request ctx,
            ctrl_value = ct_value ctx, ctrl_index = ct_index ctx, ctrl_timeout = ct_timeOut ctx\<rparr>
      in run_bind (DevicePipe_ControlTransfer P E C tctrl bufferData (ct_pipe ctx) cl s)
           (\<lambda>((ret, bufferData), cl, s).
              let (ret, e) = (if ret = UEC_OK E \<and> dir = USB_ENDPOINT_DIR_IN
                    then n_memcpy_s N (ct_buffer ctx) (unat (ct_bufferLength ctx)) bufferData e else (ret, e))
              in cl_return
                   (if ret = UEC_OK E then ctx\<lparr>ac_ok := True, ct_dataSize := of_nat (length bufferData)\<rparr>
                    else ctx\<lparr>ac_ok := False, ct_dataSize := 0\<rparr>, e) cl s))"

definition g_bulkTransferExecute ::
  "'p parcel_ops \<Rightarrow> uec_codes \<Rightarrow> ('p, 's) client_env \<Rightarrow> ('v, 'e) napi \<Rightarrow> USBBulkTransferAsyncContext \<Rightarrow> 'e \<Rightarrow>
     UsbSrvClient \<Rightarrow> 's \<Rightarrow> (USBBulkTransferAsyncContext \<times> 'e, 's) client_call" where
  "g_bulkTransferExecute P E C N ctx e cl s =
     (let bufferData = n_read N (bt_buffer ctx) (unat (bt_bufferLength ctx)) e;
          dir = USBEndpoint_GetDirection (bt_endpoint ctx);
          (ctx, e) = (if dir = USB_ENDPOINT_DIR_OUT
             then (ctx\<lparr>bt_buffer := None\<rparr>, n_delete N (bt_buffer ctx) e) else (ctx, e))
      in run_bind (DevicePipe_BulkTransfer P E C (bt_endpoint ctx) bufferData (bt_timeOut ctx) (bt_pipe ctx) cl s)
           (\<lambda>((ret, bufferData), cl, s).
              let (ret, e) = (if ret = UEC_OK E \<and> dir = USB_ENDPOINT_DIR_IN
                    then n_memcpy_s N (bt_buffer ctx) (unat (bt_bufferLength ctx)) bufferData e else (ret, e))
              in cl_return
                   (if ret = UEC_OK E then ctx\<lparr>ac_ok := True, bt_dataSize := of_nat (length bufferData)\<rparr>
                    else ctx\<lparr>ac_ok := False, bt_dataSize := 0\<rparr>, e) cl s))"

section \<open>Completion\<close>

text \<open>The three functions without data resolve to true, or reject with false.\<close>

definition g_requestRightComplete :: "('v, 'e) napi \<Rightarrow> USBRightAsyncContext \<Rightarrow> 'e \<Rightarrow> 'e" where
  "g_requestRightComplete N ctx e = ProcessPromise N (ac_deferred ctx) (ac_ok ctx) (JsBool (ac_ok ctx)) e"

definition g_setCurrentFunctionComplete :: "('v, 'e) napi \<Rightarrow> USBFunctionAsyncContext \<Rightarrow> 'e \<Rightarrow> 'e" where
  "g_setCurrentFunctionComplete N ctx e = ProcessPromise N (ac_deferred ctx) (ac_ok ctx) (JsBool (ac_ok ctx)) e"

definition g_setPortRoleComplete :: "('v, 'e) napi \<Rightarrow> USBPortRoleAsyncContext \<Rightarrow> 'e \<Rightarrow> 'e" where
  "g_setPortRoleComplete N ctx e = ProcessPromise N (ac_deferred ctx) (ac_ok ctx) (JsBool (ac_ok ctx)) e"

definition g_controlTransferComplete :: "('v, 'e) napi \<Rightarrow> USBControlTransferAsyncContext \<Rightarrow> 'e \<Rightarrow> 'e" where
  "g_controlTransferComplete N ctx e =
     ProcessPromise N (ac_deferred ctx) (ac_ok ctx) (JsInt (if ac_ok ctx then ct_dataSize ctx else -1)) e"

definition g_bulkTransferComplete :: "('v, 'e) napi \<Rightarrow> USBBulkTransferAsyncContext \<Rightarrow> 'e \<Rightarrow> 'e" where
  "g_bulkTransferComplete N ctx e =
     ProcessPromise N (ac_deferred ctx) (ac_ok ctx) (JsInt (if ac_ok ctx then bt_dataSize ctx else -1)) e"

definition js_execute ::
  "'p parcel_ops \<Rightarrow> uec_codes \<Rightarrow> ('p, 's) client_env \<Rightarrow> ('v, 'e) napi \<Rightarrow> js_work \<Rightarrow> 'e \<Rightarrow> UsbSrvClient \<Rightarrow> 's \<Rightarrow>
     (js_work \<times> 'e, 's) client_call" where
  "js_execute P E C N work e cl s =
     (case work of
        RightWork ctx \<Rightarrow> run_bind (g_requestRightExecute P E C ctx cl s)
          (\<lambda>(ctx, cl, s). cl_return (RightWork ctx, e) cl s)
      | FunctionWork ctx \<Rightarrow> run_bind (g_setCurrentFunctionExecute P E C ctx cl s)
          (\<lambda>(ctx, cl, s). cl_return (FunctionWork ctx, e) cl s)
      | PortRoleWork ctx \<Rightarrow> run_bind (g_setPortRoleExecute P E C ctx cl s)
          (\<lambda>(ctx, cl, s). cl_return (PortRoleWork ctx, e) cl s)
      | ControlWork ctx \<Rightarrow> run_bind (g_controlTransferExecute P E C N ctx e cl s)
          (\<lambda>((ctx, e), cl, s). cl_return (ControlWork ctx, e) cl s)
      | BulkWork ctx \<Rightarrow> run_bind (g_bulkTransferExecute P E C N ctx e cl s)
          (\<lambda>((ctx, e), cl, s). cl_return (BulkWork ctx, e) cl s))"

definition js_complete :: "('v, 'e) napi \<Rightarrow> js_work \<Rightarrow> 'e \<Rightarrow> 'e" where
  "js_complete N work =
     (case work of
        RightWork ctx \<Rightarrow> g_requestRightComplete N ctx
      | FunctionWork ctx \<Rightarrow> g_setCurrentFunctionComplete N ctx
      | PortRoleWork ctx \<Rightarrow> g_setPortRoleComplete N ctx
      | ControlWork ctx \<Rightarrow> g_controlTransferComplete N ctx
      | BulkWork ctx \<Rightarrow> g_bulkTransferComplete N ctx)"

section \<open>The module\<close>

text \<open>The numbers of \<open>usb_async_context.h\<close>, exported under their names.\<close>

definition async_context_constants :: "(string \<times> i32) list" where
  "async_context_constants =
    [(''NONE'', 0), (''SOURCE'', 1), (''SINK'', 2),
     (''HOST'', 1), (''DEVICE'', 2),
     (''UFP'', 1), (''DFP'', 2), (''DRP'', 3), (''NUM_MODES'', 4),
     (''USB_REQUEST_TARGET_DEVICE'', 0), (''USB_REQUEST_TARGET_INTERFACE'', 1),
     (''USB_REQUEST_TARGET_ENDPOINT'', 2), (''USB_REQUEST_TARGET_OTHER'', 3),
     (''USB_REQUEST_TYPE_STANDARD'', 0), (''USB_REQUEST_TYPE_CLASS'', 1), (''USB_REQUEST_TYPE_VENDOR'', 2),
     (''USB_REQUEST_DIR_TO_DEVICE'', 0), (''USB_REQUEST_DIR_FROM_DEVICE'', 0x80),
     (''ACM'', 1), (''ECM'', 2), (''HDC'', 4), (''MTP'', 8), (''PTP'', 16), (''RNDIS'', 32),
     (''MIDI'', 64), (''AUDIO_SOURCE'', 128), (''NCM'', 256)]"

definition DeclareEnum :: "(string \<times> i32) list" where
  "DeclareEnum = map (\<lambda>n. (n, the (map_of async_context_constants n)))
    [''NONE'', ''SOURCE'', ''SINK'', ''HOST'', ''DEVICE'', ''UFP'', ''DFP'', ''DRP'',
     ''NUM_MODES'', ''USB_REQUEST_TARGET_DEVICE'', ''USB_REQUEST_TARGET_INTERFACE'',
     ''USB_REQUEST_TARGET_ENDPOINT'', ''USB_REQUEST_TARGET_OTHER'',
     ''USB_REQUEST_TYPE_STANDARD'', ''USB_REQUEST_TYPE_CLASS'', ''USB_REQUEST_TYPE_VENDOR'',
     ''USB_REQUEST_DIR_TO_DEVICE'', ''USB_REQUEST_DIR_FROM_DEVICE'', ''ACM'', ''ECM'', ''HDC'',
     ''MTP'', ''PTP'', ''RNDIS'', ''MIDI'', ''AUDIO_SOURCE'', ''NCM'']"

type_synonym ('v, 'e, 's) js_function =
  "'v list option \<Rightarrow> 'e js_state \<Rightarrow> UsbSrvClient \<Rightarrow> 's \<Rightarrow> ('e, 's) js_call"

definition UsbInit ::
  "js option \<Rightarrow> 'p parcel_ops \<Rightarrow> uec_codes \<Rightarrow> ('p, 's) client_env \<Rightarrow> ('v, 'e) napi \<Rightarrow>
     (string \<times> ('v, 'e, 's) js_function) list" where
  "UsbInit uninit P E C N =
    [(''getDevices'', CoreGetDevices P E C N), (''connectDevice'', CoreConnectDevice P E C N),
     (''hasRight'', CoreHasRight P E C N), (''requestRight'', CoreRequestRight P E C N),
     (''usbFunctionsFromString'', CoreUsbFunctionsFromString P E C N),
     (''usbFunctionsToString'', CoreUsbFunctionsToString P E C N),
     (''setCurrentFunctions'', CoreSetCurrentFunctions P E C N),
     (''getCurrentFunctions'', CoreGetCurrentFunctions P E C N),
     (''getPorts'', CoreGetPorts P E C N),
     (''getSupportedModes'', PortGetSupportedModes P E C N),
     (''setPortRoles'', PortSetPortRole P E C N),
     (''claimInterface'', PipeClaimInterface P E C N),
     (''releaseInterface'', PipeReleaseInterface P E C N),
     (''bulkTransfer'', PipeBulkTransfer P E C N),
     (''controlTransfer'', PipeControlTransfer P E C N),
     (''setInterface'', PipeSetInterface P E C N),
     (''setConfiguration'', PipeSetConfiguration P E C N),
     (''getRawDescriptor'', PipeGetRawDescriptors uninit P E C N),
     (''getFileDescriptor'', PipeGetFileDescriptor P E C N),
     (''closePipe'', PipeClose P E C N),
     (''getVersion'', \<lambda>_. GetVersion)]"

end
