(* ===== verification/Usb_Js_Promises.thy ===== *)
theory Usb_Js_Promises
  imports Usb_Js_Work
begin

text \<open>
  Promises of the bindings: however calls from JavaScript, the execution of queued work on other
  threads and its completion interleave, no promise is settled twice, and none is forgotten.
\<close>

section \<open>The engine's book of promises\<close>

text \<open>
  \<open>book\<close> reads from the state of the engine which promises were made and which were settled, in
  order, with their outcome.  Only the three functions for promises change it.
\<close>

type_synonym promise_log = "nat set \<times> (nat \<times> bool \<times> js) list"

definition made :: "promise_log \<Rightarrow> nat set" where "made b = fst b"
definition settled :: "promise_log \<Rightarrow> (nat \<times> bool \<times> js) list" where "settled b = snd b"

definition promise_book :: "('v, 'e) napi \<Rightarrow> ('e \<Rightarrow> promise_log) \<Rightarrow> bool" where
  "promise_book N book \<longleftrightarrow>
     (\<forall>v f e. book (snd (n_has_named_property N v f e)) = book e) \<and>
     (\<forall>v f e. book (snd (n_get_named_property N v f e)) = book e) \<and>
     (\<forall>v k e. book (snd (n_get_element N v k e)) = book e) \<and>
     (\<forall>m e. book (n_assert_failed N m e) = book e) \<and>
     (\<forall>m e. book (n_throw_error N m e) = book e) \<and>
     (\<forall>e. book (n_throw_last N e) = book e) \<and>
     (\<forall>e. book (snd (n_create_async_work N e)) = book e) \<and>
     (\<forall>e. book (snd (n_alloc N e)) = book e) \<and>
     (\<forall>n e. book (snd (n_new N n e)) = book e) \<and>
     (\<forall>n e. book (snd (n_create_arraybuffer N n e)) = book e) \<and>
     (\<forall>p e. book (n_delete N p e) = book e) \<and>
     (\<forall>p n b e. book (snd (n_memcpy_s N p n b e)) = book e) \<and>
     (\<forall>e. case n_create_promise N e of
        (None, e1) \<Rightarrow> book e1 = book e
      | (Some d, e1) \<Rightarrow> d \<notin> made (book e) \<and> book e1 = (insert d (made (book e)), settled (book e))) \<and>
     (\<forall>d v e. d \<in> made (book e) \<and> d \<notin> fst ` set (settled (book e)) \<longrightarrow>
        book (n_resolve_deferred N d v e) = (made (book e), settled (book e) @ [(d, True, v)]) \<and>
        book (n_reject_deferred N d v e) = (made (book e), settled (book e) @ [(d, False, v)]))"

lemma promise_bookD:
  assumes "promise_book N book"
  shows "book (snd (n_has_named_property N v f e)) = book e"
    and "book (snd (n_get_named_property N v f e)) = book e"
    and "book (snd (n_get_element N v k e)) = book e"
    and "book (n_assert_failed N m e) = book e"
    and "book (n_throw_error N m e) = book e"
    and "book (n_throw_last N e) = book e"
    and "book (snd (n_create_async_work N e)) = book e"
    and "book (snd (n_alloc N e)) = book e"
    and "book (snd (n_new N n e)) = book e"
    and "book (snd (n_create_arraybuffer N n e)) = book e"
    and "book (n_delete N p e) = book e"
    and "book (snd (n_memcpy_s N p n b e)) = book e"
    and "n_create_promise N e = (None, e1) \<Longrightarrow> book e1 = book e"
    and "n_create_promise N e = (Some d, e1) \<Longrightarrow> d \<notin> made (book e)"
    and "n_create_promise N e = (Some d, e1) \<Longrightarrow> book e1 = (insert d (made (book e)), settled (book e))"
    and "d \<in> made (book e) \<Longrightarrow> d \<notin> fst ` set (settled (book e)) \<Longrightarrow>
      book (n_resolve_deferred N d v' e) = (made (book e), settled (book e) @ [(d, True, v')])"
    and "d \<in> made (book e) \<Longrightarrow> d \<notin> fst ` set (settled (book e)) \<Longrightarrow>
      book (n_reject_deferred N d v' e) = (made (book e), settled (book e) @ [(d, False, v')])"
proof -
  note laws = assms [unfolded promise_book_def]
  have create: "case n_create_promise N e of
      (None, e1) \<Rightarrow> book e1 = book e
    | (Some d, e1) \<Rightarrow> d \<notin> made (book e) \<and> book e1 = (insert d (made (book e)), settled (book e))"
    using laws by (elim conjE) (erule allE [where x = e])
  show "n_create_promise N e = (None, e1) \<Longrightarrow> book e1 = book e"
    and "n_create_promise N e = (Some d, e1) \<Longrightarrow> d \<notin> made (book e)"
    and "n_create_promise N e = (Some d, e1) \<Longrightarrow> book e1 = (insert d (made (book e)), settled (book e))"
    using create by simp_all
qed (insert assms [unfolded promise_book_def], (elim conjE, simp; fail)+)

section \<open>Conversions leave the book alone\<close>

named_theorems quiet_rules \<open>conversions that make and settle no promise\<close>

definition quiet :: "('e \<Rightarrow> promise_log) \<Rightarrow> ('e, 'a) state \<Rightarrow> bool" where
  "quiet book m \<longleftrightarrow> (\<forall>e. book (snd (run_state m e)) = book e)"

lemma quiet_return [quiet_rules]: "quiet book (State_Monad.return x)"
  by (simp add: quiet_def)

lemma quiet_reads [quiet_rules]: "quiet book (reads f)"
  by (simp add: quiet_def reads_def)

lemma quiet_bind [quiet_rules]:
  "quiet book m \<Longrightarrow> (\<And>x. quiet book (f x)) \<Longrightarrow> quiet book (State_Monad.bind m f)"
  by (simp add: quiet_def case_prod_beta)

lemma quiet_if [quiet_rules]: "quiet book a \<Longrightarrow> quiet book b \<Longrightarrow> quiet book (if c then a else b)"
  by simp

lemma quiet_option [quiet_rules]:
  "quiet book a \<Longrightarrow> (\<And>x. quiet book (f x)) \<Longrightarrow> quiet book (case r of None \<Rightarrow> a | Some x \<Rightarrow> f x)"
  by (cases r) simp_all

lemma quiet_prod [quiet_rules]: "(\<And>a b. quiet book (f a b)) \<Longrightarrow> quiet book (case_prod f p)"
  by (cases p) simp

lemma quiet_engine [quiet_rules]:
  assumes "promise_book N book"
  shows "quiet book (State (n_has_named_property N v f))" and "quiet book (State (n_get_named_property N v f))"
    and "quiet book (State (n_get_element N v k))" and "quiet book (modifies (n_assert_failed N m))"
    and "quiet book (State (n_alloc N))" and "quiet book (State (n_create_arraybuffer N n))"
    and "quiet book (State (n_memcpy_s N p n b))"
  by (simp_all add: quiet_def modifies_def promise_bookD [OF assms])

lemma quiet_assert [quiet_rules]:
  "promise_book N book \<Longrightarrow> quiet book k \<Longrightarrow> quiet book (assert_or N cond msg fail k)"
  unfolding assert_or_def by (assumption | rule quiet_rules)+

lemma quiet_util [quiet_rules]:
  assumes "promise_book N book"
  shows "quiet book (JsValueToString N v n s)" and "quiet book (JsObjectToString N v f n s)"
    and "quiet book (JsObjectGetProperty N v f u)" and "quiet book (JsObjectToInt N v f i)"
    and "quiet book (JsObjectToUint N v f i)" and "quiet book (Uint8ArrayToJsValue N bs k)"
  unfolding JsValueToString_def JsObjectToString_def JsObjectGetProperty_def JsObjectToInt_def
    JsObjectToUint_def has_property_def property_or_def Uint8ArrayToJsValue_def
  by (assumption | rule quiet_rules assms)+

lemma quiet_elements [quiet_rules]:
  assumes "promise_book N book" and "\<And>v. quiet book (parse v)"
  shows "quiet book (parse_elements N parse v ks xs)"
proof (induction ks arbitrary: xs)
  case (Cons k ks)
  show ?case unfolding parse_elements.simps by (assumption | rule quiet_rules assms Cons)+
qed (simp add: quiet_rules)

lemma quiet_array [quiet_rules]:
  assumes "promise_book N book" and "\<And>v. quiet book (parse v)"
  shows "quiet book (parse_array N parse v f xs)"
  unfolding parse_array_def by (assumption | rule quiet_rules assms)+

lemma quiet_objects [quiet_rules]:
  assumes "promise_book N book"
  shows "quiet book (ParseUsbDevicePipe N v pipe)" and "quiet book (ParseEndpointObj N v)"
    and "quiet book (ParsePipeControlParam N v)"
  unfolding ParseUsbDevicePipe_def ParseEndpointObj_def ParsePipeControlParam_def
  by (assumption | rule quiet_rules assms)+

lemma quiet_interface [quiet_rules]:
  "promise_book N book \<Longrightarrow> quiet book (ParseInterfaceObj N v i)"
  unfolding ParseInterfaceObj_def ParseEndpointsObjs_def by (assumption | rule quiet_rules)+

lemma quiet_config [quiet_rules]:
  "promise_book N book \<Longrightarrow> quiet book (ParseConfigObj N v c)"
  unfolding ParseConfigObj_def ParseInterfacesObjs_def by (assumption | rule quiet_rules)+

lemma quiet_configs [quiet_rules]:
  assumes "promise_book N book"
  shows "quiet book (parse_configs N v ks cs)"
proof (induction ks arbitrary: cs)
  case (Cons k ks)
  show ?case unfolding parse_configs.simps by (assumption | rule quiet_rules assms Cons)+
qed (simp add: quiet_rules)

lemma quiet_device [quiet_rules]:
  "promise_book N book \<Longrightarrow> quiet book (ParseDeviceObj N v d)"
  unfolding ParseDeviceObj_def ParseConfigsObjs_def by (assumption | rule quiet_rules)+

lemma quiet_transfer [quiet_rules]:
  assumes "promise_book N book"
  shows "quiet book (State (transfer_buffer N out data n))"
  unfolding quiet_def
  by (auto simp: transfer_buffer_def promise_bookD [OF assms] case_prod_beta Let_def)

lemma quiet_params [quiet_rules]:
  assumes "promise_book N book"
  shows "quiet book (GetControlTransferParam N args)" and "quiet book (GetBulkTransferParams N args ctx)"
  unfolding GetControlTransferParam_def GetBulkTransferParams_def
  by (assumption | rule quiet_rules assms)+

section \<open>What one call does to the book\<close>

fun work_deferred :: "js_work \<Rightarrow> nat option" where
  "work_deferred (RightWork ctx) = ac_deferred ctx"
| "work_deferred (FunctionWork ctx) = ac_deferred ctx"
| "work_deferred (PortRoleWork ctx) = ac_deferred ctx"
| "work_deferred (ControlWork ctx) = ac_deferred ctx"
| "work_deferred (BulkWork ctx) = ac_deferred ctx"

definition accepting :: "('v, 'e) napi \<Rightarrow> bool" where
  "accepting N \<longleftrightarrow> (\<forall>e. fst (n_create_async_work N e))"

text \<open>Nothing, or a new promise that is queued, settled at once, or lost because its work is refused.\<close>

definition unchanged :: "('e \<Rightarrow> promise_log) \<Rightarrow> 'e js_state \<Rightarrow> 'e js_state \<Rightarrow> bool" where
  "unchanged book t0 t \<longleftrightarrow> book (js_engine t) = book (js_engine t0) \<and> js_queue t = js_queue t0"

definition makes :: "('e \<Rightarrow> promise_log) \<Rightarrow> 'e js_state \<Rightarrow> nat option \<Rightarrow> 'e js_state \<Rightarrow> bool" where
  "makes book t0 deferred t \<longleftrightarrow> js_queue t = js_queue t0 \<and>
     (case deferred of
        None \<Rightarrow> book (js_engine t) = book (js_engine t0)
      | Some d \<Rightarrow> d \<notin> made (book (js_engine t0)) \<and>
          book (js_engine t) = (insert d (made (book (js_engine t0))), settled (book (js_engine t0))))"

inductive js_effect :: "('v, 'e) napi \<Rightarrow> ('e \<Rightarrow> promise_log) \<Rightarrow> 'e js_state \<Rightarrow> 'e js_state \<Rightarrow> bool"
  for N book t0 where
  effect_none: "unchanged book t0 t \<Longrightarrow> js_effect N book t0 t"
| effect_queued: "makes book t0 (work_deferred w) t1 \<Longrightarrow> book (js_engine t) = book (js_engine t1) \<Longrightarrow>
    js_queue t = js_queue t1 @ [w] \<Longrightarrow> js_effect N book t0 t"
| effect_refused: "makes book t0 d t1 \<Longrightarrow> book (js_engine t) = book (js_engine t1) \<Longrightarrow>
    js_queue t = js_queue t1 \<Longrightarrow> \<not> accepting N \<Longrightarrow> js_effect N book t0 t"
| effect_rejected: "makes book t0 d t1 \<Longrightarrow> book (js_engine t) = book (js_engine t1) \<Longrightarrow>
    js_effect N book t0 (t\<lparr>js_engine := ProcessPromise N d False v (js_engine t), js_queue := js_queue t1\<rparr>)"

definition leads :: "('e js_state \<Rightarrow> bool) \<Rightarrow> ('e, 's) js_call \<Rightarrow> bool" where
  "leads Q call \<longleftrightarrow> (\<forall>v t cl s. call = Some (Mem (v, t, cl, s)) \<longrightarrow> Q t)"

lemma unchanged_refl: "unchanged book t t"
  by (simp add: unchanged_def)

lemma leads_return: "Q t \<Longrightarrow> leads Q (js_return v t cl s)"
  by (simp add: leads_def js_return_def)

lemma leads_same: "unchanged book t0 t \<Longrightarrow> leads (js_effect N book t0) (js_return v t cl s)"
  by (simp add: leads_return effect_none)

lemma leads_client: "(\<And>v cl s. leads Q (k v cl s)) \<Longrightarrow> leads Q (js_client call k)"
  by (auto simp: leads_def js_client_def run_bind_def split: option.splits mem.splits prod.splits)

lemma leads_do:
  assumes "quiet book m" and "unchanged book t0 t" and "\<And>a t1. unchanged book t0 t1 \<Longrightarrow> leads Q (k a t1)"
  shows "leads Q (js_do m t k)"
proof -
  obtain a e where m: "run_state m (js_engine t) = (a, e)" by (metis surj_pair)
  have "book e = book (js_engine t)" using assms(1) m by (metis quiet_def snd_conv)
  then have "unchanged book t0 (t\<lparr>js_engine := e\<rparr>)" using assms(2) by (simp add: unchanged_def)
  from assms(3) [OF this] show ?thesis by (simp add: js_do_def m)
qed

lemma leads_throw:
  assumes "promise_book N book" and "unchanged book t0 t"
  shows "leads (js_effect N book t0) (js_return v (t\<lparr>js_engine := n_assert_failed N msg (js_engine t)\<rparr>) cl s)"
    and "leads (js_effect N book t0) (js_return v (t\<lparr>js_engine := n_throw_last N (js_engine t)\<rparr>) cl s)"
    and "leads (js_effect N book t0) (js_return v (t\<lparr>js_engine := n_throw_error N msg (js_engine t)\<rparr>) cl s)"
  using assms(2) by (simp_all add: leads_same unchanged_def promise_bookD [OF assms(1)])

lemma leads_assert:
  assumes "promise_book N book" and "unchanged book t0 t" and "leads (js_effect N book t0) k"
  shows "leads (js_effect N book t0) (js_assert N cond msg t cl s k)"
  using assms by (simp add: js_assert_def leads_throw)

lemma leads_with_args:
  assumes "promise_book N book" and "unchanged book t0 t" and "\<And>argv. leads (js_effect N book t0) (k argv)"
  shows "leads (js_effect N book t0) (with_args N args least msg t cl s k)"
  using assms by (simp add: with_args_def leads_assert)

lemma leads_types:
  assumes "promise_book N book" and "unchanged book t0 t" and "leads (js_effect N book t0) k"
  shows "leads (js_effect N book t0) (expect_type N old v wanted msg t cl s k)"
    and "leads (js_effect N book t0) (call_type N v wanted msg t cl s k)"
  using assms by (auto simp: expect_type_def call_type_def leads_assert leads_throw split: option.splits)

lemma leads_pipe:
  assumes "promise_book N book" and "unchanged book t0 t"
    and "\<And>pipe t1. unchanged book t0 t1 \<Longrightarrow> leads (js_effect N book t0) (k pipe t1)"
  shows "leads (js_effect N book t0) (with_pipe N argv t cl s k)"
  unfolding with_pipe_def
  by (rule leads_types leads_do quiet_rules assms | assumption)+

lemma leads_make:
  assumes "promise_book N book" and "unchanged book t0 t"
    and "\<And>d t1. makes book t0 d t1 \<Longrightarrow> leads Q (k d t1)"
  shows "leads Q (js_do (State (n_create_promise N)) t k)"
proof -
  obtain d e where m: "n_create_promise N (js_engine t) = (d, e)" by (metis surj_pair)
  have "makes book t0 d (t\<lparr>js_engine := e\<rparr>)"
    using assms(2) promise_bookD(13-15) [OF assms(1), of "js_engine t"] m
    by (auto simp: makes_def unchanged_def split: option.split)
  from assms(3) [OF this] show ?thesis by (simp add: js_do_def m)
qed

lemma effect_queue_work:
  assumes "promise_book N book" and "makes book t0 (work_deferred w) t1"
    and "book (js_engine t) = book (js_engine t1)" and "js_queue t = js_queue t1"
  shows "js_effect N book t0 (queue_work N w t)"
proof -
  obtain ok e where c: "n_create_async_work N (js_engine t) = (ok, e)" by (metis surj_pair)
  have b: "book e = book (js_engine t1)"
    using promise_bookD(7) [OF assms(1), of "js_engine t"] c assms(3) by simp
  show ?thesis
  proof (cases ok)
    case True
    then show ?thesis
      by (intro effect_queued [OF assms(2)]) (simp_all add: queue_work_def c b assms(4))
  next
    case False
    then have "\<not> accepting N" using c by (metis accepting_def fst_conv)
    with False show ?thesis
      by (intro effect_refused [OF assms(2)]) (simp_all add: queue_work_def c b assms(4))
  qed
qed

lemma leads_promise_work:
  assumes "promise_book N book" and "unchanged book t0 t" and "\<And>d. work_deferred (work d) = d"
  shows "leads (js_effect N book t0) (promise_work N work t cl s)"
  unfolding promise_work_def
  by (rule leads_make [OF assms(1,2)], rule leads_return, rule effect_queue_work [OF assms(1)])
    (simp_all add: assms(3))

lemma leads_if: "leads Q a \<Longrightarrow> leads Q b \<Longrightarrow> leads Q (if c then a else b)"
  by simp

lemma leads_option:
  "leads Q a \<Longrightarrow> (\<And>x. leads Q (f x)) \<Longrightarrow> leads Q (case r of None \<Rightarrow> a | Some x \<Rightarrow> f x)"
  by (cases r) simp_all

lemma leads_prod: "(\<And>a b. leads Q (f a b)) \<Longrightarrow> leads Q (case_prod f p)"
  by (cases p) simp

lemma leads_prod_apply:
  "(\<And>a b. leads Q (f a b cl s)) \<Longrightarrow> leads Q (case_prod f p cl s)"
  "(\<And>a b. leads Q (g a b t)) \<Longrightarrow> leads Q (case_prod g p t)"
  by (cases p; simp)+

lemmas effect_rules = leads_if leads_option leads_prod leads_prod_apply leads_same leads_client leads_throw leads_assert
  leads_with_args leads_types leads_pipe leads_do leads_promise_work

lemma core_effects:
  assumes "promise_book N book"
  shows "leads (js_effect N book t) (CoreGetDevices P E C N args t cl s)"
    and "leads (js_effect N book t) (CoreConnectDevice P E C N args t cl s)"
    and "leads (js_effect N book t) (CoreHasRight P E C N args t cl s)"
    and "leads (js_effect N book t) (CoreUsbFunctionsFromString P E C N args t cl s)"
    and "leads (js_effect N book t) (CoreUsbFunctionsToString P E C N args t cl s)"
    and "leads (js_effect N book t) (CoreGetCurrentFunctions P E C N args t cl s)"
    and "leads (js_effect N book t) (CoreGetPorts P E C N args t cl s)"
    and "leads (js_effect N book t) (PortGetSupportedModes P E C N args t cl s)"
  unfolding CoreGetDevices_def CoreConnectDevice_def CoreHasRight_def CoreUsbFunctionsFromString_def
    CoreUsbFunctionsToString_def CoreGetCurrentFunctions_def CoreGetPorts_def PortGetSupportedModes_def Let_def
  by (assumption | rule effect_rules quiet_rules assms unchanged_refl)+

lemma pipe_effects:
  assumes "promise_book N book"
  shows "leads (js_effect N book t) (PipeClaimInterface P E C N args t cl s)"
    and "leads (js_effect N book t) (PipeReleaseInterface P E C N args t cl s)"
    and "leads (js_effect N book t) (PipeSetInterface P E C N args t cl s)"
    and "leads (js_effect N book t) (PipeSetConfiguration P E C N args t cl s)"
    and "leads (js_effect N book t) (PipeGetRawDescriptors u P E C N args t cl s)"
    and "leads (js_effect N book t) (PipeGetFileDescriptor P E C N args t cl s)"
    and "leads (js_effect N book t) (PipeClose P E C N args t cl s)"
    and "leads (js_effect N book t) (GetVersion t cl s)"
  unfolding PipeClaimInterface_def PipeReleaseInterface_def PipeSetInterface_def PipeSetConfiguration_def
    PipeGetRawDescriptors_def PipeGetFileDescriptor_def PipeClose_def GetVersion_def Let_def
  by (assumption | rule effect_rules quiet_rules assms unchanged_refl)+

lemma work_effects:
  assumes "promise_book N book"
  shows "leads (js_effect N book t) (CoreRequestRight P E C N args t cl s)"
    and "leads (js_effect N book t) (CoreSetCurrentFunctions P E C N args t cl s)"
    and "leads (js_effect N book t) (PortSetPortRole P E C N args t cl s)"
    and "leads (js_effect N book t) (PipeControlTransfer P E C N args t cl s)"
  unfolding CoreRequestRight_def CoreSetCurrentFunctions_def PortSetPortRole_def PipeControlTransfer_def Let_def
  by (assumption | rule effect_rules quiet_rules assms unchanged_refl | simp; fail)+

text \<open>The context that is queued has the deferred it was given.\<close>

definition for_deferred :: "nat option \<Rightarrow> ('e, USBBulkTransferAsyncContext option) state \<Rightarrow> bool" where
  "for_deferred d m \<longleftrightarrow> (\<forall>e w e1. run_state m e = (Some w, e1) \<longrightarrow> ac_deferred w = d)"

lemma for_deferred_rules:
  "for_deferred d (State_Monad.return None)"
  "ac_deferred w = d \<Longrightarrow> for_deferred d (State_Monad.return (Some w))"
  "(\<And>x. for_deferred d (f x)) \<Longrightarrow> for_deferred d (State_Monad.bind m f)"
  "for_deferred d a \<Longrightarrow> for_deferred d b \<Longrightarrow> for_deferred d (if c then a else b)"
  "(\<And>x y. for_deferred d (g x y)) \<Longrightarrow> for_deferred d (case_prod g p)"
  "for_deferred d k \<Longrightarrow> for_deferred d (assert_or N c msg None k)"
  by (auto simp: for_deferred_def assert_or_def split: prod.splits)

lemma bulk_params_deferred: "for_deferred (ac_deferred ctx) (GetBulkTransferParams N args ctx)"
  unfolding GetBulkTransferParams_def
  by (rule for_deferred_rules | simp add: for_deferred_rules split: option.split)+

lemma bulk_effect:
  assumes "promise_book N book"
  shows "leads (js_effect N book t) (PipeBulkTransfer P E C N args t cl s)"
proof -
  have work: "leads (js_effect N book t)
      (js_do (GetBulkTransferParams N args (bulk_context_zero\<lparr>ac_deferred := d\<rparr>)) t1 (\<lambda>ctx t.
         case ctx of
           None \<Rightarrow> js_return (map_option JsPromise d)
             (t\<lparr>js_engine := ProcessPromise N d False (JsInt (-1)) (js_engine t)\<rparr>) cl s
         | Some ctx \<Rightarrow> js_return (map_option JsPromise d) (queue_work N (BulkWork ctx) t) cl s))"
    if made: "makes book t d t1" for d t1
  proof -
    let ?m = "GetBulkTransferParams N args (bulk_context_zero\<lparr>ac_deferred := d\<rparr>)"
    obtain ctx e where run: "run_state ?m (js_engine t1) = (ctx, e)" by (metis surj_pair)
    have "quiet book ?m" by (rule quiet_rules assms)+
    then have b: "book e = book (js_engine t1)" using run by (metis quiet_def snd_conv)
    show ?thesis
    proof (cases ctx)
      case None
      have "js_effect N book t ((t1\<lparr>js_engine := e\<rparr>)\<lparr>js_engine := ProcessPromise N d False (JsInt (-1)) e,
          js_queue := js_queue t1\<rparr>)"
        using effect_rejected [OF made, of "t1\<lparr>js_engine := e\<rparr>" N "JsInt (-1)"] b by simp
      then show ?thesis by (simp add: js_do_def run None leads_return)
    next
      case (Some w)
      have "work_deferred (BulkWork w) = d"
        using bulk_params_deferred [of "bulk_context_zero\<lparr>ac_deferred := d\<rparr>" N args] run Some
        by (auto simp: for_deferred_def)
      with made have m: "makes book t (work_deferred (BulkWork w)) t1" by simp
      show ?thesis
        using effect_queue_work [OF assms m, of "t1\<lparr>js_engine := e\<rparr>"] b
        by (simp add: js_do_def run Some leads_return)
    qed
  qed
  show ?thesis
    unfolding PipeBulkTransfer_def
    by (rule leads_do [OF quiet_engine(5) [OF assms] unchanged_refl], rule leads_assert [OF assms], assumption,
      rule leads_make [OF assms], assumption, erule work)
qed

lemma exported_effect:
  assumes "promise_book N book" and "(name, f) \<in> set (UsbInit u P E C N)"
  shows "leads (js_effect N book t) (f args t cl s)"
  using assms(2)
  by (auto simp: UsbInit_def core_effects [OF assms(1)] pipe_effects [OF assms(1)] work_effects [OF assms(1)]
      bulk_effect [OF assms(1)])

section \<open>All interleavings\<close>

text \<open>
  The state of the bindings with the work that was executed and not yet completed.  A step is a
  call of an exported function, the execution of some queued work, or its completion; the
  connection and the system may be changed by others at any time.
\<close>

record ('e, 's) js_world =
  jw_state :: "'e js_state"
  jw_done :: "js_work list"
  jw_client :: UsbSrvClient
  jw_system :: 's

inductive js_step ::
  "js option \<Rightarrow> 'p parcel_ops \<Rightarrow> uec_codes \<Rightarrow> ('p, 's) client_env \<Rightarrow> ('v, 'e) napi \<Rightarrow>
     ('e, 's) js_world \<Rightarrow> ('e, 's) js_world \<Rightarrow> bool"
  for u P E C N where
  step_call: "(name, f) \<in> set (UsbInit u P E C N) \<Longrightarrow>
    f args (jw_state x) (jw_client x) (jw_system x) = Some (Mem (v, t, cl, s)) \<Longrightarrow>
    js_step u P E C N x (x\<lparr>jw_state := t, jw_client := cl, jw_system := s\<rparr>)"
| step_execute: "js_queue (jw_state x) = ws1 @ w # ws2 \<Longrightarrow>
    js_execute P E C N w (js_engine (jw_state x)) (jw_client x) (jw_system x) = Some (Mem ((w', e), cl, s)) \<Longrightarrow>
    js_step u P E C N x (x\<lparr>jw_state := \<lparr>js_engine = e, js_queue = ws1 @ ws2\<rparr>, jw_done := jw_done x @ [w'],
      jw_client := cl, jw_system := s\<rparr>)"
| step_complete: "jw_done x = ds1 @ w # ds2 \<Longrightarrow>
    js_step u P E C N x (x\<lparr>jw_state := (jw_state x)\<lparr>js_engine := js_complete N w (js_engine (jw_state x))\<rparr>,
      jw_done := ds1 @ ds2\<rparr>)"
| step_other: "js_step u P E C N x (x\<lparr>jw_client := cl, jw_system := s\<rparr>)"

definition js_start :: "'e \<Rightarrow> UsbSrvClient \<Rightarrow> 's \<Rightarrow> ('e, 's) js_world" where
  "js_start e cl s = \<lparr>jw_state = \<lparr>js_engine = e, js_queue = []\<rparr>, jw_done = [], jw_client = cl, jw_system = s\<rparr>"

text \<open>The deferreds of the work in flight.\<close>

definition deferreds :: "js_work list \<Rightarrow> nat list" where
  "deferreds ws = List.map_filter work_deferred ws"

definition in_flight :: "('e, 's) js_world \<Rightarrow> nat list" where
  "in_flight x = deferreds (js_queue (jw_state x)) @ deferreds (jw_done x)"

text \<open>
  Every promise in flight or settled was made, once; the converse holds when the engine accepts
  all work (\<open>complete\<close>).
\<close>

definition promise_ok :: "bool \<Rightarrow> nat list \<Rightarrow> promise_log \<Rightarrow> bool" where
  "promise_ok complete ds b \<longleftrightarrow>
     (let known = ds @ map fst (settled b)
      in distinct known \<and> set known \<subseteq> made b \<and> (complete \<longrightarrow> made b \<subseteq> set known))"

definition promise_inv :: "bool \<Rightarrow> ('e \<Rightarrow> promise_log) \<Rightarrow> ('e, 's) js_world \<Rightarrow> bool" where
  "promise_inv complete book x \<longleftrightarrow> promise_ok complete (in_flight x) (book (js_engine (jw_state x)))"

lemma deferreds_simps [simp]:
  "deferreds [] = []" "deferreds (w # ws) = (case work_deferred w of None \<Rightarrow> [] | Some d \<Rightarrow> [d]) @ deferreds ws"
  "deferreds (ws @ ws') = deferreds ws @ deferreds ws'"
  by (simp_all add: deferreds_def map_filter_simps split: option.split) (simp add: List.map_filter_def)

lemma promise_log_simps [simp]: "made (m, l) = m" "settled (m, l) = l"
  by (simp_all add: made_def settled_def)

lemma promise_ok_make:
  "promise_ok c (ds @ ds') b \<Longrightarrow> d \<notin> made b \<Longrightarrow> promise_ok c (ds @ d # ds') (insert d (made b), settled b)"
  by (auto simp: promise_ok_def Let_def)

lemma promise_ok_lose:
  "promise_ok False ds b \<Longrightarrow> d \<notin> made b \<Longrightarrow> promise_ok False ds (insert d (made b), settled b)"
  by (auto simp: promise_ok_def Let_def)

lemma promise_ok_settle:
  "promise_ok c (ds @ d # ds') b \<Longrightarrow> promise_ok c (ds @ ds') (made b, settled b @ [(d, ok, v)])"
  by (auto simp: promise_ok_def Let_def)

lemma promise_ok_in_flight:
  "promise_ok c (ds @ d # ds') b \<Longrightarrow> d \<in> made b \<and> d \<notin> fst ` set (settled b)"
  by (auto simp: promise_ok_def Let_def)

lemma execute_keeps:
  assumes "promise_book N book" and "js_execute P E C N w e cl s = Some (Mem ((w', e'), cl', s'))"
  shows "work_deferred w' = work_deferred w" and "book e' = book e"
proof -
  have "work_deferred w' = work_deferred w \<and> book e' = book e"
  proof (cases w)
    case (BulkWork ctx)
    with assms(2) show ?thesis
      by (auto simp: js_execute_def g_bulkTransferExecute_def run_bind_def cl_return_def Let_def case_prod_beta
          promise_bookD [OF assms(1)] split: option.splits mem.splits if_splits)
  next
    case (ControlWork ctx)
    with assms(2) show ?thesis
      by (auto simp: js_execute_def g_controlTransferExecute_def run_bind_def cl_return_def Let_def case_prod_beta
          promise_bookD [OF assms(1)] split: option.splits mem.splits if_splits)
  qed (use assms(2) in \<open>auto simp: js_execute_def g_requestRightExecute_def g_setCurrentFunctionExecute_def
        g_setPortRoleExecute_def run_bind_def cl_return_def split: option.splits mem.splits if_splits\<close>)
  then show "work_deferred w' = work_deferred w" and "book e' = book e" by simp_all
qed

lemma complete_settles:
  "js_complete N w e = ProcessPromise N (work_deferred w) (case w of RightWork c \<Rightarrow> ac_ok c | FunctionWork c \<Rightarrow> ac_ok c
     | PortRoleWork c \<Rightarrow> ac_ok c | ControlWork c \<Rightarrow> ac_ok c | BulkWork c \<Rightarrow> ac_ok c)
     (case w of RightWork c \<Rightarrow> JsBool (ac_ok c) | FunctionWork c \<Rightarrow> JsBool (ac_ok c)
     | PortRoleWork c \<Rightarrow> JsBool (ac_ok c) | ControlWork c \<Rightarrow> JsInt (if ac_ok c then ct_dataSize c else -1)
     | BulkWork c \<Rightarrow> JsInt (if ac_ok c then bt_dataSize c else -1)) e"
  by (cases w) (simp_all add: js_complete_def g_requestRightComplete_def g_setCurrentFunctionComplete_def
      g_setPortRoleComplete_def g_controlTransferComplete_def g_bulkTransferComplete_def)

lemma process_settles:
  assumes "promise_book N book" and "d \<in> made (book e)" and "d \<notin> fst ` set (settled (book e))"
  shows "book (ProcessPromise N (Some d) ok v e) = (made (book e), settled (book e) @ [(d, ok, v)])"
  using promise_bookD(16,17) [OF assms(1,2,3)] by (simp add: ProcessPromise_def)

lemma settle_ok:
  assumes "promise_book N book" and "promise_ok c (ds @ d # ds') (book e)"
  shows "promise_ok c (ds @ ds') (book (ProcessPromise N (Some d) ok v e))"
  using promise_ok_settle [OF assms(2)] promise_ok_in_flight [OF assms(2)]
  by (simp add: process_settles [OF assms(1)])

lemma process_none [simp]: "ProcessPromise N None ok v e = e"
  by (simp add: ProcessPromise_def)

lemma make_ok:
  assumes "makes book t0 d t1" and "promise_ok c (ds @ ds') (book (js_engine t0))"
  shows "promise_ok c (ds @ (case d of None \<Rightarrow> [] | Some d \<Rightarrow> [d]) @ ds') (book (js_engine t1))"
  using assms by (auto simp: makes_def promise_ok_make split: option.splits)

lemma effect_inv:
  assumes "promise_book N book" and "js_effect N book t0 t" and "c \<Longrightarrow> accepting N"
    and "promise_ok c (deferreds (js_queue t0) @ ds) (book (js_engine t0))"
  shows "promise_ok c (deferreds (js_queue t) @ ds) (book (js_engine t))"
  using assms(2)
proof cases
  case effect_none
  with assms(4) show ?thesis by (simp add: unchanged_def)
next
  case (effect_queued w t1)
  with make_ok [OF effect_queued(1) assms(4)] show ?thesis by (simp add: makes_def)
next
  case (effect_refused d t1)
  then have c: "c = False" using assms(3) by blast
  show ?thesis
    using effect_refused assms(4) promise_ok_lose [of "deferreds (js_queue t0) @ ds" "book (js_engine t0)"]
    by (auto simp: c makes_def split: option.splits)
next
  case (effect_rejected d t1 t2 v)
  have q: "js_queue t1 = js_queue t0" using effect_rejected(2) by (simp add: makes_def)
  show ?thesis
  proof (cases d)
    case None
    with make_ok [OF effect_rejected(2) assms(4)] effect_rejected q show ?thesis by simp
  next
    case (Some d1)
    have "promise_ok c (deferreds (js_queue t0) @ d1 # ds) (book (js_engine t2))"
      using make_ok [OF effect_rejected(2) assms(4)] Some effect_rejected(3) by simp
    from settle_ok [OF assms(1) this] show ?thesis using effect_rejected(1) q Some by simp
  qed
qed

lemma js_step_inv:
  assumes "promise_book N book" and "js_step u P E C N x y" and "c \<Longrightarrow> accepting N"
    and "promise_inv c book x"
  shows "promise_inv c book y"
  using assms(2)
proof cases
  case (step_call name f args v t cl s)
  from exported_effect [OF assms(1) step_call(2), of "jw_state x" args "jw_client x" "jw_system x"] step_call(3)
  have "js_effect N book (jw_state x) t" unfolding leads_def by blast
  from effect_inv [OF assms(1) this assms(3)] assms(4) show ?thesis
    by (simp add: step_call(1) promise_inv_def in_flight_def)
next
  case (step_execute ws1 w ws2 w' e cl s)
  note keep = execute_keeps [OF assms(1) step_execute(3)]
  have "promise_ok c (deferreds ws1 @ deferreds ws2 @ deferreds (jw_done x) @ ds) b"
    if "promise_ok c (deferreds ws1 @ ds @ deferreds ws2 @ deferreds (jw_done x)) b" for ds b
    using that by (auto simp: promise_ok_def Let_def)
  from this [of "case work_deferred w of None \<Rightarrow> [] | Some d \<Rightarrow> [d]"] show ?thesis
    using assms(4) step_execute(2) keep by (simp add: step_execute(1) promise_inv_def in_flight_def)
next
  case (step_complete ds1 w ds2)
  then show ?thesis using assms(4)
    by (cases "work_deferred w")
      (auto simp: promise_inv_def in_flight_def complete_settles
        intro: settle_ok [OF assms(1), of c "deferreds (js_queue (jw_state x)) @ deferreds ds1", simplified])
next
  case step_other
  with assms(4) show ?thesis by (simp add: promise_inv_def in_flight_def)
qed

interpretation promises: step_invariant "js_step u P E C N"
  "\<lambda>x. promise_book N book \<and> (c \<longrightarrow> accepting N) \<and> promise_inv c book x"
  by unfold_locales (auto intro: js_step_inv)

lemma js_steps_inv:
  assumes "promise_book N book" and "(js_step u P E C N)\<^sup>*\<^sup>* x y" and "c \<Longrightarrow> accepting N"
    and "promise_inv c book x"
  shows "promise_inv c book y"
  using promises.steps_inv [OF assms(2), of book c] assms(1,3,4) by blast

end
