(* ===== verification/Usb_Js_Props.thy ===== *)
theory Usb_Js_Props
  imports Usb_Js_Promises Usb_Client_Props
begin

text \<open>
  What JavaScript gets from the bindings: a device that was listed can be connected, every promise is
  settled once, and what is lost when an object goes to JavaScript and back.
\<close>

section \<open>Reading what the bindings built\<close>

text \<open>
  As long as no exception is pending (\<open>calm\<close>), reading a value the bindings have built gives its
  parts and changes nothing.  Numbers keep their 32 bits; texts of the seven-bit characters are
  copied into the buffer up to its size.
\<close>

fun type_of_js :: "js \<Rightarrow> napi_valuetype" where
  "type_of_js JsUndefined = napi_undefined"
| "type_of_js (JsBool b) = napi_boolean"
| "type_of_js (JsInt i) = napi_number"
| "type_of_js (JsUint i) = napi_number"
| "type_of_js (JsString s) = napi_string"
| "type_of_js v = napi_object"

definition ascii :: "string \<Rightarrow> bool" where
  "ascii s \<longleftrightarrow> (\<forall>c\<in>set s. of_char c < (128 :: nat) \<and> c \<noteq> CHR 0x00)"

definition reads_back :: "('v, 'e) napi \<Rightarrow> ('e \<Rightarrow> bool) \<Rightarrow> bool" where
  "reads_back N calm \<longleftrightarrow> (\<forall>e. calm e \<longrightarrow>
     (\<forall>v. n_typeof N (n_value N v) e = Some (type_of_js v)) \<and>
     (\<forall>ms k. n_has_named_property N (n_value N (JsObject ms)) k e = (Some (map_of ms k \<noteq> None), e)) \<and>
     (\<forall>ms k v. map_of ms k = Some v \<longrightarrow>
        n_get_named_property N (n_value N (JsObject ms)) k e = (Some (n_value N v), e)) \<and>
     (\<forall>i. n_get_value_int32 N (n_value N (JsInt i)) e = Some i) \<and>
     (\<forall>i. n_get_value_int32 N (n_value N (JsUint i)) e = Some i) \<and>
     (\<forall>s n. ascii s \<longrightarrow> n_get_value_string_utf8 N (n_value N (JsString s)) n e = Some (take (n - 1) s)) \<and>
     (\<forall>vs. n_is_array N (n_value N (JsArray vs)) e = Some True) \<and>
     (\<forall>vs. n_get_array_length N (n_value N (JsArray vs)) e = Some (of_nat (length vs))) \<and>
     (\<forall>vs k. k < length vs \<and> length vs < 2147483648 \<longrightarrow>
        n_get_element N (n_value N (JsArray vs)) (of_nat k) e = (Some (n_value N (vs ! k)), e)) \<and>
     (\<forall>n. n_memset_s N n e))"

lemma reads_backD:
  assumes "reads_back N calm" and "calm e"
  shows "n_typeof N (n_value N v) e = Some (type_of_js v)"
    and "n_has_named_property N (n_value N (JsObject ms)) k e = (Some (map_of ms k \<noteq> None), e)"
    and "map_of ms k = Some v \<Longrightarrow> n_get_named_property N (n_value N (JsObject ms)) k e = (Some (n_value N v), e)"
    and "n_get_value_int32 N (n_value N (JsInt i)) e = Some i"
    and "n_get_value_int32 N (n_value N (JsUint j)) e = Some j"
    and "ascii s \<Longrightarrow> n_get_value_string_utf8 N (n_value N (JsString s)) n e = Some (take (n - 1) s)"
    and "n_is_array N (n_value N (JsArray vs)) e = Some True"
    and "n_get_array_length N (n_value N (JsArray vs)) e = Some (of_nat (length vs))"
    and "m < length vs \<Longrightarrow> length vs < 2147483648 \<Longrightarrow>
      n_get_element N (n_value N (JsArray vs)) (of_nat m) e = (Some (n_value N (vs ! m)), e)"
    and "n_memset_s N n e"
  using assms(1) [unfolded reads_back_def, rule_format, OF assms(2)] by simp_all

lemma run_reads [simp]: "run_state (reads f) e = (f e, e)"
  by (simp add: reads_def)

lemma run_modifies [simp]: "run_state (modifies f) e = ((), f e)"
  by (simp add: modifies_def)

lemma run_assert_or [simp]:
  "run_state (assert_or N c msg x k) e = (if c then run_state k e else (x, n_assert_failed N msg e))"
  by (simp add: assert_or_def)

lemma read_int:
  assumes "reads_back N calm" and "calm e"
  shows "map_of ms k = Some (JsInt i) \<Longrightarrow> run_state (JsObjectToInt N (n_value N (JsObject ms)) k d) e = (i, e)"
    and "map_of ms k = Some (JsUint i) \<Longrightarrow> run_state (JsObjectToInt N (n_value N (JsObject ms)) k d) e = (i, e)"
    and "map_of ms k = None \<Longrightarrow> run_state (JsObjectToInt N (n_value N (JsObject ms)) k d) e = (d, e)"
  by (simp_all add: JsObjectToInt_def has_property_def property_or_def typeof_or_def get_int32_or_def
      reads_backD [OF assms])

lemma take_ascii: "ascii s \<Longrightarrow> takeWhile (\<lambda>c. c \<noteq> CHR 0x00) (take n s) = take n s"
  by (auto simp: ascii_def takeWhile_eq_all_conv dest: in_set_takeD)

lemma read_string:
  assumes "reads_back N calm" and "calm e" and "map_of ms k = Some (JsString s)" and "ascii s"
  shows "run_state (JsObjectToString N (n_value N (JsObject ms)) k DEFAULT_DESCRIPTION_SIZE d) e = (take 32 s, e)"
proof -
  have len: "\<not> DEFAULT_DESCRIPTION_SIZE \<le>s 0" "unat (DEFAULT_DESCRIPTION_SIZE + 1) = 33"
    by (simp_all add: DEFAULT_DESCRIPTION_SIZE_def word_sle_eq)
  show ?thesis
    by (simp add: JsObjectToString_def has_property_def property_or_def typeof_or_def buffer_text_def len
        reads_backD [OF assms(1,2)] assms(3,4) take_ascii)
qed

lemma read_array:
  assumes "reads_back N calm" and "calm e" and "map_of ms k = Some (JsArray (map wr xs))"
    and "length xs < 2147483648"
    and "\<And>x. x \<in> set xs \<Longrightarrow> run_state (parse (n_value N (wr x))) e = (rd x, e)"
  shows "run_state (parse_array N parse (n_value N (JsObject ms)) k []) e = ((True, map rd xs), e)"
proof -
  have loop: "run_state (parse_elements N parse (n_value N (JsArray (map wr xs))) [m..<length xs] ys) e =
      ((True, ys @ map rd (drop m xs)), e)" if "m \<le> length xs" for m ys
    using that
  proof (induction "length xs - m" arbitrary: m ys)
    case (Suc n)
    then have m: "m < length xs" by simp
    then have "[m..<length xs] = m # [Suc m..<length xs]" "drop m xs = xs ! m # drop (Suc m) xs"
      by (simp_all add: upt_conv_Cons Cons_nth_drop_Suc)
    moreover have "n = length xs - Suc m" "Suc m \<le> length xs" using Suc.hyps(2) m by simp_all
    ultimately show ?case
      using Suc.hyps(1) [of "Suc m" "ys @ [rd (xs ! m)]"] m
      by (simp add: reads_backD [OF assms(1,2)] assms(4,5))
  qed simp
  have "unat (of_nat (length xs) :: u32) = length xs"
    using assms(4) by (simp add: unsigned_of_nat take_bit_nat_eq_self)
  with loop [of 0 "[]"] show ?thesis
    by (simp add: parse_array_def JsObjectGetProperty_def has_property_def property_or_def
        reads_backD [OF assms(1,2)] assms(3))
qed

section \<open>Objects to JavaScript and back\<close>

text \<open>The bindings write the vectors element by element, up to \<open>2\<^sup>3\<^sup>1\<close> of them.\<close>

lemma unat_of_nat_small: "n < 2147483648 \<Longrightarrow> unat (of_nat n :: u32) = n"
  by (simp add: unsigned_of_nat take_bit_nat_eq_self)

lemma endpoint_values_all:
  assumes "length (if_endpoints i) < 2147483648"
  shows "endpoint_values i [0..<nat (sint (UsbInterface_GetEndpointCount i))] [] =
    Some (map CtoJSUsbEndpoint (if_endpoints i))"
proof -
  let ?eps = "if_endpoints i"
  have loop: "endpoint_values i [m..<length ?eps] arr = Some (arr @ map CtoJSUsbEndpoint (drop m ?eps))"
    if "m \<le> length ?eps" for m arr
    using that
  proof (induction "length ?eps - m" arbitrary: m arr)
    case (Suc n)
    then have m: "m < length ?eps" by simp
    then have "[m..<length ?eps] = m # [Suc m..<length ?eps]" "drop m ?eps = ?eps ! m # drop (Suc m) ?eps"
      by (simp_all add: upt_conv_Cons Cons_nth_drop_Suc)
    moreover have "n = length ?eps - Suc m" "Suc m \<le> length ?eps" using Suc.hyps(2) m by simp_all
    moreover have "m < 2147483648" using m assms by simp
    ultimately show ?case
      using Suc.hyps(1) [of "Suc m" "arr @ [CtoJSUsbEndpoint (?eps ! m)]"] m
      by (simp add: UsbInterface_GetEndpoint_def unat_of_nat_small)
  qed simp
  have "nat (sint (UsbInterface_GetEndpointCount i)) = length ?eps"
    using assms by (simp add: UsbInterface_GetEndpointCount_def sint_of_nat_small)
  with loop [of 0 "[]"] show ?thesis by simp
qed

lemma map_upt_nth: "map (\<lambda>k. f (xs ! k)) [0..<length xs] = map f xs"
  by (metis map_nth map_map comp_apply map_cong)

lemma interface_values_all:
  assumes "length (cfg_interfaces c) < 2147483648"
  shows "map (\<lambda>k. CtoJSUsbInterface (snd (USBConfig_GetInterface c (of_nat k) UsbInterface_new)))
      [0..<unat (USBConfig_GetInterfaceCount c)] = map CtoJSUsbInterface (cfg_interfaces c)"
proof -
  have "map (\<lambda>k. CtoJSUsbInterface (snd (USBConfig_GetInterface c (of_nat k) UsbInterface_new)))
      [0..<length (cfg_interfaces c)] = map (\<lambda>k. CtoJSUsbInterface (cfg_interfaces c ! k)) [0..<length (cfg_interfaces c)]"
    using assms by (intro map_cong refl) (simp add: USBConfig_GetInterface_def unat_of_nat_small)
  then show ?thesis
    using assms by (simp add: USBConfig_GetInterfaceCount_def unat_of_nat_small map_upt_nth)
qed

lemma config_values_all:
  assumes "length (dev_configs d) < 2147483648"
  shows "map (\<lambda>k. CtoJSUsbConfig (snd (UsbDevice_GetConfig E d (of_nat k) USBConfig_new)))
      [0..<nat (sint (UsbDevice_GetConfigCount d))] = map CtoJSUsbConfig (dev_configs d)"
proof -
  have "map (\<lambda>k. CtoJSUsbConfig (snd (UsbDevice_GetConfig E d (of_nat k) USBConfig_new)))
      [0..<length (dev_configs d)] = map (\<lambda>k. CtoJSUsbConfig (dev_configs d ! k)) [0..<length (dev_configs d)]"
    using assms by (intro map_cong refl) (simp add: UsbDevice_GetConfig_def unat_of_nat_small)
  then show ?thesis
    using assms by (simp add: UsbDevice_GetConfigCount_def sint_of_nat_small map_upt_nth)
qed

lemmas js_setters = SetValueUtf8String_def SetValueInt32_def SetValueUint32_def SetValueBool_def

lemma scast_ucast_u8: "ucast (scast (b :: u8) :: i32) = b"
  by (rule bit_word_eqI) (auto simp: bit_simps)

lemma read_endpoint:
  assumes "reads_back N calm" and "calm e"
  shows "run_state (ParseEndpointObj N (n_value N (CtoJSUsbEndpoint ep))) e = (ep, e)"
  by (simp add: ParseEndpointObj_def CtoJSUsbEndpoint_def js_setters read_int [OF assms] USBEndpoint_of_def
      USBEndpoint_new_def USBEndpoint_GetInterfaceId_def scast_ucast_u8)

text \<open>What comes back of an interface, a configuration and a device.\<close>

definition interface_through_js :: "UsbInterface \<Rightarrow> UsbInterface" where
  "interface_through_js i = i\<lparr>if_name := '''', if_iInterface := 255\<rparr>"

definition config_through_js :: "USBConfig \<Rightarrow> USBConfig" where
  "config_through_js c = c\<lparr>cfg_name := take 32 (cfg_name c), cfg_maxPower := 2 * cfg_maxPower c,
     cfg_iConfiguration := 255, cfg_interfaces := map interface_through_js (cfg_interfaces c)\<rparr>"

definition device_through_js :: "UsbDevice \<Rightarrow> UsbDevice \<Rightarrow> UsbDevice" where
  "device_through_js junk d = UsbDevice_of junk (take 32 (dev_name d)) (take 32 (dev_manufacturerName d))
     (take 32 (dev_productName d)) (take 32 (dev_version d)) (dev_devAddr d) (dev_busNum d) (dev_vendorId d)
     (dev_productId d) (dev_klass d) (dev_subClass d) (dev_protocol d) (map config_through_js (dev_configs d))"

definition interface_small :: "UsbInterface \<Rightarrow> bool" where
  "interface_small i \<longleftrightarrow> ascii (if_name i) \<and> length (if_endpoints i) < 2147483648"

definition config_small :: "USBConfig \<Rightarrow> bool" where
  "config_small c \<longleftrightarrow> ascii (cfg_name c) \<and> length (cfg_interfaces c) < 2147483648 \<and>
     list_all interface_small (cfg_interfaces c)"

definition device_small :: "UsbDevice \<Rightarrow> bool" where
  "device_small d \<longleftrightarrow> ascii (dev_name d) \<and> ascii (dev_manufacturerName d) \<and> ascii (dev_productName d) \<and>
     ascii (dev_version d) \<and> length (dev_configs d) < 2147483648 \<and> list_all config_small (dev_configs d)"

lemma ascii_whole: "ascii s \<Longrightarrow> takeWhile (\<lambda>c. c \<noteq> CHR 0x00) s = s"
  by (auto simp: ascii_def takeWhile_eq_all_conv)

lemma read_interface:
  assumes "reads_back N calm" and "calm e" and "interface_small i"
  shows "run_state (ParseInterfaceObj N (n_value N (CtoJSUsbInterface i)) out) e = (interface_through_js i, e)"
proof -
  have small: "ascii (if_name i)" "length (if_endpoints i) < 2147483648"
    using assms(3) by (simp_all add: interface_small_def)
  show ?thesis
    by (simp add: ParseInterfaceObj_def CtoJSUsbInterface_def js_setters read_int [OF assms(1,2)]
        read_string [OF assms(1,2)] small ascii_whole endpoint_values_all Let_def ParseEndpointsObjs_def
        read_array [OF assms(1,2), where wr = CtoJSUsbEndpoint and xs = "if_endpoints i" and rd = "\<lambda>ep. ep"]
        read_endpoint [OF assms(1,2)] UsbInterface_of_def UsbInterface_new_def interface_through_js_def)
qed

lemma read_config:
  assumes "reads_back N calm" and "calm e" and "config_small c"
  shows "run_state (ParseConfigObj N (n_value N (CtoJSUsbConfig c)) out) e = (config_through_js c, e)"
proof -
  have small: "ascii (cfg_name c)" "length (cfg_interfaces c) < 2147483648"
    "\<And>i. i \<in> set (cfg_interfaces c) \<Longrightarrow> interface_small i"
    using assms(3) by (simp_all add: config_small_def list_all_iff)
  show ?thesis
    by (simp add: ParseConfigObj_def CtoJSUsbConfig_def js_setters read_int [OF assms(1,2)]
        read_string [OF assms(1,2)] small ascii_whole interface_values_all Let_def ParseInterfacesObjs_def
        read_array [OF assms(1,2), where wr = CtoJSUsbInterface and xs = "cfg_interfaces c" and rd = interface_through_js]
        read_interface [OF assms(1,2)] USBConfig_of_def USBConfig_new_def config_through_js_def
        USBConfig_GetMaxPower_def mult.commute)
qed

lemma read_configs:
  assumes "reads_back N calm" and "calm e" and "map_of ms ''configs'' = Some (JsArray (map CtoJSUsbConfig cs))"
    and "length cs < 2147483648" and "list_all config_small cs"
  shows "run_state (ParseConfigsObjs N (n_value N (JsObject ms)) []) e = (map config_through_js cs, e)"
proof -
  have small: "\<And>c. c \<in> set cs \<Longrightarrow> config_small c" using assms(5) by (simp add: list_all_iff)
  have loop: "run_state (parse_configs N (n_value N (JsArray (map CtoJSUsbConfig cs))) [m..<length cs] ys) e =
      (ys @ map config_through_js (drop m cs), e)" if "m \<le> length cs" for m ys
    using that
  proof (induction "length cs - m" arbitrary: m ys)
    case (Suc n)
    then have m: "m < length cs" by simp
    then have "[m..<length cs] = m # [Suc m..<length cs]" "drop m cs = cs ! m # drop (Suc m) cs"
      by (simp_all add: upt_conv_Cons Cons_nth_drop_Suc)
    moreover have "n = length cs - Suc m" "Suc m \<le> length cs" using Suc.hyps(2) m by simp_all
    ultimately show ?case
      using Suc.hyps(1) [of "Suc m" "ys @ [config_through_js (cs ! m)]"] m
      by (simp add: reads_backD [OF assms(1,2)] assms(4) read_config [OF assms(1,2) small])
  qed simp
  from loop [of 0 "[]"] show ?thesis
    by (simp add: ParseConfigsObjs_def JsObjectGetProperty_def has_property_def property_or_def typeof_or_def
        reads_backD [OF assms(1,2)] assms(3) unat_of_nat_small [OF assms(4)])
qed

lemma read_device:
  assumes "reads_back N calm" and "calm e" and "device_small d"
  shows "run_state (ParseDeviceObj N (n_value N (CtoJSUsbDevice E d)) junk) e = (device_through_js junk d, e)"
proof -
  have small: "ascii (dev_name d)" "ascii (dev_manufacturerName d)" "ascii (dev_productName d)"
    "ascii (dev_version d)" "length (dev_configs d) < 2147483648" "list_all config_small (dev_configs d)"
    using assms(3) by (simp_all add: device_small_def)
  have byte: "ucast (ucast (b :: u8) :: i32) = b" for b by simp
  show ?thesis
    by (simp add: ParseDeviceObj_def CtoJSUsbDevice_def js_setters read_int [OF assms(1,2)]
        read_string [OF assms(1,2)] small ascii_whole config_values_all Let_def
        read_configs [OF assms(1,2), where cs = "dev_configs d"] device_through_js_def byte)
qed

text \<open>
  C22: A device that went to JavaScript and comes back keeps its address, its identifiers and the
  structure of its configurations with all endpoints.  What is lost: the names of interfaces, the
  serial number, all but the first 32 characters of the other texts; and the maximum power of
  every configuration comes back doubled.
\<close>

theorem js_device_roundtrip:
  assumes "reads_back N calm" and "calm e" and "device_small d"
  shows "run_state (ParseDeviceObj N (n_value N (CtoJSUsbDevice E d)) (UsbDevice_new junk)) e =
    ((UsbDevice_new junk)\<lparr>dev_name := take 32 (dev_name d), dev_manufacturerName := take 32 (dev_manufacturerName d),
        dev_productName := take 32 (dev_productName d), dev_version := take 32 (dev_version d),
        dev_devAddr := dev_devAddr d, dev_busNum := dev_busNum d, dev_vendorId := dev_vendorId d,
        dev_productId := dev_productId d, dev_klass := dev_klass d, dev_subClass := dev_subClass d,
        dev_protocol := dev_protocol d, dev_configs := map config_through_js (dev_configs d)\<rparr>, e)"
  by (simp add: read_device [OF assms] device_through_js_def UsbDevice_of_def UsbDevice_new_def)

section \<open>A lawful engine\<close>

text \<open>
  For the witnesses: values are the trees the bindings build, promises are numbered, and there is
  one buffer.
\<close>

record js_engine_state =
  je_next :: nat
  je_settled :: "(nat \<times> bool \<times> js) list"
  je_exception :: "string option"
  je_buffer :: "u8 list"

definition js_throw :: "string \<Rightarrow> js_engine_state \<Rightarrow> js_engine_state" where
  "js_throw msg e = (if je_exception e = None then e\<lparr>je_exception := Some msg\<rparr> else e)"

definition sample_napi :: "(js, js_engine_state) napi" where
  "sample_napi = \<lparr>
     n_value = (\<lambda>v. v), n_uninit = JsUndefined, n_uninit_type = napi_external, n_uninit_int = 77,
     n_uninit_pipe = \<lparr>dp_busNum = 9, dp_devAddr = 9\<rparr>, n_uninit_device = UsbDevice_zero,
     n_typeof = (\<lambda>v e. Some (type_of_js v)),
     n_has_named_property = (\<lambda>v k e. case v of
        JsObject ms \<Rightarrow> (if je_exception e = None then Some (map_of ms k \<noteq> None) else None, e) | _ \<Rightarrow> (None, e)),
     n_get_named_property = (\<lambda>v k e. case v of
        JsObject ms \<Rightarrow> (if je_exception e = None then map_of ms k else None, e) | _ \<Rightarrow> (None, e)),
     n_get_value_int32 = (\<lambda>v e. case v of JsInt i \<Rightarrow> Some i | JsUint i \<Rightarrow> Some i | _ \<Rightarrow> None),
     n_get_value_uint32 = (\<lambda>v e. case v of JsInt i \<Rightarrow> Some i | JsUint i \<Rightarrow> Some i | _ \<Rightarrow> None),
     n_get_value_bool = (\<lambda>v e. case v of JsBool b \<Rightarrow> Some b | _ \<Rightarrow> None),
     n_get_value_string_utf8 = (\<lambda>v n e. case v of JsString s \<Rightarrow> Some (take (n - 1) s) | _ \<Rightarrow> None),
     n_is_array = (\<lambda>v e. Some (case v of JsArray _ \<Rightarrow> True | _ \<Rightarrow> False)),
     n_get_array_length = (\<lambda>v e. case v of JsArray vs \<Rightarrow> Some (of_nat (length vs)) | _ \<Rightarrow> None),
     n_get_element = (\<lambda>v k e. case v of
        JsArray vs \<Rightarrow> (Some (if unat k < length vs then vs ! unat k else JsUndefined), e) | _ \<Rightarrow> (None, e)),
     n_is_typedarray = (\<lambda>v e. Some (case v of JsUint8Array _ \<Rightarrow> True | _ \<Rightarrow> False)),
     n_get_typedarray_info = (\<lambda>v e. case v of
        JsUint8Array bs \<Rightarrow> Some (True, length bs, Some 0) | _ \<Rightarrow> None),
     n_assert_failed = js_throw, n_throw_last = (\<lambda>e. e), n_throw_error = js_throw,
     n_create_promise = (\<lambda>e. (Some (je_next e), e\<lparr>je_next := Suc (je_next e)\<rparr>)),
     n_resolve_deferred = (\<lambda>d v e. e\<lparr>je_settled := je_settled e @ [(d, True, v)]\<rparr>),
     n_reject_deferred = (\<lambda>d v e. e\<lparr>je_settled := je_settled e @ [(d, False, v)]\<rparr>),
     n_create_async_work = (\<lambda>e. (True, e)), n_alloc = (\<lambda>e. (True, e)),
     n_new = (\<lambda>n e. (Some 0, e)), n_create_arraybuffer = (\<lambda>n e. (Some 0, e)), n_delete = (\<lambda>p e. e),
     n_read = (\<lambda>p n e. take n (je_buffer e)), n_memset_s = (\<lambda>n e. True),
     n_memcpy_s = (\<lambda>p n bs e. if length bs \<le> n
        then (EOK, e\<lparr>je_buffer := bs @ drop (length bs) (je_buffer e)\<rparr>) else (34, e))\<rparr>"

definition sample_engine :: js_engine_state where
  "sample_engine = \<lparr>je_next = 0, je_settled = [], je_exception = None, je_buffer = [0, 0, 0]\<rparr>"

definition sample_book :: "js_engine_state \<Rightarrow> promise_log" where
  "sample_book e = ({0..<je_next e}, je_settled e)"

lemma sample_promises: "promise_book sample_napi sample_book"
  by (auto simp: promise_book_def sample_napi_def sample_book_def js_throw_def split: js.split)

lemma sample_reads: "reads_back sample_napi (\<lambda>e. je_exception e = None)"
proof -
  have "unat (of_nat k :: u32) = k" if "k < length vs" "length vs < 2147483648" for k and vs :: "js list"
    using that by (simp add: unsigned_of_nat take_bit_nat_eq_self)
  then show ?thesis by (auto simp: reads_back_def sample_napi_def)
qed

theorem js_device_roundtrip_witness:
  "run_state (ParseDeviceObj sample_napi (n_value sample_napi (CtoJSUsbDevice sample_codes
       (UsbDevice_zero\<lparr>dev_busNum := 1, dev_configs := [USBConfig_new\<lparr>cfg_maxPower := 50\<rparr>]\<rparr>)))
       (UsbDevice_new UsbDevice_zero)) sample_engine =
    ((UsbDevice_new UsbDevice_zero)\<lparr>dev_busNum := 1,
       dev_configs := [USBConfig_new\<lparr>cfg_maxPower := 100\<rparr>]\<rparr>, sample_engine)"
proof -
  have calm: "je_exception sample_engine = None" by (simp add: sample_engine_def)
  have small: "device_small (UsbDevice_zero\<lparr>dev_busNum := 1, dev_configs := [USBConfig_new\<lparr>cfg_maxPower := 50\<rparr>]\<rparr>)"
    by (simp add: device_small_def config_small_def UsbDevice_zero_def USBConfig_new_def ascii_def)
  show ?thesis
    using js_device_roundtrip [OF sample_reads calm small, of sample_codes UsbDevice_zero]
    by (simp add: UsbDevice_zero_def UsbDevice_new_def config_through_js_def USBConfig_new_def)
qed

section \<open>Connecting a device\<close>

text \<open>What \<open>connectDevice\<close> makes of the result of opening the device \<open>busNum\<close>, \<open>devAddr\<close>.\<close>

definition connect_answer ::
  "uec_codes \<Rightarrow> ('v, 'e) napi \<Rightarrow> u8 \<Rightarrow> u8 \<Rightarrow> i32 \<Rightarrow> 'e js_state \<Rightarrow> UsbSrvClient \<Rightarrow> 's \<Rightarrow> ('e, 's) js_call" where
  "connect_answer E N busNum devAddr ret t cl s =
     (if ret = UEC_OK E
      then js_return (Some (JsObject [(''busNum'', JsInt (ucast busNum)), (''devAddress'', JsInt (ucast devAddr))])) t cl s
      else if ret = UEC_SERVICE_PERMISSION_DENIED E \<or> ret = UEC_INTERFACE_PERMISSION_DENIED E
      then js_return None (t\<lparr>js_engine := n_throw_error N
        ''permission denied, need call requestRight to get permission'' (js_engine t)\<rparr>) cl s
      else js_return (Some JsUndefined) t cl s)"

text \<open>The service's decision and the driver's answer, for the calling application.\<close>

definition guarded_open ::
  "uec_codes \<Rightarrow> 'w ext \<Rightarrow> UsbRightManager \<Rightarrow> u8 \<Rightarrow> u8 \<Rightarrow> 'w \<Rightarrow> i32 \<times> 'w" where
  "guarded_open E x rm busNum devAddr w =
     (let w1 = snd (GetBundleName x '''' w)
      in if bundles_available x w \<and> (device_name busNum devAddr, caller_bundle x w) \<in> rights rm
         then x_OpenDevice x (usb_dev busNum devAddr) w1 else (UEC_SERVICE_PERMISSION_DENIED E, w1))"

lemma connect_object:
  assumes "ipc_link P E items" and "connected_to C cl (service_remote P E x base junk)"
    and "sv_right sv = Some rm"
    and "n_typeof N v (js_engine t) = Some napi_object"
    and "run_state (ParseDeviceObj N v (UsbDevice_new (n_uninit_device N))) (js_engine t) = (dev, e)"
  shows "CoreConnectDevice P E C N (Some (v # rest)) t cl (sv, w) =
    (let (ret, w2) = guarded_open E x rm (dev_busNum dev) (dev_devAddr dev) w
     in connect_answer E N (dev_busNum dev) (dev_devAddr dev) ret (t\<lparr>js_engine := e\<rparr>) cl (sv, w2))"
proof -
  obtain ret w2 where g: "guarded_open E x rm (dev_busNum dev) (dev_devAddr dev) w = (ret, w2)"
    by (metis surj_pair)
  have "Client_OpenDevice P E C dev (n_uninit_pipe N) cl (sv, w) =
      cl_return (ret, if ret = UEC_OK E then \<lparr>dp_busNum = dev_busNum dev, dp_devAddr = dev_devAddr dev\<rparr>
        else n_uninit_pipe N) cl (sv, w2)"
    using client_OpenDevice_guarded [OF assms(1-3), of dev "n_uninit_pipe N" w] g
    by (auto simp: guarded_open_def Let_def)
  then show ?thesis
    by (simp add: CoreConnectDevice_def with_args_def js_assert_def arg_def expect_type_def typeof_or_def assms(4)
        js_do_def assms(5) js_client_def run_bind_return g connect_answer_def CreateUsbDevicePipe_def js_setters)
qed

lemma connect_listed:
  assumes "ipc_link P E items" and "connected_to C cl (service_remote P E x base junk)"
    and "sv_right sv = Some rm" and "reads_back N calm" and "calm (js_engine t)" and "device_small d"
  shows "CoreConnectDevice P E C N (Some [n_value N (CtoJSUsbDevice E d)]) t cl (sv, w) =
    (let (ret, w2) = guarded_open E x rm (dev_busNum d) (dev_devAddr d) w
     in connect_answer E N (dev_busNum d) (dev_devAddr d) ret t cl (sv, w2))"
proof -
  have ty: "n_typeof N (n_value N (CtoJSUsbDevice E d)) (js_engine t) = Some napi_object"
    by (simp add: reads_backD [OF assms(4,5)] CtoJSUsbDevice_def Let_def)
  have "dev_busNum (device_through_js j d) = dev_busNum d" "dev_devAddr (device_through_js j d) = dev_devAddr d" for j
    by (simp_all add: device_through_js_def UsbDevice_of_def)
  with connect_object [OF assms(1-3) ty read_device [OF assms(4-6)]] show ?thesis by simp
qed

text \<open>
  C19: Connecting a device that \<open>getDevices\<close> listed.  The bindings build an object of the device and
  read it again; the device that is opened is the one that was listed.  The driver is asked only if
  the application holds the right for it, and JavaScript gets an object with its address; without
  the right an exception is thrown, and any other failure gives undefined.
\<close>

theorem connect_listed_device:
  assumes "ipc_link P E items" and "connected_to C cl (service_remote P E x base junk)"
    and "sv_right sv = Some rm" and "reads_back N calm" and "calm (js_engine t)" and "device_small d"
  shows "CoreConnectDevice P E C N (Some [n_value N (CtoJSUsbDevice E d)]) t cl (sv, w) =
    (let (ret, w2) = guarded_open E x rm (dev_busNum d) (dev_devAddr d) w
     in connect_answer E N (dev_busNum d) (dev_devAddr d) ret t cl (sv, w2))"
  by (rule connect_listed [OF assms])

theorem connect_listed_device_witness:
  "CoreConnectDevice list_parcel sample_codes (sample_env_of sample_send) sample_napi
      (Some [n_value sample_napi (CtoJSUsbDevice sample_codes (UsbDevice_zero\<lparr>dev_busNum := 1\<rparr>))])
      \<lparr>js_engine = sample_engine, js_queue = []\<rparr> sample_client (UsbService_new, sample_state) =
    js_return None \<lparr>js_engine = sample_engine\<lparr>je_exception :=
      Some ''permission denied, need call requestRight to get permission''\<rparr>, js_queue = []\<rparr>
      sample_client (UsbService_new, sample_state)"
proof -
  let ?t = "\<lparr>js_engine = sample_engine, js_queue = []\<rparr>"
  have rm: "sv_right UsbService_new = Some UsbRightManager_new" by (simp add: UsbService_new_def)
  have calm: "je_exception (js_engine ?t) = None" by (simp add: sample_engine_def)
  have small: "device_small (UsbDevice_zero\<lparr>dev_busNum := 1\<rparr>)"
    by (simp add: device_small_def UsbDevice_zero_def ascii_def)
  have guard: "guarded_open sample_codes sample_ext UsbRightManager_new 1 0 sample_state = (102, sample_state)"
    by (simp add: guarded_open_def rights_new) code_simp
  show ?thesis
    using connect_listed_device [OF list_link sample_connected [of sample_send, unfolded sample_send_def] rm
        sample_reads calm small, where w = sample_state]
    by (simp add: guard sample_send_def connect_answer_def UsbDevice_zero_def)
      (simp add: sample_napi_def js_throw_def sample_engine_def sample_codes_def)
qed

section \<open>Connecting an object with a bad address\<close>

text \<open>While an exception is pending the engine does not look up properties.\<close>

definition refuses_after_throw :: "('v, 'e) napi \<Rightarrow> ('e \<Rightarrow> bool) \<Rightarrow> bool" where
  "refuses_after_throw N calm \<longleftrightarrow> (\<forall>msg e. \<not> calm (n_assert_failed N msg e)) \<and>
     (\<forall>e. \<not> calm e \<longrightarrow> (\<forall>v k. n_has_named_property N v k e = (None, e)))"

lemma refused_int:
  assumes "refuses_after_throw N calm" and "\<not> calm e"
  shows "run_state (JsObjectToInt N v k d) e = (d, e)"
  using assms by (simp add: refuses_after_throw_def JsObjectToInt_def has_property_def)

lemma bad_int:
  assumes "reads_back N calm" and "calm e" and "map_of ms k = Some (JsString s)"
  shows "run_state (JsObjectToInt N (n_value N (JsObject ms)) k d) e =
    (d, n_assert_failed N ''Wrong argument type. Number expected.'' e)"
  by (simp add: JsObjectToInt_def has_property_def property_or_def typeof_or_def reads_backD [OF assms(1,2)] assms(3))

lemma bad_bus_read:
  assumes "reads_back N calm" and "refuses_after_throw N calm" and "calm e"
    and "map_of ms ''name'' = Some (JsString n)" and "map_of ms ''manufacturerName'' = Some (JsString m)"
    and "map_of ms ''productName'' = Some (JsString p)" and "map_of ms ''version'' = Some (JsString v)"
    and "ascii n" and "ascii m" and "ascii p" and "ascii v"
    and "map_of ms ''devAddress'' = Some (JsInt a)" and "map_of ms ''busNum'' = Some (JsString b)"
  shows "\<exists>dev e1. run_state (ParseDeviceObj N (n_value N (JsObject ms)) junk) e = (dev, e1) \<and>
    dev_busNum dev = 0 \<and> dev_devAddr dev = ucast a"
proof -
  let ?e = "n_assert_failed N ''Wrong argument type. Number expected.'' e"
  have stuck: "\<not> calm ?e" using assms(2) by (simp add: refuses_after_throw_def)
  have int: "run_state (JsObjectToInt N v k d) ?e = (d, ?e)" for v k d
    by (rule refused_int [where calm = calm]) (rule assms(2), rule stuck)
  obtain cs e1 where "run_state (ParseConfigsObjs N (n_value N (JsObject ms)) []) ?e = (cs, e1)"
    by (metis surj_pair)
  then show ?thesis
    by (simp add: ParseDeviceObj_def read_string [OF assms(1,3)] assms(4-12) read_int(1) [OF assms(1,3,12)]
        bad_int [OF assms(1,3,13)] int UsbDevice_of_def)
qed

text \<open>
  A failed assertion in a conversion throws its exception and is not noticed by its caller.  When
  the bus number of the object passed to \<open>connectDevice\<close> is a text instead of a number, the call
  goes on and opens the device with bus number 0, although JavaScript will see an exception.
\<close>

theorem connect_bad_address_opens_bus_0:
  assumes "ipc_link P E items" and "connected_to C cl (service_remote P E x base junk)"
    and "sv_right sv = Some rm" and "reads_back N calm" and "refuses_after_throw N calm"
    and "calm (js_engine t)"
    and "map_of ms ''name'' = Some (JsString n)" and "map_of ms ''manufacturerName'' = Some (JsString m)"
    and "map_of ms ''productName'' = Some (JsString p)" and "map_of ms ''version'' = Some (JsString v)"
    and "ascii n" and "ascii m" and "ascii p" and "ascii v"
    and "map_of ms ''devAddress'' = Some (JsInt a)" and "map_of ms ''busNum'' = Some (JsString b)"
  shows "\<exists>e1. CoreConnectDevice P E C N (Some [n_value N (JsObject ms)]) t cl (sv, w) =
    (let (ret, w2) = guarded_open E x rm 0 (ucast a) w
     in connect_answer E N 0 (ucast a) ret (t\<lparr>js_engine := e1\<rparr>) cl (sv, w2))"
proof -
  have ty: "n_typeof N (n_value N (JsObject ms)) (js_engine t) = Some napi_object"
    by (simp add: reads_backD [OF assms(4,6)])
  from bad_bus_read [OF assms(4-16)] obtain dev e1
    where "run_state (ParseDeviceObj N (n_value N (JsObject ms)) (UsbDevice_new (n_uninit_device N))) (js_engine t) = (dev, e1)"
      and "dev_busNum dev = 0" "dev_devAddr dev = ucast a" by blast
  with connect_object [OF assms(1-3) ty this(1)] show ?thesis by auto
qed

lemma sample_refuses: "refuses_after_throw sample_napi (\<lambda>e. je_exception e = None)"
  by (simp add: refuses_after_throw_def sample_napi_def js_throw_def split: js.split)

theorem connect_bad_address_opens_bus_0_witness:
  "\<exists>e1. CoreConnectDevice list_parcel sample_codes (sample_env_of sample_send) sample_napi
      (Some [n_value sample_napi (JsObject [(''name'', JsString ''''), (''manufacturerName'', JsString ''''),
        (''productName'', JsString ''''), (''version'', JsString ''''), (''devAddress'', JsInt 5), (''busNum'', JsString ''1'')])])
      \<lparr>js_engine = sample_engine, js_queue = []\<rparr> sample_client (UsbService_new, sample_state) =
    connect_answer sample_codes sample_napi 0 5 102 \<lparr>js_engine = e1, js_queue = []\<rparr> sample_client
      (UsbService_new, sample_state)"
proof -
  let ?t = "\<lparr>js_engine = sample_engine, js_queue = []\<rparr>"
  have rm: "sv_right UsbService_new = Some UsbRightManager_new" by (simp add: UsbService_new_def)
  have calm: "je_exception (js_engine ?t) = None" by (simp add: sample_engine_def)
  have guard: "guarded_open sample_codes sample_ext UsbRightManager_new 0 5 sample_state = (102, sample_state)"
    by (simp add: guarded_open_def rights_new) code_simp
  have nil: "ascii ''''" by (simp add: ascii_def)
  show ?thesis
    using connect_bad_address_opens_bus_0 [OF list_link sample_connected [of sample_send, unfolded sample_send_def] rm
        sample_reads sample_refuses calm, where w = sample_state and a = 5 and b = "''1''"
        and ms = "[(''name'', JsString ''''), (''manufacturerName'', JsString ''''), (''productName'', JsString ''''),
          (''version'', JsString ''''), (''devAddress'', JsInt 5), (''busNum'', JsString ''1'')]",
        OF _ _ _ _ nil nil nil nil]
    by (simp add: guard sample_send_def)
qed

section \<open>Promises\<close>

text \<open>
  C18: However JavaScript calls the exported functions, and in whatever order the engine executes and
  completes the work, no promise is settled twice, and only promises that were made are settled.
  When the engine never refuses work, every promise that was made is settled or still in flight,
  so that once all work is completed every promise has its outcome.
\<close>

theorem promises_settled_once:
  assumes "promise_book N book" and "book e = ({}, [])"
    and "(js_step u P E C N)\<^sup>*\<^sup>* (js_start e cl s) x"
  shows "distinct (map fst (settled (book (js_engine (jw_state x))))) \<and>
    fst ` set (settled (book (js_engine (jw_state x)))) \<subseteq> made (book (js_engine (jw_state x))) \<and>
    (accepting N \<and> js_queue (jw_state x) = [] \<and> jw_done x = [] \<longrightarrow>
       fst ` set (settled (book (js_engine (jw_state x)))) = made (book (js_engine (jw_state x))))"
proof -
  have start: "promise_inv c book (js_start e cl s)" for c
    by (simp add: promise_inv_def js_start_def in_flight_def promise_ok_def assms(2))
  have "promise_inv (accepting N) book x"
    using js_steps_inv [OF assms(1,3) _ start] by blast
  then show ?thesis
    by (auto simp: promise_inv_def promise_ok_def in_flight_def Let_def)
qed

text \<open>A client without a service, for the witness: setting the functions then succeeds.\<close>

definition lonely_env :: "(pitem list, unit) client_env" where
  "lonely_env = \<lparr>ce_HasSystemAbilityManager = (\<lambda>_. False), ce_CheckSystemAbility = (\<lambda>s. (None, s)),
     ce_iface_cast = Some, ce_AsObject = Some, ce_remote = (\<lambda>_. None), ce_RemoveDeathRecipient = (\<lambda>_ s. s)\<rparr>"

definition lonely_work :: js_work where
  "lonely_work = FunctionWork \<lparr>ac_deferred = Some 0, ac_ok = True, fc_functions = 4\<rparr>"

lemma lonely_call:
  "CoreSetCurrentFunctions list_parcel sample_codes lonely_env sample_napi (Some [JsInt 4])
      \<lparr>js_engine = sample_engine, js_queue = []\<rparr> \<lparr>cl_proxy = None\<rparr> () =
    Some (Mem (Some (JsPromise 0), \<lparr>js_engine = sample_engine\<lparr>je_next := 1\<rparr>, js_queue = [lonely_work]\<rparr>,
      \<lparr>cl_proxy = None\<rparr>, ()))"
  by code_simp

lemma lonely_execute:
  "js_execute list_parcel sample_codes lonely_env sample_napi lonely_work (sample_engine\<lparr>je_next := 1\<rparr>)
      \<lparr>cl_proxy = None\<rparr> () =
    Some (Mem ((lonely_work, sample_engine\<lparr>je_next := 1\<rparr>), \<lparr>cl_proxy = None\<rparr>, ()))"
  unfolding js_execute_def lonely_work_def js_work.case g_setCurrentFunctionExecute_def Client_SetCurrentFunctions_def
  by (simp add: with_connection_def Connect_def lonely_env_def cl_return_def run_bind_def sample_codes_def)

lemma lonely_complete:
  "js_complete sample_napi lonely_work (sample_engine\<lparr>je_next := 1\<rparr>) =
    sample_engine\<lparr>je_next := 1, je_settled := [(0, True, JsBool True)]\<rparr>"
  by code_simp

theorem promises_settled_once_witness:
  "\<exists>x. (js_step None list_parcel sample_codes lonely_env sample_napi)\<^sup>*\<^sup>*
      (js_start sample_engine \<lparr>cl_proxy = None\<rparr> ()) x \<and>
    settled (sample_book (js_engine (jw_state x))) = [(0, True, JsBool True)] \<and>
    distinct (map fst (settled (sample_book (js_engine (jw_state x)))))"
proof -
  let ?step = "js_step None list_parcel sample_codes lonely_env sample_napi"
  let ?x0 = "js_start sample_engine \<lparr>cl_proxy = None\<rparr> ()"
  let ?x1 = "?x0\<lparr>jw_state := \<lparr>js_engine = sample_engine\<lparr>je_next := 1\<rparr>, js_queue = [lonely_work]\<rparr>,
    jw_client := \<lparr>cl_proxy = None\<rparr>, jw_system := ()\<rparr>"
  let ?x2 = "?x1\<lparr>jw_state := \<lparr>js_engine = sample_engine\<lparr>je_next := 1\<rparr>, js_queue = [] @ []\<rparr>,
    jw_done := jw_done ?x1 @ [lonely_work], jw_client := \<lparr>cl_proxy = None\<rparr>, jw_system := ()\<rparr>"
  let ?x3 = "?x2\<lparr>jw_state := (jw_state ?x2)\<lparr>js_engine := js_complete sample_napi lonely_work
    (js_engine (jw_state ?x2))\<rparr>, jw_done := [] @ []\<rparr>"
  have s1: "?step ?x0 ?x1"
    by (rule step_call [where name = "''setCurrentFunctions''"
          and f = "CoreSetCurrentFunctions list_parcel sample_codes lonely_env sample_napi" and args = "Some [JsInt 4]"])
      (simp_all add: UsbInit_def js_start_def lonely_call)
  have s2: "?step ?x1 ?x2"
    by (rule step_execute [where w = lonely_work]) (simp_all add: lonely_execute [unfolded One_nat_def])
  have s3: "?step ?x2 ?x3"
    by (rule step_complete) (simp add: js_start_def)
  have run: "?step\<^sup>*\<^sup>* ?x0 ?x3" using s1 s2 s3
    by (meson converse_rtranclp_into_rtranclp rtranclp.rtrancl_refl)
  have start: "sample_book sample_engine = ({}, [])" by (simp add: sample_book_def sample_engine_def)
  from promises_settled_once [OF sample_promises start run] run show ?thesis
    by (intro exI [of _ ?x3]) (simp add: lonely_complete [unfolded One_nat_def] sample_book_def)
qed

end
