(* ===== verification/Usb_Js_Transfer.thy ===== *)
theory Usb_Js_Transfer
  imports Usb_Js_Props
begin

text \<open>
  Transfers that JavaScript requests, from the queued work through the client, the service and the
  driver to the promise (\<open>usb_info.cpp\<close>, \<open>g_bulkTransferExecute\<close>, \<open>g_controlTransferExecute\<close> and their
  completions).
\<close>

section \<open>Running a work\<close>

text \<open>Execution and completion of a work.\<close>

definition js_run_work ::
  "'p parcel_ops \<Rightarrow> uec_codes \<Rightarrow> ('p, 's) client_env \<Rightarrow> ('v, 'e) napi \<Rightarrow> js_work \<Rightarrow> 'e \<Rightarrow> UsbSrvClient \<Rightarrow> 's \<Rightarrow>
     ('e, 's) client_call" where
  "js_run_work P E C N work e cl s =
     run_bind (js_execute P E C N work e cl s) (\<lambda>((work, e), cl, s). cl_return (js_complete N work e) cl s)"

lemmas transfer_run =
  js_run_work_def js_execute_def js_complete_def run_bind_return case_prod_beta Let_def
  g_bulkTransferExecute_def g_bulkTransferComplete_def DevicePipe_BulkTransfer_def
  g_controlTransferExecute_def g_controlTransferComplete_def DevicePipe_ControlTransfer_def

section \<open>Bulk transfers\<close>

text \<open>
  C20: A bulk transfer of JavaScript, from the queued work to its promise.  The driver gets the device
  of the pipe, the endpoint and, for an OUT endpoint, the bytes that were copied when the
  transfer was requested; for an IN endpoint its bytes are copied into the array of JavaScript.
  The promise is resolved with the number of bytes when all of this succeeds, otherwise it is
  rejected with -1; in particular an answer longer than the array is an error.
\<close>

theorem js_bulk_transfer:
  assumes "ipc_link P E items" and "connected_to C cl (service_remote P E x base junk)"
    and "data = n_read N (bt_buffer ctx) (unat (bt_bufferLength ctx)) e" and "small data"
    and "x_BulkTransferRead x (pipe_dev (bt_pipe ctx)) (endpoint_pipe (bt_endpoint ctx)) (bt_timeOut ctx) [] w =
      ((ret, bytes), w1)" and "small bytes"
    and "x_BulkTransferWrite x (pipe_dev (bt_pipe ctx)) (endpoint_pipe (bt_endpoint ctx)) (bt_timeOut ctx) data w =
      (wret, w2)"
  shows "js_run_work P E C N (BulkWork ctx) e cl (sv, w) =
    (if USBEndpoint_GetDirection (bt_endpoint ctx) = USB_ENDPOINT_DIR_IN
     then (let (ret, e1) = (if ret = UEC_OK E
                then n_memcpy_s N (bt_buffer ctx) (unat (bt_bufferLength ctx)) bytes e else (ret, e));
               ok = (ret = UEC_OK E)
           in cl_return (ProcessPromise N (ac_deferred ctx) ok
                (JsInt (if ok then of_nat (length bytes) else -1)) e1) cl (sv, w1))
     else (let ok = (wret = UEC_OK E)
           in cl_return (ProcessPromise N (ac_deferred ctx) ok
                (JsInt (if ok then of_nat (length data) else -1)) (n_delete N (bt_buffer ctx) e)) cl (sv, w2)))"
proof -
  have dirs: "USB_ENDPOINT_DIR_IN \<noteq> USB_ENDPOINT_DIR_OUT" by (simp add: usb_masks)
  have fits: "small (snd (fst (x_BulkTransferRead x (pipe_dev (bt_pipe ctx)) (endpoint_pipe (bt_endpoint ctx))
      (bt_timeOut ctx) [] w)))" using assms(5,6) by simp
  note transfer = client_BulkTransfer_direction [OF assms(1,2,4) fits, of sv, unfolded assms(5,7)]
  show ?thesis
  proof (cases "USBEndpoint_GetDirection (bt_endpoint ctx) = USB_ENDPOINT_DIR_IN")
    case True
    then show ?thesis
      using dirs transfer
      by (simp add: transfer_run assms(3) [symmetric])
  next
    case False
    then have "USBEndpoint_GetDirection (bt_endpoint ctx) = USB_ENDPOINT_DIR_OUT"
      using GetDirection_cases by blast
    then show ?thesis
      using dirs transfer
      by (simp add: transfer_run assms(3) [symmetric])
  qed
qed

theorem js_bulk_transfer_witness:
  "js_run_work list_parcel sample_codes (sample_env_of sample_send) sample_napi
      (BulkWork (bulk_context_zero\<lparr>ac_deferred := Some 4, bt_buffer := Some 0, bt_bufferLength := 2\<rparr>))
      sample_engine sample_client (UsbService_new, sample_state) =
    cl_return (sample_engine\<lparr>je_settled := [(4, True, JsInt 2)]\<rparr>) sample_client (UsbService_new, sample_state)"
proof -
  let ?ctx = "bulk_context_zero\<lparr>ac_deferred := Some 4, bt_buffer := Some 0, bt_bufferLength := 2\<rparr>"
  have data: "[0, 0] = n_read sample_napi (bt_buffer ?ctx) (unat (bt_bufferLength ?ctx)) sample_engine"
    by (simp add: sample_napi_def sample_engine_def bulk_context_zero_def take_Cons')
  have small: "small [0 :: u8, 0]" "small ([] :: u8 list)" by (simp_all add: small_def)
  have rd: "x_BulkTransferRead sample_ext d p t [] sample_state = ((0, []), sample_state)"
    and wr: "x_BulkTransferWrite sample_ext d p t b sample_state = (0, sample_state)" for d p t b
    by (simp_all add: sample_ext_def)
  have out: "USBEndpoint_GetDirection (bt_endpoint ?ctx) \<noteq> USB_ENDPOINT_DIR_IN"
    by (simp add: bulk_context_zero_def USBEndpoint_GetDirection_def USBEndpoint_new_def usb_masks)
  show ?thesis
    using js_bulk_transfer [OF list_link sample_connected [of sample_send, unfolded sample_send_def] data small(1)
        rd small(2) wr, of UsbService_new] out
    by (simp add: sample_send_def sample_codes_def)
      (simp add: sample_napi_def ProcessPromise_def sample_engine_def bulk_context_zero_def)
qed

section \<open>Control transfers\<close>

lemma direction_bit:
  "a AND USB_ENDPOINT_DIR_MASK = USB_ENDPOINT_DIR_OUT \<longleftrightarrow> a AND USB_ENDPOINT_DIR_MASK \<noteq> USB_ENDPOINT_DIR_IN"
proof -
  have "USB_ENDPOINT_DIR_IN \<noteq> USB_ENDPOINT_DIR_OUT" by (simp add: usb_masks)
  with GetDirection_cases [of "USBEndpoint_new\<lparr>ep_address := a\<rparr>"] show ?thesis
    by (auto simp: USBEndpoint_GetDirection_def)
qed

lemma client_ControlTransfer:
  assumes "ipc_link P E items" and "connected_to C cl (service_remote P E x base junk)"
    and "small bufferData" and "x_ControlTransfer x (pipe_dev pipe) ctrl bufferData w = ((ret, bytes), w1)"
    and "small bytes"
  shows "Client_ControlTransfer P E C pipe ctrl bufferData cl (sv, w) =
    cl_return (ret, if ret = UEC_OK E \<and> ctrl_requestType ctrl AND USB_ENDPOINT_DIR_MASK = USB_ENDPOINT_DIR_IN
      then bytes else bufferData) cl (sv, w1)"
proof -
  obtain h where h: "cl_proxy cl = Some h" "ce_remote C h = Some (service_remote P E x base junk)"
    using assms(2) by (rule connected_toE)
  have "Proxy_ControlTransfer P E (ce_remote C h) (pipe_dev pipe) ctrl bufferData (sv, w) =
      returns (ret, if ret = UEC_OK E \<and> ctrl_requestType ctrl AND USB_ENDPOINT_DIR_MASK = USB_ENDPOINT_DIR_IN
        then bytes else bufferData) (sv, w1)"
    using Proxy_ControlTransfer_served [OF assms(1,3), of x "pipe_dev pipe" ctrl w base junk sv] assms(4,5)
    by (simp add: h Service_ControlTransfer_def direction_bit)
  from call_proxy_returns [OF h(1), where call = "\<lambda>remote. Proxy_ControlTransfer P E remote (pipe_dev pipe)
      ctrl bufferData", OF this] show ?thesis
    unfolding Client_ControlTransfer_def when_connected_connected [OF h(1)] .
qed

text \<open>
  A control transfer of JavaScript, from the queued work to its promise.  The driver gets the device
  of the pipe, the setup the parameters describe and the bytes of the array: of the copy made at the
  request for an OUT transfer, of the array itself otherwise.  The bytes the driver returns for an
  IN transfer are copied into the array.  The promise is resolved with the number of bytes when all
  of this succeeds, otherwise it is rejected with -1.
\<close>

theorem js_control_transfer:
  assumes "ipc_link P E items" and "connected_to C cl (service_remote P E x base junk)"
    and "data = n_read N (ct_buffer ctx) (unat (ct_bufferLength ctx)) e" and "small data"
    and "x_ControlTransfer x (pipe_dev (ct_pipe ctx)) \<lparr>ctrl_requestType = ct_reqType ctx,
        ctrl_requestCmd = ct_request ctx, ctrl_value = ct_value ctx, ctrl_index = ct_index ctx,
        ctrl_timeout = ct_timeOut ctx\<rparr> data w = ((ret, bytes), w1)"
    and "small bytes"
  shows "js_run_work P E C N (ControlWork ctx) e cl (sv, w) =
    (if ct_reqType ctx AND USB_ENDPOINT_DIR_MASK = USB_ENDPOINT_DIR_IN
     then (let (ret, e1) = (if ret = UEC_OK E
                then n_memcpy_s N (ct_buffer ctx) (unat (ct_bufferLength ctx)) bytes e else (ret, e));
               ok = (ret = UEC_OK E)
           in cl_return (ProcessPromise N (ac_deferred ctx) ok
                (JsInt (if ok then of_nat (length bytes) else -1)) e1) cl (sv, w1))
     else (let ok = (ret = UEC_OK E)
           in cl_return (ProcessPromise N (ac_deferred ctx) ok
                (JsInt (if ok then of_nat (length data) else -1)) (n_delete N (ct_buffer ctx) e)) cl (sv, w1)))"
proof (cases "ct_reqType ctx AND USB_ENDPOINT_DIR_MASK = USB_ENDPOINT_DIR_IN")
  case True
  have "USB_ENDPOINT_DIR_IN \<noteq> USB_ENDPOINT_DIR_OUT" by (simp add: usb_masks)
  with True client_ControlTransfer [OF assms(1,2,4,5,6), of sv] show ?thesis
    by (simp add: transfer_run assms(3) [symmetric])
next
  case False
  then have "ct_reqType ctx AND USB_ENDPOINT_DIR_MASK = USB_ENDPOINT_DIR_OUT" by (simp add: direction_bit)
  with False client_ControlTransfer [OF assms(1,2,4,5,6), of sv] show ?thesis
    by (simp add: transfer_run assms(3) [symmetric])
qed

theorem js_control_transfer_witness:
  "js_run_work list_parcel sample_codes (sample_env_of sample_send) sample_napi
      (ControlWork \<lparr>ac_deferred = Some 4, ac_ok = True, ct_pipe = \<lparr>dp_busNum = 1, dp_devAddr = 2\<rparr>,
        ct_request = 9, ct_target = 0, ct_reqType = 0, ct_directon = 0, ct_value = 1, ct_index = 0,
        ct_buffer = Some 0, ct_bufferLength = 2, ct_dataSize = 0, ct_timeOut = 100\<rparr>)
      sample_engine sample_client (UsbService_new, sample_state) =
    cl_return (sample_engine\<lparr>je_settled := [(4, True, JsInt 2)]\<rparr>) sample_client (UsbService_new, sample_state)"
proof -
  let ?ctx = "\<lparr>ac_deferred = Some 4, ac_ok = True, ct_pipe = \<lparr>dp_busNum = 1, dp_devAddr = 2\<rparr>,
    ct_request = 9, ct_target = 0, ct_reqType = 0, ct_directon = 0, ct_value = 1, ct_index = 0,
    ct_buffer = Some 0, ct_bufferLength = 2, ct_dataSize = 0, ct_timeOut = 100\<rparr>"
  have data: "[0, 0] = n_read sample_napi (ct_buffer ?ctx) (unat (ct_bufferLength ?ctx)) sample_engine"
    by (simp add: sample_napi_def sample_engine_def take_Cons')
  have small: "small [0 :: u8, 0]" by (simp add: small_def)
  have driver: "x_ControlTransfer sample_ext d c [0, 0] sample_state = ((0, [0, 0]), sample_state)" for d c
    by (simp add: sample_ext_def)
  show ?thesis
    using js_control_transfer [OF list_link sample_connected [of sample_send, unfolded sample_send_def] data small
        driver small, of UsbService_new]
    by (simp add: sample_send_def sample_codes_def usb_masks)
      (simp add: sample_napi_def ProcessPromise_def sample_engine_def)
qed

end
