(* ===== verification/Usb_System.thy ===== *)
theory Usb_System
  imports Usb_Consent Usb_Js_Transfer Usb_Attach_Props
begin

text \<open>
  The whole way of a device: from the descriptors on the bus through the parser, the device table,
  the message to the client, the client library and the JavaScript bindings, and back again when an
  application asks for the right and opens it.
\<close>

section \<open>Every device in the table is small\<close>

text \<open>
  The counts of a device come from single bytes, whatever a device sends: at most one configuration,
  with at most 255 interfaces of at most 255 endpoints each.
\<close>

definition config_bounded :: "USBConfig \<Rightarrow> bool" where
  "config_bounded c \<longleftrightarrow> length (cfg_interfaces c) \<le> 255 \<and>
     (\<forall>i \<in> set (cfg_interfaces c). length (if_endpoints i) \<le> 255)"

definition device_bounded :: "UsbDevice \<Rightarrow> bool" where
  "device_bounded d \<longleftrightarrow> length (dev_configs d) \<le> 1 \<and> (\<forall>c \<in> set (dev_configs d). config_bounded c)"

lemma parse_endpoints_count:
  "parse_endpoints L E buffer len ifnum n cursor eps = Some (Mem (c, eps')) \<Longrightarrow>
    length eps' = length eps + n"
proof (induction n arbitrary: cursor eps)
  case (Suc n)
  then show ?case by (force simp: run_bind_def split: option.splits mem.splits)
qed simp

lemma ParseInterfaceDescriptor_count:
  assumes "ParseInterfaceDescriptor L E buffer len cursor UsbInterface_new = Some (Mem (r, c, i))"
  shows "length (if_endpoints i) \<le> 255"
  using assms
  by (auto simp: ParseInterfaceDescriptor_def run_bind_def UsbInterface_new_def
      dest!: parse_endpoints_count split: if_splits option.splits scan.splits mem.splits)

lemma parse_interfaces_count:
  assumes "parse_interfaces L E buffer len num i cursor ifs = Some (Mem (c, ifs'))"
    and "length ifs = i" "i \<le> num" and "\<forall>x \<in> set ifs. length (if_endpoints x) \<le> 255"
  shows "length ifs' \<le> num \<and> (\<forall>x \<in> set ifs'. length (if_endpoints x) \<le> 255)"
proof -
  let ?P = "\<lambda>L E buffer len num i cursor ifs r. length ifs = i \<longrightarrow> i \<le> num \<longrightarrow>
    (\<forall>x \<in> set ifs. length (if_endpoints x) \<le> 255) \<longrightarrow>
    (\<forall>c ifs'. r = Mem (c, ifs') \<longrightarrow> length ifs' \<le> num \<and> (\<forall>x \<in> set ifs'. length (if_endpoints x) \<le> 255))"
  have "?P L E buffer len num i cursor ifs (Mem (c, ifs'))"
  proof (rule parse_interfaces.raw_induct [where P = ?P, OF _ assms(1)])
    fix f L E buffer len num i cursor ifs r
    assume IH: "\<And>L E buffer len num i cursor ifs r.
        f L E buffer len num i cursor ifs = Some r \<Longrightarrow> ?P L E buffer len num i cursor ifs r"
      and eq: "(if i < num \<and> cursor < len then
        (case ParseInterfaceDescriptor L E (drop cursor buffer) (u32_sub len cursor) 0
                UsbInterface_new of
           None \<Rightarrow> None
         | Some BadRead \<Rightarrow> Some BadRead
         | Some (Mem (ret, interfaceCursor, interface)) \<Rightarrow>
             if 0 <s UsbInterface_GetEndpointCount interface
             then f L E buffer len num (Suc i) (u32_add cursor interfaceCursor) (ifs @ [interface])
             else f L E buffer len num i (u32_add cursor interfaceCursor) ifs)
      else Some (Mem (cursor, ifs))) = Some r"
    consider "r = Mem (cursor, ifs)" | "r = BadRead"
      | ret k x where "i < num"
          "ParseInterfaceDescriptor L E (drop cursor buffer) (u32_sub len cursor) 0
             UsbInterface_new = Some (Mem (ret, k, x))"
          "(if 0 <s UsbInterface_GetEndpointCount x
            then f L E buffer len num (Suc i) (u32_add cursor k) (ifs @ [x])
            else f L E buffer len num i (u32_add cursor k) ifs) = Some r"
      using eq by (auto split: if_splits option.splits mem.splits)
    then show "?P L E buffer len num i cursor ifs r"
    proof cases
      case (3 ret k x)
      from IH [of L E buffer len num "Suc i" "u32_add cursor k" "ifs @ [x]"]
        IH [of L E buffer len num i "u32_add cursor k" ifs] 3(1,3) ParseInterfaceDescriptor_count [OF 3(2)]
      show ?thesis by (auto split: if_splits)
    qed simp_all
  qed
  with assms show ?thesis by blast
qed

lemma ParseConfigDescriptor_bounded:
  assumes "ParseConfigDescriptor L E buffer len 0 USBConfig_new = Some (Mem (r, c, cfg))"
  shows "config_bounded cfg"
proof -
  have "length xs \<le> 255" if "length xs \<le> unat (n :: u8)" for xs :: "UsbInterface list" and n
    using that u8_less [of n] by linarith
  with assms show ?thesis
    by (auto simp: ParseConfigDescriptor_def run_bind_def config_bounded_def USBConfig_new_def
        dest!: parse_interfaces_count split: if_splits option.splits mem.splits)
qed

lemma unnamed_interface_endpoints: "if_endpoints (unnamed_interface i) = if_endpoints i"
  by (simp add: unnamed_interface_def)

lemma config_bounded_unnamed: "config_bounded (unnamed_config c) = config_bounded c"
  by (simp add: config_bounded_def unnamed_config_def unnamed_interface_endpoints)

lemma device_bounded_unnamed:
  "map unnamed_config (dev_configs d) = map unnamed_config (dev_configs d1) \<Longrightarrow>
    device_bounded d = device_bounded d1"
  unfolding device_bounded_def
  by (metis (no_types, lifting) config_bounded_unnamed in_set_conv_nth length_map nth_map)

lemma GetConfigDescriptor_bounded:
  assumes "GetConfigDescriptor L E x dev bs w = Some (Mem ((UEC_OK E, dev1), w1))"
  shows "device_bounded dev1"
proof -
  let ?n = "if UsbDevice_GetDescConfigCount dev then 1 else 0 :: nat"
  obtain cs where loop: "config_loop L E bs (length bs mod 4294967296) ?n CURSOR_INIT [] =
      Some (Mem (UEC_OK E, cs))" and fill: "FillDevStrings E x (dev\<lparr>dev_configs := cs\<rparr>) w = ((UEC_OK E, dev1), w1)"
    using assms by (auto simp: GetConfigDescriptor_def run_bind_def split: if_splits option.splits mem.splits)
  have "length cs \<le> 1 \<and> (\<forall>c \<in> set cs. config_bounded c)"
    using loop by (auto simp: run_bind_def dest!: ParseConfigDescriptor_bounded
        split: if_splits option.splits mem.splits)
  then have "device_bounded (dev\<lparr>dev_configs := cs\<rparr>)" by (simp add: device_bounded_def)
  with device_bounded_unnamed [OF FillDevStrings_keeps(9) [OF fill]] show ?thesis by simp
qed

lemma GetDeviceInfo_bounded:
  assumes "GetDeviceInfo L E x b a dev w = Some (Mem ((UEC_OK E, dev1), w1))"
  shows "device_bounded dev1"
  using assms
  by (auto simp: GetDeviceInfo_def run_bind_def Let_def dest!: GetConfigDescriptor_bounded
      split: if_splits option.splits mem.splits prod.splits)

section \<open>The table of every system that ran\<close>

definition host_good :: "UsbHostManager \<Rightarrow> bool" where
  "host_good hm \<longleftrightarrow> host_inv hm \<and> (\<forall>d \<in> ran (host_abs hm). device_bounded d)"

lemma host_good_add:
  assumes "host_good hm" and "device_bounded d"
  shows "host_good (snd (fst (HostManager_AddDevice x (Some d) hm w)))"
proof -
  have "snd (fst (HostManager_AddDevice x (Some d) hm w)) = fst (host_add x d (hm, w))"
    by (simp add: host_add_def split_beta)
  then show ?thesis
    using host_table.add_inv [of "(hm, w)" x d] host_table.add_abs [of "(hm, w)" x d] assms
    by (auto simp: host_good_def ran_def)
qed

lemma host_good_del:
  assumes "host_good hm"
  shows "host_good (snd (fst (HostManager_DelDevice x b a hm w)))"
proof -
  have "snd (fst (HostManager_DelDevice x b a hm w)) = fst (host_del x (b, a) (hm, w))"
    by (simp add: host_del_def split_beta)
  then show ?thesis
    using host_table.del_inv [of "(hm, w)" x "(b, a)"] host_table.del_abs [of "(hm, w)" x "(b, a)"] assms
    by (auto simp: host_good_def ran_def)
qed

lemma Service_AddDevice_bounded:
  assumes "Service_AddDevice L E x b a sv w = Some (Mem ((r, sv'), w'))"
  shows "sv' = sv \<or> (\<exists>hm dev w1. sv_host sv = Some hm \<and> device_bounded dev \<and>
    sv' = sv\<lparr>sv_host := Some (snd (fst (HostManager_AddDevice x (Some dev) hm w1)))\<rparr>)"
proof (cases "sv' = sv")
  case False
  with assms obtain dev w2 w3 hm where info: "GetDeviceInfo L E x b a UsbDevice_zero w2 =
      Some (Mem ((UEC_OK E, dev), w3))" and host: "sv_host sv = Some hm"
      "sv' = sv\<lparr>sv_host := Some (snd (fst (HostManager_AddDevice x (Some dev) hm w3)))\<rparr>"
    by (auto simp: Service_AddDevice_def run_bind_def Let_def
        split: if_splits prod.splits option.splits mem.splits)
  with GetDeviceInfo_bounded [OF info] show ?thesis by blast
qed simp

definition system_host :: "'w system \<Rightarrow> bool" where
  "system_host s \<longleftrightarrow> (\<exists>hm. sv_host (fst s) = Some hm \<and> host_good hm)"

named_theorems keeps_host

lemma OnStart_host [keeps_host]: "OnStart E x sv w = (sv1, w1) \<Longrightarrow> sv_host sv1 = sv_host sv"
proof -
  assume start: "OnStart E x sv w = (sv1, w1)"
  obtain ok sv2 w2 where 1: "Service_Init x sv w = ((ok, sv2), w2)" by (metis surj_pair)
  obtain b sv3 w3 where 2: "start_loop E x 0 sv2 w2 = ((b, sv3), w3)" by (metis surj_pair)
  have "sv_host sv2 = sv_host sv" "sv_host sv3 = sv_host sv2"
    using Service_Init_same [of sv x w] start_loop_same [of sv2 E x 0 w2] by (simp_all add: 1 2 same_managers_def)
  with start show ?thesis by (auto simp: OnStart_def 1 2 split: if_splits option.splits prod.splits)
qed

lemma client_calls_host [keeps_host]:
  "OnStop x sv w = (sv1, w1) \<Longrightarrow> sv_host sv1 = sv_host sv"
  "Service_SetCurrentFunctions E x f sv w = ((r, sv1), w1) \<Longrightarrow> sv_host sv1 = sv_host sv"
  "Service_GetPorts E x ports sv w = ((res, sv1), w1) \<Longrightarrow> sv_host sv1 = sv_host sv"
  "PortChangedEvent E x i p d m (Some sv) w = ((r, Some sv1), w1) \<Longrightarrow> sv_host sv1 = sv_host sv"
  by (auto simp: OnStop_def Service_SetCurrentFunctions_def Service_GetPorts_def PortChangedEvent_def
      Service_UpdateUsbPort_def Let_def split: if_splits option.splits prod.splits)

lemma system_host_keeps:
  "sv_host sv1 = sv_host sv \<Longrightarrow> system_host (sv, s) \<Longrightarrow> system_host (sv1, s1)"
  by (simp add: system_host_def)

lemma system_host_step:
  assumes "system_step L E A x s s1" and "system_host s"
  shows "system_host s1"
  using assms(1)
proof cases
  case (device_event info sv w r sv1 w1 ts al)
  from device_event(3) show ?thesis
  proof (cases rule: DeviceEvent_cases)
    case (state sv2)
    then have "sv_host sv1 = sv_host sv" by (auto simp: Service_UpdateDeviceState_def split: option.splits)
    with assms(2) show ?thesis unfolding device_event(1,2) by (rule system_host_keeps [rotated])
  next
    case (add sv2 added)
    then show ?thesis
      using Service_AddDevice_bounded [OF add(2)] host_good_add assms(2) device_event
      by (auto simp: system_host_def)
  next
    case (del sv2 removed)
    then show ?thesis
      using Service_DelDevice_shape [OF del(2)] host_good_del assms(2) device_event
      by (auto simp: system_host_def)
  qed
qed (use assms(2) in \<open>auto simp: system_host_def dest!: keeps_host\<close>)

text \<open>The state every run of the system starts in.\<close>

abbreviation system_start :: "'w \<Rightarrow> 'w system" where
  "system_start w \<equiv> (UsbService_new, [], {}, w)"

interpretation system_table: started_invariant "system_step L E A x" system_host "system_start w" for L E A x w
  by unfold_locales
    (erule (1) system_host_step, simp add: system_host_def host_good_def UsbService_new_def)

text \<open>There are no more devices than addresses.\<close>

lemma host_devices_length:
  assumes "host_inv hm"
  shows "length (host_devices hm) \<le> 65536"
proof -
  have "distinct (map (\<lambda>d. device_name (dev_busNum d) (dev_devAddr d)) (host_devices hm))"
    using host_devices_sorted [OF assms] by (simp add: strict_sorted_iff)
  then have "distinct (map dev_key_of (host_devices hm))"
    by (simp add: distinct_map inj_on_def dev_key_of_def device_name_inj)
  then have "length (host_devices hm) = card (set (map dev_key_of (host_devices hm)))"
    by (metis distinct_card length_map)
  also have "\<dots> \<le> card (UNIV :: dev_key set)" by (rule card_mono) simp_all
  also have "\<dots> = 65536" by (simp add: card_prod card_word)
  finally show ?thesis .
qed

lemma device_bounded_fits: "device_bounded d \<Longrightarrow> device_fits d"
  unfolding device_bounded_def device_fits_def config_bounded_def config_fits_def interface_fits_def small_def
  by fastforce

lemma host_devices_fit:
  assumes "host_good hm"
  shows "device_list_fits (host_devices hm)"
proof -
  have "device_bounded d" if "d \<in> set (host_devices hm)" for d
    using that assms host_devices_iff [of hm d] by (auto simp: host_good_def intro: ranI)
  then show ?thesis
    using assms host_devices_length [of hm]
    by (auto simp: host_good_def device_list_fits_def small_def intro: device_bounded_fits)
qed

lemma system_tableE:
  assumes "(system_step L E A x)\<^sup>*\<^sup>* (system_start w0) (sv, s)"
  obtains hm where "sv_host sv = Some hm" "host_good hm"
  using system_table.reached [OF assms] by (auto simp: system_host_def)

lemma sorted_single:
  fixes f :: "'a \<Rightarrow> 'b :: preorder"
  shows "set ds = {d} \<Longrightarrow> sorted_wrt (<) (map f ds) \<Longrightarrow> ds = [d]"
  by (cases ds; cases "tl ds") auto

text \<open>A system into which one device was plugged, for the witnesses.\<close>

lemma plugged_system:
  obtains sv w hm dev where
    "(system_step usb20_layout sample_codes sample_acts sample_ext)\<^sup>*\<^sup>* (system_start plugged) (sv, [], {}, w)"
    "sv_host sv = Some hm" "host_devices hm = [dev]" "dev_key_of dev = (1, 2)"
proof -
  let ?info = "\<lparr>info_devInfoStatus = 0, info_devInfoBusNum = 1, info_devInfoDevNum = 2\<rparr>"
  have new: "sv_host UsbService_new = Some UsbHostManager_new" "host_inv UsbHostManager_new"
    by (simp_all add: UsbService_new_def)
  have driver: "x_alloc sample_ext plugged = (True, plugged)" "x_memset_s sample_ext plugged = (True, plugged)"
    "x_OpenDevice sample_ext (usb_dev 1 2) plugged = (UEC_OK sample_codes, plugged\<lparr>sw_open := True\<rparr>)"
    "x_GetRawDescriptor sample_ext (usb_dev 1 2) [] (plugged\<lparr>sw_open := True\<rparr>) =
      ((UEC_OK sample_codes, device_bytes sample_device @ config_tree_bytes sample_config sample_trees),
       plugged\<lparr>sw_open := True\<rparr>)"
    by (simp_all add: sample_ext_def sample_codes_def plugged_def)
  obtain w hm dev where add: "Service_AddDevice usb20_layout sample_codes sample_ext 1 2 UsbService_new plugged =
      Some (Mem ((True, UsbService_new\<lparr>sv_host := Some hm\<rparr>), w))"
    and hm: "host_inv hm" "host_abs hm = (host_abs UsbHostManager_new)((1, 2) \<mapsto> dev)"
    by (rule Service_AddDevice_tree [OF sample_stream new driver])
  have dev: "dev_key_of dev = (1, 2)" using host_lookup [OF hm(1), of "(1, 2)" dev] hm(2) by simp
  have "DeviceEvent usb20_layout sample_codes sample_acts sample_ext ?info (Some UsbService_new) plugged =
      Some (Mem ((0, Some (UsbService_new\<lparr>sv_host := Some hm\<rparr>)), w))"
    using add by (simp add: DeviceEvent_def sample_acts_def run_bind_def sample_codes_def)
  then have run: "(system_step usb20_layout sample_codes sample_acts sample_ext)\<^sup>*\<^sup>* (system_start plugged)
      (UsbService_new\<lparr>sv_host := Some hm\<rparr>, [], {}, w)"
    by (intro r_into_rtranclp system_step.device_event)
  have "d \<in> set (host_devices hm) \<longleftrightarrow> d = dev" for d
    using dev by (cases "dev_key_of d = (1, 2)") (auto simp: host_devices_iff [OF hm(1)] hm(2))
  then have "set (host_devices hm) = {dev}" by blast
  from sorted_single [OF this host_devices_sorted [OF hm(1)]] have "host_devices hm = [dev]" .
  with run dev that show thesis by simp
qed

section \<open>What JavaScript lists\<close>

text \<open>The objects \<open>getDevices\<close> gives to JavaScript for a table.\<close>

definition listed_objects :: "uec_codes \<Rightarrow> UsbHostManager \<Rightarrow> js list" where
  "listed_objects E hm = map (\<lambda>d. CtoJSUsbDevice E (device_received d)) (host_devices hm)"

lemma Client_GetDevices_host:
  assumes "ipc_link P E items" and "connected_to C cl (service_remote P E x base junk)"
    and "sv_host sv = Some hm" and "host_good hm"
  shows "Client_GetDevices P E C n junk_dev acc cl (sv, w) =
    cl_return (UEC_OK E, acc @ map device_received (host_devices hm)) cl (sv, w)"
proof -
  obtain h where h: "cl_proxy cl = Some h" "ce_remote C h = Some (service_remote P E x base junk)"
    using assms(2) by (rule connected_toE)
  have "Service_GetDevices E [] sv = Mem (UEC_OK E, host_devices hm)"
    using Service_GetDevices_host [OF assms(3), of E "[]"] assms(4) by (simp add: host_good_def)
  from Proxy_GetDevices_served [OF assms(1) this host_devices_fit [OF assms(4)]]
  have "Proxy_GetDevices P E n junk_dev (ce_remote C h) acc (sv, w) =
      returns (UEC_OK E, acc @ map device_received (host_devices hm)) (sv, w)"
    by (simp add: h(2))
  note call = call_proxy_returns [OF h(1), where call = "\<lambda>remote. Proxy_GetDevices P E n junk_dev
    remote acc", OF this]
  show ?thesis
    unfolding Client_GetDevices_def with_connection_connected [OF h(1)] call ..
qed

lemma CoreGetDevices_host:
  assumes "ipc_link P E items" and "connected_to C cl (service_remote P E x base junk)"
    and "sv_host sv = Some hm" and "host_good hm"
  shows "CoreGetDevices P E C N (Some []) t cl (sv, w) =
    js_return (Some (JsArray (listed_objects E hm))) t cl (sv, w)"
  by (simp add: CoreGetDevices_def js_assert_def js_client_def Client_GetDevices_host [OF assms]
      run_bind_return listed_objects_def comp_def)

text \<open>
  C7: In every state of the system, however requests, answers, attachments and removals were
  interleaved before, \<open>getDevices\<close> of JavaScript returns an array of exactly the attached devices,
  each once and in the order of their names, as they come through the message.  No count of a
  device is ever too large for the message, whatever descriptors the devices sent.
\<close>

theorem getDevices_lists_table:
  assumes "ipc_link P E items" and "connected_to C cl (service_remote P E x base junk)"
    and "(system_step L E A x)\<^sup>*\<^sup>* (system_start w0) (sv, ts, allowed, w)"
  shows "\<exists>hm ds. sv_host sv = Some hm \<and> device_list_fits ds \<and>
    CoreGetDevices P E C N (Some []) t cl (sv, w) =
      js_return (Some (JsArray (map (\<lambda>d. CtoJSUsbDevice E (device_received d)) ds))) t cl (sv, w) \<and>
    (\<forall>d. d \<in> set ds \<longleftrightarrow> host_abs hm (dev_key_of d) = Some d) \<and>
    sorted_wrt (<) (map (\<lambda>d. device_name (dev_busNum d) (dev_devAddr d)) ds)"
proof -
  obtain hm where hm: "sv_host sv = Some hm" "host_good hm" by (rule system_tableE [OF assms(3)])
  then have inv: "host_inv hm" by (simp add: host_good_def)
  from CoreGetDevices_host [OF assms(1,2) hm] show ?thesis
    unfolding listed_objects_def
    using hm(1) host_devices_fit [OF hm(2)] host_devices_iff [OF inv] host_devices_sorted [OF inv] by blast
qed

theorem getDevices_lists_table_witness:
  "\<exists>sv w d. CoreGetDevices list_parcel sample_codes (sample_env_of sample_send) sample_napi (Some [])
      \<lparr>js_engine = sample_engine, js_queue = []\<rparr> sample_client (sv, w) =
    js_return (Some (JsArray [CtoJSUsbDevice sample_codes (device_received d)]))
      \<lparr>js_engine = sample_engine, js_queue = []\<rparr> sample_client (sv, w) \<and> dev_key_of d = (1, 2)"
proof -
  obtain sv w hm dev where run: "(system_step usb20_layout sample_codes sample_acts sample_ext)\<^sup>*\<^sup>*
      (system_start plugged) (sv, [], {}, w)" and hm: "sv_host sv = Some hm" "host_devices hm = [dev]"
    and dev: "dev_key_of dev = (1, 2)"
    by (rule plugged_system)
  from run obtain hm1 where "sv_host sv = Some hm1" "host_good hm1" by (rule system_tableE)
  with hm have inv: "host_inv hm" by (simp add: host_good_def)
  have "ds = [dev]" if "\<forall>d. d \<in> set ds \<longleftrightarrow> host_abs hm (dev_key_of d) = Some d"
    "sorted_wrt (<) (map (\<lambda>d. device_name (dev_busNum d) (dev_devAddr d)) ds)" for ds
  proof -
    have "set ds = {dev}" using that(1) host_devices_iff [OF inv] hm(2) by auto
    from sorted_single [OF this that(2)] show ?thesis .
  qed
  with getDevices_lists_table [OF list_link sample_connected [of sample_send, unfolded sample_send_def] run,
      where N = sample_napi and t = "\<lparr>js_engine = sample_engine, js_queue = []\<rparr>"] hm(1) dev
  show ?thesis by (fastforce simp: sample_send_def)
qed

text \<open>The members of an object.\<close>

definition js_member :: "js \<Rightarrow> string \<Rightarrow> js option" where
  "js_member o' name = (case o' of JsObject ms \<Rightarrow> map_of ms name | _ \<Rightarrow> None)"

lemma listed_members:
  "js_member (CtoJSUsbDevice E (device_received d)) ''name'' =
    Some (JsString (takeWhile (\<lambda>c. c \<noteq> CHR 0x00) (dev_name d)))"
  "js_member (CtoJSUsbDevice E (device_received d)) ''busNum'' = Some (JsInt (ucast (dev_busNum d)))"
  "js_member (CtoJSUsbDevice E (device_received d)) ''devAddress'' = Some (JsInt (ucast (dev_devAddr d)))"
  "js_member (CtoJSUsbDevice E (device_received d)) ''vendorId'' = Some (JsInt (dev_vendorId d))"
  "js_member (CtoJSUsbDevice E (device_received d)) ''productId'' = Some (JsInt (dev_productId d))"
  by (simp_all add: js_member_def CtoJSUsbDevice_def js_setters Let_def device_received_def)

definition object_at :: "u8 \<Rightarrow> u8 \<Rightarrow> js \<Rightarrow> bool" where
  "object_at b a q \<longleftrightarrow> js_member q ''busNum'' = Some (JsInt (ucast b)) \<and>
     js_member q ''devAddress'' = Some (JsInt (ucast a))"

lemma object_at_listed: "object_at b a (CtoJSUsbDevice E (device_received d)) \<longleftrightarrow> dev_key_of d = (b, a)"
proof -
  have "ucast (p :: u8) = (ucast (q :: u8) :: i32) \<longleftrightarrow> p = q" for p q
    by (metis ucast_u8_u32)
  then show ?thesis by (simp add: object_at_def listed_members dev_key_of_def)
qed

lemma listed_iff:
  assumes "host_inv hm"
  shows "q \<in> set (listed_objects E hm) \<longleftrightarrow>
    (\<exists>d. host_abs hm (dev_key_of d) = Some d \<and> q = CtoJSUsbDevice E (device_received d))"
  using host_devices_iff [OF assms] by (auto simp: listed_objects_def)

text \<open>The array \<open>getDevices\<close> returns, and what two tables that differ at one address have in common.\<close>

definition getDevices_gives ::
  "'p parcel_ops \<Rightarrow> uec_codes \<Rightarrow> ('p, UsbService \<times> 'w) client_env \<Rightarrow> ('v, 'e) napi \<Rightarrow> UsbSrvClient \<Rightarrow>
     UsbService \<Rightarrow> js list \<Rightarrow> bool" where
  "getDevices_gives P E C N cl sv os \<longleftrightarrow> (\<forall>t w. CoreGetDevices P E C N (Some []) t cl (sv, w) =
     js_return (Some (JsArray os)) t cl (sv, w))"

lemma listed_update:
  assumes "host_inv hm" and "host_inv hm1" and "host_abs hm1 = (host_abs hm)((b, a) := v)"
  shows "{q \<in> set (listed_objects E hm1). \<not> object_at b a q} = {q \<in> set (listed_objects E hm). \<not> object_at b a q}"
    and "{q \<in> set (listed_objects E hm1). object_at b a q} =
      (\<lambda>d. CtoJSUsbDevice E (device_received d)) ` set_option v"
proof -
  note listed = listed_iff [OF assms(1)] listed_iff [OF assms(2)] object_at_listed
  show "{q \<in> set (listed_objects E hm1). \<not> object_at b a q} =
      {q \<in> set (listed_objects E hm). \<not> object_at b a q}"
    using assms(3) by (auto simp: listed)
  have "dev_key_of d = (b, a)" if "v = Some d" for d
    using host_lookup [OF assms(2), of "(b, a)" d] that by (simp add: assms(3))
  then show "{q \<in> set (listed_objects E hm1). object_at b a q} =
      (\<lambda>d. CtoJSUsbDevice E (device_received d)) ` set_option v"
    using assms(3) by (auto simp: listed)
qed

section \<open>Plugging and unplugging\<close>

lemma HostManager_DelDevice_host:
  assumes "host_inv hm" and "HostManager_DelDevice x b a hm w = ((r, hm1), w1)"
  shows "host_inv hm1" and "host_abs hm1 = (host_abs hm)((b, a) := None)"
  using host_table.del_inv [of "(hm, w)" x "(b, a)"] host_table.del_abs [of "(hm, w)" x "(b, a)"] assms
  by (simp_all add: host_del_def)

lemma device_name_whole: "takeWhile (\<lambda>c. c \<noteq> CHR 0x00) (device_name b a) = device_name b a"
  using device_name_without [of "CHR 0x00" b a] by (auto simp: takeWhile_eq_all_conv)

lemma system_after_event:
  assumes "(system_step L E A x)\<^sup>*\<^sup>* (system_start w0) (sv, ts, allowed, w)"
    and "DeviceEvent L E A x info (Some sv) w = Some (Mem ((r, Some sv1), w1))"
    and "ipc_link P E items" and "connected_to C cl (service_remote P E x base junk)"
    and "sv_host sv1 = Some hm1"
  shows "getDevices_gives P E C N cl sv1 (listed_objects E hm1)"
proof -
  have "(system_step L E A x)\<^sup>*\<^sup>* (system_start w0) (sv1, ts, allowed, w1)"
    using assms(1) system_step.device_event [OF assms(2)] by (rule rtranclp.rtrancl_into_rtrancl)
  then have "host_good hm1" by (rule system_tableE) (simp add: assms(5))
  then show ?thesis by (simp add: getDevices_gives_def CoreGetDevices_host [OF assms(3-5)])
qed

text \<open>
  C2: A device whose descriptors are well-formed is plugged in, in any state of the system: the
  driver's event is handled, and \<open>getDevices\<close> of JavaScript then lists one object at its address, the object
  of a device with the identifiers, the configuration, the interfaces and the endpoints that the
  descriptors say.  Everything else is listed as it was before.
\<close>

theorem plugged_device_listed:
  assumes "ipc_link P E items" and "connected_to C cl (service_remote P E x base junk)"
    and "(system_step usb20_layout E A x)\<^sup>*\<^sup>* (system_start w0) (sv, ts, allowed, w)"
    and "acts_ok A" and "info_devInfoStatus info = ACT_DEVUP A"
    and "b = ucast (info_devInfoBusNum info)" and "a = ucast (info_devInfoDevNum info)"
    and "x_alloc x w = (True, w1)" and "x_memset_s x w1 = (True, w2)"
    and "x_OpenDevice x (usb_dev b a) w2 = (UEC_OK E, w3)" and "stream_ok d c trees"
    and "x_GetRawDescriptor x (usb_dev b a) [] w3 =
      ((UEC_OK E, device_bytes d @ config_tree_bytes c trees), w4)"
  shows "\<exists>os sv1 w' os1 dev q. getDevices_gives P E C N cl sv os \<and>
    DeviceEvent usb20_layout E A x info (Some sv) w = Some (Mem ((UEC_OK E, Some sv1), w')) \<and>
    getDevices_gives P E C N cl sv1 os1 \<and>
    {q \<in> set os1. \<not> object_at b a q} = {q \<in> set os. \<not> object_at b a q} \<and>
    {q \<in> set os1. object_at b a q} = {q} \<and>
    q = CtoJSUsbDevice E (device_received dev) \<and> reads_as b a d c trees dev \<and>
    js_member q ''name'' = Some (JsString (device_name b a)) \<and>
    js_member q ''vendorId'' = Some (JsInt (ucast (dd_idVendor d))) \<and>
    js_member q ''productId'' = Some (JsInt (ucast (dd_idProduct d)))"
proof -
  obtain hm where hm: "sv_host sv = Some hm" "host_good hm" by (rule system_tableE [OF assms(3)])
  then have inv: "host_inv hm" by (simp add: host_good_def)
  obtain w' hm1 dev where add:
      "Service_AddDevice usb20_layout E x b a sv w = Some (Mem ((True, sv\<lparr>sv_host := Some hm1\<rparr>), w'))"
    and hm1: "host_inv hm1" "host_abs hm1 = (host_abs hm)((b, a) \<mapsto> dev)" and dev: "reads_as b a d c trees dev"
    by (rule Service_AddDevice_tree [OF assms(11) hm(1) inv assms(8-10,12)])
  let ?sv1 = "sv\<lparr>sv_host := Some hm1\<rparr>" and ?q = "CtoJSUsbDevice E (device_received dev)"
  have event: "DeviceEvent usb20_layout E A x info (Some sv) w = Some (Mem ((UEC_OK E, Some ?sv1), w'))"
    using assms(4-7) add by (simp add: DeviceEvent_def acts_ok_def run_bind_def)
  have "getDevices_gives P E C N cl sv (listed_objects E hm)"
    by (simp add: getDevices_gives_def CoreGetDevices_host [OF assms(1,2) hm])
  moreover have "getDevices_gives P E C N cl ?sv1 (listed_objects E hm1)"
    by (rule system_after_event [OF assms(3) event assms(1,2)]) simp
  moreover have "js_member ?q ''name'' = Some (JsString (device_name b a))"
    "js_member ?q ''vendorId'' = Some (JsInt (ucast (dd_idVendor d)))"
    "js_member ?q ''productId'' = Some (JsInt (ucast (dd_idProduct d)))"
    using dev by (simp_all add: listed_members reads_as_def device_name_whole)
  moreover have "{q \<in> set (listed_objects E hm1). object_at b a q} = {?q}"
    using listed_update(2) [OF inv hm1, of E] by simp
  ultimately show ?thesis
    using event listed_update(1) [OF inv hm1, of E] dev by blast
qed

theorem plugged_device_listed_witness:
  "\<exists>sv1 w1 os1 q. DeviceEvent usb20_layout sample_codes sample_acts sample_ext
      \<lparr>info_devInfoStatus = 0, info_devInfoBusNum = 1, info_devInfoDevNum = 2\<rparr> (Some UsbService_new) plugged =
      Some (Mem ((0, Some sv1), w1)) \<and>
    getDevices_gives list_parcel sample_codes (sample_env_of sample_send) sample_napi sample_client sv1 os1 \<and>
    {q \<in> set os1. object_at 1 2 q} = {q} \<and> js_member q ''name'' = Some (JsString ''1-2'')"
proof -
  let ?info = "\<lparr>info_devInfoStatus = 0, info_devInfoBusNum = 1, info_devInfoDevNum = 2\<rparr>"
  have run: "(system_step usb20_layout sample_codes sample_acts sample_ext)\<^sup>*\<^sup>* (system_start plugged)
      (system_start plugged)" by simp
  have info: "info_devInfoStatus ?info = ACT_DEVUP sample_acts" "1 = ucast (info_devInfoBusNum ?info)"
    "2 = ucast (info_devInfoDevNum ?info)" by (simp_all add: sample_acts_def)
  have driver: "x_alloc sample_ext plugged = (True, plugged)" "x_memset_s sample_ext plugged = (True, plugged)"
    "x_OpenDevice sample_ext (usb_dev 1 2) plugged = (UEC_OK sample_codes, plugged\<lparr>sw_open := True\<rparr>)"
    "x_GetRawDescriptor sample_ext (usb_dev 1 2) [] (plugged\<lparr>sw_open := True\<rparr>) =
      ((UEC_OK sample_codes, device_bytes sample_device @ config_tree_bytes sample_config sample_trees),
       plugged\<lparr>sw_open := True\<rparr>)"
    by (simp_all add: sample_ext_def sample_codes_def plugged_def)
  have name: "device_name 1 2 = ''1-2''" "UEC_OK sample_codes = 0" by code_simp+
  show ?thesis
    using plugged_device_listed [OF list_link sample_connected [of sample_send, unfolded sample_send_def] run
        acts_ok_sample info driver(1-3) sample_stream driver(4), where N = sample_napi]
    by (auto simp: name sample_send_def)
qed

text \<open>
  C8: After the driver reported a removal, \<open>getDevices\<close> lists no object at the address of the device,
  and everything else as before, whatever the driver says when the service closes the device.
\<close>

theorem unplugged_device_gone:
  assumes "ipc_link P E items" and "connected_to C cl (service_remote P E x base junk)"
    and "(system_step L E A x)\<^sup>*\<^sup>* (system_start w0) (sv, ts, allowed, w)"
    and "acts_ok A" and "info_devInfoStatus info = ACT_DEVDOWN A"
    and "b = ucast (info_devInfoBusNum info)" and "a = ucast (info_devInfoDevNum info)"
  shows "\<exists>os sv1 w' os1. getDevices_gives P E C N cl sv os \<and>
    DeviceEvent L E A x info (Some sv) w = Some (Mem ((UEC_OK E, Some sv1), w')) \<and>
    getDevices_gives P E C N cl sv1 os1 \<and> set os1 = {q \<in> set os. \<not> object_at b a q}"
proof -
  obtain hm where hm: "sv_host sv = Some hm" "host_good hm" by (rule system_tableE [OF assms(3)])
  then have inv: "host_inv hm" by (simp add: host_good_def)
  obtain closed w1 where close: "Service_Close x b a w = (closed, w1)" by (metis surj_pair)
  obtain removed hm1 w2 where del: "HostManager_DelDevice x b a hm w1 = ((removed, hm1), w2)"
    by (metis surj_pair)
  note hm1 = HostManager_DelDevice_host [OF inv del]
  let ?sv1 = "sv\<lparr>sv_host := Some hm1\<rparr>"
  have event: "DeviceEvent L E A x info (Some sv) w = Some (Mem ((UEC_OK E, Some ?sv1), w2))"
    using assms(4,5) close del
    by (auto simp: DeviceEvent_def acts_ok_def Service_DelDevice_def Let_def hm(1) assms(6,7))
  have "getDevices_gives P E C N cl sv (listed_objects E hm)"
    by (simp add: getDevices_gives_def CoreGetDevices_host [OF assms(1,2) hm])
  moreover have "getDevices_gives P E C N cl ?sv1 (listed_objects E hm1)"
    by (rule system_after_event [OF assms(3) event assms(1,2)]) simp
  moreover have "set (listed_objects E hm1) = {q \<in> set (listed_objects E hm). \<not> object_at b a q}"
    using listed_update [OF inv hm1, of E] by auto
  ultimately show ?thesis using event by blast
qed

lemma getDevices_gives_unique:
  "getDevices_gives P E C N cl sv os \<Longrightarrow> getDevices_gives P E C N cl sv os1 \<Longrightarrow> os = os1"
  by (simp add: getDevices_gives_def js_return_def)

text \<open>The device 1-2 is listed alone; after its removal nothing is listed.\<close>

theorem unplugged_device_gone_witness:
  "\<exists>sv w q sv1 w1. getDevices_gives list_parcel sample_codes (sample_env_of sample_send) sample_napi sample_client
      sv [q] \<and> object_at 1 2 q \<and>
    DeviceEvent usb20_layout sample_codes sample_acts sample_ext
      \<lparr>info_devInfoStatus = 1, info_devInfoBusNum = 1, info_devInfoDevNum = 2\<rparr> (Some sv) w =
      Some (Mem ((0, Some sv1), w1)) \<and>
    getDevices_gives list_parcel sample_codes (sample_env_of sample_send) sample_napi sample_client sv1 []"
proof -
  let ?info = "\<lparr>info_devInfoStatus = 1, info_devInfoBusNum = 1, info_devInfoDevNum = 2\<rparr>"
  let ?gives = "getDevices_gives list_parcel sample_codes (sample_env_of sample_send) sample_napi sample_client"
  obtain sv w hm dev where run: "(system_step usb20_layout sample_codes sample_acts sample_ext)\<^sup>*\<^sup>*
      (system_start plugged) (sv, [], {}, w)" and hm: "sv_host sv = Some hm" "host_devices hm = [dev]"
    and dev: "dev_key_of dev = (1, 2)"
    by (rule plugged_system)
  let ?q = "CtoJSUsbDevice sample_codes (device_received dev)"
  note client = sample_connected [of sample_send, unfolded sample_send_def]
  have good: "host_good hm" by (rule system_tableE [OF run]) (simp add: hm(1))
  have listed: "?gives sv [?q]" unfolding getDevices_gives_def
    using CoreGetDevices_host [OF list_link client hm(1) good, where N = sample_napi]
    by (simp add: listed_objects_def hm(2) sample_send_def)
  have here: "object_at 1 2 ?q" by (simp add: object_at_listed dev)
  have info: "info_devInfoStatus ?info = ACT_DEVDOWN sample_acts" "1 = ucast (info_devInfoBusNum ?info)"
    "2 = ucast (info_devInfoDevNum ?info)" by (simp_all add: sample_acts_def)
  from unplugged_device_gone [OF list_link client run acts_ok_sample info, where N = sample_napi]
  obtain os sv1 w1 os1 where gone: "?gives sv os" "?gives sv1 os1" "set os1 = {q \<in> set os. \<not> object_at 1 2 q}"
    "DeviceEvent usb20_layout sample_codes sample_acts sample_ext ?info (Some sv) w =
      Some (Mem ((UEC_OK sample_codes, Some sv1), w1))"
    unfolding sample_send_def by blast
  have os: "os = [?q]" by (rule getDevices_gives_unique [OF gone(1) listed])
  have "q \<notin> set os1" for q unfolding gone(3) os using here by auto
  then have empty: "os1 = []" by (metis list.set_intros(1) neq_Nil_conv)
  have "UEC_OK sample_codes = 0" by code_simp
  with gone(4) have "DeviceEvent usb20_layout sample_codes sample_acts sample_ext ?info (Some sv) w =
      Some (Mem ((0, Some sv1), w1))" by simp
  with listed here gone(2) empty show ?thesis by blast
qed

section \<open>From the request of a right to the open device\<close>

lemma Client_RequestRight_connected:
  assumes "ipc_link P E items" and "connected_to C cl (service_remote P E x base junk)"
  shows "Client_RequestRight P E C d cl (sv, w) =
    (case Service_RequestRight E x d sv w of
       None \<Rightarrow> None
     | Some ((ret, sv1), w1) \<Rightarrow> cl_return ret cl (sv1, w1))"
proof -
  obtain h where h: "cl_proxy cl = Some h" "ce_remote C h = Some (service_remote P E x base junk)"
    using assms(2) by (rule connected_toE)
  have "call_proxy C cl (sv, w) (\<lambda>remote. Proxy_RequestRight P E remote d) (\<lambda>ret. ret) =
    (case Service_RequestRight E x d sv w of
       None \<Rightarrow> None
     | Some ((ret, sv1), w1) \<Rightarrow> cl_return ret cl (sv1, w1))"
    by (simp add: call_proxy_def h Proxy_RequestRight_served [OF assms(1)] returns_def run_bind_def
        split: option.splits prod.splits)
  then show ?thesis unfolding Client_RequestRight_def with_connection_connected [OF h(1)] .
qed

lemma js_right_work:
  assumes "ipc_link P E items" and "connected_to C cl (service_remote P E x base junk)"
  shows "js_run_work P E C N (RightWork ctx) e cl (sv, w) =
    (case Service_RequestRight E x (rc_deviceName ctx) sv w of
       None \<Rightarrow> None
     | Some ((ret, sv1), w1) \<Rightarrow> cl_return (ProcessPromise N (ac_deferred ctx) (ret = UEC_OK E)
         (JsBool (ret = UEC_OK E)) e) cl (sv1, w1))"
  by (auto simp: js_run_work_def js_execute_def js_complete_def g_requestRightExecute_def
      g_requestRightComplete_def Client_RequestRight_connected [OF assms] run_bind_def cl_return_def
      split: option.splits prod.splits)

lemma system_right_inv:
  assumes "codes_ok E" and "(system_step L E A x)\<^sup>*\<^sup>* (system_start w0) (sv, ts, allowed, w)"
    and "sv_right sv = Some rm"
  shows "right_inv rm"
proof -
  have inv: "step_invariant (system_step L E A x) system_inv"
    by unfold_locales (rule system_step_inv [OF assms(1)])
  have "system_inv (system_start w0)"
    by (simp add: system_inv_def UsbService_new_def consent_inv_def)
  from step_invariant.steps_inv [OF inv assms(2) this] show ?thesis
    by (simp add: system_inv_def assms(3) consent_inv_def)
qed

text \<open>
  C4: A request for the right to a device, from the queued work of JavaScript on.  The promise is resolved
  with true if the application already had the right or the user now allows it in the dialog, and rejected
  with false otherwise; it stays open only if the dialog is never called back.  What the promise says is
  what happens next: if it was resolved, connecting the device asks the driver to open it, and if it
  was rejected, connecting throws and the driver is not asked.
\<close>

theorem right_promise_decides_connect:
  assumes "ipc_link P E items" and "connected_to C cl (service_remote P E x base junk)"
    and "(system_step L E A x)\<^sup>*\<^sup>* (system_start w0) (sv, ts, allowed, w)" and "sv_right sv = Some rm"
    and "bundles_available x w" and "wr = snd (GetBundleName x '''' w)"
    and "rc_deviceName ctx = device_name (dev_busNum d) (dev_devAddr d)"
    and "reads_back N calm" and "device_small d"
  shows "case js_run_work P E C N (RightWork ctx) e cl (sv, w) of
      None \<Rightarrow> fst (fst (show_dialog x (rc_deviceName ctx) (caller_bundle x w) rm wr)) = None
    | Some r \<Rightarrow> \<exists>ok sv1 w1.
        r = Mem (ProcessPromise N (ac_deferred ctx) ok (JsBool ok) e, cl, (sv1, w1)) \<and>
        (ok \<longleftrightarrow> (rc_deviceName ctx, caller_bundle x w) \<in> rights rm \<or>
           user_allows x (rc_deviceName ctx) (caller_bundle x w) rm wr) \<and>
        (\<forall>t w2. calm (js_engine t) \<longrightarrow> bundles_available x w2 \<longrightarrow> caller_bundle x w2 = caller_bundle x w \<longrightarrow>
           CoreConnectDevice P E C N (Some [n_value N (CtoJSUsbDevice E d)]) t cl (sv1, w2) =
             (let w3 = snd (GetBundleName x '''' w2);
                  (ret, w4) = (if ok then x_OpenDevice x (usb_dev (dev_busNum d) (dev_devAddr d)) w3
                    else (UEC_SERVICE_PERMISSION_DENIED E, w3))
              in connect_answer E N (dev_busNum d) (dev_devAddr d) ret t cl (sv1, w4)))"
proof -
  let ?n = "rc_deviceName ctx" and ?c = "caller_bundle x w"
  have E: "codes_ok E" using ipc_linkD(1) [OF assms(1)] by (simp add: ipc_env_def)
  note consent = RequestRight_needs_consent [OF system_right_inv [OF E assms(3,4)] E, where x = x and d = ?n and b = ?c and w = wr]
  have caller: "GetBundleName x '''' w = ((True, ?c), wr)"
    using assms(5,6) by (simp add: GetBundleName_eq)
  show ?thesis
  proof (cases "RightManager_RequestRight E x ?n ?c rm wr")
    case None
    with consent show ?thesis
      by (simp add: js_right_work [OF assms(1,2)] Service_RequestRight_def caller assms(4))
  next
    case (Some q)
    obtain ret rm1 w1 where q: "q = ((ret, rm1), w1)" by (metis surj_pair)
    from consent Some q have ok: "ret = UEC_OK E \<longleftrightarrow> (?n, ?c) \<in> rights rm1"
      and rights: "rights rm1 = (if user_allows x ?n ?c rm wr then insert (?n, ?c) (rights rm) else rights rm)"
      by simp_all
    let ?sv1 = "sv\<lparr>sv_right := Some rm1\<rparr>"
    have "js_run_work P E C N (RightWork ctx) e cl (sv, w) = Some (Mem (ProcessPromise N (ac_deferred ctx)
        (ret = UEC_OK E) (JsBool (ret = UEC_OK E)) e, cl, (?sv1, w1)))"
      by (simp add: js_right_work [OF assms(1,2)] Service_RequestRight_def caller assms(4) Some q cl_return_def)
    moreover have "ret = UEC_OK E \<longleftrightarrow> (?n, ?c) \<in> rights rm \<or> user_allows x ?n ?c rm wr"
      by (simp add: ok rights)
    moreover have "CoreConnectDevice P E C N (Some [n_value N (CtoJSUsbDevice E d)]) t cl (?sv1, w2) =
             (let w3 = snd (GetBundleName x '''' w2);
                  (ret, w4) = (if ret = UEC_OK E then x_OpenDevice x (usb_dev (dev_busNum d) (dev_devAddr d)) w3
                    else (UEC_SERVICE_PERMISSION_DENIED E, w3))
              in connect_answer E N (dev_busNum d) (dev_devAddr d) ret t cl (?sv1, w4))"
      if "calm (js_engine t)" "bundles_available x w2" "caller_bundle x w2 = ?c" for t w2
      using connect_listed [OF assms(1,2) _ assms(8) that(1) assms(9), of ?sv1 rm1 w2] ok that(2,3)
      by (simp add: guarded_open_def assms(7) Let_def)
    ultimately show ?thesis by auto
  qed
qed

theorem right_promise_decides_connect_witness:
  "\<exists>ok sv1 w1. js_run_work list_parcel sample_codes (sample_env_of sample_send) sample_napi
      (RightWork \<lparr>ac_deferred = Some 4, ac_ok = True, rc_deviceName = ''0-0'', rc_hasRight = False\<rparr>)
      sample_engine sample_client (UsbService_new, asking_state [''EVENT_ALLOW'']) =
    cl_return (ProcessPromise sample_napi (Some 4) ok (JsBool ok) sample_engine) sample_client (sv1, w1) \<and> ok"
proof -
  let ?w = "asking_state [''EVENT_ALLOW'']"
  let ?ctx = "\<lparr>ac_deferred = Some 4, ac_ok = True, rc_deviceName = ''0-0'', rc_hasRight = False\<rparr>"
  have run: "(system_step usb20_layout sample_codes sample_acts sample_ext)\<^sup>*\<^sup>* (system_start ?w)
      (system_start ?w)" by simp
  have rm: "sv_right UsbService_new = Some UsbRightManager_new" by (simp add: UsbService_new_def)
  have caller: "bundles_available sample_ext ?w" "?w = snd (GetBundleName sample_ext '''' ?w)" by code_simp+
  have name: "rc_deviceName ?ctx = device_name (dev_busNum UsbDevice_zero) (dev_devAddr UsbDevice_zero)" by code_simp
  have small: "device_small UsbDevice_zero" by (simp add: device_small_def UsbDevice_zero_def ascii_def)
  have user: "user_allows sample_ext ''0-0'' (caller_bundle sample_ext ?w) UsbRightManager_new ?w"
    "fst (fst (show_dialog sample_ext ''0-0'' (caller_bundle sample_ext ?w) UsbRightManager_new ?w)) \<noteq> None"
    by code_simp+
  show ?thesis
    using right_promise_decides_connect [OF list_link sample_connected [of sample_send, unfolded sample_send_def]
        run rm caller name sample_reads small, of sample_engine] user
    by (auto simp: sample_send_def cl_return_def split: option.splits)
qed

end
