(* ===== verification/Usb_History.thy ===== *)
theory Usb_History
  imports Usb_Consent
begin

text \<open>
  What the rights of the system are at any time: exactly those that were granted and not revoked
  since.  The runs of the system are written with the grants and revocations that happen in them.
\<close>

section \<open>Runs with their grants and revocations\<close>

text \<open>A grant is the end of a request that the user allowed.\<close>

inductive logged_right_step ::
  "uec_codes \<Rightarrow> 'w ext \<Rightarrow> 'w right_system \<Rightarrow> (string, string) right_op list \<Rightarrow> 'w right_system \<Rightarrow> bool"
  for E :: uec_codes and x :: "'w ext" where
  ask: "\<not> RightManager_HasRight d b rm \<Longrightarrow> \<not> 0 \<le>s rm_dialogId rm \<Longrightarrow>
     show_dialog x d b rm w = ((ans, rm1), w1) \<Longrightarrow>
     logged_right_step E x (rm, ts, al, w) [] (rm1, (d, b, Asking) # ts, al, w1)"
| answer: "dialog_callback x cb event False rm w = ((a, rm1), w1) \<Longrightarrow>
     logged_right_step E x (rm, us @ (d, b, Asking) # vs, al, w) []
       (rm1, us @ (d, b, Answered a) # vs,
        if event = ''EVENT_ALLOW'' then insert (d, b) al else al, w1)"
| finish: "after_agreement E d b a rm = (r, rm1) \<Longrightarrow>
     logged_right_step E x (rm, us @ (d, b, Answered a) # vs, al, w) (if a then [Granted d b] else [])
       (rm1, us @ vs, al, w)"
| revoke: "RightManager_RemoveDeviceRight d rm = (r, rm1) \<Longrightarrow>
     logged_right_step E x (rm, ts, al, w) [Revoked d] (rm1, ts, al, w)"
| others: "logged_right_step E x (rm, ts, al, w) [] (rm, ts, al, w1)"

inductive logged_step ::
  "usbd_layout \<Rightarrow> uec_codes \<Rightarrow> usbd_acts \<Rightarrow> 'w ext \<Rightarrow>
     'w system \<Rightarrow> (string, string) right_op list \<Rightarrow> 'w system \<Rightarrow> bool"
  for L :: usbd_layout and E :: uec_codes and A :: usbd_acts and x :: "'w ext" where
  rights: "sv_right sv = Some rm \<Longrightarrow> logged_right_step E x (rm, ts, al, w) ops (rm1, ts1, al1, w1) \<Longrightarrow>
    logged_step L E A x (sv, ts, al, w) ops (sv\<lparr>sv_right := Some rm1\<rparr>, ts1, al1, w1)"
| service: "system_step L E A x (sv, ts, al, w) (sv1, ts, al, w1) \<Longrightarrow> sv_right sv1 = sv_right sv \<Longrightarrow>
    logged_step L E A x (sv, ts, al, w) [] (sv1, ts, al, w1)"

inductive logged_run ::
  "usbd_layout \<Rightarrow> uec_codes \<Rightarrow> usbd_acts \<Rightarrow> 'w ext \<Rightarrow> (string, string) right_op list \<Rightarrow> 'w system \<Rightarrow> bool"
  for L :: usbd_layout and E :: uec_codes and A :: usbd_acts and x :: "'w ext" where
  start: "logged_run L E A x [] (UsbService_new, [], {}, w)"
| step: "logged_run L E A x ops s \<Longrightarrow> logged_step L E A x s ops1 s1 \<Longrightarrow> logged_run L E A x (ops @ ops1) s1"

text \<open>Every step has a log, and a logged step is a step.\<close>

lemma logged_right_step_iff: "right_step E x s s1 \<longleftrightarrow> (\<exists>ops. logged_right_step E x s ops s1)"
  by (auto elim!: right_step.cases logged_right_step.cases
      intro: right_step.intros logged_right_step.intros)

lemma logged_step_iff: "system_step L E A x s s1 \<longleftrightarrow> (\<exists>ops. logged_step L E A x s ops s1)"
proof
  assume step: "system_step L E A x s s1"
  then show "\<exists>ops. logged_step L E A x s ops s1"
  proof cases
    case (rights sv rm ts al w rm1 ts1 al1 w1)
    then show ?thesis using logged_step.rights by (metis logged_right_step_iff)
  qed (use step in \<open>blast intro: logged_step.service dest: keeps_right\<close>)+
next
  assume "\<exists>ops. logged_step L E A x s ops s1"
  then show "system_step L E A x s s1"
    by (auto elim!: logged_step.cases intro!: system_step.rights logged_right_step_iff [THEN iffD2])
qed

lemma logged_run_iff:
  "(\<exists>w0. (system_step L E A x)\<^sup>*\<^sup>* (UsbService_new, [], {}, w0) s) \<longleftrightarrow> (\<exists>ops. logged_run L E A x ops s)"
proof
  assume "\<exists>w0. (system_step L E A x)\<^sup>*\<^sup>* (UsbService_new, [], {}, w0) s"
  then obtain w0 where "(system_step L E A x)\<^sup>*\<^sup>* (UsbService_new, [], {}, w0) s" by blast
  then show "\<exists>ops. logged_run L E A x ops s"
  proof (induction rule: rtranclp_induct)
    case base
    show ?case by (rule exI, rule logged_run.start)
  next
    case (step s1 s2)
    then show ?case using logged_run.step logged_step_iff by metis
  qed
next
  assume "\<exists>ops. logged_run L E A x ops s"
  then obtain ops where "logged_run L E A x ops s" by blast
  then show "\<exists>w0. (system_step L E A x)\<^sup>*\<^sup>* (UsbService_new, [], {}, w0) s"
  proof (induction rule: logged_run.induct)
    case (step ops s ops1 s1)
    then show ?case using logged_step_iff rtranclp.rtrancl_into_rtrancl by metis
  qed blast
qed

section \<open>The rights are the history\<close>

lemma held_after_append: "held_after (ops @ ops1) d b h = held_after ops1 d b (held_after ops d b h)"
  by (induction ops d b h rule: held_after.induct) auto

definition history_inv :: "(string, string) right_op list \<Rightarrow> 'w right_system \<Rightarrow> bool" where
  "history_inv ops s \<longleftrightarrow> consent_inv s \<and>
     (\<forall>d b. (d, b) \<in> rights (fst s) \<longleftrightarrow> held_after ops d b False) \<and>
     (\<forall>d b. Granted d b \<in> set ops \<longrightarrow> (d, b) \<in> fst (snd (snd s)))"

lemma history_right_step:
  assumes "codes_ok E" and "logged_right_step E x s ops1 s1" and "history_inv ops s"
  shows "history_inv (ops @ ops1) s1"
proof -
  have "right_step E x s s1" using assms(2) logged_right_step_iff by blast
  from consent_step [OF assms(1) this] have inv: "consent_inv s1" using assms(3) by (simp add: history_inv_def)
  from assms(2) show ?thesis
  proof cases
    case (ask d b rm w ans rm1 w1 ts al)
    with assms(3) inv show ?thesis by (auto simp: history_inv_def dest!: show_dialog_rm)
  next
    case (answer cb event rm w a rm1 w1 us d b vs al)
    with assms(3) inv dialog_callback_rm [OF answer(4)] show ?thesis by (auto simp: history_inv_def)
  next
    case (finish d b a rm r rm1 us vs al w)
    with assms(3) inv after_agreement_spec [of rm E d b a] assms(1) show ?thesis
      by (cases a) (auto simp: history_inv_def consent_inv_def held_after_append)
  next
    case (revoke d rm r rm1 ts al w)
    with assms(3) inv RemoveDeviceRight_rights [of d rm] show ?thesis
      by (auto simp: history_inv_def consent_inv_def held_after_append)
  next
    case (others rm ts al w w1)
    with assms(3) inv show ?thesis by (simp add: history_inv_def)
  qed
qed

lemma history_run:
  assumes "codes_ok E" and "logged_run L E A x ops s"
  shows "\<exists>rm. sv_right (fst s) = Some rm \<and> history_inv ops (rm, snd s)"
  using assms(2)
proof (induction rule: logged_run.induct)
  case (start w)
  then show ?case by (simp add: UsbService_new_def history_inv_def consent_inv_def)
next
  case (step ops s ops1 s1)
  from step.hyps(2) show ?case
  proof cases
    case (rights sv rm ts al w rm1 ts1 al1 w1)
    with step.IH history_right_step [OF assms(1) rights(4), of ops] show ?thesis by auto
  next
    case (service sv ts al w sv1 w1)
    with step.IH show ?thesis by (auto simp: history_inv_def consent_inv_def)
  qed
qed

text \<open>
  C3: An application opens a device exactly if its last request that counts was granted: after any
  interleaving of requests, answers, revocations and everything else the service does, the driver is
  asked to open the device if and only if the right was granted to the application, for exactly this
  bus number and address, and not revoked since; and every grant was allowed by the user.
\<close>

theorem open_iff_granted:
  assumes "ipc_link P E items" and "connected_to C cl (service_remote P E x base junk)"
    and "logged_run L E A x ops (sv, ts, allowed, w)"
    and "w1 = snd (GetBundleName x '''' w)" and "n = device_name (dev_busNum device) (dev_devAddr device)"
  shows "Client_OpenDevice P E C device pipe cl (sv, w) =
      (if bundles_available x w \<and> held_after ops n (caller_bundle x w) False
       then (let (ret, w2) = x_OpenDevice x (usb_dev (dev_busNum device) (dev_devAddr device)) w1
             in cl_return (ret, if ret = UEC_OK E
                  then \<lparr>dp_busNum = dev_busNum device, dp_devAddr = dev_devAddr device\<rparr> else pipe) cl (sv, w2))
       else cl_return (UEC_SERVICE_PERMISSION_DENIED E, pipe) cl (sv, w1)) \<and>
    (\<forall>d b. Granted d b \<in> set ops \<longrightarrow> (d, b) \<in> allowed)"
proof -
  have E: "codes_ok E" using ipc_linkD(1) [OF assms(1)] by (simp add: ipc_env_def)
  then have "UEC_SERVICE_PERMISSION_DENIED E \<noteq> UEC_OK E" by (simp add: codes_ok_def)
  moreover obtain rm where rm: "sv_right sv = Some rm" "history_inv ops (rm, ts, allowed, w)"
    using history_run [OF E assms(3)] by auto
  ultimately show ?thesis
    using client_OpenDevice_guarded [OF assms(1,2) rm(1), of device pipe w]
    by (auto simp: history_inv_def assms(4,5) Let_def)
qed

text \<open>A run: the application com.a asks for the device 1-2, the user allows it, the right is granted.\<close>

lemma granting_run:
  "logged_run usb20_layout sample_codes sample_acts sample_ext [Granted ''1-2'' ''com.a'']
    (granted_service, [], {(''1-2'', ''com.a'')}, asking_state [])"
proof -
  let ?rm = "UsbRightManager_new\<lparr>rm_dialogId := 5\<rparr>" and ?sv = "\<lambda>rm. UsbService_new\<lparr>sv_right := Some rm\<rparr>"
  let ?run = "logged_run usb20_layout sample_codes sample_acts sample_ext"
  note right = logged_run.step [OF _ logged_step.rights]
  have "\<not> RightManager_HasRight ''1-2'' ''com.a'' UsbRightManager_new" "\<not> 0 \<le>s rm_dialogId UsbRightManager_new"
    "show_dialog sample_ext ''1-2'' ''com.a'' UsbRightManager_new (asking_state [''EVENT_ALLOW'']) =
      ((Some (5, ''EVENT_ALLOW''), ?rm), asking_state [])" by code_simp+
  from right [OF logged_run.start _ logged_right_step.ask [OF this]]
  have asked: "?run [] (?sv ?rm, [(''1-2'', ''com.a'', Asking)], {}, asking_state [])"
    by (simp add: UsbService_new_def)
  have "dialog_callback sample_ext 5 ''EVENT_ALLOW'' False ?rm (asking_state []) =
      ((True, UsbRightManager_new), asking_state [])" by code_simp
  from right [OF asked _ logged_right_step.answer [where us = "[]" and vs = "[]", OF this, simplified]]
  have answered: "?run [] (?sv UsbRightManager_new, [(''1-2'', ''com.a'', Answered True)],
      {(''1-2'', ''com.a'')}, asking_state [])" by simp
  have "after_agreement sample_codes ''1-2'' ''com.a'' True UsbRightManager_new = (0, granted_rm)" by code_simp
  from right [OF answered _ logged_right_step.finish [where us = "[]" and vs = "[]", OF this, simplified]]
  show ?thesis by (simp add: granted_service_def)
qed

theorem open_iff_granted_witness:
  "Client_OpenDevice list_parcel sample_codes (sample_env_of sample_send)
      (UsbDevice_zero\<lparr>dev_busNum := 1, dev_devAddr := 2\<rparr>) \<lparr>dp_busNum = 9, dp_devAddr = 9\<rparr> sample_client
      (granted_service, asking_state []) =
    cl_return (0, \<lparr>dp_busNum = 1, dp_devAddr = 2\<rparr>) sample_client
      (granted_service, (asking_state [])\<lparr>sw_open := True\<rparr>)"
proof -
  let ?w = "asking_state []"
  have env: "bundles_available sample_ext ?w" "caller_bundle sample_ext ?w = ''com.a''" "device_name 1 2 = ''1-2''"
    "snd (GetBundleName sample_ext '''' ?w) = ?w" "UEC_OK sample_codes = 0" by code_simp+
  have "x_OpenDevice sample_ext (usb_dev 1 2) ?w = (0, ?w\<lparr>sw_open := True\<rparr>)" by (simp add: sample_ext_def)
  with open_iff_granted [OF list_link sample_connected [of sample_send, unfolded sample_send_def] granting_run refl refl,
      where device = "UsbDevice_zero\<lparr>dev_busNum := 1, dev_devAddr := 2\<rparr>" and pipe = "\<lparr>dp_busNum = 9, dp_devAddr = 9\<rparr>"]
  show ?thesis by (simp add: env sample_send_def)
qed

end
