(* ===== verification/Usb_System_Ports.thy ===== *)
theory Usb_System_Ports
  imports Usb_System Usb_History
begin

text \<open>
  All managers of the service, operation by operation, and the way of a port: from the driver's event to the
  array of JavaScript.
\<close>

section \<open>The managers\<close>

lemma system_step_service_inv:
  assumes "codes_ok E" and "system_step L E A x s s1" and "system_inv s" and "service_inv (fst s)"
  shows "service_inv (fst s1)"
  using assms(2)
proof cases
  case (rights sv rm ts al w rm1 ts1 al1 w1)
  have "system_inv s1" by (rule system_step_inv [OF assms(1-3)])
  then have "right_inv rm1" by (simp add: rights system_inv_def consent_inv_def)
  with assms(4) show ?thesis by (simp add: rights service_inv_def)
next
  case (start sv w sv1 w1 ts al)
  with service_step_inv [OF assms(1) service_step.intros(1) [OF start(3)]] assms(4) show ?thesis by simp
next
  case (stop sv w sv1 w1 ts al)
  with service_step_inv [OF assms(1) service_step.intros(2) [OF stop(3)]] assms(4) show ?thesis by simp
next
  case (set_functions f sv w r sv1 w1 ts al)
  with service_step_inv [OF assms(1) service_step.intros(5) [OF set_functions(3)]] assms(4) show ?thesis by simp
next
  case (get_ports ports sv w res sv1 w1 ts al)
  with service_step_inv [OF assms(1) service_step.intros(6) [OF get_ports(3)]] assms(4) show ?thesis by simp
next
  case (port_event i p d m sv w r sv1 w1 ts al)
  with service_step_inv [OF assms(1) service_step.intros(7) [OF port_event(3)]] assms(4) show ?thesis by simp
next
  case (device_event info sv w r sv1 w1 ts al)
  with service_step_inv [OF assms(1) service_step.intros(8) [OF device_event(3)]] assms(4) show ?thesis by simp
qed

lemma system_service_inv:
  assumes "codes_ok E" and "(system_step L E A x)\<^sup>*\<^sup>* (system_start w0) s"
  shows "service_inv (fst s)"
proof -
  have inv: "step_invariant (system_step L E A x) (\<lambda>s. system_inv s \<and> service_inv (fst s))"
    by unfold_locales (blast intro: system_step_inv [OF assms(1)] system_step_service_inv [OF assms(1)])
  have "system_inv (system_start w0)" by (simp add: system_inv_def UsbService_new_def consent_inv_def)
  with step_invariant.steps_inv [OF inv assms(2)] show ?thesis by simp
qed

text \<open>
  C6: Operation by operation, the managers stay well-formed: in every state that the system reaches when each
  operation and each event runs to its end before the next one starts, all four managers exist, the device
  table is sorted, without null pointers and keyed by the devices' own names, the right table
  lists no application twice, and every port is stored under its id.  A request for a right is three
  operations, up to the dialog, the user's answer and what follows it, so any number of requests may wait for
  their users while everything else goes on.  The managers have no locks that would keep
  operations apart: with two of them in progress at the same time an application may be listed
  twice (\<open>right_listed_twice\<close>; \<open>entries_survive_races\<close> is what remains of the right table), and the device table
  may be used after a deletion (C16).
\<close>

theorem system_managers_ok:
  assumes "codes_ok E" and "(system_step L E A x)\<^sup>*\<^sup>* (system_start w0) (sv, ts, allowed, w)"
  shows "service_inv sv"
  using system_service_inv [OF assms] by simp

section \<open>Ports\<close>

lemma update_listing:
  assumes "port_inv pm"
  shows "map snd (portMap (PortManager_UpdatePort i p d m pm)) =
    map (\<lambda>q. if port_id q = i then with_status p d m q else q) (map snd (portMap pm))"
proof (cases "map_of (portMap pm) (sint i)")
  case None
  have "port_id q \<noteq> i" if "q \<in> set (map snd (portMap pm))" for q
  proof
    assume "port_id q = i"
    with that assms have "(sint i, q) \<in> set (portMap pm)" by (auto simp: port_inv_def)
    with None show False by (auto simp: map_of_eq_None_iff rev_image_eqI)
  qed
  then show ?thesis by (simp add: PortManager_UpdatePort_def None map_idI)
next
  case (Some port)
  have ok: "cmap_ok (portMap pm)" and keys: "\<forall>(k, q) \<in> set (portMap pm). k = sint (port_id q)"
    using assms by (simp_all add: port_inv_def)
  have same: "snd e = port" if "e \<in> set (portMap pm)" "fst e = sint i" for e
    using cmap_find_in [OF ok, of "fst e" "snd e"] that Some by (cases e) simp
  have "port_id port = i" using keys map_of_SomeD [OF Some] by auto
  then have "PortManager_UpdatePort i p d m pm =
      pm\<lparr>portMap := cmap_assign (sint i) (with_status p d m port) (portMap pm)\<rparr>"
    by (simp add: PortManager_UpdatePort_def Some with_status_def)
  moreover have "snd (if fst e = sint i then (sint i, with_status p d m port) else e) =
      (if port_id (snd e) = i then with_status p d m (snd e) else snd e)" if "e \<in> set (portMap pm)" for e
    using same [OF that] keys that by (auto simp: case_prod_beta)
  ultimately show ?thesis by (simp add: cmap_assign_def)
qed

lemma Client_GetPorts_table:
  assumes "ipc_link P E items" and "connected_to C cl (service_remote P E x base junk)"
    and "sv_port sv = Some pm" and "portMap pm \<noteq> []" and "small (portMap pm)"
  shows "Client_GetPorts P E C ports cl (sv, w) =
    cl_return (UEC_OK E, ports @ map snd (portMap pm)) cl (sv, w)"
proof -
  obtain h where h: "cl_proxy cl = Some h" "ce_remote C h = Some (service_remote P E x base junk)"
    using assms(2) by (rule connected_toE)
  have "sv\<lparr>sv_port := Some pm\<rparr> = sv" using assms(3) by (cases sv) simp
  then have "Service_GetPorts E x [] sv w = (((UEC_OK E, map snd (portMap pm)), sv), w)"
    using assms(3,4) by (simp add: Service_GetPorts_def PortManager_GetPorts_def)
  moreover have "small (map snd (portMap pm))" using assms(5) by (simp add: small_def)
  ultimately have "Proxy_GetPorts P E (ce_remote C h) ports (sv, w) =
      returns (UEC_OK E, ports @ map snd (portMap pm)) (sv, w)"
    using Proxy_GetPorts_served [OF assms(1), where sv = sv and w = w and x = x] by (simp add: h(2))
  note call = call_proxy_returns [OF h(1), where call = "\<lambda>remote. Proxy_GetPorts P E remote ports", OF this]
  show ?thesis
    unfolding Client_GetPorts_def with_connection_connected [OF h(1)] call ..
qed

lemma CoreGetPorts_table:
  assumes "ipc_link P E items" and "connected_to C cl (service_remote P E x base junk)"
    and "sv_port sv = Some pm" and "portMap pm \<noteq> []" and "small (portMap pm)"
  shows "CoreGetPorts P E C N (Some []) t cl (sv, w) =
    js_return (Some (JsArray (map port_value (map snd (portMap pm))))) t cl (sv, w)"
  by (simp add: CoreGetPorts_def js_assert_def js_client_def Client_GetPorts_table [OF assms] run_bind_return)

text \<open>
  C33: The driver reports new roles and a new mode of a port, in any state of the system that knows a port:
  \<open>getPorts\<close> of JavaScript then lists the same ports in the same order, the status of the reported port
  replaced and all others unchanged, without asking the driver; a port that is not known is not added.
\<close>

theorem port_event_listed:
  assumes "ipc_link P E items" and "connected_to C cl (service_remote P E x base junk)"
    and "(system_step L E A x)\<^sup>*\<^sup>* (system_start w0) (sv, ts, allowed, w)"
    and "sv_port sv = Some pm" and "portMap pm \<noteq> []" and "small (portMap pm)"
  shows "\<exists>ps r sv1 w1. PortChangedEvent E x i p d m (Some sv) w = ((r, Some sv1), w1) \<and>
    (\<forall>t w2. CoreGetPorts P E C N (Some []) t cl (sv, w2) =
       js_return (Some (JsArray (map port_value ps))) t cl (sv, w2)) \<and>
    (\<forall>t w2. CoreGetPorts P E C N (Some []) t cl (sv1, w2) =
       js_return (Some (JsArray (map port_value
         (map (\<lambda>q. if port_id q = i then with_status p d m q else q) ps)))) t cl (sv1, w2))"
proof -
  have "codes_ok E" using ipc_linkD(1) [OF assms(1)] by (simp add: ipc_env_def)
  then have "service_inv sv" using system_service_inv [OF _ assms(3)] by simp
  then have inv: "port_inv pm" by (simp add: service_inv_def assms(4))
  let ?pm = "PortManager_UpdatePort i p d m pm" and ?ps = "map snd (portMap pm)"
  let ?sv = "Service_UpdateUsbPort i p d m sv"
  have sv: "sv_port ?sv = Some ?pm" by (simp add: Service_UpdateUsbPort_def assms(4))
  have len: "length (portMap ?pm) = length (portMap pm)"
    using arg_cong [OF update_listing [OF inv, of i p d m], of length] by simp
  obtain r w1 where "PortChangedEvent E x i p d m (Some sv) w = ((r, Some ?sv), w1)"
    unfolding PortChangedEvent_def Let_def case_prod_beta option.case by blast
  moreover have "CoreGetPorts P E C N (Some []) t cl (sv, w2) =
      js_return (Some (JsArray (map port_value ?ps))) t cl (sv, w2)" for t w2
    by (rule CoreGetPorts_table [OF assms(1,2,4-6)])
  moreover have "portMap ?pm \<noteq> []" "small (portMap ?pm)" using len assms(5,6) by (auto simp: small_def)
  note CoreGetPorts_table [OF assms(1,2) sv this, unfolded update_listing [OF inv]]
  ultimately show ?thesis by blast
qed

text \<open>A right was granted, and the service started afterwards.\<close>

theorem system_managers_ok_witness:
  "service_inv (fst (OnStart sample_codes sample_ext granted_service (asking_state [])))"
proof -
  let ?step = "system_step usb20_layout sample_codes sample_acts sample_ext"
  let ?start = "OnStart sample_codes sample_ext granted_service (asking_state [])"
  have "\<exists>ops. logged_run usb20_layout sample_codes sample_acts sample_ext ops
      (granted_service, [], {(''1-2'', ''com.a'')}, asking_state [])"
    using granting_run by blast
  then obtain w0 where "?step\<^sup>*\<^sup>* (system_start w0) (granted_service, [], {(''1-2'', ''com.a'')}, asking_state [])"
    unfolding logged_run_iff [symmetric] by blast
  moreover have "?step (granted_service, [], {(''1-2'', ''com.a'')}, asking_state [])
      (fst ?start, [], {(''1-2'', ''com.a'')}, snd ?start)"
    by (rule system_step.start) simp
  ultimately have "?step\<^sup>*\<^sup>* (system_start w0) (fst ?start, [], {(''1-2'', ''com.a'')}, snd ?start)"
    by (rule rtranclp.rtrancl_into_rtrancl)
  then show ?thesis by (rule system_managers_ok [OF codes_ok_sample])
qed

text \<open>The service after its start, with the port the driver reported.\<close>

theorem port_event_listed_witness:
  "\<exists>sv r sv1 w1 ps. PortChangedEvent sample_codes sample_ext 1 2 1 2 (Some sv) sample_state = ((r, Some sv1), w1) \<and>
    CoreGetPorts list_parcel sample_codes (sample_env_of sample_send) sample_napi (Some [])
      \<lparr>js_engine = sample_engine, js_queue = []\<rparr> sample_client (sv1, w1) =
    js_return (Some (JsArray (map port_value (map (\<lambda>q. if port_id q = 1 then with_status 2 1 2 q else q) ps))))
      \<lparr>js_engine = sample_engine, js_queue = []\<rparr> sample_client (sv1, w1)"
proof -
  let ?start = "OnStart sample_codes sample_ext UsbService_new sample_state"
  have run: "(system_step usb20_layout sample_codes sample_acts sample_ext)\<^sup>*\<^sup>* (system_start sample_state)
      (fst ?start, [], {}, sample_state)"
    by (rule r_into_rtranclp, rule system_step.start, code_simp)
  have port: "sv_port (fst ?start) = Some \<lparr>portMap = [(1, sample_port 1)]\<rparr>" by code_simp
  show ?thesis
    using port_event_listed [OF list_link sample_connected [of sample_send, unfolded sample_send_def] run port,
        where N = sample_napi and i = 1 and p = 2 and d = 1 and m = 2]
    by (fastforce simp: small_def sample_send_def)
qed

end
