(* ===== verification/Usb_Dialog.thy ===== *)
theory Usb_Dialog
  imports Usb_Consent
begin

text \<open>
  The page of the permission dialog (\<open>dialog_ui/js/pages/index/index.js\<close>): the text the user reads
  and the event a button sends.  With the way from the request through the dialog service to the
  page, this says what the user was asked before a device is opened.
\<close>

section \<open>The page\<close>

record dialog_data =
  dlg_prompt :: string
  dlg_allowButton :: string
  dlg_notAllowButton :: string

text \<open>A member of the parameters that is missing is undefined, and printed so.\<close>

definition param_text :: "(string \<rightharpoonup> string) \<Rightarrow> string \<Rightarrow> string" where
  "param_text params name = (case params name of None \<Rightarrow> ''undefined'' | Some v \<Rightarrow> v)"

text \<open>
  \<open>tr\<close> is \<open>$t\<close>, which looks a message up in the file of the language; \<open>params\<close> is what the router
  holds, the parameters of the dialog after the UI framework parsed them.
\<close>

definition dialog_onInit :: "(string \<Rightarrow> string) \<Rightarrow> (string \<rightharpoonup> string) \<Rightarrow> dialog_data" where
  "dialog_onInit tr params =
     \<lparr>dlg_prompt = tr ''message.allow'' @ param_text params ''bundleName'' @ tr ''message.use'' @
        param_text params ''deviceName'' @ ''?'',
      dlg_allowButton = tr ''message.allowButton'',
      dlg_notAllowButton = tr ''message.notAllowButton''\<rparr>"

text \<open>The event and the text a button gives to \<open>callNativeHandler\<close>.\<close>

definition dialog_onAllow :: "string \<times> string" where
  "dialog_onAllow = (''EVENT_ALLOW'', ''allow'')"

definition dialog_onNotAllow :: "string \<times> string" where
  "dialog_onNotAllow = (''EVENT_NOT_ALLOW'', ''not allow'')"

definition messages_en_US :: "(string \<times> string) list" where
  "messages_en_US = [(''message.allowButton'', ''Allow''), (''message.notAllowButton'', ''Not Allow''),
     (''message.allow'', ''Whether ''), (''message.use'', ''allowed to use the '')]"

section \<open>The parameters\<close>

text \<open>
  What a parser of JSON documents makes of an object whose members are strings without quotation marks,
  backslashes and control characters: the last member of a name counts.
\<close>

definition plain :: "string \<Rightarrow> bool" where
  "plain s \<longleftrightarrow> (\<forall>c \<in> set s. 32 \<le> (of_char c :: nat) \<and> of_char c < (128 :: nat) \<and> c \<noteq> CHR 0x22 \<and> c \<noteq> CHR 0x5C)"

fun member_texts :: "(string \<times> string) list \<Rightarrow> string" where
  "member_texts [] = ''''"
| "member_texts [(k, v)] = CHR 0x22 # k @ CHR 0x22 # '':'' @ CHR 0x22 # v @ [CHR 0x22]"
| "member_texts ((k, v) # m # ms) =
     CHR 0x22 # k @ CHR 0x22 # '':'' @ CHR 0x22 # v @ CHR 0x22 # '', '' @ member_texts (m # ms)"

definition reads_params :: "(string \<Rightarrow> (string \<rightharpoonup> string)) \<Rightarrow> bool" where
  "reads_params parse \<longleftrightarrow> (\<forall>ms. (\<forall>(k, v) \<in> set ms. plain k \<and> plain v) \<longrightarrow>
     parse (''{'' @ member_texts ms @ ''}'') = map_of (rev ms))"

lemma dialog_params_text:
  "dialog_params d b = ''{'' @ member_texts [(''bundleName'', b), (''deviceName'', d)] @ ''}''"
  by (simp add: dialog_params_def)

lemma plain_names [simp]: "plain ''bundleName''" "plain ''deviceName''"
  by (simp_all add: plain_def)

text \<open>The text the page shows for the parameters of a dialog, and for the parameters of a request.\<close>

definition page_text :: "(string \<Rightarrow> string) \<Rightarrow> (string \<Rightarrow> (string \<rightharpoonup> string)) \<Rightarrow> string \<Rightarrow> string" where
  "page_text tr parse params = dlg_prompt (dialog_onInit tr (parse params))"

definition request_prompt :: "(string \<Rightarrow> string) \<Rightarrow> (string \<Rightarrow> (string \<rightharpoonup> string)) \<Rightarrow> string \<Rightarrow> string \<Rightarrow> string" where
  "request_prompt tr parse d b = page_text tr parse (dialog_params d b)"

lemma request_prompt_plain:
  assumes "reads_params parse" and "plain d" and "plain b"
  shows "request_prompt tr parse d b = tr ''message.allow'' @ b @ tr ''message.use'' @ d @ ''?''"
proof -
  have "parse (dialog_params d b) = map_of (rev [(''bundleName'', b), (''deviceName'', d)])"
    unfolding dialog_params_text using assms by (simp add: reads_params_def del: member_texts.simps)
  then show ?thesis by (simp add: request_prompt_def page_text_def dialog_onInit_def param_text_def)
qed

section \<open>What the text tells\<close>

lemma last_word:
  assumes "CHR '' '' \<notin> set d" and "CHR '' '' \<notin> set d1"
  shows "s @ CHR '' '' # d = t @ CHR '' '' # d1 \<longleftrightarrow> s = t \<and> d = d1"
proof
  assume "s @ CHR '' '' # d = t @ CHR '' '' # d1"
  then have "rev d @ CHR '' '' # rev s = rev d1 @ CHR '' '' # rev t"
    by (metis append.assoc append_Cons append_Nil rev.simps(2) rev_append)
  then show "s = t \<and> d = d1"
    using assms quoted_split [of "CHR '' ''" "rev d" "rev d1" "rev s" "rev t"] by simp
qed simp

text \<open>
  C26: The text of the dialog tells which application asks for which device: two requests have
  the same text only if they are the same request.  The names must be plain, the name of
  the device without spaces, and the message before it must end with one, as it does in the messages of
  the repository.
\<close>

theorem prompt_identifies_request:
  assumes "reads_params parse" and "plain d" and "plain b" and "plain d1" and "plain b1"
    and "CHR '' '' \<notin> set d" and "CHR '' '' \<notin> set d1" and "tr ''message.use'' = u @ '' ''"
  shows "request_prompt tr parse d b = request_prompt tr parse d1 b1 \<longleftrightarrow> d = d1 \<and> b = b1"
proof -
  have "request_prompt tr parse d b = request_prompt tr parse d1 b1 \<longleftrightarrow>
      (b @ u) @ CHR '' '' # d = (b1 @ u) @ CHR '' '' # d1"
    by (simp add: request_prompt_plain assms)
  also have "\<dots> \<longleftrightarrow> d = d1 \<and> b = b1" unfolding last_word [OF assms(6,7)] by auto
  finally show ?thesis .
qed

section \<open>A parser, for the witnesses\<close>

fun split_quotes :: "string \<Rightarrow> string list" where
  "split_quotes [] = [[]]"
| "split_quotes (c # cs) = (if c = CHR 0x22 then [] # split_quotes cs
     else (case split_quotes cs of [] \<Rightarrow> [[c]] | p # ps \<Rightarrow> (c # p) # ps))"

fun quoted_pairs :: "string list \<Rightarrow> (string \<times> string) list" where
  "quoted_pairs (_ # k # _ # v # ps) = (k, v) # quoted_pairs ps"
| "quoted_pairs _ = []"

definition sample_parse :: "string \<Rightarrow> (string \<rightharpoonup> string)" where
  "sample_parse s = map_of (rev (quoted_pairs (split_quotes s)))"

lemma split_quotes_nonempty: "split_quotes s \<noteq> []"
  by (cases s) (auto split: list.splits)

lemma split_quotes_part: "CHR 0x22 \<notin> set p \<Longrightarrow> split_quotes (p @ CHR 0x22 # s) = p # split_quotes s"
  by (induction p) auto

lemma sample_parse_members:
  "\<forall>(k, v) \<in> set ms. plain k \<and> plain v \<Longrightarrow> CHR 0x22 \<notin> set p \<Longrightarrow>
    quoted_pairs (split_quotes (p @ member_texts ms @ ''}'')) = ms"
proof (induction ms arbitrary: p rule: member_texts.induct)
  case 1
  have "split_quotes q = [q]" if "CHR 0x22 \<notin> set q" for q using that by (induction q) auto
  from this [of "p @ ''}''"] 1 show ?case by simp
next
  case (2 k v)
  then have q: "CHR 0x22 \<notin> set p" "CHR 0x22 \<notin> set k" "CHR 0x22 \<notin> set '':''" "CHR 0x22 \<notin> set v"
    by (auto simp: plain_def)
  show ?case
    using split_quotes_part [OF q(1), of "k @ CHR 0x22 # '':'' @ CHR 0x22 # v @ CHR 0x22 # ''}''"]
      split_quotes_part [OF q(2), of "'':'' @ CHR 0x22 # v @ CHR 0x22 # ''}''"]
      split_quotes_part [OF q(3), of "v @ CHR 0x22 # ''}''"] split_quotes_part [OF q(4), of "''}''"]
    by simp
next
  case (3 k v m ms)
  then have q: "CHR 0x22 \<notin> set p" "CHR 0x22 \<notin> set k" "CHR 0x22 \<notin> set '':''" "CHR 0x22 \<notin> set v"
    by (auto simp: plain_def)
  let ?rest = "'', '' @ member_texts (m # ms) @ ''}''"
  have "quoted_pairs (split_quotes ?rest) = m # ms" by (rule 3(1)) (use 3(2) in simp_all)
  then show ?case
    using split_quotes_part [OF q(1), of "k @ CHR 0x22 # '':'' @ CHR 0x22 # v @ CHR 0x22 # ?rest"]
      split_quotes_part [OF q(2), of "'':'' @ CHR 0x22 # v @ CHR 0x22 # ?rest"]
      split_quotes_part [OF q(3), of "v @ CHR 0x22 # ?rest"] split_quotes_part [OF q(4), of ?rest]
    by simp
qed

lemma sample_parse_reads: "reads_params sample_parse"
  using sample_parse_members [where p = "''{''"] by (auto simp: reads_params_def sample_parse_def)

definition sample_tr :: "string \<Rightarrow> string" where
  "sample_tr k = (case map_of messages_en_US k of None \<Rightarrow> k | Some m \<Rightarrow> m)"

text \<open>In English, there is no space between the application and what follows.\<close>

theorem english_prompt:
  "request_prompt sample_tr sample_parse ''1-2'' ''com.a'' = ''Whether com.aallowed to use the 1-2?''"
  by code_simp

theorem prompt_identifies_request_witness:
  "request_prompt sample_tr sample_parse ''1-2'' ''com.a'' \<noteq> request_prompt sample_tr sample_parse ''1-3'' ''com.a''"
proof -
  have "plain ''1-2''" "plain ''com.a''" "plain ''1-3''" by (simp_all add: plain_def)
  moreover have "sample_tr ''message.use'' = ''allowed to use the'' @ '' ''" by code_simp
  ultimately show ?thesis
    using prompt_identifies_request [OF sample_parse_reads, of "''1-2''" "''com.a''" "''1-3''" "''com.a''"] by simp
qed

section \<open>A forged name\<close>

text \<open>
  A name with a quotation mark makes the dialog speak of another application: the text is that of
  an honest request of the other one.  But it is the name of no device.
\<close>

lemma plain_mono: "set s \<subseteq> set t \<Longrightarrow> plain t \<Longrightarrow> plain s"
  by (auto simp: plain_def)

lemma plain_device_name: "plain (device_name b a)"
proof -
  have "plain (''-'' @ ''0123456789'')" by (simp add: plain_def)
  with device_name_chars [of b a, folded set_append] show ?thesis by (rule plain_mono)
qed

theorem forged_prompt_opens_nothing:
  assumes "reads_params parse" and "plain d" and "plain b" and "plain b1"
    and \<open>forged = d @ ''", "bundleName":"'' @ b1\<close>
  shows "request_prompt tr parse forged b = request_prompt tr parse d b1 \<and> device_name busNum devAddr \<noteq> forged"
proof -
  let ?ms = "[(''bundleName'', b), (''deviceName'', d), (''bundleName'', b1)]"
  have "dialog_params forged b = ''{'' @ member_texts ?ms @ ''}''"
    by (simp add: dialog_params_def assms(5))
  moreover have "parse (''{'' @ member_texts ?ms @ ''}'') = map_of (rev ?ms)"
    using assms(1-4) by (simp add: reads_params_def del: member_texts.simps)
  ultimately have "parse (dialog_params forged b) = map_of (rev ?ms)" by simp
  then have "request_prompt tr parse forged b = request_prompt tr parse d b1"
    unfolding request_prompt_plain [OF assms(1,2,4)]
    by (simp add: request_prompt_def page_text_def dialog_onInit_def param_text_def)
  moreover have "CHR 0x22 \<in> set forged" "CHR 0x22 \<notin> set (device_name busNum devAddr)"
    using device_name_without [of "CHR 0x22" busNum devAddr] by (simp_all add: assms(5))
  ultimately show ?thesis by metis
qed

section \<open>What the user was asked\<close>

text \<open>
  The dialog service (not in the repository) shows the page with the parameters that \<open>ShowDialog\<close> gets,
  and its callback gets the event of the button the user pressed.  So the event of the page's
  Allow button comes only from a user who agreed to the text of the page for these parameters;
  \<open>agreed\<close> is what users agree to.
\<close>

definition users_decide ::
  "(string \<Rightarrow> string) \<Rightarrow> (string \<Rightarrow> (string \<rightharpoonup> string)) \<Rightarrow> (string \<Rightarrow> bool) \<Rightarrow> 'w ext \<Rightarrow> bool" where
  "users_decide tr parse agreed x \<longleftrightarrow> (\<forall>params pos w dlg cb w1.
     x_ShowDialog x params pos w = ((dlg, Some (cb, fst dialog_onAllow)), w1) \<longrightarrow> agreed (page_text tr parse params))"

lemma show_dialog_agreed:
  assumes "users_decide tr parse agreed x"
    and "show_dialog x d b rm w = ((Some (cb, ''EVENT_ALLOW''), rm1), w1)"
  shows "agreed (request_prompt tr parse d b)"
  using assms
  by (auto simp: users_decide_def show_dialog_def dialog_onAllow_def request_prompt_def Let_def split: prod.splits) blast

text \<open>
  The runs of \<open>Usb_Consent\<close> again, each thread with the answer that its own dialog gives: a thread that
  waits goes on only with this answer.
\<close>

type_synonym shown_thread = "right_thread \<times> (i32 \<times> string) option"

type_synonym 'w shown_system = "UsbService \<times> shown_thread list \<times> (string \<times> string) set \<times> 'w"

inductive shown_step ::
  "usbd_layout \<Rightarrow> uec_codes \<Rightarrow> usbd_acts \<Rightarrow> 'w ext \<Rightarrow> 'w shown_system \<Rightarrow> 'w shown_system \<Rightarrow> bool"
  for L :: usbd_layout and E :: uec_codes and A :: usbd_acts and x :: "'w ext" where
  ask: "sv_right sv = Some rm \<Longrightarrow> \<not> RightManager_HasRight d b rm \<Longrightarrow> \<not> 0 \<le>s rm_dialogId rm \<Longrightarrow>
     show_dialog x d b rm w = ((ans, rm1), w1) \<Longrightarrow>
     shown_step L E A x (sv, ts, al, w) (sv\<lparr>sv_right := Some rm1\<rparr>, ((d, b, Asking), ans) # ts, al, w1)"
| answer: "sv_right sv = Some rm \<Longrightarrow> dialog_callback x cb event False rm w = ((a, rm1), w1) \<Longrightarrow>
     shown_step L E A x (sv, us @ ((d, b, Asking), Some (cb, event)) # vs, al, w)
       (sv\<lparr>sv_right := Some rm1\<rparr>, us @ ((d, b, Answered a), Some (cb, event)) # vs,
        if event = ''EVENT_ALLOW'' then insert (d, b) al else al, w1)"
| finish: "sv_right sv = Some rm \<Longrightarrow> after_agreement E d b a rm = (r, rm1) \<Longrightarrow>
     shown_step L E A x (sv, us @ ((d, b, Answered a), ans) # vs, al, w)
       (sv\<lparr>sv_right := Some rm1\<rparr>, us @ vs, al, w)"
| rest: "system_step L E A x (sv, map fst ts, al, w) (sv1, map fst ts, al, w1) \<Longrightarrow>
     shown_step L E A x (sv, ts, al, w) (sv1, ts, al, w1)"

definition unshown :: "'w shown_system \<Rightarrow> 'w system" where
  "unshown s = (case s of (sv, ts, al, w) \<Rightarrow> (sv, map fst ts, al, w))"

lemma shown_step_system: "shown_step L E A x s s1 \<Longrightarrow> system_step L E A x (unshown s) (unshown s1)"
proof (induction rule: shown_step.induct)
  case (answer sv rm cb event w a rm1 w1 us d b vs al)
  from system_step.rights [OF answer(1) right_step.answer [OF answer(2)]] show ?case by (simp add: unshown_def)
next
  case (finish sv rm d b a r rm1 us ans vs al w)
  from system_step.rights [OF finish(1) right_step.finish [OF finish(2)]] show ?case by (simp add: unshown_def)
qed (auto simp: unshown_def intro: system_step.rights right_step.ask)

lemma shown_run_system:
  "(shown_step L E A x)\<^sup>*\<^sup>* s s1 \<Longrightarrow> (system_step L E A x)\<^sup>*\<^sup>* (unshown s) (unshown s1)"
  by (induction rule: rtranclp_induct) (auto intro: rtranclp.rtrancl_into_rtrancl shown_step_system)

text \<open>A request that runs from its start to its end is such a run.\<close>

lemma RequestRight_shown:
  assumes "sv_right sv = Some rm" and "RightManager_RequestRight E x d b rm w = Some ((r, rm1), w1)"
  shows "\<exists>al1. (shown_step L E A x)\<^sup>*\<^sup>* (sv, ts, al, w) (sv\<lparr>sv_right := Some rm1\<rparr>, ts, al1, w1)"
proof -
  consider (same) "rm1 = rm" "w1 = w" | (asked) "\<not> RightManager_HasRight d b rm" "\<not> 0 \<le>s rm_dialogId rm"
    using assms(2)
    by (auto simp: RightManager_RequestRight_def GetUserAgreementByDiag_def after_agreement_def split: if_splits)
  then show ?thesis
  proof cases
    case same
    then show ?thesis by (intro exI [of _ al]) (simp add: put_right_back assms(1))
  next
    case asked
    obtain ans rm2 w2 where shown: "show_dialog x d b rm w = ((ans, rm2), w2)" by (metis surj_pair)
    with asked assms(2) obtain cb event where ans: "ans = Some (cb, event)"
      by (auto simp: RightManager_RequestRight_def GetUserAgreementByDiag_def split: option.splits)
    obtain a rm3 w3 where answer: "dialog_callback x cb event False rm2 w2 = ((a, rm3), w3)" by (metis surj_pair)
    have finish: "after_agreement E d b a rm3 = (r, rm1)" "w3 = w1"
      using asked assms(2) by (auto simp: RightManager_RequestRight_def GetUserAgreementByDiag_def shown ans answer)
    let ?sv = "\<lambda>rm. sv\<lparr>sv_right := Some rm\<rparr>"
    let ?al = "if event = ''EVENT_ALLOW'' then insert (d, b) al else al"
    have "shown_step L E A x (sv, ts, al, w) (?sv rm2, ((d, b, Asking), ans) # ts, al, w2)"
      by (rule shown_step.ask [OF assms(1) asked shown])
    moreover have "shown_step L E A x (?sv rm2, ((d, b, Asking), ans) # ts, al, w2)
        (?sv rm3, ((d, b, Answered a), ans) # ts, ?al, w3)"
      using shown_step.answer [OF _ answer, where us = "[]" and vs = ts and sv = "?sv rm2"] by (simp add: ans)
    moreover have "shown_step L E A x (?sv rm3, ((d, b, Answered a), ans) # ts, ?al, w3) (?sv rm1, ts, ?al, w3)"
      using shown_step.finish [OF _ finish(1), where us = "[]" and vs = ts and sv = "?sv rm3"] by auto
    ultimately show ?thesis
      using finish(2) by (meson converse_rtranclp_into_rtranclp r_into_rtranclp)
  qed
qed

text \<open>Every pair a user allowed was agreed to, and so is every pair whose dialog will answer so.\<close>

definition prompted :: "(string \<Rightarrow> string \<Rightarrow> bool) \<Rightarrow> 'w shown_system \<Rightarrow> bool" where
  "prompted asked s \<longleftrightarrow> (case s of (sv, ts, al, w) \<Rightarrow> (\<forall>(d, b) \<in> al. asked d b) \<and>
     (\<forall>d b cb. ((d, b, Asking), Some (cb, ''EVENT_ALLOW'')) \<in> set ts \<longrightarrow> asked d b))"

lemma prompted_step:
  assumes "users_decide tr parse agreed x" and "shown_step L E A x s s1"
    and "prompted (\<lambda>d b. agreed (request_prompt tr parse d b)) s"
  shows "prompted (\<lambda>d b. agreed (request_prompt tr parse d b)) s1"
  using assms(2,3)
  by cases (auto simp: prompted_def dest: show_dialog_agreed [OF assms(1)] split: if_splits)

text \<open>
  C5: A device is opened for an application only if a user read, and agreed to, a text that
  names this application and this device.  The text is the one of the page for the parameters
  that the service passed to the dialog service, and users answer by its buttons; whatever names
  applications made up in their requests, and however the requests interleaved with each other
  and with everything else, an operation of a manager being one step: if no user agreed to the text
  ``allow <application> use <bus-address>?'', the driver is not asked and the caller gets permission denied.
  The name of the application must be plain: ASCII without quotation marks,
  backslashes and control characters, as bundle names are.
\<close>

theorem opened_device_was_prompted:
  assumes "ipc_link P E items" and "connected_to C cl (service_remote P E x base junk)"
    and "users_decide tr parse agreed x" and "reads_params parse" and "plain (caller_bundle x w)"
    and "(shown_step L E A x)\<^sup>*\<^sup>* (UsbService_new, [], {}, w0) (sv, ts, allowed, w)"
    and "\<not> agreed (tr ''message.allow'' @ caller_bundle x w @ tr ''message.use'' @
      device_name (dev_busNum device) (dev_devAddr device) @ ''?'')"
  shows "Client_OpenDevice P E C device pipe cl (sv, w) =
    cl_return (UEC_SERVICE_PERMISSION_DENIED E, pipe) cl (sv, snd (GetBundleName x '''' w))"
proof -
  let ?n = "device_name (dev_busNum device) (dev_devAddr device)"
  let ?asked = "\<lambda>d b. agreed (request_prompt tr parse d b)"
  have E: "codes_ok E" using ipc_linkD(1) [OF assms(1)] by (simp add: ipc_env_def)
  then have ne: "UEC_SERVICE_PERMISSION_DENIED E \<noteq> UEC_OK E" by (simp add: codes_ok_def)
  have "(system_step L E A x)\<^sup>*\<^sup>* (UsbService_new, [], {}, w0) (sv, map fst ts, allowed, w)"
    using shown_run_system [OF assms(6)] by (simp add: unshown_def)
  then obtain rm where rm: "sv_right sv = Some rm" "rights rm \<subseteq> allowed" by (rule system_consent [OF E])
  have inv: "step_invariant (shown_step L E A x) (prompted ?asked)"
    by unfold_locales (rule prompted_step [OF assms(3)])
  have "prompted ?asked (sv, ts, allowed, w)"
    by (rule step_invariant.steps_inv [OF inv assms(6)]) (simp add: prompted_def)
  then have "(?n, caller_bundle x w) \<notin> allowed"
    using assms(7) request_prompt_plain [OF assms(4) plain_device_name assms(5)] by (fastforce simp: prompted_def)
  with ne rm(2) client_OpenDevice_guarded [OF assms(1,2) rm(1), of device pipe w] show ?thesis
    by (auto simp: Let_def)
qed

text \<open>
  A user who agrees to com.a using the device 1-2, and to nothing else.  After the request of
  com.a was allowed, com.b does not open the device.
\<close>

definition careful_user :: "string \<Rightarrow> bool" where
  "careful_user s \<longleftrightarrow> s = ''Whether com.aallowed to use the 1-2?''"

definition careful_ext :: "sample_world ext" where
  "careful_ext = sample_ext\<lparr>x_ShowDialog := (\<lambda>params pos w.
     ((5, Some (5, fst (if careful_user (page_text sample_tr sample_parse params) then dialog_onAllow
        else dialog_onNotAllow))), w))\<rparr>"

lemma careful_users: "users_decide sample_tr sample_parse careful_user careful_ext"
  by (simp add: users_decide_def careful_ext_def dialog_onAllow_def dialog_onNotAllow_def)

theorem opened_device_was_prompted_witness:
  "Client_OpenDevice list_parcel sample_codes
      (sample_env_of (service_remote list_parcel sample_codes careful_ext client_link_base 0))
      (UsbDevice_zero\<lparr>dev_busNum := 1, dev_devAddr := 2\<rparr>) \<lparr>dp_busNum = 9, dp_devAddr = 9\<rparr> sample_client
      (UsbService_new\<lparr>sv_right := Some granted_rm\<rparr>, sample_state\<lparr>sw_caller := ''com.b''\<rparr>) =
    cl_return (102, \<lparr>dp_busNum = 9, dp_devAddr = 9\<rparr>) sample_client
      (UsbService_new\<lparr>sv_right := Some granted_rm\<rparr>, sample_state\<lparr>sw_caller := ''com.b''\<rparr>)"
proof -
  let ?w = "sample_state\<lparr>sw_caller := ''com.b''\<rparr>"
  let ?device = "UsbDevice_zero\<lparr>dev_busNum := 1, dev_devAddr := 2\<rparr>"
  let ?sv = "UsbService_new\<lparr>sv_right := Some granted_rm\<rparr>"
  let ?step = "shown_step usb20_layout sample_codes sample_acts careful_ext"
  have request: "RightManager_RequestRight sample_codes careful_ext ''1-2'' ''com.a'' UsbRightManager_new
      sample_state = Some ((0, granted_rm), sample_state)" by code_simp
  have rm: "sv_right UsbService_new = Some UsbRightManager_new" by (simp add: UsbService_new_def)
  obtain al where "?step\<^sup>*\<^sup>* (UsbService_new, [], {}, sample_state) (?sv, [], al, sample_state)"
    using RequestRight_shown [OF rm request, of usb20_layout sample_acts "[]" "{}"] by blast
  moreover have "?step (?sv, [], al, sample_state) (?sv, [], al, ?w)"
    using system_step.rights [OF _ right_step.others, of ?sv granted_rm] by (intro shown_step.rest) simp
  ultimately have run: "?step\<^sup>*\<^sup>* (UsbService_new, [], {}, sample_state) (?sv, [], al, ?w)"
    by (rule rtranclp.rtrancl_into_rtrancl)
  have caller: "caller_bundle careful_ext ?w = ''com.b''" "snd (GetBundleName careful_ext '''' ?w) = ?w"
    "UEC_SERVICE_PERMISSION_DENIED sample_codes = 102"
    by code_simp+
  have plain: "plain (caller_bundle careful_ext ?w)" by (simp add: caller plain_def)
  have no: "\<not> careful_user (sample_tr ''message.allow'' @ caller_bundle careful_ext ?w @
      sample_tr ''message.use'' @ device_name (dev_busNum ?device) (dev_devAddr ?device) @ ''?'')"
    unfolding caller by code_simp
  show ?thesis
    using opened_device_was_prompted [OF list_link sample_connected careful_users sample_parse_reads plain run no,
        of client_link_base 0 "\<lparr>dp_busNum = 9, dp_devAddr = 9\<rparr>"]
    by (simp add: caller)
qed

end
