(* ===== verification/Usb_Right_Races.thy ===== *)
theory Usb_Right_Races
  imports Usb_Right
begin

text \<open>
  The right manager under threads.  Requests arrive on threads of their own, and neither the map of
  rights nor \<open>dialogId_\<close> has a lock.  Here the operations of \<open>usb_right_manager.cpp\<close> are broken
  between the test and the setting of \<open>dialogId_\<close>, between a look-up and the use of its iterator, and
  between the steps of a grant.  Each step itself is taken to be atomic, which is more than the
  code gives.  What the dialog promises holds all the same; that there is one dialog, and that no
  application is listed twice, does not.
\<close>

section \<open>Threads and steps\<close>

text \<open>
  Where a thread is: a request before its first test, before the test of \<open>dialogId_\<close>, before
  \<open>ShowDialog\<close>, waiting, answered; in \<open>AddDeviceRight\<close> with an iterator, before \<open>insert\<close>, before the last
  test; a removal before and after its look-up.  An iterator is the name and the generation of its
  entry, which an erasure ends.  \<open>RightFaulted\<close>: an iterator was used after its entry was erased.
\<close>

datatype right_pc =
  RequestStart string string
| RequestAsk string string
| RequestShow string string
| RequestWait string string
| RequestAnswered string string bool
| AddFound string string nat
| AddInsert string string
| AddCheck string string
| RequestEnd string string i32
| RemoveStart string
| RemoveFound string nat
| RemoveEnd bool
| RightFaulted

text \<open>\<open>rr_allowed\<close> is an observer's record of what users allowed; no step reads it.\<close>

record right_race =
  rr_rm :: UsbRightManager
  rr_gen :: "string \<Rightarrow> nat"
  rr_pc :: "nat \<Rightarrow> right_pc"
  rr_allowed :: "(string \<times> string) set"

definition right_goes :: "nat \<Rightarrow> right_pc \<Rightarrow> right_race \<Rightarrow> right_race" where
  "right_goes i p g = g\<lparr>rr_pc := (rr_pc g)(i := p)\<rparr>"

abbreviation rr_map :: "right_race \<Rightarrow> RightMap" where
  "rr_map g \<equiv> rightMap (rr_rm g)"

definition set_map :: "RightMap \<Rightarrow> right_race \<Rightarrow> right_race" where
  "set_map m g = g\<lparr>rr_rm := (rr_rm g)\<lparr>rightMap := m\<rparr>\<rparr>"

definition set_dialog :: "i32 \<Rightarrow> right_race \<Rightarrow> right_race" where
  "set_dialog dlg g = g\<lparr>rr_rm := (rr_rm g)\<lparr>rm_dialogId := dlg\<rparr>\<rparr>"

inductive right_race_step :: "uec_codes \<Rightarrow> right_race \<Rightarrow> right_race \<Rightarrow> bool" for E :: uec_codes where
  req_has: "rr_pc g i = RequestStart d b \<Longrightarrow> RightManager_HasRight d b (rr_rm g) \<Longrightarrow>
    right_race_step E g (right_goes i (RequestEnd d b (UEC_OK E)) g)"
| req_not: "rr_pc g i = RequestStart d b \<Longrightarrow> \<not> RightManager_HasRight d b (rr_rm g) \<Longrightarrow>
    right_race_step E g (right_goes i (RequestAsk d b) g)"
| ask_busy: "rr_pc g i = RequestAsk d b \<Longrightarrow> 0 \<le>s rm_dialogId (rr_rm g) \<Longrightarrow>
    right_race_step E g (right_goes i (RequestEnd d b (UEC_SERVICE_PERMISSION_DENIED E)) g)"
| ask_free: "rr_pc g i = RequestAsk d b \<Longrightarrow> \<not> 0 \<le>s rm_dialogId (rr_rm g) \<Longrightarrow>
    right_race_step E g (right_goes i (RequestShow d b) g)"
| shows_dialog: "rr_pc g i = RequestShow d b \<Longrightarrow>
    right_race_step E g (right_goes i (RequestWait d b) (set_dialog dlg g))"
| answers: "rr_pc g i = RequestWait d b \<Longrightarrow>
    right_race_step E g (right_goes i (RequestAnswered d b (event = ''EVENT_ALLOW'')) (set_dialog (-1)
      (g\<lparr>rr_allowed := if event = ''EVENT_ALLOW'' then insert (d, b) (rr_allowed g) else rr_allowed g\<rparr>)))"
| denied: "rr_pc g i = RequestAnswered d b False \<Longrightarrow>
    right_race_step E g (right_goes i (RequestEnd d b (UEC_SERVICE_PERMISSION_DENIED E)) g)"
| add_held: "rr_pc g i = RequestAnswered d b True \<Longrightarrow> map_of (rr_map g) d = Some v \<Longrightarrow> b \<in> set v \<Longrightarrow>
    right_race_step E g (right_goes i (RequestEnd d b (UEC_SERVICE_INVALID_VALUE E)) g)"
| add_find: "rr_pc g i = RequestAnswered d b True \<Longrightarrow> map_of (rr_map g) d = Some v \<Longrightarrow> b \<notin> set v \<Longrightarrow>
    right_race_step E g (right_goes i (AddFound d b (rr_gen g d)) g)"
| add_absent: "rr_pc g i = RequestAnswered d b True \<Longrightarrow> map_of (rr_map g) d = None \<Longrightarrow>
    right_race_step E g (right_goes i (AddInsert d b) g)"
| add_push: "rr_pc g i = AddFound d b n \<Longrightarrow> rr_gen g d = n \<Longrightarrow> map_of (rr_map g) d = Some v \<Longrightarrow>
    right_race_step E g (right_goes i (AddInsert d b) (set_map (cmap_assign d (v @ [b]) (rr_map g)) g))"
| add_push_fault: "rr_pc g i = AddFound d b n \<Longrightarrow> rr_gen g d \<noteq> n \<or> map_of (rr_map g) d = None \<Longrightarrow>
    right_race_step E g (right_goes i RightFaulted g)"
| add_insert: "rr_pc g i = AddInsert d b \<Longrightarrow>
    right_race_step E g (right_goes i (AddCheck d b) (set_map (fst (cmap_insert d [b] (rr_map g))) g))"
| check_has: "rr_pc g i = AddCheck d b \<Longrightarrow> RightManager_HasRight d b (rr_rm g) \<Longrightarrow>
    right_race_step E g (right_goes i (RequestEnd d b (UEC_OK E)) g)"
| check_not: "rr_pc g i = AddCheck d b \<Longrightarrow> \<not> RightManager_HasRight d b (rr_rm g) \<Longrightarrow>
    right_race_step E g (right_goes i (RequestEnd d b (UEC_SERVICE_INVALID_VALUE E)) g)"
| rm_absent: "rr_pc g i = RemoveStart d \<Longrightarrow> map_of (rr_map g) d = None \<Longrightarrow>
    right_race_step E g (right_goes i (RemoveEnd False) g)"
| rm_find: "rr_pc g i = RemoveStart d \<Longrightarrow> map_of (rr_map g) d \<noteq> None \<Longrightarrow>
    right_race_step E g (right_goes i (RemoveFound d (rr_gen g d)) g)"
| rm_erase: "rr_pc g i = RemoveFound d n \<Longrightarrow> rr_gen g d = n \<Longrightarrow> map_of (rr_map g) d \<noteq> None \<Longrightarrow>
    right_race_step E g (right_goes i (RemoveEnd True)
      (set_map (cmap_erase d (rr_map g)) (g\<lparr>rr_gen := (rr_gen g)(d := Suc n)\<rparr>)))"
| rm_erase_fault: "rr_pc g i = RemoveFound d n \<Longrightarrow> rr_gen g d \<noteq> n \<or> map_of (rr_map g) d = None \<Longrightarrow>
    right_race_step E g (right_goes i RightFaulted g)"

lemma right_goes_simps [simp]:
  "rr_pc (right_goes i p g) j = (if j = i then p else rr_pc g j)"
  "rr_rm (right_goes i p g) = rr_rm g" "rr_gen (right_goes i p g) = rr_gen g"
  "rr_allowed (right_goes i p g) = rr_allowed g"
  "right_goes i p (right_goes i q g) = right_goes i p g"
  "rr_pc (set_map m g) = rr_pc g" "rr_gen (set_map m g) = rr_gen g" "rr_allowed (set_map m g) = rr_allowed g"
  "rr_rm (set_map m g) = (rr_rm g)\<lparr>rightMap := m\<rparr>"
  "rr_pc (set_dialog k g) = rr_pc g" "rr_gen (set_dialog k g) = rr_gen g"
  "rr_allowed (set_dialog k g) = rr_allowed g" "rr_rm (set_dialog k g) = (rr_rm g)\<lparr>rm_dialogId := k\<rparr>"
  by (simp_all add: right_goes_def set_map_def set_dialog_def)

lemma right_chain:
  "right_race_step E g g1 \<Longrightarrow> (right_race_step E)\<^sup>*\<^sup>* g1 g2 \<Longrightarrow> (right_race_step E)\<^sup>*\<^sup>* g g2"
  by (rule converse_rtranclp_into_rtranclp)

section \<open>Consent\<close>

text \<open>What the place of a thread says about the user's answers.\<close>

fun pc_consent :: "uec_codes \<Rightarrow> (string \<times> string) set \<Rightarrow> right_pc \<Rightarrow> bool" where
  "pc_consent E al (RequestAnswered d b a) = (a \<longrightarrow> (d, b) \<in> al)"
| "pc_consent E al (AddFound d b n) = ((d, b) \<in> al)"
| "pc_consent E al (AddInsert d b) = ((d, b) \<in> al)"
| "pc_consent E al (RequestEnd d b r) = (r = UEC_OK E \<longrightarrow> (d, b) \<in> al)"
| "pc_consent E al _ = True"

definition race_consent :: "uec_codes \<Rightarrow> right_race \<Rightarrow> bool" where
  "race_consent E g \<longleftrightarrow> cmap_ok (rr_map g) \<and> rights (rr_rm g) \<subseteq> rr_allowed g \<and>
     (\<forall>i. pc_consent E (rr_allowed g) (rr_pc g i))"

lemma pc_consent_mono: "pc_consent E al p \<Longrightarrow> al \<subseteq> al1 \<Longrightarrow> pc_consent E al1 p"
  by (cases p) auto

lemma race_consent_goes:
  assumes "race_consent E g" and "pc_consent E (rr_allowed g) p"
  shows "race_consent E (right_goes i p g)"
  using assms by (simp add: race_consent_def)

lemma rights_map:
  "rights (rm\<lparr>rightMap := m\<rparr>) = {(d, b). \<exists>bs. map_of m d = Some bs \<and> b \<in> set bs}"
  by (auto simp: rights_iff)

lemma race_consent_map:
  assumes "race_consent E g" and "cmap_ok m"
    and "\<And>d b bs. map_of m d = Some bs \<Longrightarrow> b \<in> set bs \<Longrightarrow> (d, b) \<in> rr_allowed g"
  shows "race_consent E (set_map m g)"
  using assms by (auto simp: race_consent_def rights_map)

lemma race_consent_dialog: "race_consent E (set_dialog k g) = race_consent E g"
  by (simp add: race_consent_def rights_def RightManager_HasRight_def)

lemma race_consentD:
  assumes "race_consent E g"
  shows "cmap_ok (rr_map g)"
    and "map_of (rr_map g) d = Some bs \<Longrightarrow> b \<in> set bs \<Longrightarrow> (d, b) \<in> rr_allowed g"
    and "RightManager_HasRight d b (rr_rm g) \<Longrightarrow> (d, b) \<in> rr_allowed g"
    and "pc_consent E (rr_allowed g) (rr_pc g i)"
    and "rr_pc g i = RequestAnswered d b True \<Longrightarrow> (d, b) \<in> rr_allowed g"
  using assms by (auto simp: race_consent_def rights_iff HasRight_iff) (metis pc_consent.simps(1))

lemma race_consent_step:
  assumes "codes_ok E" and "right_race_step E g g1" and "race_consent E g"
  shows "race_consent E g1"
proof -
  note inv = race_consentD [OF assms(3)]
  have codes: "UEC_SERVICE_PERMISSION_DENIED E \<noteq> UEC_OK E" "UEC_SERVICE_INVALID_VALUE E \<noteq> UEC_OK E"
    using assms(1) by (simp_all add: codes_ok_def)
  from assms(2) show ?thesis
  proof cases
    case (answers i d b event)
    let ?al = "if event = ''EVENT_ALLOW'' then insert (d, b) (rr_allowed g) else rr_allowed g"
    have "race_consent E (g\<lparr>rr_allowed := ?al\<rparr>)"
      using assms(3) by (auto simp: race_consent_def intro: pc_consent_mono)
    then show ?thesis
      unfolding answers(1) by (intro race_consent_goes) (simp_all add: race_consent_dialog)
  next
    case (add_push i d b n v)
    have "race_consent E (set_map (cmap_assign d (v @ [b]) (rr_map g)) g)"
      by (rule race_consent_map [OF assms(3)])
        (use inv(1,2) inv(4) [of i] add_push in \<open>auto simp: cmap_simps usb_inv split: if_splits\<close>)
    then show ?thesis
      unfolding add_push(1) using inv(4) [of i] add_push(2) by (intro race_consent_goes) simp_all
  next
    case (add_insert i d b)
    have "race_consent E (set_map (fst (cmap_insert d [b] (rr_map g))) g)"
      by (rule race_consent_map [OF assms(3)])
        (use inv(1,2) inv(4) [of i] add_insert in \<open>auto simp: cmap_simps usb_inv split: if_splits\<close>)
    then show ?thesis unfolding add_insert(1) by (rule race_consent_goes) simp
  next
    case (rm_erase i d n)
    have "race_consent E (g\<lparr>rr_gen := (rr_gen g)(d := Suc n)\<rparr>)" using assms(3) by (simp add: race_consent_def)
    then have "race_consent E (set_map (cmap_erase d (rr_map g)) (g\<lparr>rr_gen := (rr_gen g)(d := Suc n)\<rparr>))"
      by (rule race_consent_map) (use inv(1,2) in \<open>auto simp: cmap_simps usb_inv split: if_splits\<close>)
    then show ?thesis unfolding rm_erase(1) by (rule race_consent_goes) simp
  qed (use assms(3) inv codes in \<open>auto intro!: race_consent_goes simp: race_consent_dialog dest: inv(3,5)\<close>)
qed

text \<open>The threads before their first step, and no rights.\<close>

definition race_start :: "(nat \<Rightarrow> right_pc) \<Rightarrow> (string \<Rightarrow> nat) \<Rightarrow> right_race" where
  "race_start pcs gen = \<lparr>rr_rm = UsbRightManager_new, rr_gen = gen, rr_pc = pcs, rr_allowed = {}\<rparr>"

definition pcs_start :: "(nat \<Rightarrow> right_pc) \<Rightarrow> bool" where
  "pcs_start pcs \<longleftrightarrow> (\<forall>i. (\<exists>d b. pcs i = RequestStart d b) \<or> (\<exists>d. pcs i = RemoveStart d))"

text \<open>
  C9: Consent needs no lock: however the requests and removals of any number of threads interleave,
  between the tests and the changes of the map and of the dialog's id too, every right in the map,
  and every request that ended with success, is for a device and an application the user allowed
  in the dialog of such a request.
\<close>

theorem consent_survives_races:
  assumes "codes_ok E" and "pcs_start pcs" and "(right_race_step E)\<^sup>*\<^sup>* (race_start pcs gen) g"
  shows "rights (rr_rm g) \<subseteq> rr_allowed g \<and>
    (\<forall>i d b. rr_pc g i = RequestEnd d b (UEC_OK E) \<longrightarrow> (d, b) \<in> rr_allowed g)"
proof -
  have inv: "step_invariant (right_race_step E) (race_consent E)"
    by unfold_locales (rule race_consent_step [OF assms(1)])
  have "pc_consent E {} (pcs i)" for i
    using assms(2) [unfolded pcs_start_def, rule_format, of i] by (elim disjE exE) simp_all
  then have "race_consent E (race_start pcs gen)"
    by (auto simp: race_consent_def race_start_def UsbRightManager_new_def rights_iff)
  from step_invariant.steps_inv [OF inv assms(3) this] have g: "race_consent E g" .
  have "(d, b) \<in> rr_allowed g" if "rr_pc g i = RequestEnd d b (UEC_OK E)" for i d b
    using race_consentD(4) [OF g, of i] that by simp
  with g show ?thesis by (auto simp: race_consent_def)
qed

section \<open>A thread that runs alone\<close>

text \<open>Undisturbed, a request and a removal do what the operations of \<open>Usb_Right\<close> do.\<close>

lemma AddDeviceRight_alone:
  assumes "rr_pc g i = RequestAnswered d b True" and "RightManager_AddDeviceRight d b (rr_rm g) = (r, rm1)"
  shows "(right_race_step E)\<^sup>*\<^sup>* g (right_goes i (if r then AddCheck d b
    else RequestEnd d b (UEC_SERVICE_INVALID_VALUE E)) (g\<lparr>rr_rm := rm1\<rparr>))"
proof (cases "map_of (rr_map g) d")
  case None
  let ?g1 = "right_goes i (AddInsert d b) g"
  have "right_race_step E g ?g1" by (rule add_absent [OF assms(1) None])
  moreover have "right_race_step E ?g1 (right_goes i (AddCheck d b) (g\<lparr>rr_rm := rm1\<rparr>))"
    using add_insert [of ?g1 i d b] assms(2) None
    by (auto simp: RightManager_AddDeviceRight_def right_goes_def set_map_def)
  moreover have r using assms(2) None by (auto simp: RightManager_AddDeviceRight_def)
  ultimately show ?thesis by (auto intro: right_chain)
next
  case (Some v)
  show ?thesis
  proof (cases "b \<in> set v")
    case True
    with assms(2) Some have "r = False" "rm1 = rr_rm g" by (auto simp: RightManager_AddDeviceRight_def)
    with add_held [OF assms(1) Some True, of E] show ?thesis by (auto intro: r_into_rtranclp)
  next
    case False
    let ?g1 = "right_goes i (AddFound d b (rr_gen g d)) g"
    let ?m = "cmap_assign d (v @ [b]) (rr_map g)"
    let ?g2 = "right_goes i (AddInsert d b) (set_map ?m g)"
    have "right_race_step E g ?g1" by (rule add_find [OF assms(1) Some False])
    moreover have "right_race_step E ?g1 ?g2"
      using add_push [of ?g1 i d b "rr_gen g d" v E] Some by (simp add: right_goes_def set_map_def)
    moreover have "right_race_step E ?g2 (right_goes i (AddCheck d b) (g\<lparr>rr_rm := rm1\<rparr>))"
      using add_insert [of ?g2 i d b] assms(2) Some False
      by (auto simp: RightManager_AddDeviceRight_def right_goes_def set_map_def)
    moreover have r using assms(2) Some False by (auto simp: RightManager_AddDeviceRight_def)
    ultimately show ?thesis by (auto intro: right_chain)
  qed
qed

lemma after_agreement_alone:
  assumes "rr_pc g i = RequestAnswered d b a" and "after_agreement E d b a (rr_rm g) = (r, rm1)"
  shows "(right_race_step E)\<^sup>*\<^sup>* g (right_goes i (RequestEnd d b r) (g\<lparr>rr_rm := rm1\<rparr>))"
proof (cases a)
  case False
  with assms have "r = UEC_SERVICE_PERMISSION_DENIED E" "rm1 = rr_rm g" "rr_pc g i = RequestAnswered d b False"
    by (simp_all add: after_agreement_def)
  with denied [of g i d b E] show ?thesis by (auto intro: r_into_rtranclp)
next
  case True
  obtain added rm2 where add: "RightManager_AddDeviceRight d b (rr_rm g) = (added, rm2)" by (metis surj_pair)
  have same: "rm2 = rm1" using assms(2) True add by (auto simp: after_agreement_def split: if_splits)
  let ?g1 = "right_goes i (if added then AddCheck d b
    else RequestEnd d b (UEC_SERVICE_INVALID_VALUE E)) (g\<lparr>rr_rm := rm1\<rparr>)"
  have "rr_pc g i = RequestAnswered d b True" using assms(1) True by simp
  from AddDeviceRight_alone [OF this add, of E] same have "(right_race_step E)\<^sup>*\<^sup>* g ?g1" by simp
  moreover have "(right_race_step E)\<^sup>*\<^sup>* ?g1 (right_goes i (RequestEnd d b r) (g\<lparr>rr_rm := rm1\<rparr>))"
    using check_has [of ?g1 i d b E] check_not [of ?g1 i d b E] assms(2) True add same
    by (cases added; cases "RightManager_HasRight d b rm1")
      (auto simp: after_agreement_def intro: r_into_rtranclp)
  ultimately show ?thesis by (rule rtranclp_trans)
qed

lemma RequestRight_alone:
  assumes "rr_pc g i = RequestStart d b" and "RightManager_RequestRight E x d b (rr_rm g) w = Some ((r, rm1), w1)"
  shows "\<exists>al. (right_race_step E)\<^sup>*\<^sup>* g (right_goes i (RequestEnd d b r) (g\<lparr>rr_rm := rm1, rr_allowed := al\<rparr>))"
proof (cases "RightManager_HasRight d b (rr_rm g)")
  case True
  with assms(2) have "r = UEC_OK E" "rm1 = rr_rm g" by (simp_all add: RightManager_RequestRight_def)
  with req_has [OF assms(1) True] show ?thesis
    by (intro exI [of _ "rr_allowed g"]) (auto intro: r_into_rtranclp)
next
  case False
  let ?g1 = "right_goes i (RequestAsk d b) g"
  have start: "right_race_step E g ?g1" by (rule req_not [OF assms(1) False])
  show ?thesis
  proof (cases "0 \<le>s rm_dialogId (rr_rm g)")
    case True
    with assms(2) False have "r = UEC_SERVICE_PERMISSION_DENIED E" "rm1 = rr_rm g"
      by (simp_all add: RightManager_RequestRight_def GetUserAgreementByDiag_def after_agreement_def)
    with start ask_busy [of ?g1 i d b E] True show ?thesis
      by (intro exI [of _ "rr_allowed g"]) (auto intro: right_chain)
  next
    case asked: False
    obtain ans rm2 w2 where shown: "show_dialog x d b (rr_rm g) w = ((ans, rm2), w2)" by (metis surj_pair)
    with asked False assms(2) obtain cb event where ans: "ans = Some (cb, event)"
      by (auto simp: RightManager_RequestRight_def GetUserAgreementByDiag_def split: option.splits)
    obtain dlg where rm2: "rm2 = (rr_rm g)\<lparr>rm_dialogId := dlg\<rparr>" using show_dialog_rm [OF shown] by blast
    let ?al = "if event = ''EVENT_ALLOW'' then insert (d, b) (rr_allowed g) else rr_allowed g"
    let ?a = "event = ''EVENT_ALLOW''"
    let ?g2 = "right_goes i (RequestShow d b) g"
    let ?g3 = "right_goes i (RequestWait d b) (set_dialog dlg g)"
    let ?g4 = "right_goes i (RequestAnswered d b ?a) (set_dialog (-1) (g\<lparr>rr_allowed := ?al\<rparr>))"
    have "right_race_step E ?g1 ?g2" using ask_free [of ?g1 i d b E] asked by simp
    moreover have "right_race_step E ?g2 ?g3"
      using shows_dialog [of ?g2 i d b E dlg] by (simp add: right_goes_def set_dialog_def)
    moreover have "right_race_step E ?g3 ?g4"
      using answers [of ?g3 i d b E event]
      by (cases g) (simp add: right_goes_def set_dialog_def cong: if_cong)
    moreover have "after_agreement E d b ?a (rr_rm ?g4) = (r, rm1)"
      using asked False assms(2) shown ans rm2
      by (auto simp: RightManager_RequestRight_def GetUserAgreementByDiag_def dialog_callback_def Let_def
          split: if_splits prod.splits)
    from after_agreement_alone [OF _ this, of i]
    have "(right_race_step E)\<^sup>*\<^sup>* ?g4 (right_goes i (RequestEnd d b r) (g\<lparr>rr_rm := rm1, rr_allowed := ?al\<rparr>))"
      by (cases g) (simp add: right_goes_def set_dialog_def)
    ultimately show ?thesis using start by (blast intro: right_chain)
  qed
qed

lemma RemoveDeviceRight_alone:
  assumes "rr_pc g i = RemoveStart d" and "RightManager_RemoveDeviceRight d (rr_rm g) = (r, rm1)"
  shows "\<exists>gen. (right_race_step E)\<^sup>*\<^sup>* g (right_goes i (RemoveEnd r) (g\<lparr>rr_rm := rm1, rr_gen := gen\<rparr>))"
proof (cases "map_of (rr_map g) d")
  case None
  with assms(2) have "r = False" "rm1 = rr_rm g" by (simp_all add: RightManager_RemoveDeviceRight_def)
  with rm_absent [OF assms(1) None] show ?thesis
    by (intro exI [of _ "rr_gen g"]) (auto intro: r_into_rtranclp)
next
  case (Some v)
  let ?g1 = "right_goes i (RemoveFound d (rr_gen g d)) g"
  have res: "r" "rm1 = (rr_rm g)\<lparr>rightMap := cmap_erase d (rr_map g)\<rparr>"
    using assms(2) Some by (auto simp: RightManager_RemoveDeviceRight_def)
  have "right_race_step E g ?g1" using rm_find [OF assms(1)] Some by simp
  moreover have "right_race_step E ?g1 (right_goes i (RemoveEnd r)
      (g\<lparr>rr_rm := rm1, rr_gen := (rr_gen g)(d := Suc (rr_gen g d))\<rparr>))"
    using rm_erase [of ?g1 i d "rr_gen g d" E] Some res by (cases g) (simp add: right_goes_def set_map_def)
  ultimately show ?thesis by (blast intro: right_chain)
qed

section \<open>Races\<close>

lemma two_dialogs:
  assumes "i \<noteq> j" and "rr_pc g i = RequestStart d b" and "rr_pc g j = RequestStart d1 b1"
    and "\<not> RightManager_HasRight d b (rr_rm g)" and "\<not> RightManager_HasRight d1 b1 (rr_rm g)"
    and "\<not> 0 \<le>s rm_dialogId (rr_rm g)"
  shows "(right_race_step E)\<^sup>*\<^sup>* g (right_goes j (RequestWait d1 b1) (right_goes i (RequestWait d b) (set_dialog 1 g)))"
proof -
  let ?g1 = "right_goes i (RequestAsk d b) g" and ?g2 = "right_goes i (RequestShow d b) g"
  let ?g3 = "right_goes j (RequestAsk d1 b1) ?g2" and ?g4 = "right_goes j (RequestShow d1 b1) ?g2"
  let ?g5 = "right_goes i (RequestWait d b) (set_dialog 0 ?g4)"
  have "right_race_step E g ?g1" by (rule req_not [OF assms(2,4)])
  moreover have "right_race_step E ?g1 ?g2" using ask_free [of ?g1 i d b E] assms(6) by simp
  moreover have "right_race_step E ?g2 ?g3" using req_not [of ?g2 j d1 b1 E] assms(1,3,5) by simp
  moreover have "right_race_step E ?g3 ?g4" using ask_free [of ?g3 j d1 b1 E] assms(6) by simp
  moreover have "right_race_step E ?g4 ?g5" using shows_dialog [of ?g4 i d b E 0] assms(1) by simp
  moreover have "right_race_step E ?g5 (right_goes j (RequestWait d1 b1) (set_dialog 1 ?g5))"
    using shows_dialog [of ?g5 j d1 b1 E 1] assms(1) by simp
  moreover have "right_goes j (RequestWait d1 b1) (set_dialog 1 ?g5) =
      right_goes j (RequestWait d1 b1) (right_goes i (RequestWait d b) (set_dialog 1 g))"
    using assms(1) by (cases g) (simp add: right_goes_def set_dialog_def fun_upd_twist)
  ultimately show ?thesis by (metis right_chain r_into_rtranclp)
qed

text \<open>Both threads saw that the device has no entry; the second \<open>insert\<close> does nothing.\<close>

lemma grant_lost:
  assumes "i \<noteq> j" and "rr_pc g i = RequestAnswered d b True" and "rr_pc g j = RequestAnswered d b1 True"
    and "b \<noteq> b1" and "map_of (rr_map g) d = None" and "cmap_ok (rr_map g)"
  shows "\<exists>g1. (right_race_step E)\<^sup>*\<^sup>* g g1 \<and> rr_allowed g1 = rr_allowed g \<and>
    rr_pc g1 i = RequestEnd d b (UEC_SERVICE_INVALID_VALUE E) \<and> rr_pc g1 j = RequestEnd d b1 (UEC_OK E) \<and>
    \<not> RightManager_HasRight d b (rr_rm g1)"
proof -
  let ?m = "fst (cmap_insert d [b1] (rr_map g))"
  let ?g1 = "right_goes i (AddInsert d b) g" let ?g2 = "right_goes j (AddInsert d b1) ?g1"
  let ?g3 = "right_goes j (AddCheck d b1) (set_map ?m ?g2)"
  let ?g4 = "right_goes j (RequestEnd d b1 (UEC_OK E)) ?g3"
  let ?g5 = "right_goes i (AddCheck d b) (set_map (fst (cmap_insert d [b] ?m)) ?g4)"
  let ?g6 = "right_goes i (RequestEnd d b (UEC_SERVICE_INVALID_VALUE E)) ?g5"
  have m: "map_of ?m d = Some [b1]" "fst (cmap_insert d [b] ?m) = ?m"
    using assms(5,6) by (simp_all add: cmap_simps cmap_insert_present usb_inv)
  have has: "RightManager_HasRight d b1 (rr_rm ?g3)" "\<not> RightManager_HasRight d b (rr_rm ?g5)"
    using m assms(4) by (simp_all add: RightManager_HasRight_def)
  have "right_race_step E g ?g1" by (rule add_absent [OF assms(2,5)])
  moreover have "right_race_step E ?g1 ?g2" using add_absent [of ?g1 j d b1 E] assms(1,3,5) by simp
  moreover have "right_race_step E ?g2 ?g3" using add_insert [of ?g2 j d b1 E] by simp
  moreover have "right_race_step E ?g3 ?g4" using check_has [of ?g3 j d b1 E] has(1) by simp
  moreover have "right_race_step E ?g4 ?g5" using add_insert [of ?g4 i d b E] assms(1) by simp
  moreover have "right_race_step E ?g5 ?g6" using check_not [of ?g5 i d b E] has(2) assms(1) by simp
  ultimately have "(right_race_step E)\<^sup>*\<^sup>* g ?g6" by (meson right_chain r_into_rtranclp)
  moreover have "\<not> RightManager_HasRight d b (rr_rm ?g6)" using has(2) by simp
  ultimately show ?thesis using assms(1) by (intro exI [of _ ?g6]) simp
qed

lemma both_answered:
  assumes "i \<noteq> j" and "rr_pc g i = RequestWait d b" and "rr_pc g j = RequestWait d1 b1"
  shows "\<exists>g1. (right_race_step E)\<^sup>*\<^sup>* g g1 \<and> rr_pc g1 i = RequestAnswered d b True \<and>
    rr_pc g1 j = RequestAnswered d1 b1 True \<and> rr_map g1 = rr_map g \<and> {(d, b), (d1, b1)} \<subseteq> rr_allowed g1"
proof -
  let ?yes = "\<lambda>d b g. set_dialog (-1) (g\<lparr>rr_allowed := insert (d, b) (rr_allowed g)\<rparr>)"
  let ?g1 = "right_goes i (RequestAnswered d b True) (?yes d b g)"
  let ?g2 = "right_goes j (RequestAnswered d1 b1 True) (?yes d1 b1 ?g1)"
  have "right_race_step E g ?g1" using answers [OF assms(2), of E "''EVENT_ALLOW''"] by simp
  moreover have "right_race_step E ?g1 ?g2"
    using answers [of ?g1 j d1 b1 E "''EVENT_ALLOW''"] assms(1,3) by simp
  ultimately have "(right_race_step E)\<^sup>*\<^sup>* g ?g2" by (meson right_chain r_into_rtranclp)
  with assms(1) show ?thesis by (intro exI [of _ ?g2]) simp
qed

text \<open>
  C10: Two applications ask for the same device at the same time, in any state in which it has no
  entry and no dialog is shown.  Then both may wait for the user in dialogs of their own, although
  the code means to show one at a time, and when both are allowed, one of them may be told that its
  request failed and have no right.
\<close>

theorem requests_race:
  assumes "i \<noteq> j" and "rr_pc g i = RequestStart d b" and "rr_pc g j = RequestStart d b1" and "b \<noteq> b1"
    and "map_of (rr_map g) d = None" and "cmap_ok (rr_map g)" and "\<not> 0 \<le>s rm_dialogId (rr_rm g)"
  shows "\<exists>g1 g2. (right_race_step E)\<^sup>*\<^sup>* g g1 \<and> rr_pc g1 i = RequestWait d b \<and> rr_pc g1 j = RequestWait d b1 \<and>
    (right_race_step E)\<^sup>*\<^sup>* g1 g2 \<and> {(d, b), (d, b1)} \<subseteq> rr_allowed g2 \<and>
    rr_pc g2 i = RequestEnd d b (UEC_SERVICE_INVALID_VALUE E) \<and> rr_pc g2 j = RequestEnd d b1 (UEC_OK E) \<and>
    \<not> RightManager_HasRight d b (rr_rm g2)"
proof -
  have none: "\<not> RightManager_HasRight d c (rr_rm g)" for c using assms(5) by (simp add: RightManager_HasRight_def)
  let ?g1 = "right_goes j (RequestWait d b1) (right_goes i (RequestWait d b) (set_dialog 1 g))"
  note wait = two_dialogs [OF assms(1-3) none none assms(7), of E]
  have pcs: "rr_pc ?g1 i = RequestWait d b" "rr_pc ?g1 j = RequestWait d b1" using assms(1) by simp_all
  from both_answered [OF assms(1) pcs] obtain g3 where g3: "(right_race_step E)\<^sup>*\<^sup>* ?g1 g3"
    "rr_pc g3 i = RequestAnswered d b True" "rr_pc g3 j = RequestAnswered d b1 True"
    "rr_map g3 = rr_map ?g1" "{(d, b), (d, b1)} \<subseteq> rr_allowed g3" by blast
  have "map_of (rr_map g3) d = None" "cmap_ok (rr_map g3)" using g3(4) assms(5,6) by simp_all
  from grant_lost [OF assms(1) g3(2,3) assms(4) this] obtain g2 where "(right_race_step E)\<^sup>*\<^sup>* g3 g2"
    "rr_allowed g2 = rr_allowed g3" "rr_pc g2 i = RequestEnd d b (UEC_SERVICE_INVALID_VALUE E)"
    "rr_pc g2 j = RequestEnd d b1 (UEC_OK E)" "\<not> RightManager_HasRight d b (rr_rm g2)" by blast
  with wait pcs g3 show ?thesis by (metis rtranclp_trans)
qed

text \<open>
  Two threads of one application ask for a device that another application holds.  Both found that
  the application is not listed; both add it.
\<close>

lemma grant_twice:
  assumes "i \<noteq> j" and "rr_pc g i = RequestAnswered d b True" and "rr_pc g j = RequestAnswered d b True"
    and "map_of (rr_map g) d = Some v" and "b \<notin> set v" and "cmap_ok (rr_map g)"
  shows "\<exists>g1. (right_race_step E)\<^sup>*\<^sup>* g g1 \<and> rr_pc g1 i = RequestEnd d b (UEC_OK E) \<and>
    rr_pc g1 j = RequestEnd d b (UEC_OK E) \<and> map_of (rr_map g1) d = Some (v @ [b, b])"
proof -
  let ?m1 = "cmap_assign d (v @ [b]) (rr_map g)" let ?m2 = "cmap_assign d ((v @ [b]) @ [b]) ?m1"
  let ?g1 = "right_goes i (AddFound d b (rr_gen g d)) g"
  let ?g2 = "right_goes j (AddFound d b (rr_gen g d)) ?g1"
  let ?g3 = "right_goes i (AddInsert d b) (set_map ?m1 ?g2)"
  let ?g4 = "right_goes j (AddInsert d b) (set_map ?m2 ?g3)"
  let ?g5 = "right_goes i (AddCheck d b) (set_map (fst (cmap_insert d [b] ?m2)) ?g4)"
  let ?g6 = "right_goes i (RequestEnd d b (UEC_OK E)) ?g5"
  let ?g7 = "right_goes j (AddCheck d b) (set_map (fst (cmap_insert d [b] (rr_map ?g6))) ?g6)"
  let ?g8 = "right_goes j (RequestEnd d b (UEC_OK E)) ?g7"
  have m: "map_of ?m1 d = Some (v @ [b])" "map_of ?m2 d = Some (v @ [b, b])"
    using assms(4,6) by (simp_all add: cmap_simps usb_inv)
  then have ins: "fst (cmap_insert d [b] ?m2) = ?m2"
    using assms(6) by (intro cmap_insert_present) (simp_all add: usb_inv)
  have has: "RightManager_HasRight d b (rr_rm ?g5)" "RightManager_HasRight d b (rr_rm ?g7)"
    using m(2) ins by (simp_all add: RightManager_HasRight_def)
  have "right_race_step E g ?g1" by (rule add_find [OF assms(2,4,5)])
  moreover have "right_race_step E ?g1 ?g2" using add_find [of ?g1 j d b v E] assms(1,3-5) by simp
  moreover have "right_race_step E ?g2 ?g3" using add_push [of ?g2 i d b "rr_gen g d" v E] assms(1,4) by simp
  moreover have "right_race_step E ?g3 ?g4"
    using add_push [of ?g3 j d b "rr_gen g d" "v @ [b]" E] assms(1) m(1) by simp
  moreover have "right_race_step E ?g4 ?g5" using add_insert [of ?g4 i d b E] assms(1) by simp
  moreover have "right_race_step E ?g5 ?g6" using check_has [of ?g5 i d b E] has(1) by simp
  moreover have "right_race_step E ?g6 ?g7" using add_insert [of ?g6 j d b E] assms(1) by simp
  moreover have "right_race_step E ?g7 ?g8" using check_has [of ?g7 j d b E] has(2) by simp
  ultimately have "(right_race_step E)\<^sup>*\<^sup>* g ?g8" by (meson right_chain r_into_rtranclp)
  then show ?thesis using assms(1) m(2) ins by (intro exI [of _ ?g8]) simp
qed

theorem right_listed_twice:
  assumes "i \<noteq> j" and "rr_pc g i = RequestStart d b" and "rr_pc g j = RequestStart d b"
    and "map_of (rr_map g) d = Some v" and "b \<notin> set v" and "cmap_ok (rr_map g)"
    and "\<not> 0 \<le>s rm_dialogId (rr_rm g)"
  shows "\<exists>g1. (right_race_step E)\<^sup>*\<^sup>* g g1 \<and> rr_pc g1 i = RequestEnd d b (UEC_OK E) \<and>
    rr_pc g1 j = RequestEnd d b (UEC_OK E) \<and> map_of (rr_map g1) d = Some (v @ [b, b]) \<and>
    \<not> right_inv (rr_rm g1)"
proof -
  have none: "\<not> RightManager_HasRight d b (rr_rm g)" using assms(4,5) by (simp add: RightManager_HasRight_def)
  let ?g1 = "right_goes j (RequestWait d b) (right_goes i (RequestWait d b) (set_dialog 1 g))"
  note wait = two_dialogs [OF assms(1-3) none none assms(7), of E]
  have pcs: "rr_pc ?g1 i = RequestWait d b" "rr_pc ?g1 j = RequestWait d b" using assms(1) by simp_all
  from both_answered [OF assms(1) pcs] obtain g3 where g3: "(right_race_step E)\<^sup>*\<^sup>* ?g1 g3"
    "rr_pc g3 i = RequestAnswered d b True" "rr_pc g3 j = RequestAnswered d b True" "rr_map g3 = rr_map ?g1" by blast
  have "map_of (rr_map g3) d = Some v" "cmap_ok (rr_map g3)" using g3(4) assms(4,6) by simp_all
  from grant_twice [OF assms(1) g3(2,3) this(1) assms(5) this(2)] obtain g2 where g2: "(right_race_step E)\<^sup>*\<^sup>* g3 g2"
    "rr_pc g2 i = RequestEnd d b (UEC_OK E)" "rr_pc g2 j = RequestEnd d b (UEC_OK E)"
    "map_of (rr_map g2) d = Some (v @ [b, b])" by blast
  have "\<not> distinct (v @ [b, b])" by simp
  with g2(4) have "\<not> right_inv (rr_rm g2)" unfolding right_inv_def by metis
  moreover have "(right_race_step E)\<^sup>*\<^sup>* g g2" using wait g3(1) g2(1) by (meson rtranclp_trans)
  ultimately show ?thesis using g2(2-4) by blast
qed

text \<open>What the map keeps all the same: one entry for a device, and none without an application.\<close>

definition race_entries :: "right_race \<Rightarrow> bool" where
  "race_entries g \<longleftrightarrow> cmap_ok (rr_map g) \<and> (\<forall>d. map_of (rr_map g) d \<noteq> Some [])"

lemma race_entries_step:
  assumes "right_race_step E g g1" and "race_entries g"
  shows "race_entries g1"
  using assms by cases (auto simp: race_entries_def cmap_simps usb_inv)

theorem entries_survive_races:
  assumes "(right_race_step E)\<^sup>*\<^sup>* (race_start pcs gen) g"
  shows "race_entries g"
proof -
  have inv: "step_invariant (right_race_step E) race_entries"
    by unfold_locales (rule race_entries_step)
  show ?thesis
    by (rule step_invariant.steps_inv [OF inv assms])
      (simp add: race_entries_def race_start_def UsbRightManager_new_def)
qed

text \<open>A removal ends the iterator that another thread holds.\<close>

theorem revocation_races:
  assumes "i \<noteq> j" and "rr_pc g i = RemoveStart d" and "map_of (rr_map g) d = Some v"
    and "rr_pc g j = RemoveStart d \<or> (\<exists>b. rr_pc g j = RequestAnswered d b True \<and> b \<notin> set v)"
  shows "\<exists>g1. (right_race_step E)\<^sup>*\<^sup>* g g1 \<and> rr_pc g1 i = RemoveEnd True \<and> rr_pc g1 j = RightFaulted"
proof -
  obtain p where p: "right_race_step E g (right_goes j p g)"
    and fault: "\<And>f. rr_pc f j = p \<Longrightarrow> map_of (rr_map f) d = None \<Longrightarrow> right_race_step E f (right_goes j RightFaulted f)"
    using assms(4)
  proof
    assume "rr_pc g j = RemoveStart d"
    from rm_find [OF this, of E] assms(3) rm_erase_fault that show thesis by blast
  next
    assume "\<exists>b. rr_pc g j = RequestAnswered d b True \<and> b \<notin> set v"
    then obtain b where "rr_pc g j = RequestAnswered d b True" "b \<notin> set v" by blast
    from add_find [OF this(1) assms(3) this(2), of E] add_push_fault that show thesis by blast
  qed
  let ?g1 = "right_goes j p g"
  let ?g2 = "right_goes i (RemoveFound d (rr_gen g d)) ?g1"
  let ?g3 = "right_goes i (RemoveEnd True) (set_map (cmap_erase d (rr_map g))
    (?g2\<lparr>rr_gen := (rr_gen g)(d := Suc (rr_gen g d))\<rparr>))"
  have "right_race_step E ?g1 ?g2" using rm_find [of ?g1 i d E] assms(1-3) by simp
  moreover have "right_race_step E ?g2 ?g3" using rm_erase [of ?g2 i d "rr_gen g d" E] assms(3) by simp
  moreover have "right_race_step E ?g3 (right_goes j RightFaulted ?g3)"
    by (rule fault) (use assms(1) in \<open>simp_all add: cmap_simps\<close>)
  ultimately have "(right_race_step E)\<^sup>*\<^sup>* g (right_goes j RightFaulted ?g3)"
    using p by (meson right_chain r_into_rtranclp)
  with assms(1) show ?thesis by (intro exI) auto
qed

section \<open>Examples\<close>

text \<open>Two requests for the device 1-2, of com.a and of com.b.\<close>

definition sample_pcs :: "nat \<Rightarrow> right_pc" where
  "sample_pcs i = RequestStart ''1-2'' (if i = 0 then ''com.a'' else ''com.b'')"

lemma sample_pcs_start: "pcs_start sample_pcs"
  by (auto simp: pcs_start_def sample_pcs_def)

theorem consent_survives_races_witness:
  "\<exists>g. (right_race_step sample_codes)\<^sup>*\<^sup>* (race_start sample_pcs (\<lambda>_. 0)) g \<and>
    rr_pc g 0 = RequestEnd ''1-2'' ''com.a'' (UEC_OK sample_codes) \<and> (''1-2'', ''com.a'') \<in> rr_allowed g"
proof -
  let ?s = "race_start sample_pcs (\<lambda>_. 0)"
  have "rr_pc ?s 0 = RequestStart ''1-2'' ''com.a''" "rr_rm ?s = UsbRightManager_new" "UEC_OK sample_codes = 0"
    by (simp_all add: race_start_def sample_pcs_def sample_codes_def)
  with RequestRight_alone [of ?s 0 "''1-2''" "''com.a''" sample_codes sample_ext "asking_state [''EVENT_ALLOW'']"]
    sample_right_request
  obtain g where g: "(right_race_step sample_codes)\<^sup>*\<^sup>* ?s g"
    "rr_pc g 0 = RequestEnd ''1-2'' ''com.a'' (UEC_OK sample_codes)"
    by fastforce
  with consent_survives_races [OF codes_ok_sample sample_pcs_start g(1)] show ?thesis by blast
qed

theorem requests_race_witness:
  "\<exists>g. (right_race_step sample_codes)\<^sup>*\<^sup>* (race_start sample_pcs (\<lambda>_. 0)) g \<and>
    rr_pc g 0 = RequestWait ''1-2'' ''com.a'' \<and> rr_pc g 1 = RequestWait ''1-2'' ''com.b''"
proof -
  let ?s = "race_start sample_pcs (\<lambda>_. 0)"
  have s: "rr_pc ?s 0 = RequestStart ''1-2'' ''com.a''" "rr_pc ?s 1 = RequestStart ''1-2'' ''com.b''"
    "map_of (rr_map ?s) ''1-2'' = None" "cmap_ok (rr_map ?s)" "\<not> 0 \<le>s rm_dialogId (rr_rm ?s)"
    "(0 :: nat) \<noteq> 1" "''com.a'' \<noteq> ''com.b''"
    by (simp_all add: race_start_def sample_pcs_def UsbRightManager_new_def word_sle_eq)
  from requests_race [OF s(6,1,2,7,3-5), of sample_codes] show ?thesis by blast
qed

end
