(* ===== verification/Usb_Ipc_Props.thy ===== *)
theory Usb_Ipc_Props
  imports Usb_Ipc
begin

text \<open>
  What a client of the proxy can rely on: each call has the effect and the result of the call of
  the service, apart from what the reply does not carry; and what the dispatcher refuses.
\<close>

section \<open>A concrete link\<close>

lemma sample_link: "ipc_link list_parcel sample_codes (\<lambda>p. p)"
  by (simp add: ipc_link_def sample_env) (simp add: list_parcel_def)

text \<open>The base class answers an unknown code with an error and leaves the reply alone.\<close>

definition sample_base :: "u32 \<Rightarrow> 'p \<Rightarrow> 'p \<Rightarrow> 'w \<Rightarrow> (i32 \<times> 'p) \<times> 'w" where
  "sample_base code data reply w = ((305, reply), w)"

definition sample_service :: UsbService where
  "sample_service = UsbService_new
     \<lparr>sv_host := Some \<lparr>hm_devices = [(''1-2'', Some sample_usb_device)]\<rparr>\<rparr>"

definition sample_remote :: "(pitem list, UsbService \<times> sample_world) sender option" where
  "sample_remote = Some (service_remote list_parcel sample_codes sample_ext sample_base 0)"

section \<open>Calls through the proxy\<close>

text \<open>
  C12: Listing the devices through the proxy gives the devices the service lists, in order, each
  as it is received, appended to the caller's list; a failure of the service is returned and
  leaves the list alone.  Neither the service nor the world changes.
\<close>

theorem remote_GetDevices:
  assumes "ipc_link P E items" and "Service_GetDevices E [] sv = Mem (ret, ds)" and "device_list_fits ds"
  shows "Proxy_GetDevices P E junk1 junk_dev (Some (service_remote P E x base junk)) deviceList (sv, w) =
    returns (ret, if ret = UEC_OK E then deviceList @ map device_received ds else deviceList) (sv, w)"
  by (rule Proxy_GetDevices_served [OF assms])

theorem remote_GetDevices_witness:
  "Proxy_GetDevices list_parcel sample_codes 0 UsbDevice_zero sample_remote [] (sample_service, sample_state) =
    returns (0, [device_received sample_usb_device]) (sample_service, sample_state)"
proof -
  have srv: "Service_GetDevices sample_codes [] sample_service = Mem (0, [sample_usb_device])"
    by (simp add: Service_GetDevices_def sample_service_def HostManager_GetDevices_def sample_codes_def)
  have "device_list_fits [sample_usb_device]"
    by (simp add: device_list_fits_def small_def device_fits_def config_fits_def interface_fits_def
        sample_usb_device_def)
  from remote_GetDevices [OF sample_link srv this, where x = sample_ext and base = sample_base and junk = 0
      and w = sample_state and deviceList = "[]"]
  show ?thesis by (simp add: sample_remote_def sample_codes_def)
qed

text \<open>
  C13: Opening a device, and asking for, requesting and removing a right through the proxy do
  what the service does and return what it returns; a request that waits for the user for ever
  makes the proxy wait for ever.  In particular the proxy opens no device for an application
  without the right.
\<close>

theorem remote_rights:
  assumes "ipc_link P E items"
  shows "Proxy_OpenDevice P E (Some (service_remote P E x base junk)) busNum devAddr (sv, w) =
      (let (ret, w1) = Service_OpenDevice E x busNum devAddr sv w in returns ret (sv, w1)) \<and>
    Proxy_HasRight P E (Some (service_remote P E x base junk)) deviceName (sv, w) =
      (let (right, w1) = Service_HasRight x deviceName sv w in returns right (sv, w1)) \<and>
    Proxy_RequestRight P E (Some (service_remote P E x base junk)) deviceName (sv, w) =
      (case Service_RequestRight E x deviceName sv w of
         None \<Rightarrow> None
       | Some ((ret, sv1), w1) \<Rightarrow> returns ret (sv1, w1)) \<and>
    Proxy_RemoveRight P E (Some (service_remote P E x base junk)) deviceName (sv, w) =
      (let (ret, sv1) = Service_RemoveRight E deviceName sv in returns ret (sv1, w))"
  by (intro conjI Proxy_OpenDevice_served [OF assms] Proxy_HasRight_served [OF assms]
      Proxy_RequestRight_served [OF assms] Proxy_RemoveRight_served [OF assms])

theorem remote_rights_witness:
  "Proxy_OpenDevice list_parcel sample_codes sample_remote 1 2 (UsbService_new, sample_state) =
    returns (UEC_SERVICE_PERMISSION_DENIED sample_codes) (UsbService_new, sample_state)"
proof -
  have "Service_OpenDevice sample_codes sample_ext 1 2 UsbService_new sample_state =
      (UEC_SERVICE_PERMISSION_DENIED sample_codes, sample_state)" by code_simp
  with remote_rights [OF sample_link, where x = sample_ext and base = sample_base and junk = 0
      and busNum = 1 and devAddr = 2 and sv = UsbService_new and w = sample_state]
  show ?thesis by (simp add: sample_remote_def)
qed

text \<open>
  C23: The bytes of a transfer cross the interface unchanged.  A bulk read returns the driver's
  bytes, a bulk write hands the caller's bytes to the driver, and a control transfer does both,
  where the data comes back only when the request type has the direction bit set; when the driver
  fails, the caller's buffer is left alone.  The only condition is that the buffers have fewer
  than \<open>2\<^sup>3\<^sup>1\<close> bytes.
\<close>

theorem remote_transfers:
  assumes "ipc_link P E items" and "small bufferData"
    and "Service_BulkTransferRead x dev pipe [] timeOut w = ((r1, b1), w1)" and "small b1"
    and "Service_BulkTransferWrite x dev pipe bufferData timeOut w = (r2, w2)"
    and "Service_ControlTransfer x dev ctrl bufferData w = ((r3, b3), w3)" and "small b3"
  shows "Proxy_BulkTransferRead P E (Some (service_remote P E x base junk)) dev pipe bufferData timeOut
        (sv, w) = returns (r1, if r1 = UEC_OK E then b1 else bufferData) (sv, w1) \<and>
    Proxy_BulkTransferWrite P E (Some (service_remote P E x base junk)) dev pipe bufferData timeOut
        (sv, w) = returns r2 (sv, w2) \<and>
    Proxy_ControlTransfer P E (Some (service_remote P E x base junk)) dev ctrl bufferData (sv, w) =
      returns (r3, if r3 = UEC_OK E \<and> ctrl_requestType ctrl AND USB_ENDPOINT_DIR_MASK \<noteq> USB_ENDPOINT_DIR_OUT
        then b3 else bufferData) (sv, w3)"
  using Proxy_BulkTransferRead_served [OF assms(1), of x dev pipe timeOut w base junk bufferData sv]
    Proxy_BulkTransferWrite_served [OF assms(1,2), of x base junk dev pipe timeOut sv w]
    Proxy_ControlTransfer_served [OF assms(1,2), of x dev ctrl w base junk sv] assms(3-)
  by simp

theorem remote_transfers_witness:
  "Proxy_BulkTransferWrite list_parcel sample_codes sample_remote \<lparr>ud_busNum = 1, ud_devAddr = 2\<rparr>
      \<lparr>pipe_interfaceId = 0, pipe_endpointId = 1\<rparr> [7, 8, 9] 500 (UsbService_new, sample_state) =
    returns 0 (UsbService_new, sample_state)"
  using remote_transfers [OF sample_link, where x = sample_ext and base = sample_base and junk = 0
      and dev = "\<lparr>ud_busNum = 1, ud_devAddr = 2\<rparr>" and pipe = "\<lparr>pipe_interfaceId = 0, pipe_endpointId = 1\<rparr>"
      and bufferData = "[7, 8, 9]" and timeOut = 500 and sv = UsbService_new and w = sample_state
      and ctrl = "\<lparr>ctrl_requestType = 0x80, ctrl_requestCmd = 6, ctrl_value = 0x100, ctrl_index = 0,
        ctrl_timeout = 500\<rparr>"]
  by (simp add: sample_remote_def small_def Service_BulkTransferRead_def Service_BulkTransferWrite_def
      Service_ControlTransfer_def sample_ext_def)

text \<open>
  Queued requests keep the two buffers apart: the client data and the data reach the driver
  in their own arguments, and what the driver completes comes back in the same two places.
\<close>

theorem remote_requests:
  assumes "ipc_link P E items" and "small clientData" and "small bufferData"
    and "Service_RequestWait x dev timeOut [] [] w = ((r, c, b), w1)" and "small c" and "small b"
  shows "Proxy_RequestQueue P E (Some (service_remote P E x base junk)) dev pipe clientData bufferData
        (sv, w) =
      (let (ret, w1) = Service_RequestQueue x dev pipe clientData bufferData w in returns ret (sv, w1)) \<and>
    Proxy_RequestWait P E (Some (service_remote P E x base junk)) dev timeOut clientData bufferData (sv, w) =
      returns (r, if r = UEC_OK E then c else clientData, if r = UEC_OK E then b else bufferData) (sv, w1)"
  using Proxy_RequestQueue_served [OF assms(1-3), of x base junk dev pipe sv w]
    Proxy_RequestWait_served [OF assms(1), of x dev timeOut w base junk clientData bufferData sv] assms(4-)
  by simp

theorem remote_requests_witness:
  "Proxy_RequestWait list_parcel sample_codes sample_remote \<lparr>ud_busNum = 1, ud_devAddr = 2\<rparr> 500
      [1] [2] (UsbService_new, sample_state) = returns (0, [], []) (UsbService_new, sample_state)"
  using remote_requests [OF sample_link, where x = sample_ext and base = sample_base and junk = 0
      and dev = "\<lparr>ud_busNum = 1, ud_devAddr = 2\<rparr>" and timeOut = 500 and clientData = "[1]"
      and bufferData = "[2]" and sv = UsbService_new and w = sample_state]
  by (simp add: sample_remote_def small_def Service_RequestWait_def sample_ext_def sample_codes_def)

text \<open>
  C24: The functions of the device and the ports are the same from outside as inside the service:
  reading and writing the functions, converting them to and from their names, listing the ports
  and the modes of a port, and setting its roles.
\<close>

theorem remote_functions_ports:
  assumes "ipc_link P E items"
    and "Service_GetPorts E x [] sv w = (((r, ps), sv1), w1)" and "small ps"
  shows "Proxy_SetCurrentFunctions P E (Some (service_remote P E x base junk)) funcs (sv, w) =
      (let ((ret, sv2), w2) = Service_SetCurrentFunctions E x funcs sv w in returns ret (sv2, w2)) \<and>
    Proxy_GetCurrentFunctions P E (Some (service_remote P E x base junk)) funcs (sv, w) =
      (let ((ret, val), w2) = Service_GetCurrentFunctions x junk w
       in returns (ret, if ret = UEC_OK E then val else funcs) (sv, w2)) \<and>
    Proxy_UsbFunctionsFromString P E (Some (service_remote P E x base junk)) names (sv, w) =
      returns (UsbFunctionsFromString E names) (sv, w) \<and>
    Proxy_UsbFunctionsToString P E (Some (service_remote P E x base junk)) funcs (sv, w) =
      returns (UsbFunctionsToString funcs) (sv, w) \<and>
    Proxy_GetPorts P E (Some (service_remote P E x base junk)) ports (sv, w) =
      returns (r, if r = UEC_OK E then ports @ ps else ports) (sv1, w1) \<and>
    Proxy_GetSupportedModes P E (Some (service_remote P E x base junk)) portId modes (sv, w) =
      (let (ret, val) = Service_GetSupportedModes E portId 0 sv
       in returns (ret, if ret = UEC_OK E then val else modes) (sv, w)) \<and>
    Proxy_SetPortRole P E (Some (service_remote P E x base junk)) portId powerRole dataRole (sv, w) =
      (let (ret, w2) = Service_SetPortRole x portId powerRole dataRole w in returns ret (sv, w2))"
  by (intro conjI Proxy_SetCurrentFunctions_served [OF assms(1)] Proxy_GetCurrentFunctions_served [OF assms(1)]
      Proxy_UsbFunctionsFromString_served [OF assms(1)] Proxy_UsbFunctionsToString_served [OF assms(1)]
      Proxy_GetPorts_served [OF assms] Proxy_GetSupportedModes_served [OF assms(1)]
      Proxy_SetPortRole_served [OF assms(1)])

theorem remote_functions_ports_witness:
  "\<exists>sv. Proxy_GetPorts list_parcel sample_codes sample_remote [] (UsbService_new, sample_state) =
    returns (0, [\<lparr>port_id = 1, supportedModes = 3,
      usbPortStatus = \<lparr>currentMode = 1, currentPowerRole = 1, currentDataRole = 2\<rparr>\<rparr>]) (sv, sample_state)"
proof -
  let ?ports = "[\<lparr>port_id = 1, supportedModes = 3,
      usbPortStatus = \<lparr>currentMode = 1, currentPowerRole = 1, currentDataRole = 2\<rparr>\<rparr>]"
  have "fst (fst (Service_GetPorts sample_codes sample_ext [] UsbService_new sample_state)) = (0, ?ports)"
    and "snd (Service_GetPorts sample_codes sample_ext [] UsbService_new sample_state) = sample_state"
    by code_simp+
  then obtain sv where srv: "Service_GetPorts sample_codes sample_ext [] UsbService_new sample_state =
      (((0, ?ports), sv), sample_state)" by (metis prod.collapse)
  from remote_functions_ports [OF sample_link srv, where base = sample_base and junk = 0 and ports = "[]"]
  show ?thesis by (auto simp: sample_remote_def small_def sample_codes_def)
qed

section \<open>What the dispatcher refuses\<close>

text \<open>
  A request whose message does not carry the interface token of the service is refused with
  an inner error; no handler runs: neither the service nor the world changes, nothing is written
  into the reply.
\<close>

theorem OnRemoteRequest_checks_token:
  assumes "parcel_ok P items" and "items data = PToken token # args" and "token \<noteq> ''ohos.usb.IUsbSrv''"
  shows "OnRemoteRequest P E x base junk code data reply sv w =
    Some (Mem ((UEC_SERVICE_INNER_ERR E, reply), sv, w))"
  using parcel_okD(9) [OF assms(1,2)] assms(3)
  by (auto simp: OnRemoteRequest_def answer_def IUsbSrv_GetDescriptor_def)

theorem OnRemoteRequest_checks_token_witness:
  "OnRemoteRequest list_parcel sample_codes sample_ext sample_base 0 USB_FUN_CLOSE_DEVICE
      [PToken ''other'', P8 1, P8 2] [] UsbService_new (sample_state\<lparr>sw_open := True\<rparr>) =
    Some (Mem ((103, []), UsbService_new, sample_state\<lparr>sw_open := True\<rparr>))"
  using OnRemoteRequest_checks_token [OF list_parcel_ok, where data = "[PToken ''other'', P8 1, P8 2]"
      and token = "''other''" and args = "[P8 1, P8 2]" and E = sample_codes and x = sample_ext
      and base = sample_base and junk = 0 and code = USB_FUN_CLOSE_DEVICE and reply = "[]"
      and sv = UsbService_new and w = "sample_state\<lparr>sw_open := True\<rparr>"]
  by (simp add: sample_codes_def)

text \<open>
  C36: The active configuration cannot be read through the interface.  The proxy sends the code
  \<open>USB_FUN_GET_ACTIVE_CONFIG\<close>, the stub has the handler \<open>DoGetActiveConfig\<close>, but neither part of
  the dispatcher knows the code: the request ends in the base class, whose error is returned, and
  the driver is never asked.
\<close>

theorem GetActiveConfig_not_served:
  assumes "ipc_link P E items"
    and "\<And>data reply. base USB_FUN_GET_ACTIVE_CONFIG data reply w = ((err, reply), w)" and "err \<noteq> UEC_OK E"
  shows "Proxy_GetActiveConfig P E (Some (service_remote P E x base junk)) busNum devAddr config (sv, w) =
    returns (err, config) (sv, w)"
proof -
  have base: "base 16 data reply w = ((err, reply), w)" for data reply
    using assms(2) by (simp add: USB_FUN_GET_ACTIVE_CONFIG_def)
  show ?thesis unfolding Proxy_GetActiveConfig_def with_device_message_def Let_def
    by (rule link_message [OF assms(1)], erule link_device [OF _ assms(1)], simp only: append.simps,
      erule link_request [OF _ assms(1)], simp add: dispatch_defs base after_request_simps assms(3))
qed

theorem GetActiveConfig_not_served_witness:
  "Proxy_GetActiveConfig list_parcel sample_codes sample_remote 1 2 0 (UsbService_new, sample_state) =
      returns (305, 0) (UsbService_new, sample_state) \<and>
    Service_GetActiveConfig sample_ext 1 2 0 sample_state = ((0, 1), sample_state)"
  using GetActiveConfig_not_served [OF sample_link, where base = sample_base and w = sample_state
      and err = 305 and x = sample_ext and junk = 0 and busNum = 1 and devAddr = 2 and config = 0
      and sv = UsbService_new]
  by (simp add: sample_base_def sample_remote_def sample_codes_def Service_GetActiveConfig_def sample_ext_def)

end
