(* ===== verification/Usb_Js_Types.thy ===== *)
theory Usb_Js_Types
  imports Usb_Js_Props
begin

text \<open>
  The interface of the module as it is declared to TypeScript (\<open>@ohos.usb.d.ts\<close>), and the values the
  bindings really return: each conforms to the declared type, with one exception, the member
  \<open>subClass\<close> of devices and interfaces, which the bindings call \<open>subclass\<close>.
\<close>

section \<open>Types\<close>

text \<open>
  The types the declaration uses.  A numeric enumeration is the numbers it names; where the
  declaration uses one for a combination of flags or a number of the driver it is \<open>TsNumber\<close>.
\<close>

datatype ts_type =
  TsNumber
| TsString
| TsBoolean
| TsUint8Array
| TsEnum "int list"
| TsPromise ts_type
| TsArray ts_type
| TsObject "(string \<times> ts_type) list"

text \<open>
  An object needs every declared member, and may have others.  What a promise is settled with is
  not part of the value; see \<open>settled_values_conform\<close>.
\<close>

fun conforms :: "js \<Rightarrow> ts_type \<Rightarrow> bool" where
  "conforms (JsInt i) TsNumber = True"
| "conforms (JsUint u) TsNumber = True"
| "conforms (JsInt i) (TsEnum ks) = (sint i \<in> set ks)"
| "conforms (JsUint u) (TsEnum ks) = (uint u \<in> set ks)"
| "conforms (JsString s) TsString = True"
| "conforms (JsBool b) TsBoolean = True"
| "conforms (JsUint8Array bs) TsUint8Array = True"
| "conforms (JsPromise d) (TsPromise t) = True"
| "conforms (JsArray vs) (TsArray t) = (\<forall>v \<in> set vs. conforms v t)"
| "conforms (JsObject ms) (TsObject ts) =
     (\<forall>(n, t) \<in> set ts. case map_of ms n of None \<Rightarrow> False | Some v \<Rightarrow> conforms v t)"
| "conforms _ _ = False"

fun rename_member :: "string \<Rightarrow> string \<Rightarrow> ts_type \<Rightarrow> ts_type" where
  "rename_member a b (TsPromise t) = TsPromise (rename_member a b t)"
| "rename_member a b (TsArray t) = TsArray (rename_member a b t)"
| "rename_member a b (TsObject ts) =
     TsObject (map (\<lambda>(n, t). (if n = a then b else n, rename_member a b t)) ts)"
| "rename_member a b t = t"

section \<open>The declared interface\<close>

definition USBRequestDirection_ts :: ts_type where
  "USBRequestDirection_ts = TsEnum [0, 0x80]"

definition USBEndpoint_ts :: ts_type where
  "USBEndpoint_ts = TsObject
    [(''address'', TsNumber), (''attributes'', TsNumber), (''interval'', TsNumber),
     (''maxPacketSize'', TsNumber), (''direction'', USBRequestDirection_ts), (''number'', TsNumber),
     (''type'', TsNumber), (''interfaceId'', TsNumber)]"

definition USBInterface_ts :: ts_type where
  "USBInterface_ts = TsObject
    [(''id'', TsNumber), (''protocol'', TsNumber), (''clazz'', TsNumber), (''subClass'', TsNumber),
     (''alternateSetting'', TsNumber), (''name'', TsString), (''endpoints'', TsArray USBEndpoint_ts)]"

definition USBConfig_ts :: ts_type where
  "USBConfig_ts = TsObject
    [(''id'', TsNumber), (''attributes'', TsNumber), (''maxPower'', TsNumber), (''name'', TsString),
     (''isRemoteWakeup'', TsBoolean), (''isSelfPowered'', TsBoolean),
     (''interfaces'', TsArray USBInterface_ts)]"

definition USBDevice_ts :: ts_type where
  "USBDevice_ts = TsObject
    [(''busNum'', TsNumber), (''devAddress'', TsNumber), (''serial'', TsString), (''name'', TsString),
     (''manufacturerName'', TsString), (''productName'', TsString), (''version'', TsString),
     (''vendorId'', TsNumber), (''productId'', TsNumber), (''clazz'', TsNumber), (''subClass'', TsNumber),
     (''protocol'', TsNumber), (''configs'', TsArray USBConfig_ts)]"

definition USBDevicePipe_ts :: ts_type where
  "USBDevicePipe_ts = TsObject [(''busNum'', TsNumber), (''devAddress'', TsNumber)]"

definition USBPortStatus_ts :: ts_type where
  "USBPortStatus_ts = TsObject
    [(''currentMode'', TsNumber), (''currentPowerRole'', TsNumber), (''currentDataRole'', TsNumber)]"

definition USBPort_ts :: ts_type where
  "USBPort_ts = TsObject [(''id'', TsNumber), (''supportedModes'', TsNumber), (''status'', USBPortStatus_ts)]"

text \<open>The declared functions with their result types.\<close>

definition usb_functions :: "(string \<times> ts_type) list" where
  "usb_functions =
    [(''getVersion'', TsString), (''getDevices'', TsArray USBDevice_ts),
     (''connectDevice'', USBDevicePipe_ts), (''hasRight'', TsBoolean),
     (''requestRight'', TsPromise TsBoolean), (''usbFunctionsFromString'', TsNumber),
     (''usbFunctionsToString'', TsString), (''setCurrentFunctions'', TsPromise TsBoolean),
     (''getCurrentFunctions'', TsNumber), (''getPorts'', TsArray USBPort_ts),
     (''getSupportedModes'', TsNumber), (''setPortRoles'', TsPromise TsBoolean),
     (''claimInterface'', TsNumber), (''releaseInterface'', TsNumber), (''setConfiguration'', TsNumber),
     (''setInterface'', TsNumber), (''getRawDescriptor'', TsUint8Array), (''getFileDescriptor'', TsNumber),
     (''controlTransfer'', TsPromise TsNumber), (''bulkTransfer'', TsPromise TsNumber),
     (''closePipe'', TsNumber)]"

text \<open>The declared enumerations.\<close>

definition usb_enums :: "(string \<times> (string \<times> int) list) list" where
  "usb_enums =
    [(''PowerRoleType'', [(''NONE'', 0), (''SOURCE'', 1), (''SINK'', 2)]),
     (''DataRoleType'', [(''NONE'', 0), (''HOST'', 1), (''DEVICE'', 2)]),
     (''PortModeType'', [(''NONE'', 0), (''UFP'', 1), (''DFP'', 2), (''DRP'', 3), (''NUM_MODES'', 4)]),
     (''USBRequestTargetType'', [(''USB_REQUEST_TARGET_DEVICE'', 0), (''USB_REQUEST_TARGET_INTERFACE'', 1),
        (''USB_REQUEST_TARGET_ENDPOINT'', 2), (''USB_REQUEST_TARGET_OTHER'', 3)]),
     (''USBControlRequestType'', [(''USB_REQUEST_TYPE_STANDARD'', 0), (''USB_REQUEST_TYPE_CLASS'', 1),
        (''USB_REQUEST_TYPE_VENDOR'', 2)]),
     (''USBRequestDirection'', [(''USB_REQUEST_DIR_TO_DEVICE'', 0), (''USB_REQUEST_DIR_FROM_DEVICE'', 0x80)]),
     (''FunctionType'', [(''NONE'', 0), (''ACM'', 1), (''ECM'', 2), (''HDC'', 4), (''MTP'', 8), (''PTP'', 16),
        (''RNDIS'', 32), (''MIDI'', 64), (''AUDIO_SOURCE'', 128), (''NCM'', 256)])]"

lemmas ts_defs =
  USBRequestDirection_ts_def USBEndpoint_ts_def USBInterface_ts_def USBConfig_ts_def USBDevice_ts_def
  USBDevicePipe_ts_def USBPortStatus_ts_def USBPort_ts_def

abbreviation delivered :: "ts_type \<Rightarrow> ts_type" where
  "delivered \<equiv> rename_member ''subClass'' ''subclass''"

section \<open>The values\<close>

lemmas setters = SetValueUtf8String_def SetValueInt32_def SetValueUint32_def SetValueBool_def

lemma direction_conforms:
  "uint (USBEndpoint_GetDirection ep) \<in> {0, 0x80}"
  using GetDirection_cases [of ep] by (auto simp: usb_masks)

lemma endpoint_conforms: "conforms (CtoJSUsbEndpoint ep) (delivered USBEndpoint_ts)"
  using direction_conforms [of ep] by (simp add: CtoJSUsbEndpoint_def setters ts_defs)

lemma index_below:
  "k < nat (sint (of_nat n :: i32)) \<Longrightarrow> k < n \<and> unat (of_nat k :: u32) = k"
proof -
  assume k: "k < nat (sint (of_nat n :: i32))"
  have "sint (of_nat n :: i32) = signed_take_bit 31 (int n)" by (simp add: signed_of_nat)
  moreover have "signed_take_bit 31 (int n) \<le> int n" by (simp add: signed_take_bit_int_less_eq_self_iff)
  moreover have "signed_take_bit 31 (int n) < 2 ^ 31" by (rule signed_take_bit_int_less_exp)
  ultimately have "k < n" "k < 2 ^ 31" using k by (simp_all add: zless_nat_eq_int_zless)
  then show ?thesis by (simp add: unat_of_nat take_bit_nat_eq_self)
qed

lemma endpoint_values_Some:
  "\<forall>k \<in> set ks. k < length (if_endpoints i) \<and> unat (of_nat k :: u32) = k \<Longrightarrow>
     endpoint_values i ks arr = Some (arr @ map (\<lambda>k. CtoJSUsbEndpoint (if_endpoints i ! k)) ks)"
  by (induction ks arbitrary: arr) (auto simp: UsbInterface_GetEndpoint_def)

lemma interface_conforms: "conforms (CtoJSUsbInterface i) (delivered USBInterface_ts)"
proof -
  let ?ks = "[0..<nat (sint (UsbInterface_GetEndpointCount i))]"
  have "endpoint_values i ?ks [] = Some (map (\<lambda>k. CtoJSUsbEndpoint (if_endpoints i ! k)) ?ks)"
    by (subst endpoint_values_Some) (auto simp: UsbInterface_GetEndpointCount_def dest!: index_below)
  with endpoint_conforms show ?thesis
    by (simp add: CtoJSUsbInterface_def setters Let_def USBInterface_ts_def)
qed

lemma config_conforms: "conforms (CtoJSUsbConfig c) (delivered USBConfig_ts)"
  using interface_conforms by (simp add: CtoJSUsbConfig_def setters Let_def USBConfig_ts_def)

lemma device_conforms: "conforms (CtoJSUsbDevice E d) (delivered USBDevice_ts)"
  using config_conforms by (simp add: CtoJSUsbDevice_def setters Let_def USBDevice_ts_def)

lemma other_values_conform:
  "conforms (CreateUsbDevicePipe pipe) (delivered USBDevicePipe_ts)"
  "conforms (port_value port) (delivered USBPort_ts)"
  by (simp_all add: CreateUsbDevicePipe_def port_value_def setters Let_def ts_defs)

text \<open>The member the declaration promises is not there.\<close>

lemma subClass_missing:
  "\<not> conforms (CtoJSUsbDevice E d) USBDevice_ts" "\<not> conforms (CtoJSUsbInterface i) USBInterface_ts"
  by (auto simp: CtoJSUsbDevice_def CtoJSUsbInterface_def setters Let_def USBDevice_ts_def USBInterface_ts_def
      split: option.splits)

section \<open>Results of calls\<close>

text \<open>
  What work is settled with: after its execution, the value it gives its promise conforms to \<open>p\<close>.
\<close>

definition settles ::
  "'p parcel_ops \<Rightarrow> uec_codes \<Rightarrow> ('p, 's) client_env \<Rightarrow> ('v, 'e) napi \<Rightarrow> ts_type \<Rightarrow> js_work \<Rightarrow> bool" where
  "settles P E C N p w \<longleftrightarrow> (\<forall>e cl s w1 e1 cl1 s1.
     js_execute P E C N w e cl s = Some (Mem ((w1, e1), cl1, s1)) \<longrightarrow>
     (\<exists>d ok r. js_complete N w1 e1 = ProcessPromise N d ok r e1 \<and> conforms r p))"

lemma settled_values_conform:
  "settles P E C N TsBoolean (RightWork c1)" "settles P E C N TsBoolean (FunctionWork c2)"
  "settles P E C N TsBoolean (PortRoleWork c3)" "settles P E C N TsNumber (ControlWork c4)"
  "settles P E C N TsNumber (BulkWork c5)"
proof -
  note defs = settles_def js_execute_def run_bind_def cl_return_def
    js_complete_def g_requestRightComplete_def g_setCurrentFunctionComplete_def g_setPortRoleComplete_def
    g_controlTransferComplete_def g_bulkTransferComplete_def
  show "settles P E C N TsBoolean (RightWork c1)" "settles P E C N TsBoolean (FunctionWork c2)"
    "settles P E C N TsBoolean (PortRoleWork c3)" "settles P E C N TsNumber (ControlWork c4)"
    "settles P E C N TsNumber (BulkWork c5)"
    by (auto simp: defs split: option.splits mem.splits prod.splits) (metis conforms.simps(1,6))+
qed

text \<open>A call returns a value of \<open>Q\<close>, if any, and queues only work of \<open>W\<close>.\<close>

definition returning ::
  "(js \<Rightarrow> bool) \<Rightarrow> (js_work \<Rightarrow> bool) \<Rightarrow> 'e js_state \<Rightarrow> ('e, 's) js_call \<Rightarrow> bool" where
  "returning Q W t0 call \<longleftrightarrow> (\<forall>v t cl s. call = Some (Mem (v, t, cl, s)) \<longrightarrow>
     (\<forall>r. v = Some r \<longrightarrow> Q r) \<and> (\<exists>ws. js_queue t = js_queue t0 @ ws \<and> (\<forall>w \<in> set ws. W w)))"

lemma returning_return:
  "js_queue t = js_queue t0 \<Longrightarrow> returning Q W t0 (js_return None t cl s)"
  "js_queue t = js_queue t0 \<Longrightarrow> Q v \<Longrightarrow> returning Q W t0 (js_return (Some v) t cl s)"
  "js_queue t = js_queue t0 \<Longrightarrow> (\<And>x. Q (f x)) \<Longrightarrow> returning Q W t0 (js_return (map_option f r) t cl s)"
  by (auto simp: returning_def js_return_def)

lemma returning_assert:
  "js_queue t = js_queue t0 \<Longrightarrow> returning Q W t0 k \<Longrightarrow> returning Q W t0 (js_assert N cond msg t cl s k)"
  by (simp add: js_assert_def returning_return)

lemma returning_args:
  "js_queue t = js_queue t0 \<Longrightarrow> (\<And>argv. returning Q W t0 (k argv)) \<Longrightarrow>
     returning Q W t0 (with_args N args least msg t cl s k)"
  by (simp add: with_args_def returning_assert)

lemma returning_types:
  "js_queue t = js_queue t0 \<Longrightarrow> returning Q W t0 k \<Longrightarrow> returning Q W t0 (expect_type N old v wanted msg t cl s k)"
  "js_queue t = js_queue t0 \<Longrightarrow> returning Q W t0 k \<Longrightarrow> returning Q W t0 (call_type N v wanted msg t cl s k)"
  by (simp_all add: expect_type_def call_type_def returning_assert returning_return split: option.splits)

lemma returning_do:
  "js_queue t = js_queue t0 \<Longrightarrow> (\<And>a t. js_queue t = js_queue t0 \<Longrightarrow> returning Q W t0 (k a t)) \<Longrightarrow>
     returning Q W t0 (js_do m t k)"
  by (simp add: js_do_def split: prod.splits)

lemma returning_client: "(\<And>v cl s. returning Q W t0 (k v cl s)) \<Longrightarrow> returning Q W t0 (js_client call k)"
  by (auto simp: returning_def js_client_def run_bind_def split: option.splits mem.splits prod.splits)

lemma returning_pipe:
  "js_queue t = js_queue t0 \<Longrightarrow> (\<And>pipe t. js_queue t = js_queue t0 \<Longrightarrow> returning Q W t0 (k pipe t)) \<Longrightarrow>
     returning Q W t0 (with_pipe N argv t cl s k)"
  by (simp add: with_pipe_def returning_types returning_do)

text \<open>Here work is queued.\<close>

lemma returning_queue:
  "js_queue t = js_queue t0 \<Longrightarrow> (\<And>x. Q (f x)) \<Longrightarrow> W work \<Longrightarrow>
     returning Q W t0 (js_return (map_option f r) (queue_work N work t) cl s)"
  by (auto simp: returning_def js_return_def queue_work_def split: prod.splits)

lemma returning_work:
  "js_queue t = js_queue t0 \<Longrightarrow> (\<And>d. Q (JsPromise d)) \<Longrightarrow> (\<And>d. W (work d)) \<Longrightarrow>
     returning Q W t0 (promise_work N work t cl s)"
  by (simp add: promise_work_def returning_do returning_queue)

text \<open>And here the variable for the array may be left without a value.\<close>

lemma returning_array:
  "js_queue t = js_queue t0 \<Longrightarrow> (\<And>x. u = Some x \<Longrightarrow> Q x) \<Longrightarrow> (\<And>bs. Q (JsUint8Array bs)) \<Longrightarrow>
     returning Q W t0 (js_do (Uint8ArrayToJsValue N bytes k) t (\<lambda>result t.
       js_return (case result of None \<Rightarrow> u | Some v \<Rightarrow> Some v) t cl s))"
  by (auto simp: returning_def js_do_def js_return_def Uint8ArrayToJsValue_def split: prod.splits)

lemma returning_split:
  "returning Q W t0 a \<Longrightarrow> returning Q W t0 b \<Longrightarrow> returning Q W t0 (if c then a else b)"
  "returning Q W t0 a \<Longrightarrow> (\<And>x. returning Q W t0 (f x)) \<Longrightarrow> returning Q W t0 (case r of None \<Rightarrow> a | Some x \<Rightarrow> f x)"
  "(\<And>a b. returning Q W t0 (g a b)) \<Longrightarrow> returning Q W t0 (case_prod g p)"
  "(\<And>a b. returning Q W t0 (h a b cl s)) \<Longrightarrow> returning Q W t0 (case_prod h p cl s)"
  "(\<And>a b. js_queue t = js_queue t0 \<Longrightarrow> returning Q W t0 (l a b t)) \<Longrightarrow> js_queue t = js_queue t0 \<Longrightarrow>
     returning Q W t0 (case_prod l p t)"
  by (simp_all split: option.splits prod.splits)

lemmas returning_rules =
  returning_split returning_assert returning_args returning_types returning_array returning_do
  returning_client returning_pipe returning_work returning_queue returning_return

text \<open>Results: of the type, or undefined where the call can fail.\<close>

lemma returning_data:
  "returning (\<lambda>r. conforms r (delivered (TsArray USBDevice_ts)) \<or> r = JsUndefined) W t (CoreGetDevices P E C N args t cl s)"
  "returning (\<lambda>r. conforms r (delivered USBDevicePipe_ts) \<or> r = JsUndefined) W t (CoreConnectDevice P E C N args t cl s)"
  "returning (\<lambda>r. conforms r (delivered (TsArray USBPort_ts)) \<or> r = JsUndefined) W t (CoreGetPorts P E C N args t cl s)"
  "returning (\<lambda>r. conforms r TsNumber \<or> r = JsUndefined) W t (CoreGetCurrentFunctions P E C N args t cl s)"
  "returning (\<lambda>r. conforms r TsUint8Array \<or> r = JsUndefined \<or> u = Some r) W t
     (PipeGetRawDescriptors u P E C N args t cl s)"
  unfolding CoreGetDevices_def CoreConnectDevice_def CoreGetPorts_def CoreGetCurrentFunctions_def
    PipeGetRawDescriptors_def
  by (rule refl returning_rules | assumption | simp add: device_conforms other_values_conform; fail)+

lemma returning_basic:
  "returning (\<lambda>r. conforms r TsBoolean) W t (CoreHasRight P E C N args t cl s)"
  "returning (\<lambda>r. conforms r TsNumber) W t (CoreUsbFunctionsFromString P E C N args t cl s)"
  "returning (\<lambda>r. conforms r TsString) W t (CoreUsbFunctionsToString P E C N args t cl s)"
  "returning (\<lambda>r. conforms r TsNumber) W t (PortGetSupportedModes P E C N args t cl s)"
  "returning (\<lambda>r. conforms r TsNumber) W t (PipeClaimInterface P E C N args t cl s)"
  "returning (\<lambda>r. conforms r TsNumber) W t (PipeReleaseInterface P E C N args t cl s)"
  "returning (\<lambda>r. conforms r TsNumber) W t (PipeSetInterface P E C N args t cl s)"
  "returning (\<lambda>r. conforms r TsNumber) W t (PipeSetConfiguration P E C N args t cl s)"
  "returning (\<lambda>r. conforms r TsNumber) W t (PipeGetFileDescriptor P E C N args t cl s)"
  "returning (\<lambda>r. conforms r TsNumber) W t (PipeClose P E C N args t cl s)"
  "returning (\<lambda>r. conforms r TsString) W t (GetVersion t cl s)"
  unfolding CoreHasRight_def CoreUsbFunctionsFromString_def CoreUsbFunctionsToString_def
    PortGetSupportedModes_def PipeClaimInterface_def PipeReleaseInterface_def PipeSetInterface_def
    PipeSetConfiguration_def PipeGetFileDescriptor_def PipeClose_def GetVersion_def Let_def
  by (rule refl returning_rules | assumption | simp; fail)+

lemma returning_promises:
  "returning (\<lambda>r. conforms r (TsPromise TsBoolean)) (settles P E C N TsBoolean) t (CoreRequestRight P E C N args t cl s)"
  "returning (\<lambda>r. conforms r (TsPromise TsBoolean)) (settles P E C N TsBoolean) t
     (CoreSetCurrentFunctions P E C N args t cl s)"
  "returning (\<lambda>r. conforms r (TsPromise TsBoolean)) (settles P E C N TsBoolean) t (PortSetPortRole P E C N args t cl s)"
  "returning (\<lambda>r. conforms r (TsPromise TsNumber)) (settles P E C N TsNumber) t (PipeControlTransfer P E C N args t cl s)"
  "returning (\<lambda>r. conforms r (TsPromise TsNumber)) (settles P E C N TsNumber) t (PipeBulkTransfer P E C N args t cl s)"
  unfolding CoreRequestRight_def CoreSetCurrentFunctions_def PortSetPortRole_def PipeControlTransfer_def
    PipeBulkTransfer_def Let_def
  by (rule refl returning_rules settled_values_conform | assumption | simp; fail)+

text \<open>The functions without a number for failures.\<close>

definition undefined_results :: "string set" where
  "undefined_results = {''getDevices'', ''connectDevice'', ''getPorts'', ''getCurrentFunctions'', ''getRawDescriptor''}"

lemma exported_returning:
  "(name, f) \<in> set (UsbInit u P E C N) \<Longrightarrow> \<exists>ty. map_of usb_functions name = Some ty \<and>
     returning (\<lambda>r. conforms r (delivered ty) \<or> r = JsUndefined \<and> name \<in> undefined_results \<or>
         u = Some r \<and> name = ''getRawDescriptor'')
       (\<lambda>w. \<exists>p. ty = TsPromise p \<and> settles P E C N p w) t (f args t cl s)"
  unfolding UsbInit_def set_simps insert_iff prod.inject empty_iff
  by (elim disjE conjE FalseE; hypsubst; rule exI, rule conjI, (simp add: usb_functions_def; fail))
    (simp_all add: undefined_results_def returning_basic returning_promises returning_data [simplified])

text \<open>
  C21: The module exports the declared functions, and each returns what is declared, up to the name
  \<open>subclass\<close>: a value of the declared type, undefined for a failure of those that have no number for
  it, or the value an uninitialised variable happens to hold.  The work a call queues belongs to a
  function with a promise, and settles it with a value of the declared type.  With the name of the
  declaration no device conforms to its type.
\<close>

theorem js_results_conform:
  assumes "(name, f) \<in> set (UsbInit u P E C N)" and "f args t cl s = Some (Mem (v, t1, cl1, s1))"
  shows "\<exists>ty. map_of usb_functions name = Some ty \<and>
    (\<forall>r. v = Some r \<longrightarrow> conforms r (rename_member ''subClass'' ''subclass'' ty) \<or>
       r = JsUndefined \<and> name \<in> undefined_results \<or> u = Some r \<and> name = ''getRawDescriptor'') \<and>
    (\<exists>ws. js_queue t1 = js_queue t @ ws \<and> (\<forall>w \<in> set ws. \<exists>p. ty = TsPromise p \<and> settles P E C N p w)) \<and>
    (\<forall>d. \<not> conforms (CtoJSUsbDevice E d) USBDevice_ts)"
proof -
  from exported_returning [OF assms(1)] obtain ty where ty: "map_of usb_functions name = Some ty"
    "returning (\<lambda>r. conforms r (delivered ty) \<or> r = JsUndefined \<and> name \<in> undefined_results \<or>
        u = Some r \<and> name = ''getRawDescriptor'')
      (\<lambda>w. \<exists>p. ty = TsPromise p \<and> settles P E C N p w) t (f args t cl s)" by blast
  from ty(2) [unfolded returning_def assms(2)] show ?thesis
    by (intro exI [of _ ty] conjI ty(1) allI subClass_missing) auto
qed

text \<open>Setting the functions of a client without a service.\<close>

theorem js_results_conform_witness:
  "conforms (JsPromise 0) (TsPromise TsBoolean) \<and>
   settles list_parcel sample_codes lonely_env sample_napi TsBoolean lonely_work"
proof -
  have "(''setCurrentFunctions'', CoreSetCurrentFunctions list_parcel sample_codes lonely_env sample_napi) \<in>
      set (UsbInit None list_parcel sample_codes lonely_env sample_napi)"
    by (simp add: UsbInit_def)
  from js_results_conform [OF this lonely_call]
  have "\<exists>ty. map_of usb_functions ''setCurrentFunctions'' = Some ty \<and>
      conforms (JsPromise 0) (rename_member ''subClass'' ''subclass'' ty) \<and>
      (\<exists>p. ty = TsPromise p \<and> settles list_parcel sample_codes lonely_env sample_napi p lonely_work)"
    by auto
  then show ?thesis by (simp add: usb_functions_def)
qed

section \<open>Constants\<close>

text \<open>
  The module exports the members of all declared enumerations with their values, but as properties
  of the module itself: the enumerations, under which the declaration has them, are not exported.
\<close>

theorem constants_exported_flat:
  "\<forall>(enum, members) \<in> set usb_enums. \<forall>(n, k) \<in> set members.
     map_of DeclareEnum n = Some (word_of_int k) \<and> map_of (UsbInit u P E C N) enum = None \<and> map_of DeclareEnum enum = None"
  by (simp add: usb_enums_def DeclareEnum_def async_context_constants_def UsbInit_def)

end
