(* ===== verification/Usb_Singleton.thy ===== *)
theory Usb_Singleton
  imports Usb_Prelude
begin

text \<open>
  The lazily created instance of the service (\<open>utils/native/include/delayed_sp_singleton.h\<close>):
  threads that ask for it check the pointer without the lock first and again under it.
\<close>

section \<open>Threads and steps\<close>

text \<open>
  Where a thread is.  A thread reads or writes the pointer in one step: after a first check that
  found an object (\<open>GetUnlocked\<close>) the function reads the pointer again to copy its result; the
  guard holds the lock until the result of the other path is copied.
\<close>

datatype singleton_pc =
  GetEntry
| GetUnlocked
| GetLock
| GetLocked
| GetReturn
| GetDone "nat option"
| DestroyEntry
| DestroyLocked
| DestroyDone

text \<open>\<open>sg_created\<close> are the objects constructed so far, in order.\<close>

record singleton =
  sg_instance :: "nat option"
  sg_mutex :: "nat option"
  sg_created :: "nat list"
  sg_pc :: "nat \<Rightarrow> singleton_pc"

definition goes :: "nat \<Rightarrow> singleton_pc \<Rightarrow> singleton \<Rightarrow> singleton" where
  "goes t p g = g\<lparr>sg_pc := (sg_pc g)(t := p)\<rparr>"

inductive singleton_step :: "singleton \<Rightarrow> singleton \<Rightarrow> bool" where
  get_hit: "sg_pc g t = GetEntry \<Longrightarrow> sg_instance g = Some obj \<Longrightarrow>
    singleton_step g (goes t GetUnlocked g)"
| get_unlocked: "sg_pc g t = GetUnlocked \<Longrightarrow>
    singleton_step g (goes t (GetDone (sg_instance g)) g)"
| get_miss: "sg_pc g t = GetEntry \<Longrightarrow> sg_instance g = None \<Longrightarrow> singleton_step g (goes t GetLock g)"
| get_acquire: "sg_pc g t = GetLock \<Longrightarrow> sg_mutex g = None \<Longrightarrow>
    singleton_step g (goes t GetLocked (g\<lparr>sg_mutex := Some t\<rparr>))"
| get_present: "sg_pc g t = GetLocked \<Longrightarrow> sg_instance g = Some obj \<Longrightarrow>
    singleton_step g (goes t GetReturn g)"
| get_create: "sg_pc g t = GetLocked \<Longrightarrow> sg_instance g = None \<Longrightarrow> obj \<notin> set (sg_created g) \<Longrightarrow>
    singleton_step g (goes t GetReturn (g\<lparr>sg_instance := Some obj, sg_created := sg_created g @ [obj]\<rparr>))"
| get_no_memory: "sg_pc g t = GetLocked \<Longrightarrow> sg_instance g = None \<Longrightarrow>
    singleton_step g (goes t GetReturn g)"
| get_return: "sg_pc g t = GetReturn \<Longrightarrow>
    singleton_step g (goes t (GetDone (sg_instance g)) (g\<lparr>sg_mutex := None\<rparr>))"
| destroy_acquire: "sg_pc g t = DestroyEntry \<Longrightarrow> sg_mutex g = None \<Longrightarrow>
    singleton_step g (goes t DestroyLocked (g\<lparr>sg_mutex := Some t\<rparr>))"
| destroy_clear: "sg_pc g t = DestroyLocked \<Longrightarrow>
    singleton_step g (goes t DestroyDone (g\<lparr>sg_instance := None, sg_mutex := None\<rparr>))"

inductive_cases singleton_stepE: "singleton_step g g1"

definition singleton_start :: "(nat \<Rightarrow> singleton_pc) \<Rightarrow> singleton" where
  "singleton_start pc = \<lparr>sg_instance = None, sg_mutex = None, sg_created = [], sg_pc = pc\<rparr>"

section \<open>One instance\<close>

definition destroys :: "singleton_pc \<Rightarrow> bool" where
  "destroys p \<longleftrightarrow> p = DestroyEntry \<or> p = DestroyLocked \<or> p = DestroyDone"

definition singleton_inv :: "singleton \<Rightarrow> bool" where
  "singleton_inv g \<longleftrightarrow> (\<forall>t. \<not> destroys (sg_pc g t)) \<and>
     sg_created g = (case sg_instance g of None \<Rightarrow> [] | Some obj \<Rightarrow> [obj]) \<and>
     (\<forall>t obj. sg_pc g t = GetDone (Some obj) \<longrightarrow> sg_instance g = Some obj) \<and>
     (\<forall>t. sg_pc g t = GetUnlocked \<longrightarrow> sg_instance g \<noteq> None)"

lemma singleton_step_inv: "singleton_step g g1 \<Longrightarrow> singleton_inv g \<Longrightarrow> singleton_inv g1"
  by (erule singleton_stepE) (auto simp: singleton_inv_def goes_def destroys_def)

interpretation one_object: started_invariant singleton_step singleton_inv "singleton_start (\<lambda>_. GetEntry)"
  by unfold_locales (erule singleton_step_inv, assumption, simp add: singleton_inv_def singleton_start_def destroys_def)

text \<open>The lock: who is in a locked region holds it, so there is one such thread at most.\<close>

definition locked :: "singleton_pc \<Rightarrow> bool" where
  "locked p \<longleftrightarrow> p = GetLocked \<or> p = GetReturn \<or> p = DestroyLocked"

definition mutex_inv :: "singleton \<Rightarrow> bool" where
  "mutex_inv g \<longleftrightarrow> (\<forall>t. locked (sg_pc g t) \<longleftrightarrow> sg_mutex g = Some t)"

lemma locked_simps [simp]:
  "\<not> locked GetEntry" "\<not> locked GetUnlocked" "\<not> locked GetLock" "locked GetLocked" "locked GetReturn" "\<not> locked (GetDone r)"
  "\<not> locked DestroyEntry" "locked DestroyLocked" "\<not> locked DestroyDone"
  by (simp_all add: locked_def)

lemma mutex_step_inv: "singleton_step g g1 \<Longrightarrow> mutex_inv g \<Longrightarrow> mutex_inv g1"
  by (erule singleton_stepE; simp add: mutex_inv_def goes_def; metis locked_simps option.inject option.distinct(1))

interpretation one_holder: started_invariant singleton_step mutex_inv "singleton_start (\<lambda>_. GetEntry)"
  by unfold_locales (erule mutex_step_inv, assumption, simp add: mutex_inv_def singleton_start_def)

text \<open>
  C40: However the threads interleave, the double check creates the service at most once and all
  threads that got an instance got the same one, which is still the current one; and no two
  threads are between taking and releasing the lock.
\<close>

theorem one_instance:
  assumes "singleton_step\<^sup>*\<^sup>* (singleton_start (\<lambda>_. GetEntry)) g"
  shows "length (sg_created g) \<le> 1 \<and>
    (\<forall>t t1 obj obj1. sg_pc g t = GetDone (Some obj) \<and> sg_pc g t1 = GetDone (Some obj1) \<longrightarrow>
       obj1 = obj \<and> sg_created g = [obj] \<and> sg_instance g = Some obj) \<and>
    (\<forall>t t1. locked (sg_pc g t) \<and> locked (sg_pc g t1) \<longrightarrow> t1 = t)"
proof -
  have inv: "singleton_inv g" and mutex: "mutex_inv g"
    using assms by (rule one_object.reached, rule one_holder.reached)
  have "length (sg_created g) \<le> 1" using inv by (simp add: singleton_inv_def split: option.splits)
  moreover have "sg_instance g = Some obj \<and> sg_created g = [obj]" if "sg_pc g t = GetDone (Some obj)" for t obj
    using inv that by (simp add: singleton_inv_def)
  moreover have "t1 = t" if "locked (sg_pc g t)" "locked (sg_pc g t1)" for t t1
    using mutex that by (metis mutex_inv_def option.inject)
  ultimately show ?thesis by (metis option.inject)
qed

text \<open>Two threads that both miss the first check; the second one finds the object of the first.\<close>

theorem one_instance_witness:
  "\<exists>g. singleton_step\<^sup>*\<^sup>* (singleton_start (\<lambda>_. GetEntry)) g \<and> sg_created g = [7] \<and>
    sg_pc g 0 = GetDone (Some 7) \<and> sg_pc g 1 = GetReturn \<and> length (sg_created g) \<le> 1"
proof -
  let ?g0 = "singleton_start (\<lambda>_. GetEntry)"
  let ?g1 = "goes 0 GetLock ?g0"
  let ?g2 = "goes 1 GetLock ?g1"
  let ?g3 = "goes 0 GetLocked (?g2\<lparr>sg_mutex := Some 0\<rparr>)"
  let ?g4 = "goes 0 GetReturn (?g3\<lparr>sg_instance := Some 7, sg_created := sg_created ?g3 @ [7]\<rparr>)"
  let ?g5 = "goes 0 (GetDone (sg_instance ?g4)) (?g4\<lparr>sg_mutex := None\<rparr>)"
  let ?g6 = "goes 1 GetLocked (?g5\<lparr>sg_mutex := Some 1\<rparr>)"
  let ?g7 = "goes 1 GetReturn ?g6"
  have s: "singleton_step ?g0 ?g1" "singleton_step ?g1 ?g2"
    by (rule get_miss; simp add: singleton_start_def goes_def)+
  have s2: "singleton_step ?g2 ?g3" by (rule get_acquire) (simp_all add: singleton_start_def goes_def)
  have s3: "singleton_step ?g3 ?g4" by (rule get_create) (simp_all add: singleton_start_def goes_def)
  have s4: "singleton_step ?g4 ?g5" by (rule get_return) (simp add: singleton_start_def goes_def)
  have s5: "singleton_step ?g5 ?g6" by (rule get_acquire) (simp_all add: singleton_start_def goes_def)
  have s6: "singleton_step ?g6 ?g7" by (rule get_present [where obj = 7]) (simp_all add: singleton_start_def goes_def)
  have "singleton_step\<^sup>*\<^sup>* ?g0 ?g7"
    using s s2 s3 s4 s5 s6 by (meson converse_rtranclp_into_rtranclp rtranclp.rtrancl_refl)
  from one_instance [OF this] this show ?thesis
    by (intro exI [of _ ?g7]) (simp add: singleton_start_def goes_def)
qed

end
