(* ===== verification/Usb_Memory.thy ===== *)
theory Usb_Memory
  imports Usb_Service_Props
begin

text \<open>
  The device objects as memory.  \<open>Usb_Host\<close> keeps the devices by value; in the code the table holds
  pointers, \<open>UsbService::AddDevice\<close> makes the objects with \<open>new\<close> and the manager deletes them.
  Here the same operations work on an explicit store, so that a read through a dangling pointer
  and a second \<open>delete\<close> are outcomes (\<open>BadRead\<close>).  The first part shows that, one operation after
  the other, they refine the operations by value and own their objects exactly; the second has the
  interleavings of threads, which nothing in the code excludes.
\<close>

section \<open>Pointers\<close>

text \<open>The live objects by address; a null pointer is \<open>None\<close>.\<close>

type_synonym dev_heap = "nat \<rightharpoonup> UsbDevice"
type_synonym ptr_table = "(string, nat option) cmap"

definition mem_bind :: "'a mem \<Rightarrow> ('a \<Rightarrow> 'b mem) \<Rightarrow> 'b mem" where
  "mem_bind r k = (case r of BadRead \<Rightarrow> BadRead | Mem v \<Rightarrow> k v)"

lemma mem_bind_simps [simp]: "mem_bind BadRead k = BadRead" "mem_bind (Mem v) k = k v"
  by (simp_all add: mem_bind_def)

definition load_device :: "nat option \<Rightarrow> dev_heap \<Rightarrow> UsbDevice mem" where
  "load_device p h =
     (case p of
        None \<Rightarrow> BadRead
      | Some a \<Rightarrow> (case h a of None \<Rightarrow> BadRead | Some d \<Rightarrow> Mem d))"

text \<open>\<open>delete\<close> of a null pointer does nothing.\<close>

definition delete_device :: "nat option \<Rightarrow> dev_heap \<Rightarrow> dev_heap mem" where
  "delete_device p h =
     (case p of
        None \<Rightarrow> Mem h
      | Some a \<Rightarrow> (case h a of None \<Rightarrow> BadRead | Some d \<Rightarrow> Mem (h(a := None))))"

section \<open>The host manager on pointers\<close>

definition HostPtr_GetDevices :: "ptr_table \<Rightarrow> ptr_table" where
  "HostPtr_GetDevices t = t"

definition HostPtr_DelDevice ::
  "'w ext \<Rightarrow> u8 \<Rightarrow> u8 \<Rightarrow> ptr_table \<Rightarrow> dev_heap \<Rightarrow> 'w \<Rightarrow> ((bool \<times> ptr_table \<times> dev_heap) \<times> 'w) mem" where
  "HostPtr_DelDevice x busNum devNum t h w =
     (let name = device_name busNum devNum
      in case map_of t name of
           None \<Rightarrow> Mem ((False, t, h), w)
         | Some None \<Rightarrow> Mem ((False, t, h), w)
         | Some devOld \<Rightarrow>
             mem_bind (load_device devOld h) (\<lambda>d.
               let (isSuccess, w1) =
                     HostManager_PublishCommonEvent x COMMON_EVENT_USB_DEVICE_DETACHED d w
               in mem_bind (delete_device devOld h) (\<lambda>h1.
                    Mem ((True, cmap_erase name t, h1), w1))))"

definition HostPtr_AddDevice ::
  "'w ext \<Rightarrow> nat option \<Rightarrow> ptr_table \<Rightarrow> dev_heap \<Rightarrow> 'w \<Rightarrow> ((bool \<times> ptr_table \<times> dev_heap) \<times> 'w) mem" where
  "HostPtr_AddDevice x dev t h w =
     (case dev of
        None \<Rightarrow> Mem ((False, t, h), w)
      | Some p \<Rightarrow>
          mem_bind (load_device dev h) (\<lambda>d.
            let (isSuccess, w1) =
                  HostManager_PublishCommonEvent x COMMON_EVENT_USB_DEVICE_ATTACHED d w;
                name = device_name (dev_busNum d) (dev_devAddr d)
            in case map_of t name of
                 None \<Rightarrow> Mem ((True, fst (cmap_insert name dev t), h), w1)
               | Some devOld \<Rightarrow>
                   mem_bind (delete_device devOld h) (\<lambda>h1.
                     Mem ((True, fst (cmap_insert name dev (cmap_erase name t)), h1), w1))))"

section \<open>The service on pointers\<close>

text \<open>
  \<open>new\<close> puts the object \<open>obj\<close> at the address \<open>p\<close>; \<open>memset_s\<close> clears it in place, and
  \<open>GetDeviceInfo\<close> fills it through the reference.
\<close>

definition ServicePtr_AddDevice ::
  "usbd_layout \<Rightarrow> uec_codes \<Rightarrow> 'w ext \<Rightarrow> nat \<Rightarrow> UsbDevice \<Rightarrow> u8 \<Rightarrow> u8 \<Rightarrow> ptr_table option \<Rightarrow> dev_heap \<Rightarrow>
     'w \<Rightarrow> ((bool \<times> ptr_table option \<times> dev_heap) \<times> 'w) run" where
  "ServicePtr_AddDevice L E x p obj busNum devAddr hp h w =
     (let (allocated, w1) = x_alloc x w
      in if \<not> allocated then Some (Mem ((False, hp, h), w1))
         else
           (let (zeroed, w2) = x_memset_s x w1
            in if \<not> zeroed then Some (Mem ((False, hp, h(p \<mapsto> obj)), w2))
               else
                 run_bind (GetDeviceInfo L E x busNum devAddr UsbDevice_zero w2)
                   (\<lambda>((ret, devInfo), w3).
                      let h1 = h(p \<mapsto> devInfo)
                      in Some (if ret \<noteq> UEC_OK E then
                                 mem_bind (delete_device (Some p) h1) (\<lambda>h2. Mem ((False, hp, h2), w3))
                               else
                                 (case hp of
                                    None \<Rightarrow> Mem ((False, None, h1), w3)
                                  | Some t \<Rightarrow>
                                      mem_bind (HostPtr_AddDevice x (Some p) t h1 w3)
                                        (\<lambda>((added, t1, h2), w4). Mem ((True, Some t1, h2), w4)))))))"

definition ServicePtr_DelDevice ::
  "'w ext \<Rightarrow> u8 \<Rightarrow> u8 \<Rightarrow> ptr_table option \<Rightarrow> dev_heap \<Rightarrow> 'w \<Rightarrow>
     ((bool \<times> ptr_table option \<times> dev_heap) \<times> 'w) mem" where
  "ServicePtr_DelDevice x busNum devAddr hp h w =
     (let (ret, w1) = Service_Close x busNum devAddr w
      in case hp of
           None \<Rightarrow> Mem ((False, None, h), w1)
         | Some t \<Rightarrow>
             mem_bind (HostPtr_DelDevice x busNum devAddr t h w1)
               (\<lambda>((removed, t1, h1), w2). Mem ((removed, Some t1, h1), w2)))"

fun copy_pointees :: "ptr_table \<Rightarrow> dev_heap \<Rightarrow> UsbDevice list \<Rightarrow> UsbDevice list mem" where
  "copy_pointees [] h deviceList = Mem deviceList"
| "copy_pointees ((n, p) # t) h deviceList =
     mem_bind (load_device p h) (\<lambda>d. copy_pointees t h (deviceList @ [d]))"

definition ServicePtr_GetDevices ::
  "uec_codes \<Rightarrow> UsbDevice list \<Rightarrow> ptr_table option \<Rightarrow> dev_heap \<Rightarrow> (i32 \<times> UsbDevice list) mem" where
  "ServicePtr_GetDevices E deviceList hp h =
     (case hp of
        None \<Rightarrow> Mem (UEC_SERVICE_INVALID_VALUE E, deviceList)
      | Some t \<Rightarrow> mem_bind (copy_pointees (HostPtr_GetDevices t) h deviceList) (\<lambda>ds. Mem (UEC_OK E, ds)))"

section \<open>Ownership\<close>

text \<open>The addresses in the table, and the table seen by value.\<close>

definition held :: "ptr_table \<Rightarrow> nat set" where
  "held t = {a. Some a \<in> snd ` set t}"

definition pointee :: "dev_heap \<Rightarrow> nat option \<Rightarrow> UsbDevice option" where
  "pointee h p = (case p of None \<Rightarrow> None | Some a \<Rightarrow> h a)"

definition host_of :: "dev_heap \<Rightarrow> ptr_table \<Rightarrow> UsbHostManager" where
  "host_of h t = \<lparr>hm_devices = map (\<lambda>(n, p). (n, pointee h p)) t\<rparr>"

text \<open>No null or dangling pointer, and no object under two names.\<close>

definition owns :: "ptr_table \<Rightarrow> dev_heap \<Rightarrow> bool" where
  "owns t h \<longleftrightarrow> cmap_ok t \<and> distinct (map snd t) \<and> (\<forall>p \<in> snd ` set t. \<exists>a d. p = Some a \<and> h a = Some d)"

definition owns_opt :: "ptr_table option \<Rightarrow> dev_heap \<Rightarrow> bool" where
  "owns_opt hp h \<longleftrightarrow> (\<forall>t. hp = Some t \<longrightarrow> owns t h)"

text \<open>Live objects no table entry points to: nobody can delete them any more.\<close>

definition leaked :: "ptr_table option \<Rightarrow> dev_heap \<Rightarrow> nat set" where
  "leaked hp h = dom h - (case hp of None \<Rightarrow> {} | Some t \<Rightarrow> held t)"

lemma owns_Nil [simp]: "owns [] h"
  by (simp add: owns_def)

lemma pointee_simps [simp]: "pointee h None = None" "pointee h (Some a) = h a"
  by (simp_all add: pointee_def)

lemma held_iff: "b \<in> held t \<longleftrightarrow> (\<exists>m. (m, Some b) \<in> set t)"
  by (force simp: held_def)

lemma owns_lookup: "owns t h \<Longrightarrow> map_of t n = Some p \<Longrightarrow> \<exists>a d. p = Some a \<and> h a = Some d"
  unfolding owns_def by (metis image_eqI map_of_SomeD snd_conv)

lemma map_of_view: "map_of (map (\<lambda>(n, p). (n, pointee h p)) t) n = map_option (pointee h) (map_of t n)"
  by (induction t) auto

lemma view_erase:
  "map (\<lambda>(n, p). (n, pointee h p)) (cmap_erase n t) = cmap_erase n (map (\<lambda>(n, p). (n, pointee h p)) t)"
  by (induction t) (auto simp: cmap_erase_def)

lemma view_insert:
  "map (\<lambda>(n, p). (n, pointee h p)) (fst (cmap_insert n q t)) =
     fst (cmap_insert n (pointee h q) (map (\<lambda>(n, p). (n, pointee h p)) t))"
  by (induction n q t rule: cmap_insert.induct) (auto split: prod.splits)

lemma view_upd: "a \<notin> held t \<Longrightarrow> host_of (h(a := v)) t = host_of h t"
  by (fastforce simp: host_of_def held_def pointee_def image_iff split: option.splits)

lemma set_erase: "set (cmap_erase n t) = {e \<in> set t. fst e \<noteq> n}"
  by (auto simp: cmap_erase_def)

lemma set_insert:
  "cmap_ok t \<Longrightarrow> map_of t n = None \<Longrightarrow> set (fst (cmap_insert n p t)) = insert (n, p) (set t)"
  by (induction n p t rule: cmap_insert.induct) (auto simp: cmap_ok_Cons split: prod.splits if_splits)

lemma distinct_insert:
  "map_of t n = None \<Longrightarrow> distinct (map snd t) \<Longrightarrow> p \<notin> snd ` set t \<Longrightarrow> cmap_ok t \<Longrightarrow>
     distinct (map snd (fst (cmap_insert n p t)))"
proof (induction n p t rule: cmap_insert.induct)
  case (2 k v k' v' m)
  consider "k < k'" | "k' < k" using 2(2) by fastforce
  then show ?case
  proof cases
    case 2: 2
    from "2.prems" have "map_of m k = None" "cmap_ok m" by (auto simp: cmap_ok_Cons split: if_splits)
    with set_insert [of m k v] "2.prems" "2.IH" 2 show ?thesis by (auto split: prod.splits)
  qed (use 2 in auto)
qed simp

lemma distinct_erase: "distinct (map snd t) \<Longrightarrow> distinct (map snd (cmap_erase n t))"
  by (simp add: cmap_erase_def distinct_map_filter)

lemma held_erase:
  assumes "owns t h" and "map_of t n = Some (Some a)"
  shows "held (cmap_erase n t) = held t - {a}"
proof -
  have "m = n \<longleftrightarrow> b = a" if "(m, Some b) \<in> set t" for m b
  proof -
    from assms have t: "(n, Some a) \<in> set t" "distinct (map snd t)" "cmap_ok t"
      by (auto simp: owns_def map_of_SomeD)
    with that have "m = n \<Longrightarrow> b = a" by (auto simp: cmap_find_in)
    moreover from that t have "b = a \<Longrightarrow> m = n"
      by (metis distinct_map inj_onD prod.inject snd_conv)
    ultimately show ?thesis by blast
  qed
  then have "(\<exists>m. (m, Some b) \<in> set t \<and> m \<noteq> n) \<longleftrightarrow> (\<exists>m. (m, Some b) \<in> set t) \<and> b \<noteq> a" for b by blast
  then show ?thesis by (simp add: set_eq_iff held_iff set_erase)
qed

lemma owns_erase: "owns t h \<Longrightarrow> owns (cmap_erase n t) h"
  by (auto simp: owns_def cmap_erase_ok distinct_erase set_erase)

lemma owns_upd: "owns t h \<Longrightarrow> a \<notin> held t \<Longrightarrow> owns t (h(a := v))"
  unfolding owns_def held_def by auto (metis image_eqI snd_conv)

lemma held_insert: "cmap_ok t \<Longrightarrow> map_of t n = None \<Longrightarrow> held (fst (cmap_insert n (Some a) t)) = insert a (held t)"
  by (auto simp: held_def set_insert)

lemma owns_insert:
  "owns t h \<Longrightarrow> map_of t n = None \<Longrightarrow> h a = Some d \<Longrightarrow> a \<notin> held t \<Longrightarrow>
     owns (fst (cmap_insert n (Some a) t)) h"
  by (auto simp: owns_def cmap_insert_ok set_insert held_def intro!: distinct_insert)

section \<open>Refinement of the operations by value\<close>

lemma owns_find: "owns t h \<Longrightarrow> map_of t n = Some p \<Longrightarrow> \<exists>a d. p = Some a \<and> h a = Some d \<and> a \<in> held t"
  using owns_lookup [of t h n p] map_of_SomeD [of t n p] by (auto simp: held_iff)

lemma host_of_find: "map_of (hm_devices (host_of h t)) n = map_option (pointee h) (map_of t n)"
  by (simp add: host_of_def map_of_view)

lemma host_of_erase: "host_of h (cmap_erase n t) = host_of h t\<lparr>hm_devices := cmap_erase n (hm_devices (host_of h t))\<rparr>"
  by (simp add: host_of_def view_erase)

lemma host_of_insert:
  "host_of h (fst (cmap_insert n p t)) =
     host_of h t\<lparr>hm_devices := fst (cmap_insert n (pointee h p) (hm_devices (host_of h t)))\<rparr>"
  by (simp add: host_of_def view_insert)

text \<open>Removing: the entry's object is deleted with the entry, and nothing else.\<close>

lemma HostPtr_DelDevice_refines:
  assumes "owns t h"
  obtains r t1 h1 w1 where "HostPtr_DelDevice x b a t h w = Mem ((r, t1, h1), w1)"
    and "HostManager_DelDevice x b a (host_of h t) w = ((r, host_of h1 t1), w1)"
    and "owns t1 h1" and "dom h1 - held t1 = dom h - held t"
proof (cases "map_of t (device_name b a)")
  case None
  with assms that [of False t h w] show thesis
    by (simp add: HostPtr_DelDevice_def HostManager_DelDevice_def host_of_find)
next
  case (Some p)
  with owns_find [OF assms] obtain q d where p: "p = Some q" "h q = Some d" "q \<in> held t" by blast
  let ?t = "cmap_erase (device_name b a) t"
  have held: "held ?t = held t - {q}" using held_erase [OF assms] Some p by simp
  then have free: "q \<notin> held ?t" by simp
  from Some p have ptr: "HostPtr_DelDevice x b a t h w = Mem ((True, ?t, h(q := None)),
      snd (HostManager_PublishCommonEvent x COMMON_EVENT_USB_DEVICE_DETACHED d w))"
    by (simp add: HostPtr_DelDevice_def load_device_def delete_device_def split: prod.splits)
  moreover have "HostManager_DelDevice x b a (host_of h t) w = ((True, host_of (h(q := None)) ?t),
      snd (HostManager_PublishCommonEvent x COMMON_EVENT_USB_DEVICE_DETACHED d w))"
    using Some p
    by (simp add: HostManager_DelDevice_def host_of_find view_upd [OF free] flip: host_of_erase split: prod.splits)
  moreover have "owns ?t (h(q := None))" by (rule owns_upd [OF owns_erase [OF assms] free])
  moreover have "dom (h(q := None)) - held ?t = dom h - held t" using held p(3) by auto
  ultimately show thesis by (rule that)
qed

text \<open>Adding a live object that no entry holds: a replaced object is deleted.\<close>

lemma HostPtr_AddDevice_refines:
  assumes "owns t h" and "h p = Some d" and "p \<notin> held t"
  obtains r t1 h1 w1 where "HostPtr_AddDevice x (Some p) t h w = Mem ((r, t1, h1), w1)"
    and "HostManager_AddDevice x (Some d) (host_of h t) w = ((r, host_of h1 t1), w1)"
    and "owns t1 h1" and "dom h1 - held t1 = dom h - held t - {p}"
proof (cases "map_of t (device_name (dev_busNum d) (dev_devAddr d))")
  case None
  let ?t = "fst (cmap_insert (device_name (dev_busNum d) (dev_devAddr d)) (Some p) t)"
  let ?w = "snd (HostManager_PublishCommonEvent x COMMON_EVENT_USB_DEVICE_ATTACHED d w)"
  have "HostPtr_AddDevice x (Some p) t h w = Mem ((True, ?t, h), ?w)"
    using None assms by (simp add: HostPtr_AddDevice_def load_device_def split: prod.splits)
  moreover have "HostManager_AddDevice x (Some d) (host_of h t) w = ((True, host_of h ?t), ?w)"
    using None assms by (simp add: HostManager_AddDevice_def host_of_find host_of_insert split: prod.splits)
  moreover have "owns ?t h" using None assms by (simp add: owns_insert)
  moreover have "dom h - held ?t = dom h - held t - {p}"
    using None assms(1) by (auto simp: held_insert owns_def)
  ultimately show thesis by (rule that)
next
  case (Some q)
  let ?n = "device_name (dev_busNum d) (dev_devAddr d)"
  let ?rest = "cmap_erase ?n t"
  let ?t = "fst (cmap_insert ?n (Some p) ?rest)"
  let ?w = "snd (HostManager_PublishCommonEvent x COMMON_EVENT_USB_DEVICE_ATTACHED d w)"
  from owns_find [OF assms(1) Some] obtain a e where q: "q = Some a" "h a = Some e" "a \<in> held t" by blast
  let ?h = "h(a := None)"
  have held: "held ?rest = held t - {a}" using held_erase [OF assms(1)] Some q by simp
  have pa: "p \<noteq> a" using q(3) assms(3) by blast
  have none: "map_of ?rest ?n = None" by (simp add: cmap_find_erase)
  have own0: "owns ?rest ?h" by (rule owns_upd [OF owns_erase [OF assms(1)]]) (simp add: held)
  have "HostPtr_AddDevice x (Some p) t h w = Mem ((True, ?t, ?h), ?w)"
    using Some q assms
    by (simp add: HostPtr_AddDevice_def load_device_def delete_device_def Let_def split: prod.splits)
  moreover have "HostManager_AddDevice x (Some d) (host_of h t) w = ((True, host_of ?h ?t), ?w)"
  proof -
    have "host_of ?h ?rest = host_of h t\<lparr>hm_devices := cmap_erase ?n (hm_devices (host_of h t))\<rparr>"
      by (subst view_upd) (simp_all add: held host_of_erase)
    with Some pa assms(2) show ?thesis
      by (simp add: HostManager_AddDevice_def host_of_find host_of_insert Let_def split: prod.splits)
  qed
  moreover have "owns ?t ?h" by (rule owns_insert [OF own0 none]) (use pa assms(2,3) held in auto)
  moreover have "dom ?h - held ?t = dom h - held t - {p}"
    using held_insert [of ?rest ?n p] none own0 held q(3) by (auto simp: owns_def)
  ultimately show thesis by (rule that)
qed

section \<open>The service\<close>

text \<open>The same service by value: its host manager is the table seen through the store.\<close>

definition by_value :: "UsbService \<Rightarrow> ptr_table option \<Rightarrow> dev_heap \<Rightarrow> UsbService" where
  "by_value sv hp h = sv\<lparr>sv_host := map_option (host_of h) hp\<rparr>"

text \<open>
  When \<open>AddDevice\<close> gives up without deleting its object: after \<open>memset_s\<close> failed, and without a
  host manager.
\<close>

definition AddDevice_forgets ::
  "usbd_layout \<Rightarrow> uec_codes \<Rightarrow> 'w ext \<Rightarrow> u8 \<Rightarrow> u8 \<Rightarrow> ptr_table option \<Rightarrow> 'w \<Rightarrow> bool" where
  "AddDevice_forgets L E x b a hp w \<longleftrightarrow>
     (let (allocated, w1) = x_alloc x w; (zeroed, w2) = x_memset_s x w1
      in allocated \<and> (\<not> zeroed \<or> hp = None \<and>
           (case GetDeviceInfo L E x b a UsbDevice_zero w2 of
              Some (Mem ((ret, d), w3)) \<Rightarrow> ret = UEC_OK E | _ \<Rightarrow> False)))"

lemma owns_opt_upd: "owns_opt hp h \<Longrightarrow> h p = None \<Longrightarrow> owns_opt hp (h(p := v))"
  unfolding owns_opt_def by (auto intro!: owns_upd) (metis held_iff option.distinct(1) option.inject owns_def image_eqI snd_conv)

lemma owned_held: "owns t h \<Longrightarrow> h p = None \<Longrightarrow> p \<notin> held t"
  by (auto simp: owns_def held_def)

lemma leaked_upd:
  "owns_opt hp h \<Longrightarrow> h p = None \<Longrightarrow> leaked hp (h(p := v)) = leaked hp h \<union> (if v = None then {} else {p})"
  using owned_held by (auto simp: leaked_def owns_opt_def split: option.splits)

lemma by_value_upd: "owns_opt hp h \<Longrightarrow> h p = None \<Longrightarrow> by_value sv hp (h(p := v)) = by_value sv hp h"
  using owned_held by (cases hp) (simp_all add: by_value_def owns_opt_def view_upd)

text \<open>
  Attaching: the result, the events and the table are those of the operation by value; it reads
  outside memory only where the descriptor parser does; and the new object is lost exactly
  when \<open>AddDevice_forgets\<close>.
\<close>

lemma AddDevice_refines:
  assumes "owns_opt hp h" and "h p = None"
  shows "case ServicePtr_AddDevice L E x p obj b a hp h w of
      None \<Rightarrow> Service_AddDevice L E x b a (by_value sv hp h) w = None
    | Some BadRead \<Rightarrow> Service_AddDevice L E x b a (by_value sv hp h) w = Some BadRead
    | Some (Mem ((r, hp1, h1), w1)) \<Rightarrow>
        Service_AddDevice L E x b a (by_value sv hp h) w = Some (Mem ((r, by_value sv hp1 h1), w1)) \<and>
        owns_opt hp1 h1 \<and>
        leaked hp1 h1 = leaked hp h \<union> (if AddDevice_forgets L E x b a hp w then {p} else {})"
proof -
  obtain al w1 z w2 where ext: "x_alloc x w = (al, w1)" "x_memset_s x w1 = (z, w2)" by (metis surj_pair)
  note upd = by_value_upd [OF assms] owns_opt_upd [OF assms] leaked_upd [OF assms]
  note defs = ServicePtr_AddDevice_def Service_AddDevice_def AddDevice_forgets_def ext Let_def assms upd
  consider "\<not> al" | "al" "\<not> z" | "al" "z" "GetDeviceInfo L E x b a UsbDevice_zero w2 = None"
    | "al" "z" "GetDeviceInfo L E x b a UsbDevice_zero w2 = Some BadRead"
    | ret d w3 where "al" "z" "GetDeviceInfo L E x b a UsbDevice_zero w2 = Some (Mem ((ret, d), w3))"
    by (metis mem.exhaust not_None_eq surj_pair)
  then show ?thesis
  proof cases
    case (5 ret d w3)
    show ?thesis
    proof (cases "ret = UEC_OK E")
      case False
      have "h(p := None) = h" using assms(2) by (simp add: fun_upd_idem)
      with 5 False assms show ?thesis by (simp add: defs run_bind_def delete_device_def)
    next
      case True
      show ?thesis
      proof (cases hp)
        case None
        with 5 True show ?thesis using upd(1,2,3) by (simp add: defs run_bind_def by_value_def)
      next
        case (Some t)
        have own: "owns t (h(p \<mapsto> d))" and out: "p \<notin> held t"
          using assms Some owned_held upd(2) by (auto simp: owns_opt_def)
        obtain r t1 h1 w4 where "HostPtr_AddDevice x (Some p) t (h(p \<mapsto> d)) w3 = Mem ((r, t1, h1), w4)"
          and "HostManager_AddDevice x (Some d) (host_of (h(p \<mapsto> d)) t) w3 = ((r, host_of h1 t1), w4)"
          and "owns t1 h1" and "dom h1 - held t1 = dom (h(p \<mapsto> d)) - held t - {p}"
          by (rule HostPtr_AddDevice_refines [OF own _ out, of d x w3]) simp
        with 5 True Some out assms show ?thesis
          by (auto simp: defs run_bind_def by_value_def owns_opt_def leaked_def view_upd)
      qed
    qed
  qed (simp_all add: defs run_bind_def)
qed

lemma DelDevice_refines:
  assumes "owns_opt hp h"
  obtains r hp1 h1 w1 where "ServicePtr_DelDevice x b a hp h w = Mem ((r, hp1, h1), w1)"
    and "Service_DelDevice x b a (by_value sv hp h) w = ((r, by_value sv hp1 h1), w1)"
    and "owns_opt hp1 h1" and "leaked hp1 h1 = leaked hp h" and "hp1 = None \<longleftrightarrow> hp = None"
proof (cases hp)
  case None
  with that [of False None h "snd (Service_Close x b a w)"] show thesis
    by (simp add: ServicePtr_DelDevice_def Service_DelDevice_def by_value_def owns_opt_def split_beta)
next
  case (Some t)
  with assms have own: "owns t h" by (simp add: owns_opt_def)
  obtain ret w0 where close: "Service_Close x b a w = (ret, w0)" by fastforce
  obtain r t1 h1 w1 where "HostPtr_DelDevice x b a t h w0 = Mem ((r, t1, h1), w1)"
    and "HostManager_DelDevice x b a (host_of h t) w0 = ((r, host_of h1 t1), w1)"
    and "owns t1 h1" and "dom h1 - held t1 = dom h - held t"
    by (rule HostPtr_DelDevice_refines [OF own, of x b a w0])
  with that [of r "Some t1" h1 w1] Some close show thesis
    by (simp add: ServicePtr_DelDevice_def Service_DelDevice_def by_value_def owns_opt_def leaked_def)
qed

lemma copy_pointees_eq:
  "\<forall>p \<in> snd ` set t. \<exists>a d. p = Some a \<and> h a = Some d \<Longrightarrow>
     copy_pointees t h ds = copy_devices (map (\<lambda>(n, p). (n, pointee h p)) t) ds"
  by (induction t h ds rule: copy_pointees.induct) (auto simp: load_device_def)

lemma GetDevices_refines:
  "owns_opt hp h \<Longrightarrow> ServicePtr_GetDevices E ds hp h = Service_GetDevices E ds (by_value sv hp h)"
  by (auto simp: ServicePtr_GetDevices_def Service_GetDevices_def by_value_def owns_opt_def owns_def
      HostPtr_GetDevices_def HostManager_GetDevices_def host_of_def copy_pointees_eq
      split: option.splits mem.splits)

text \<open>
  C15: The operations on pointers refine the operations by value.  With a table of live objects, each
  under one name, they return the same results, publish the same events and leave tables that agree;
  they read outside the live objects only where the descriptor parser itself does; and they lose
  an object only when \<open>AddDevice_forgets\<close> says so.
\<close>

theorem device_pointers_refine_values:
  assumes "owns_opt hp h" and "h p = None"
  shows "(case ServicePtr_AddDevice L E x p obj b a hp h w of
        None \<Rightarrow> Service_AddDevice L E x b a (by_value sv hp h) w = None
      | Some BadRead \<Rightarrow> Service_AddDevice L E x b a (by_value sv hp h) w = Some BadRead
      | Some (Mem ((r, hp1, h1), w1)) \<Rightarrow>
          Service_AddDevice L E x b a (by_value sv hp h) w = Some (Mem ((r, by_value sv hp1 h1), w1)) \<and>
          owns_opt hp1 h1 \<and>
          leaked hp1 h1 = leaked hp h \<union> (if AddDevice_forgets L E x b a hp w then {p} else {})) \<and>
    (case ServicePtr_DelDevice x b a hp h w of
        BadRead \<Rightarrow> False
      | Mem ((r, hp1, h1), w1) \<Rightarrow>
          Service_DelDevice x b a (by_value sv hp h) w = ((r, by_value sv hp1 h1), w1) \<and>
          owns_opt hp1 h1 \<and> leaked hp1 h1 = leaked hp h) \<and>
    ServicePtr_GetDevices E ds hp h = Service_GetDevices E ds (by_value sv hp h)"
proof (intro conjI)
  show "case ServicePtr_DelDevice x b a hp h w of
        BadRead \<Rightarrow> False
      | Mem ((r, hp1, h1), w1) \<Rightarrow>
          Service_DelDevice x b a (by_value sv hp h) w = ((r, by_value sv hp1 h1), w1) \<and>
          owns_opt hp1 h1 \<and> leaked hp1 h1 = leaked hp h"
    by (rule DelDevice_refines [OF assms(1), of x b a w sv]) simp
qed (fact AddDevice_refines [OF assms] GetDevices_refines [OF assms(1)])+

section \<open>Histories\<close>

text \<open>
  Attachments and removals, one after the other, on the service with its host manager.  The
  allocator may return any address that is not in use, also one used before.
\<close>

type_synonym 'w memory_state = "ptr_table option \<times> dev_heap \<times> 'w"

inductive memory_step ::
  "usbd_layout \<Rightarrow> uec_codes \<Rightarrow> 'w ext \<Rightarrow> 'w memory_state \<Rightarrow> 'w memory_state \<Rightarrow> bool"
  for L :: usbd_layout and E :: uec_codes and x :: "'w ext" where
  attach: "h p = None \<Longrightarrow> ServicePtr_AddDevice L E x p obj b a hp h w = Some (Mem ((r, hp1, h1), w1)) \<Longrightarrow>
    memory_step L E x (hp, h, w) (hp1, h1, w1)"
| detach: "ServicePtr_DelDevice x b a hp h w = Mem ((r, hp1, h1), w1) \<Longrightarrow>
    memory_step L E x (hp, h, w) (hp1, h1, w1)"
| elsewhere: "memory_step L E x (hp, h, w) (hp, h, w1)"

text \<open>Every live object is in the table under one name, and every table entry is live.\<close>

definition memory_inv :: "'w memory_state \<Rightarrow> bool" where
  "memory_inv s \<longleftrightarrow> (case s of (hp, h, w) \<Rightarrow>
     hp \<noteq> None \<and> owns_opt hp h \<and> leaked hp h = {})"

lemma AddDevice_keeps_manager:
  "ServicePtr_AddDevice L E x p obj b a (Some t) h w = Some (Mem ((r, hp1, h1), w1)) \<Longrightarrow> hp1 \<noteq> None"
  by (auto simp: ServicePtr_AddDevice_def Let_def run_bind_def mem_bind_def
      split: prod.splits if_splits option.splits mem.splits)

lemma attach_inv:
  assumes "\<And>w. fst (x_memset_s x w)" and "h p = None" and "memory_inv (hp, h, w)"
    and "ServicePtr_AddDevice L E x p obj b a hp h w = Some (Mem ((r, hp1, h1), w1))"
  shows "memory_inv (hp1, h1, w1)"
proof -
  from assms(3) obtain t where hp: "hp = Some t" "owns_opt hp h" "leaked hp h = {}"
    by (auto simp: memory_inv_def)
  have "\<not> AddDevice_forgets L E x b a hp w"
    using assms(1) hp(1) by (auto simp: AddDevice_forgets_def Let_def split: prod.splits) (metis fst_conv)
  with AddDevice_refines [where obj = obj and sv = undefined, OF hp(2) assms(2), of L E x b a w] hp assms AddDevice_keeps_manager
  show ?thesis by (fastforce simp: memory_inv_def)
qed

lemma detach_inv:
  assumes "memory_inv (hp, h, w)" and "ServicePtr_DelDevice x b a hp h w = Mem ((r, hp1, h1), w1)"
  shows "memory_inv (hp1, h1, w1)"
proof -
  from assms(1) have own: "owns_opt hp h" by (simp add: memory_inv_def)
  show ?thesis
    by (rule DelDevice_refines [OF own, of x b a w undefined])
      (use assms in \<open>auto simp: memory_inv_def\<close>)
qed

lemma memory_step_inv:
  assumes "\<And>w. fst (x_memset_s x w)" and "memory_step L E x s s1" and "memory_inv s"
  shows "memory_inv s1"
  using assms(2)
proof cases
  case attach
  then show ?thesis using attach_inv [OF assms(1)] assms(3) by blast
next
  case detach
  with assms(3) show ?thesis by (auto intro: detach_inv)
qed (use assms(3) in \<open>simp add: memory_inv_def\<close>)

lemma memory_start: "memory_inv (Some [], Map.empty, w)"
  by (simp add: memory_inv_def owns_opt_def leaked_def)

text \<open>Reading the table of exactly owned objects lists every live object once.\<close>

lemma copy_pointees_owned:
  "\<forall>p \<in> snd ` set t. \<exists>a d. p = Some a \<and> h a = Some d \<Longrightarrow>
     copy_pointees t h ds = Mem (ds @ map (\<lambda>(n, p). the (pointee h p)) t)"
  by (induction t h ds rule: copy_pointees.induct) (auto simp: load_device_def)

text \<open>
  C14: However devices come and go, one event after the other, the live objects are exactly those in
  the table, each under one name: nothing is lost, nothing is deleted twice, and \<open>GetDevices\<close>
  reads live objects only and lists each of them once.
\<close>

theorem device_objects_exact:
  assumes "\<And>w. fst (x_memset_s x w)"
    and "(memory_step L E x)\<^sup>*\<^sup>* (Some [], Map.empty, w) (hp, h, w1)"
  shows "\<exists>t. hp = Some t \<and> owns t h \<and> dom h = held t \<and>
    ServicePtr_GetDevices E ds hp h = Mem (UEC_OK E, ds @ map (\<lambda>(n, p). the (pointee h p)) t)"
proof -
  have "step_invariant (memory_step L E x) memory_inv"
    by unfold_locales (rule memory_step_inv [OF assms(1)])
  from step_invariant.steps_inv [OF this assms(2) memory_start] have "memory_inv (hp, h, w1)" .
  then obtain t where t: "hp = Some t" "owns t h" "dom h \<subseteq> held t"
    by (auto simp: memory_inv_def owns_opt_def leaked_def)
  moreover have "held t \<subseteq> dom h" using t(2) by (auto simp: owns_def held_def)
  moreover have "copy_pointees t h ds = Mem (ds @ map (\<lambda>(n, p). the (pointee h p)) t)"
    using t(2) by (intro copy_pointees_owned) (simp add: owns_def)
  ultimately show ?thesis by (auto simp: ServicePtr_GetDevices_def HostPtr_GetDevices_def)
qed

text \<open>A device whose descriptors cannot be read is registered all the same.\<close>

lemma sample_attach:
  "\<exists>d w1. ServicePtr_AddDevice usb20_layout sample_codes sample_ext p UsbDevice_zero 1 2 (Some []) Map.empty
     sample_state = Some (Mem ((True, Some [(''0-0'', Some p)], [p \<mapsto> d]), w1))"
proof -
  obtain r d w where fill: "FillDevStrings sample_codes sample_ext (UsbDevice_zero\<lparr>dev_configs := []\<rparr>)
      (sample_state\<lparr>sw_open := True\<rparr>) = ((r, d), w)" by (metis surj_pair)
  note keeps = FillDevStrings_keeps [OF fill]
  have conf: "GetConfigDescriptor usb20_layout sample_codes sample_ext UsbDevice_zero []
      (sample_state\<lparr>sw_open := True\<rparr>) = Some (Mem ((UEC_OK sample_codes, d), w))"
    using fill keeps(1)
    by (simp add: GetConfigDescriptor_def run_bind_def UsbDevice_GetDescConfigCount_def UsbDevice_zero_def)
  have "GetDeviceInfo usb20_layout sample_codes sample_ext 1 2 UsbDevice_zero sample_state =
      Some (Mem ((UEC_OK sample_codes, d), snd (x_CloseDevice sample_ext (usb_dev 1 2) w)))"
    using conf by (simp add: GetDeviceInfo_def GetDeviceInfoDescriptor_def sample_ext_def sample_state_def
        sample_codes_def run_bind_def)
  moreover have "device_name (dev_busNum d) (dev_devAddr d) = ''0-0''"
    using keeps(2) by (simp add: dev_key_of_def UsbDevice_zero_def device_name_def) code_simp
  ultimately show ?thesis
    by (simp add: ServicePtr_AddDevice_def sample_ext_def run_bind_def HostPtr_AddDevice_def load_device_def
        split: prod.splits) auto
qed

lemma by_value_new: "by_value UsbService_new (Some []) Map.empty = UsbService_new"
  by (simp add: by_value_def host_of_def UsbService_new_def UsbHostManager_new_def)

theorem device_pointers_refine_values_witness:
  "\<exists>d w1. Service_AddDevice usb20_layout sample_codes sample_ext 1 2 UsbService_new sample_state =
      Some (Mem ((True, by_value UsbService_new (Some [(''0-0'', Some 7)]) [7 \<mapsto> d]), w1)) \<and>
    leaked (Some [(''0-0'', Some 7)]) [7 \<mapsto> d] = {}"
proof -
  obtain d w1 where run: "ServicePtr_AddDevice usb20_layout sample_codes sample_ext 7 UsbDevice_zero 1 2
      (Some []) Map.empty sample_state = Some (Mem ((True, Some [(''0-0'', Some 7)], [7 \<mapsto> d]), w1))"
    using sample_attach by blast
  have "owns_opt (Some []) Map.empty" "(Map.empty :: dev_heap) 7 = None" by (simp_all add: owns_opt_def)
  from device_pointers_refine_values [where h = Map.empty and p = 7 and obj = UsbDevice_zero, OF this,
      of usb20_layout sample_codes sample_ext 1 2 UsbService_new sample_state] run
  show ?thesis by (auto simp: by_value_new leaked_def held_def)
qed

theorem device_objects_exact_witness:
  "\<exists>d w1. (memory_step usb20_layout sample_codes sample_ext)\<^sup>*\<^sup>* (Some [], Map.empty, sample_state)
      (Some [(''0-0'', Some 7)], [7 \<mapsto> d], w1) \<and>
    ServicePtr_GetDevices sample_codes [] (Some [(''0-0'', Some 7)]) [7 \<mapsto> d] = Mem (UEC_OK sample_codes, [d])"
proof -
  obtain d w1 where run: "ServicePtr_AddDevice usb20_layout sample_codes sample_ext 7 UsbDevice_zero 1 2
      (Some []) Map.empty sample_state = Some (Mem ((True, Some [(''0-0'', Some 7)], [7 \<mapsto> d]), w1))"
    using sample_attach by blast
  have steps: "(memory_step usb20_layout sample_codes sample_ext)\<^sup>*\<^sup>* (Some [], Map.empty, sample_state)
      (Some [(''0-0'', Some 7)], [7 \<mapsto> d], w1)"
    by (rule r_into_rtranclp) (rule memory_step.attach [OF _ run], simp)
  have "\<And>w. fst (x_memset_s sample_ext w)" by (simp add: sample_ext_def)
  from device_objects_exact [OF this steps, of "[]"] steps show ?thesis by auto
qed

end
