(* ===== verification/Usb_Races.thy ===== *)
theory Usb_Races
  imports Usb_Memory
begin

text \<open>
  The device table under threads.  Requests of applications and events of the driver arrive on
  threads of their own, and \<open>UsbHostManager\<close> has no lock.  Here an operation is broken where another
  thread can run: between the steps of the table, the object and the publication.  Each step itself
  is taken to be atomic, which is more than the code gives.
\<close>

section \<open>Threads and steps\<close>

text \<open>
  Where a thread is: \<open>GetDevices\<close> has copied the table and reads the objects; \<open>DelDevice\<close> has found
  the entry (an iterator: its name and pointer), has published, has deleted the object; \<open>AddDevice\<close>
  the same for the object it replaces.  \<open>Faulted\<close>: it has used a deleted object or a stale iterator.
\<close>

datatype host_pc =
  ListStart
| Listing "nat option list" "UsbDevice list"
| ListEnd "UsbDevice list"
| DelStart u8 u8
| DelFound string nat
| DelPublished string nat
| DelFreed string nat
| DelEnd bool
| AddStart nat
| AddPublished nat
| AddFound string nat "nat option"
| AddFreed string nat "nat option"
| AddErased string nat
| AddEnd
| Faulted

record host_race =
  hr_table :: ptr_table
  hr_heap :: dev_heap
  hr_pc :: "nat \<Rightarrow> host_pc"

definition race_goes :: "nat \<Rightarrow> host_pc \<Rightarrow> host_race \<Rightarrow> host_race" where
  "race_goes i p g = g\<lparr>hr_pc := (hr_pc g)(i := p)\<rparr>"

inductive host_race_step :: "host_race \<Rightarrow> host_race \<Rightarrow> bool" where
  list_copy: "hr_pc g i = ListStart \<Longrightarrow>
    host_race_step g (race_goes i (Listing (map snd (HostPtr_GetDevices (hr_table g))) []) g)"
| list_read: "hr_pc g i = Listing (p # ps) ds \<Longrightarrow> load_device p (hr_heap g) = Mem d \<Longrightarrow>
    host_race_step g (race_goes i (Listing ps (ds @ [d])) g)"
| list_fault: "hr_pc g i = Listing (p # ps) ds \<Longrightarrow> load_device p (hr_heap g) = BadRead \<Longrightarrow>
    host_race_step g (race_goes i Faulted g)"
| list_end: "hr_pc g i = Listing [] ds \<Longrightarrow> host_race_step g (race_goes i (ListEnd ds) g)"
| del_absent: "hr_pc g i = DelStart b a \<Longrightarrow> map_of (hr_table g) (device_name b a) \<in> {None, Some None} \<Longrightarrow>
    host_race_step g (race_goes i (DelEnd False) g)"
| del_find: "hr_pc g i = DelStart b a \<Longrightarrow> map_of (hr_table g) (device_name b a) = Some (Some q) \<Longrightarrow>
    host_race_step g (race_goes i (DelFound (device_name b a) q) g)"
| del_publish: "hr_pc g i = DelFound n q \<Longrightarrow> load_device (Some q) (hr_heap g) = Mem d \<Longrightarrow>
    host_race_step g (race_goes i (DelPublished n q) g)"
| del_publish_fault: "hr_pc g i = DelFound n q \<Longrightarrow> load_device (Some q) (hr_heap g) = BadRead \<Longrightarrow>
    host_race_step g (race_goes i Faulted g)"
| del_free: "hr_pc g i = DelPublished n q \<Longrightarrow> delete_device (Some q) (hr_heap g) = Mem h \<Longrightarrow>
    host_race_step g (race_goes i (DelFreed n q) (g\<lparr>hr_heap := h\<rparr>))"
| del_free_fault: "hr_pc g i = DelPublished n q \<Longrightarrow> delete_device (Some q) (hr_heap g) = BadRead \<Longrightarrow>
    host_race_step g (race_goes i Faulted g)"
| del_erase: "hr_pc g i = DelFreed n q \<Longrightarrow> map_of (hr_table g) n = Some (Some q) \<Longrightarrow>
    host_race_step g (race_goes i (DelEnd True) (g\<lparr>hr_table := cmap_erase n (hr_table g)\<rparr>))"
| del_erase_fault: "hr_pc g i = DelFreed n q \<Longrightarrow> map_of (hr_table g) n \<noteq> Some (Some q) \<Longrightarrow>
    host_race_step g (race_goes i Faulted g)"
| add_publish: "hr_pc g i = AddStart p \<Longrightarrow> load_device (Some p) (hr_heap g) = Mem d \<Longrightarrow>
    host_race_step g (race_goes i (AddPublished p) g)"
| add_find: "hr_pc g i = AddPublished p \<Longrightarrow> load_device (Some p) (hr_heap g) = Mem d \<Longrightarrow>
    n = device_name (dev_busNum d) (dev_devAddr d) \<Longrightarrow>
    host_race_step g (race_goes i (case map_of (hr_table g) n of
       None \<Rightarrow> AddErased n p | Some q \<Rightarrow> AddFound n p q) g)"
| add_free: "hr_pc g i = AddFound n p q \<Longrightarrow> delete_device q (hr_heap g) = Mem h \<Longrightarrow>
    host_race_step g (race_goes i (AddFreed n p q) (g\<lparr>hr_heap := h\<rparr>))"
| add_free_fault: "hr_pc g i = AddFound n p q \<Longrightarrow> delete_device q (hr_heap g) = BadRead \<Longrightarrow>
    host_race_step g (race_goes i Faulted g)"
| add_erase: "hr_pc g i = AddFreed n p q \<Longrightarrow> map_of (hr_table g) n = Some q \<Longrightarrow>
    host_race_step g (race_goes i (AddErased n p) (g\<lparr>hr_table := cmap_erase n (hr_table g)\<rparr>))"
| add_erase_fault: "hr_pc g i = AddFreed n p q \<Longrightarrow> map_of (hr_table g) n \<noteq> Some q \<Longrightarrow>
    host_race_step g (race_goes i Faulted g)"
| add_insert: "hr_pc g i = AddErased n p \<Longrightarrow>
    host_race_step g (race_goes i AddEnd (g\<lparr>hr_table := fst (cmap_insert n (Some p) (hr_table g))\<rparr>))"

lemma race_goes_simps [simp]:
  "hr_pc (race_goes i p g) i = p"
  "j \<noteq> i \<Longrightarrow> hr_pc (race_goes i p g) j = hr_pc g j"
  "hr_table (race_goes i p g) = hr_table g" "hr_heap (race_goes i p g) = hr_heap g"
  "race_goes i p (race_goes i q g) = race_goes i p g"
  by (simp_all add: race_goes_def)

lemma race_chain:
  "host_race_step g g1 \<Longrightarrow> host_race_step\<^sup>*\<^sup>* g1 g2 \<Longrightarrow> host_race_step\<^sup>*\<^sup>* g g2"
  by (rule converse_rtranclp_into_rtranclp)

section \<open>A thread that runs alone\<close>

text \<open>Undisturbed, a thread does what the operation of the manager does.\<close>

lemma DelDevice_alone:
  assumes "hr_pc g i = DelStart b a"
    and "HostPtr_DelDevice x b a (hr_table g) (hr_heap g) w = Mem ((r, t1, h1), w1)"
  shows "host_race_step\<^sup>*\<^sup>* g (race_goes i (DelEnd r) (g\<lparr>hr_heap := h1, hr_table := t1\<rparr>))"
proof (cases "map_of (hr_table g) (device_name b a) \<in> {None, Some None}")
  case True
  with assms have "r = False" "t1 = hr_table g" "h1 = hr_heap g" by (auto simp: HostPtr_DelDevice_def)
  with del_absent [OF assms(1) True] show ?thesis by (simp add: r_into_rtranclp)
next
  case False
  then obtain q where q: "map_of (hr_table g) (device_name b a) = Some (Some q)" by auto
  with assms(2) obtain d where d: "load_device (Some q) (hr_heap g) = Mem d"
    and del: "delete_device (Some q) (hr_heap g) = Mem h1"
    and res: "r = True" "t1 = cmap_erase (device_name b a) (hr_table g)"
    by (auto simp: HostPtr_DelDevice_def mem_bind_def split: mem.splits prod.splits)
  let ?n = "device_name b a"
  have "host_race_step g (race_goes i (DelFound ?n q) g)" by (rule del_find [OF assms(1) q])
  moreover have "host_race_step (race_goes i (DelFound ?n q) g) (race_goes i (DelPublished ?n q) g)"
    using del_publish [of "race_goes i (DelFound ?n q) g" i ?n q d] d by simp
  moreover have "host_race_step (race_goes i (DelPublished ?n q) g) (race_goes i (DelFreed ?n q) (g\<lparr>hr_heap := h1\<rparr>))"
    using del_free [of "race_goes i (DelPublished ?n q) g" i ?n q h1] del by (simp add: race_goes_def)
  moreover have "host_race_step (race_goes i (DelFreed ?n q) (g\<lparr>hr_heap := h1\<rparr>))
      (race_goes i (DelEnd r) (g\<lparr>hr_heap := h1, hr_table := t1\<rparr>))"
    using del_erase [of "race_goes i (DelFreed ?n q) (g\<lparr>hr_heap := h1\<rparr>)" i ?n q] q res
    by (simp add: race_goes_def)
  ultimately show ?thesis by (meson race_chain r_into_rtranclp)
qed

lemma AddDevice_alone:
  assumes "hr_pc g i = AddStart p"
    and "HostPtr_AddDevice x (Some p) (hr_table g) (hr_heap g) w = Mem ((r, t1, h1), w1)"
  shows "host_race_step\<^sup>*\<^sup>* g (race_goes i AddEnd (g\<lparr>hr_heap := h1, hr_table := t1\<rparr>))"
proof -
  from assms(2) obtain d where d: "load_device (Some p) (hr_heap g) = Mem d"
    by (auto simp: HostPtr_AddDevice_def mem_bind_def split: mem.splits)
  let ?n = "device_name (dev_busNum d) (dev_devAddr d)"
  let ?pub = "race_goes i (AddPublished p) g"
  let ?found = "case map_of (hr_table g) ?n of None \<Rightarrow> AddErased ?n p | Some q \<Rightarrow> AddFound ?n p q"
  have start: "host_race_step g ?pub" "host_race_step ?pub (race_goes i ?found g)"
    using add_publish [OF assms(1) d] add_find [of ?pub i p d ?n] d by simp_all
  show ?thesis
  proof (cases "map_of (hr_table g) ?n")
    case None
    with assms(2) d have res: "h1 = hr_heap g" "t1 = fst (cmap_insert ?n (Some p) (hr_table g))"
      by (simp_all add: HostPtr_AddDevice_def split: prod.splits)
    have "host_race_step (race_goes i ?found g) (race_goes i AddEnd (g\<lparr>hr_heap := h1, hr_table := t1\<rparr>))"
      using add_insert [of "race_goes i ?found g" i ?n p] None res by (simp add: race_goes_def)
    with start show ?thesis by (meson race_chain r_into_rtranclp)
  next
    case (Some q)
    let ?rest = "cmap_erase ?n (hr_table g)"
    from Some assms(2) d have del: "delete_device q (hr_heap g) = Mem h1"
      and res: "t1 = fst (cmap_insert ?n (Some p) ?rest)"
      by (auto simp: HostPtr_AddDevice_def mem_bind_def Let_def split: mem.splits prod.splits)
    let ?freed = "race_goes i (AddFreed ?n p q) (g\<lparr>hr_heap := h1\<rparr>)"
    let ?erased = "race_goes i (AddErased ?n p) (g\<lparr>hr_heap := h1, hr_table := ?rest\<rparr>)"
    have "host_race_step (race_goes i ?found g) ?freed"
      using add_free [of "race_goes i ?found g" i ?n p q h1] Some del by (simp add: race_goes_def)
    moreover have "host_race_step ?freed ?erased"
      using add_erase [of ?freed i ?n p q] Some by (simp add: race_goes_def)
    moreover have "host_race_step ?erased (race_goes i AddEnd (g\<lparr>hr_heap := h1, hr_table := t1\<rparr>))"
      using add_insert [of ?erased i ?n p] res by (simp add: race_goes_def)
    ultimately show ?thesis using start by (meson race_chain r_into_rtranclp)
  qed
qed

lemma listing_run:
  "hr_pc g i = Listing (us @ ps) ds \<Longrightarrow> \<forall>p \<in> set us. \<exists>a d. p = Some a \<and> hr_heap g a = Some d \<Longrightarrow>
     host_race_step\<^sup>*\<^sup>* g (race_goes i (Listing ps (ds @ map (\<lambda>p. the (pointee (hr_heap g) p)) us)) g)"
proof (induction us arbitrary: g ds)
  case Nil
  then have "race_goes i (Listing ps ds) g = g" by (simp add: race_goes_def fun_upd_idem)
  then show ?case by simp
next
  case (Cons p us)
  then obtain a d where p: "p = Some a" "hr_heap g a = Some d" by auto
  let ?g = "race_goes i (Listing (us @ ps) (ds @ [d])) g"
  have "host_race_step g ?g"
    using Cons.prems(1) p by (intro list_read [where p = p]) (simp_all add: load_device_def)
  moreover have "host_race_step\<^sup>*\<^sup>* ?g
      (race_goes i (Listing ps ((ds @ [d]) @ map (\<lambda>p. the (pointee (hr_heap ?g) p)) us)) ?g)"
    by (rule Cons.IH) (use Cons.prems(2) in simp_all)
  ultimately show ?case using p by (simp add: race_chain)
qed

lemma GetDevices_alone:
  assumes "hr_pc g i = ListStart" and "copy_pointees (HostPtr_GetDevices (hr_table g)) (hr_heap g) [] = Mem ds"
    and "owns (hr_table g) (hr_heap g)"
  shows "host_race_step\<^sup>*\<^sup>* g (race_goes i (ListEnd ds) g)"
proof -
  let ?ps = "map snd (hr_table g)"
  have live: "\<forall>p \<in> set ?ps. \<exists>a d. p = Some a \<and> hr_heap g a = Some d" using assms(3) by (auto simp: owns_def)
  have ds: "ds = map (\<lambda>p. the (pointee (hr_heap g) p)) ?ps"
    using assms(2) copy_pointees_owned [of "hr_table g" "hr_heap g" "[]"] live
    by (simp add: HostPtr_GetDevices_def case_prod_beta comp_def)
  have "host_race_step g (race_goes i (Listing (?ps @ []) []) g)"
    using list_copy [OF assms(1)] by (simp add: HostPtr_GetDevices_def)
  moreover have "host_race_step\<^sup>*\<^sup>* (race_goes i (Listing (?ps @ []) []) g) (race_goes i (Listing [] ds) g)"
    using listing_run [of "race_goes i (Listing (?ps @ []) []) g" i ?ps "[]" "[]"] live ds by simp
  moreover have "host_race_step (race_goes i (Listing [] ds) g) (race_goes i (ListEnd ds) g)"
    using list_end [of "race_goes i (Listing [] ds) g" i ds] by simp
  ultimately show ?thesis by (meson race_chain rtranclp.rtrancl_into_rtrancl)
qed

section \<open>Races\<close>

text \<open>The state after thread \<open>i\<close> has removed the device at the address \<open>q\<close>.\<close>

abbreviation removed :: "nat \<Rightarrow> u8 \<Rightarrow> u8 \<Rightarrow> nat \<Rightarrow> host_race \<Rightarrow> host_race" where
  "removed i b a q g \<equiv> race_goes i (DelEnd True)
     (g\<lparr>hr_heap := (hr_heap g)(q := None), hr_table := cmap_erase (device_name b a) (hr_table g)\<rparr>)"

lemma removal_run:
  assumes "hr_pc g i = DelStart b a" and "map_of (hr_table g) (device_name b a) = Some (Some q)"
    and "hr_heap g q = Some d"
  shows "host_race_step\<^sup>*\<^sup>* g (removed i b a q g)"
  by (rule DelDevice_alone [OF assms(1), of sample_ext sample_state _ _ _ "snd (HostManager_PublishCommonEvent
        sample_ext COMMON_EVENT_USB_DEVICE_DETACHED d sample_state)"])
    (use assms(2,3) in \<open>simp add: HostPtr_DelDevice_def load_device_def delete_device_def split: prod.splits\<close>)

text \<open>Threads that are about to use the object of an entry.\<close>

lemma listing_reaches:
  assumes "owns (hr_table g) (hr_heap g)" and "map_of (hr_table g) n = Some p" and "hr_pc g j = ListStart"
  obtains vs ds where "host_race_step\<^sup>*\<^sup>* g (race_goes j (Listing (p # vs) ds) g)"
proof -
  from assms(2) obtain us vs where split: "map snd (hr_table g) = us @ p # vs"
    by (metis map_of_SomeD image_eqI snd_conv set_map split_list)
  let ?g1 = "race_goes j (Listing (us @ p # vs) []) g"
  have "host_race_step g ?g1" using list_copy [OF assms(3)] split by (simp add: HostPtr_GetDevices_def)
  moreover have "set us \<subseteq> snd ` set (hr_table g)" by (metis split set_map set_append Un_upper1)
  with assms(1) have "\<forall>p \<in> set us. \<exists>a d. p = Some a \<and> hr_heap ?g1 a = Some d"
    unfolding owns_def by fastforce
  from listing_run [OF _ this, of j "p # vs" "[]"]
  have "host_race_step\<^sup>*\<^sup>* ?g1 (race_goes j (Listing (p # vs) (map (\<lambda>p. the (pointee (hr_heap g) p)) us)) g)"
    by simp
  ultimately show thesis by (intro that) (rule race_chain)
qed

lemma deletion_reaches:
  assumes "hr_pc g j = DelStart b a" and "map_of (hr_table g) (device_name b a) = Some (Some q)"
    and "hr_heap g q = Some d"
  shows "host_race_step\<^sup>*\<^sup>* g (race_goes j (DelPublished (device_name b a) q) g)"
proof -
  let ?g1 = "race_goes j (DelFound (device_name b a) q) g"
  have "host_race_step g ?g1" by (rule del_find [OF assms(1,2)])
  moreover have "host_race_step ?g1 (race_goes j (DelPublished (device_name b a) q) g)"
    using del_publish [of ?g1 j "device_name b a" q d] assms(3) by (simp add: load_device_def)
  ultimately show ?thesis by (meson race_chain r_into_rtranclp)
qed

text \<open>
  C16: Whatever devices are attached: while one thread removes any of them, a thread in \<open>GetDevices\<close> may
  read the deleted object, and a second removal of it may delete it again.
\<close>

theorem removal_races:
  assumes "owns (hr_table g) (hr_heap g)" and "map_of (hr_table g) (device_name b a) = Some p"
    and "hr_pc g i = DelStart b a" and "j \<noteq> i" and "hr_pc g j = ListStart \<or> hr_pc g j = DelStart b a"
  shows "\<exists>g1. host_race_step\<^sup>*\<^sup>* g g1 \<and> hr_pc g1 i = DelEnd True \<and> hr_pc g1 j = Faulted"
proof -
  from owns_find [OF assms(1,2)] obtain q d where q: "p = Some q" "hr_heap g q = Some d" by blast
  have "\<exists>pc. host_race_step\<^sup>*\<^sup>* g (race_goes j pc g) \<and>
      (\<forall>f. hr_pc f j = pc \<longrightarrow> hr_heap f q = None \<longrightarrow> host_race_step f (race_goes j Faulted f))"
    using assms(5)
  proof
    assume "hr_pc g j = ListStart"
    then obtain vs ds where "host_race_step\<^sup>*\<^sup>* g (race_goes j (Listing (p # vs) ds) g)"
      by (rule listing_reaches [OF assms(1,2)])
    moreover have "host_race_step f (race_goes j Faulted f)"
      if "hr_pc f j = Listing (p # vs) ds" "hr_heap f q = None" for f
      using list_fault [OF that(1)] that(2) q(1) by (simp add: load_device_def)
    ultimately show ?thesis by blast
  next
    assume "hr_pc g j = DelStart b a"
    with q assms(2) have "host_race_step\<^sup>*\<^sup>* g (race_goes j (DelPublished (device_name b a) q) g)"
      by (intro deletion_reaches) simp_all
    moreover have "host_race_step f (race_goes j Faulted f)"
      if "hr_pc f j = DelPublished (device_name b a) q" "hr_heap f q = None" for f
      using del_free_fault [OF that(1)] that(2) by (simp add: delete_device_def)
    ultimately show ?thesis by blast
  qed
  then obtain pc where pc: "host_race_step\<^sup>*\<^sup>* g (race_goes j pc g)"
    and fault: "\<And>f. hr_pc f j = pc \<Longrightarrow> hr_heap f q = None \<Longrightarrow> host_race_step f (race_goes j Faulted f)" by blast
  let ?g1 = "removed i b a q (race_goes j pc g)"
  have "host_race_step\<^sup>*\<^sup>* (race_goes j pc g) ?g1"
    by (rule removal_run) (use assms q in simp_all)
  moreover have "host_race_step ?g1 (race_goes j Faulted ?g1)"
    by (rule fault) (use assms(4) in \<open>simp_all add: race_goes_def\<close>)
  ultimately have "host_race_step\<^sup>*\<^sup>* g (race_goes j Faulted ?g1)"
    using pc by (meson rtranclp_trans rtranclp.rtrancl_into_rtrancl)
  then show ?thesis using assms(4) by (intro exI) (auto simp: race_goes_def)
qed

definition sample_race :: host_race where
  "sample_race = \<lparr>hr_table = [(''0-0'', Some 7)], hr_heap = [7 \<mapsto> UsbDevice_zero],
     hr_pc = (\<lambda>i. if i = 0 then DelStart 0 0 else ListStart)\<rparr>"

theorem removal_races_witness:
  "owns (hr_table sample_race) (hr_heap sample_race) \<and>
   (\<exists>g1. host_race_step\<^sup>*\<^sup>* sample_race g1 \<and> hr_pc g1 0 = DelEnd True \<and> hr_pc g1 1 = Faulted)"
proof -
  have own: "owns (hr_table sample_race) (hr_heap sample_race)"
    by (simp add: owns_def sample_race_def cmap_ok_def)
  have "device_name 0 0 = ''0-0''" by code_simp
  then have "map_of (hr_table sample_race) (device_name 0 0) = Some (Some 7)" by (simp add: sample_race_def)
  from removal_races [OF own this, of 0 1] own show ?thesis by (simp add: sample_race_def)
qed

end
