(* ===== verification/Usb_Guard.thy ===== *)
theory Usb_Guard
  imports Usb_Ipc_Props
begin

text \<open>
  What the rights of \<open>Usb_Right\<close> protect: four requests look at them, and every other request is
  served in the same way whatever they are.
\<close>

section \<open>Answers with other rights\<close>

text \<open>The requests whose handlers look at the rights, or change them.\<close>

definition right_codes :: "u32 set" where
  "right_codes = {USB_FUN_HAS_RIGHT, USB_FUN_REQUEST_RIGHT, USB_FUN_REMOVE_RIGHT, USB_FUN_OPEN_DEVICE}"

text \<open>An answer, with other rights put into the service it leaves.\<close>

definition with_rights :: "UsbRightManager option \<Rightarrow> ('p, 'w) stub_result \<Rightarrow> ('p, 'w) stub_result" where
  "with_rights rm res = map_option (map_mem (\<lambda>(v, sv, w). (v, sv\<lparr>sv_right := rm\<rparr>, w))) res"

named_theorems rightless "how other rights pass through a handler"

lemma with_rights_answer [rightless]:
  "with_rights rm (answer ret reply sv w) = answer ret reply (sv\<lparr>sv_right := rm\<rparr>) w"
  by (simp add: with_rights_def answer_def)

lemma with_rights_bad [rightless]: "with_rights rm (Some BadRead) = Some BadRead"
  by (simp add: with_rights_def)

lemma with_rights_read [rightless]:
  "with_rights rm (read_with_ret rd data fail k) =
     read_with_ret rd data (\<lambda>v. with_rights rm (fail v)) (\<lambda>v d. with_rights rm (k v d))"
  by (auto simp: read_with_ret_def split: prod.splits option.splits)

lemma with_rights_write [rightless]:
  "with_rights rm (write_with_ret P v reply fail k) =
     write_with_ret P v reply (\<lambda>d. with_rights rm (fail d)) (\<lambda>d. with_rights rm (k d))"
  by (auto simp: write_with_ret_def split: prod.splits option.splits)

lemma with_rights_control [rightless]:
  "with_rights rm (if c then s else t) = (if c then with_rights rm s else with_rights rm t)"
  "with_rights rm (case z of (a, b) \<Rightarrow> f a b) = (case z of (a, b) \<Rightarrow> with_rights rm (f a b))"
  "with_rights rm (case m of Mem v \<Rightarrow> g v | BadRead \<Rightarrow> t) =
     (case m of Mem v \<Rightarrow> with_rights rm (g v) | BadRead \<Rightarrow> with_rights rm t)"
  by (simp_all split: prod.splits mem.splits)

text \<open>The operations of the service that work on the service record.\<close>

lemma service_rightless [rightless]:
  "Service_GetDevices E ds (sv\<lparr>sv_right := rm\<rparr>) = Service_GetDevices E ds sv"
  "Service_GetSupportedModes E i m (sv\<lparr>sv_right := rm\<rparr>) = Service_GetSupportedModes E i m sv"
  "Service_SetCurrentFunctions E x f (sv\<lparr>sv_right := rm\<rparr>) w =
     (case Service_SetCurrentFunctions E x f sv w of ((r, sv1), w1) \<Rightarrow> ((r, sv1\<lparr>sv_right := rm\<rparr>), w1))"
  "Service_GetPorts E x ps (sv\<lparr>sv_right := rm\<rparr>) w =
     (case Service_GetPorts E x ps sv w of ((r, sv1), w1) \<Rightarrow> ((r, sv1\<lparr>sv_right := rm\<rparr>), w1))"
  by (simp_all add: Service_GetDevices_def Service_GetSupportedModes_def Service_SetCurrentFunctions_def
      Service_GetPorts_def split: option.splits prod.splits)

lemma GetDevices_rightless [rightless]:
  "DoGetDevices P E data reply (sv\<lparr>sv_right := rm\<rparr>) w = with_rights rm (DoGetDevices P E data reply sv w)"
  by (cases "Service_GetDevices E [] sv") (auto simp: rightless DoGetDevices_def split: prod.splits)

lemmas host_handlers =
  DoGetCurrentFunctions_def DoSetCurrentFunctions_def DoUsbFunctionsFromString_def
  DoUsbFunctionsToString_def DoClose_def DoRequestQueue_def DoRequestWait_def DoSetInterface_def
  DoSetActiveConfig_def DoRequestCancel_def DoBulkRead_def DoBulkWrite_def DoBulkCancel_def
  DoGetRawDescriptor_def

lemmas device_handlers =
  DoGetPorts_def DoGetSupportedModes_def DoSetPortRole_def DoClaimInterface_def
  DoReleaseInterface_def DoBulkTransferRead_def DoBulkTransferWrite_def DoControlTransfer_def
  DoRegBulkCallback_def DoUnRegBulkCallback_def DoGetFileDescriptor_def

lemma StubHost_rightless:
  "StubHost P E x junk code data reply (sv\<lparr>sv_right := rm\<rparr>) w =
     map_option (with_rights rm) (StubHost P E x junk code data reply sv w)"
  by (simp add: StubHost_def rightless host_handlers read_dev_def read_dev2_def Let_def case_prod_beta
      cong: if_cong)

lemma StubDevice_rightless:
  "code \<notin> right_codes \<Longrightarrow> StubDevice P E x code data reply (sv\<lparr>sv_right := rm\<rparr>) w =
     map_option (with_rights rm) (StubDevice P E x code data reply sv w)"
  by (simp add: StubDevice_def right_codes_def rightless device_handlers read_dev_def read_dev2_def Let_def
      case_prod_beta cong: if_cong)

text \<open>
  C17: Apart from asking for, testing and removing rights and opening a device, no request depends on
  the rights: with any others it calls the driver in the same way and gives the same answer.  An
  application without a single right may so claim interfaces, transfer data on every device and
  obtain its file descriptor.
\<close>

theorem requests_ignore_rights:
  assumes "code \<notin> right_codes"
  shows "OnRemoteRequest P E x base junk code data reply (sv\<lparr>sv_right := rm\<rparr>) w =
    with_rights rm (OnRemoteRequest P E x base junk code data reply sv w)"
  by (auto simp: OnRemoteRequest_def StubHost_rightless StubDevice_rightless [OF assms] rightless Let_def
      split: option.splits prod.splits)

text \<open>Without any right manager the file descriptor of device 1-2 is handed out.\<close>

theorem requests_ignore_rights_witness:
  "OnRemoteRequest list_parcel sample_codes sample_ext sample_base 0 USB_FUN_GET_FILEDESCRIPTOR
     [PToken IUsbSrv_GetDescriptor, P8 1, P8 2] [] (UsbService_new\<lparr>sv_right := None\<rparr>) sample_state =
   answer 0 [P32 7] (UsbService_new\<lparr>sv_right := None\<rparr>) sample_state"
proof -
  let ?data = "[PToken IUsbSrv_GetDescriptor, P8 1, P8 2]"
  have "OnRemoteRequest list_parcel sample_codes sample_ext sample_base 0 USB_FUN_GET_FILEDESCRIPTOR
      ?data [] UsbService_new sample_state = answer 0 [P32 7] UsbService_new sample_state"
    by (simp add: OnRemoteRequest_def StubHost_def StubDevice_def request_codes DoGetFileDescriptor_def
        read_dev_def read_with_ret_def write_with_ret_def list_parcel_def Service_GetFileDescriptor_def
        sample_ext_def sample_codes_def)
  moreover have "USB_FUN_GET_FILEDESCRIPTOR \<notin> right_codes" by (simp add: right_codes_def request_codes)
  ultimately show ?thesis by (subst requests_ignore_rights) (simp_all add: rightless)
qed

end
