(* ===== verification/Usb_Text.thy ===== *)
theory Usb_Text
  imports Usb_Model
begin

text \<open>
  The texts of endpoints, interfaces, configurations and devices that the service writes to its
  log (the \<open>ToString\<close> functions of \<open>usb_endpoint.h\<close>, \<open>usb_interface.h\<close>, \<open>usb_config.h\<close> and
  \<open>usb_device.h\<close>), and what can be read from them: as long as the names have no comma in them, two
  devices have the same text only if they agree in every member the text is made from.
\<close>

section \<open>Numbers\<close>

text \<open>\<open>std::to_string\<close>, and \<open><<\<close> into a stream, of an \<open>int32_t\<close>; an unsigned number is \<open>std_to_string\<close>
  of its value.\<close>

definition i32_to_string :: "i32 \<Rightarrow> string" where
  "i32_to_string n =
     (if sint n < 0 then ''-'' @ std_to_string (nat (- sint n)) else std_to_string (nat (sint n)))"

definition u32_to_string :: "u32 \<Rightarrow> string" where
  "u32_to_string n = std_to_string (unat n)"

text \<open>\<open>(int32_t)\<close> applied to a byte.\<close>

definition u8_to_string :: "u8 \<Rightarrow> string" where
  "u8_to_string n = i32_to_string (ucast n)"

section \<open>The texts\<close>

definition USBEndpoint_ToString :: "USBEndpoint \<Rightarrow> string" where
  "USBEndpoint_ToString ep =
     ''USBEndpoint:[Address:'' @ u32_to_string (ep_address ep) @
     '', Direction:'' @ u32_to_string (USBEndpoint_GetDirection ep) @
     '', Attributes:'' @ u32_to_string (ep_attributes ep) @
     '', EndpointNumber:'' @ u32_to_string (USBEndpoint_GetEndpointNumber ep) @
     '', Interval:'' @ i32_to_string (ep_interval ep) @
     '', MaxPacketSize:'' @ i32_to_string (ep_maxPacketSize ep) @
     '', Type:'' @ u32_to_string (USBEndpoint_GetType ep) @ '']''"

fun append_texts :: "('a \<Rightarrow> string) \<Rightarrow> 'a list \<Rightarrow> string \<Rightarrow> string" where
  "append_texts f [] str = str"
| "append_texts f (v # vs) str = append_texts f vs (str @ f v)"

definition UsbInterface_ToString :: "UsbInterface \<Rightarrow> string" where
  "UsbInterface_ToString i =
     (let ss = ''id='' @ i32_to_string (if_id i) @ '','' @
            ''name_='' @ if_name i @ '','' @
            ''iInterface_='' @ u8_to_string (if_iInterface i) @ '','' @
            ''klass_='' @ i32_to_string (if_klass i) @ '','' @
            ''subClass_='' @ i32_to_string (if_subClass i) @ '','' @
            ''protocol_='' @ i32_to_string (if_protocol i) @ '','' @
            ''alternateSetting_='' @ i32_to_string (if_alternateSetting i) @ '''';
          str = ''UsbInterface['' @ ss @ ''];    ''
      in append_texts USBEndpoint_ToString (if_endpoints i) str)"

definition USBConfig_ToString :: "USBConfig \<Rightarrow> string" where
  "USBConfig_ToString c =
     (let ss = ''name='' @ cfg_name c @ '','' @
            ''id='' @ i32_to_string (cfg_id c) @ '','' @
            ''iConfiguration='' @ u8_to_string (cfg_iConfiguration c) @ '','' @
            ''attributes='' @ u32_to_string (cfg_attributes c) @ '','' @
            ''maxPower='' @ i32_to_string (cfg_maxPower c) @ '';  '';
          str = ''USBConfig['' @ ss @ '']''
      in append_texts UsbInterface_ToString (cfg_interfaces c) str)"

definition UsbDevice_ToString :: "UsbDevice \<Rightarrow> string" where
  "UsbDevice_ToString d =
     (let ss = ''name_='' @ dev_name d @ '','' @
            ''manufacturerName_='' @ dev_manufacturerName d @ '','' @
            ''productName_='' @ dev_productName d @ '','' @
            ''version_='' @ dev_version d @ '','' @
            ''serial_='' @ dev_serial d @ '','' @
            ''busNum_='' @ u8_to_string (dev_busNum d) @ '','' @
            ''devAddr_='' @ u8_to_string (dev_devAddr d) @ '','' @
            ''vendorId_='' @ i32_to_string (dev_vendorId d) @ '','' @
            ''productId_='' @ i32_to_string (dev_productId d) @ '','' @
            ''klass_='' @ i32_to_string (dev_klass d) @ '','' @
            ''subClass_='' @ i32_to_string (dev_subClass d) @ '','' @
            ''protocol_='' @ i32_to_string (dev_protocol d) @ '''';
          str = ''UsbDevice['' @ ss @ ''];    '';
          strConfigs = append_texts USBConfig_ToString (dev_configs d) ''''
      in str @ strConfigs)"

lemma append_texts_eq: "append_texts f vs str = str @ concat (map f vs)"
  by (induction vs arbitrary: str) simp_all

section \<open>Reading a number back\<close>

text \<open>The characters of a number; what follows one in the texts is never among them.\<close>

definition num_char :: "char \<Rightarrow> bool" where
  "num_char c \<longleftrightarrow> c \<in> set ''-0123456789''"

definition stops :: "string \<Rightarrow> bool" where
  "stops s \<longleftrightarrow> s = [] \<or> \<not> num_char (hd s)"

lemma digit_num_char: "d < 10 \<Longrightarrow> num_char (digit_char d)"
  unfolding less_10_cases by (auto simp: num_char_def digit_char_def)

lemma std_to_string_num: "c \<in> set (std_to_string n) \<Longrightarrow> num_char c"
  using std_to_string_chars [of "{c. num_char c}" n] digit_num_char by auto

lemma i32_to_string_chars: "c \<in> set (i32_to_string n) \<Longrightarrow> num_char c"
  by (auto simp: i32_to_string_def std_to_string_num split: if_splits) (simp add: num_char_def)

lemma i32_to_string_inj: "i32_to_string m = i32_to_string n \<longleftrightarrow> m = n"
proof
  assume eq: "i32_to_string m = i32_to_string n"
  have dash: "CHR ''-'' # s \<noteq> std_to_string k" "std_to_string k \<noteq> CHR ''-'' # s" for s k
    using std_to_string_no_dash [of k] by (metis list.set_intros(1))+
  from eq have "sint m = sint n"
    by (auto simp: i32_to_string_def std_to_string_inj dash split: if_splits)
  then show "m = n" by (rule signed_word_eqI)
qed simp

text \<open>A printer whose texts consist of such characters and determine the number.\<close>

locale number_printer =
  fixes show_num :: "'n \<Rightarrow> string"
  assumes chars: "c \<in> set (show_num n) \<Longrightarrow> num_char c"
    and inj: "show_num m = show_num n \<longleftrightarrow> m = n"
begin

lemma split_off: "stops s \<Longrightarrow> stops t \<Longrightarrow> show_num m @ s = show_num n @ t \<longleftrightarrow> m = n \<and> s = t"
proof
  assume st: "stops s" "stops t" and eq: "show_num m @ s = show_num n @ t"
  have "takeWhile num_char (show_num k @ u) = show_num k" if "stops u" for k u
    using that chars [of _ k] by (cases u) (auto simp: stops_def takeWhile_append)
  with st eq show "m = n \<and> s = t" by (metis append_eq_append_conv inj)
qed simp

end

interpretation i32_text: number_printer i32_to_string
  by unfold_locales (rule i32_to_string_chars, assumption, rule i32_to_string_inj)

interpretation u32_text: number_printer u32_to_string
  by unfold_locales (simp_all add: u32_to_string_def std_to_string_num std_to_string_inj word_unat_eq_iff)

interpretation u8_text: number_printer u8_to_string
proof
  show "c \<in> set (u8_to_string n) \<Longrightarrow> num_char c" for c n
    by (simp add: u8_to_string_def i32_to_string_chars)
  show "u8_to_string m = u8_to_string n \<longleftrightarrow> m = n" for m n
    unfolding u8_to_string_def i32_to_string_inj by (metis ucast_u8_u32)
qed

lemmas number_splits = i32_text.split_off u32_text.split_off u8_text.split_off

section \<open>Reading a list of parts back\<close>

definition starts_with :: "string \<Rightarrow> string \<Rightarrow> bool" where
  "starts_with h s \<longleftrightarrow> take (length h) s = h"

lemma starts_with_append [simp]: "starts_with h (h @ s)"
  by (simp add: starts_with_def)

text \<open>
  A text of a part starts with a header and can be told from what follows it, provided that does
  not look like a piece of the part (\<open>ends\<close>).  Then a sequence of parts can be told from what
  follows, provided that does not start with the header.
\<close>

locale text_code =
  fixes code :: "'a \<Rightarrow> string"
    and view :: "'a \<Rightarrow> 'v"
    and good :: "'a \<Rightarrow> bool"
    and header :: string
    and ends :: "string \<Rightarrow> bool"
  assumes headed: "\<exists>s. code a = header @ s"
    and split: "good a \<Longrightarrow> good b \<Longrightarrow> ends s \<Longrightarrow> ends t \<Longrightarrow>
      code a @ s = code b @ t \<longleftrightarrow> view a = view b \<and> s = t"
    and again: "ends (header @ s)"
begin

lemma ends_list: "ends s \<Longrightarrow> ends (concat (map code as) @ s)"
  using headed again by (cases as) (auto simp: append_assoc, metis append_assoc)

lemma headed_list: "starts_with header (code a @ s)"
  using headed [of a] by auto

lemma list_split:
  assumes "\<forall>a \<in> set as. good a" and "\<forall>b \<in> set bs. good b"
    and "ends s" and "ends t" and "\<not> starts_with header s" and "\<not> starts_with header t"
  shows "concat (map code as) @ s = concat (map code bs) @ t \<longleftrightarrow> map view as = map view bs \<and> s = t"
  using assms
proof (induction as arbitrary: bs)
  case Nil
  then show ?case using headed_list by (cases bs) auto
next
  case (Cons a as)
  then show ?case
  proof (cases bs)
    case Nil
    with Cons.prems(6) headed_list [of a "concat (map code as) @ s"] show ?thesis by auto
  next
    case (Cons b bs')
    with Cons.IH [of bs'] Cons.prems show ?thesis
      by (simp add: split ends_list)
  qed
qed

end

section \<open>What the texts determine\<close>

text \<open>The members a text is made from.\<close>

definition ep_view :: "USBEndpoint \<Rightarrow> u32 \<times> u32 \<times> i32 \<times> i32" where
  "ep_view ep = (ep_address ep, ep_attributes ep, ep_interval ep, ep_maxPacketSize ep)"

definition if_view :: "UsbInterface \<Rightarrow> (i32 list \<times> string \<times> u8) \<times> (u32 \<times> u32 \<times> i32 \<times> i32) list" where
  "if_view i = (([if_id i, if_klass i, if_subClass i, if_protocol i, if_alternateSetting i], if_name i,
     if_iInterface i), map ep_view (if_endpoints i))"

definition cfg_view ::
  "USBConfig \<Rightarrow> (string \<times> i32 \<times> u8 \<times> u32 \<times> i32) \<times> ((i32 list \<times> string \<times> u8) \<times> (u32 \<times> u32 \<times> i32 \<times> i32) list) list" where
  "cfg_view c = ((cfg_name c, cfg_id c, cfg_iConfiguration c, cfg_attributes c, cfg_maxPower c),
     map if_view (cfg_interfaces c))"

definition same_text_members :: "UsbDevice \<Rightarrow> UsbDevice \<Rightarrow> bool" where
  "same_text_members d e \<longleftrightarrow>
     dev_name d = dev_name e \<and> dev_manufacturerName d = dev_manufacturerName e \<and>
     dev_productName d = dev_productName e \<and> dev_version d = dev_version e \<and>
     dev_serial d = dev_serial e \<and> dev_busNum d = dev_busNum e \<and> dev_devAddr d = dev_devAddr e \<and>
     dev_vendorId d = dev_vendorId e \<and> dev_productId d = dev_productId e \<and>
     dev_klass d = dev_klass e \<and> dev_subClass d = dev_subClass e \<and> dev_protocol d = dev_protocol e \<and>
     map cfg_view (dev_configs d) = map cfg_view (dev_configs e)"

definition comma_free :: "string \<Rightarrow> bool" where
  "comma_free s \<longleftrightarrow> CHR '','' \<notin> set s"

definition plain_config :: "USBConfig \<Rightarrow> bool" where
  "plain_config c \<longleftrightarrow> comma_free (cfg_name c) \<and> (\<forall>i \<in> set (cfg_interfaces c). comma_free (if_name i))"

definition plain_device :: "UsbDevice \<Rightarrow> bool" where
  "plain_device d \<longleftrightarrow> comma_free (dev_name d) \<and> comma_free (dev_manufacturerName d) \<and>
     comma_free (dev_productName d) \<and> comma_free (dev_version d) \<and> comma_free (dev_serial d) \<and>
     (\<forall>c \<in> set (dev_configs d). plain_config c)"

lemma comma_split:
  "comma_free a \<Longrightarrow> comma_free b \<Longrightarrow> a @ CHR '','' # s = b @ CHR '','' # t \<longleftrightarrow> a = b \<and> s = t"
  unfolding comma_free_def by (induction a arbitrary: b) (case_tac b; auto)+

lemma stops_Cons [simp]: "stops (c # s) \<longleftrightarrow> \<not> num_char c"
  by (simp add: stops_def)

lemma text_separators [simp]: "\<not> num_char CHR '',''" "\<not> num_char CHR '']''" "\<not> num_char CHR '';''"
  by (simp_all add: num_char_def)

lemmas text_splits = number_splits comma_split

lemma endpoint_split:
  "USBEndpoint_ToString a @ s = USBEndpoint_ToString b @ t \<longleftrightarrow> ep_view a = ep_view b \<and> s = t"
  by (auto simp: USBEndpoint_ToString_def ep_view_def text_splits USBEndpoint_GetDirection_def
      USBEndpoint_GetEndpointNumber_def USBEndpoint_GetType_def)

interpretation endpoint_text: text_code USBEndpoint_ToString ep_view "\<lambda>_. True" "''USBEndpoint:[''" "\<lambda>_. True"
  by unfold_locales (simp_all add: endpoint_split, simp add: USBEndpoint_ToString_def)

lemma interface_split:
  assumes "comma_free (if_name a)" and "comma_free (if_name b)"
    and "\<not> starts_with ''USBEndpoint:['' s" and "\<not> starts_with ''USBEndpoint:['' t"
  shows "UsbInterface_ToString a @ s = UsbInterface_ToString b @ t \<longleftrightarrow> if_view a = if_view b \<and> s = t"
proof -
  have "concat (map USBEndpoint_ToString (if_endpoints a)) @ s =
      concat (map USBEndpoint_ToString (if_endpoints b)) @ t \<longleftrightarrow>
    map ep_view (if_endpoints a) = map ep_view (if_endpoints b) \<and> s = t"
    by (rule endpoint_text.list_split) (use assms in simp_all)
  with assms show ?thesis
    by (auto simp: UsbInterface_ToString_def append_texts_eq if_view_def text_splits)
qed

interpretation interface_text: text_code UsbInterface_ToString if_view "\<lambda>i. comma_free (if_name i)"
  "''UsbInterface[''" "\<lambda>s. \<not> starts_with ''USBEndpoint:['' s"
  by unfold_locales (simp add: UsbInterface_ToString_def append_texts_eq, rule interface_split,
      assumption+, simp add: starts_with_def)

lemma config_split:
  assumes "plain_config a" and "plain_config b"
    and "\<not> starts_with ''USBEndpoint:['' s \<and> \<not> starts_with ''UsbInterface['' s"
    and "\<not> starts_with ''USBEndpoint:['' t \<and> \<not> starts_with ''UsbInterface['' t"
  shows "USBConfig_ToString a @ s = USBConfig_ToString b @ t \<longleftrightarrow> cfg_view a = cfg_view b \<and> s = t"
proof -
  have "concat (map UsbInterface_ToString (cfg_interfaces a)) @ s =
      concat (map UsbInterface_ToString (cfg_interfaces b)) @ t \<longleftrightarrow>
    map if_view (cfg_interfaces a) = map if_view (cfg_interfaces b) \<and> s = t"
    by (rule interface_text.list_split) (use assms in \<open>simp_all add: plain_config_def\<close>)
  with assms show ?thesis
    by (auto simp: USBConfig_ToString_def append_texts_eq cfg_view_def plain_config_def text_splits)
qed

interpretation config_text: text_code USBConfig_ToString cfg_view plain_config "''USBConfig[''"
  "\<lambda>s. \<not> starts_with ''USBEndpoint:['' s \<and> \<not> starts_with ''UsbInterface['' s"
  by unfold_locales (simp add: USBConfig_ToString_def append_texts_eq, rule config_split,
      assumption+, simp add: starts_with_def)

text \<open>
  When no name has a comma in it, the texts of two devices are equal exactly when the devices
  agree in every member the text is made from, down to their endpoints.
\<close>

theorem UsbDevice_ToString_eq_iff:
  assumes "plain_device d" and "plain_device e"
  shows "UsbDevice_ToString d = UsbDevice_ToString e \<longleftrightarrow> same_text_members d e"
proof -
  have "concat (map USBConfig_ToString (dev_configs d)) @ [] =
      concat (map USBConfig_ToString (dev_configs e)) @ [] \<longleftrightarrow>
    map cfg_view (dev_configs d) = map cfg_view (dev_configs e) \<and> ([] :: string) = []"
    by (rule config_text.list_split)
      (use assms in \<open>simp_all add: plain_device_def starts_with_def\<close>)
  with assms show ?thesis
    by (simp add: UsbDevice_ToString_def append_texts_eq plain_device_def same_text_members_def text_splits)
qed

text \<open>A comma in a name lets two different devices have the same text.\<close>

definition named_device :: "string \<Rightarrow> string \<Rightarrow> UsbDevice" where
  "named_device n m = UsbDevice_zero\<lparr>dev_name := n, dev_manufacturerName := m\<rparr>"

theorem UsbDevice_ToString_eq_iff_witness:
  "UsbDevice_ToString (named_device ''1-2'' ''a'') \<noteq> UsbDevice_ToString (named_device ''1-2'' ''b'') \<and>
   UsbDevice_ToString (named_device ''1-2,manufacturerName_='' ''b'') =
     UsbDevice_ToString (named_device ''1-2'' '',manufacturerName_=b'')"
proof -
  have plain: "plain_device (named_device ''1-2'' ''a'')" "plain_device (named_device ''1-2'' ''b'')"
    by (simp_all add: plain_device_def named_device_def UsbDevice_zero_def comma_free_def)
  from UsbDevice_ToString_eq_iff [OF this] show ?thesis
    by (simp add: same_text_members_def UsbDevice_ToString_def named_device_def UsbDevice_zero_def)
qed

end
