(* ===== verification/Usb_Members.thy ===== *)
theory Usb_Members
  imports Usb_Client
begin

text \<open>
  The getters and setters of the data classes (\<open>usb_endpoint.h\<close>, \<open>usb_interface.h\<close>, \<open>usb_config.h\<close>,
  \<open>usb_device.h\<close>, \<open>usb_request.h\<close>, \<open>usb_device_pipe.cpp\<close>).  The other theories read and update the
  fields of the records; here are the functions of the classes, the laws of a member that is read
  back as it was set, and the three members that are not.  A getter that returns a reference is
  the value it refers to; a change through the reference is a call of the setter.
\<close>

section \<open>Members\<close>

locale member =
  fixes get :: "'o \<Rightarrow> 'v"
    and put :: "'v \<Rightarrow> 'o \<Rightarrow> 'o"
  assumes get_put: "get (put v m) = v"
    and put_put: "put v (put u m) = put v m"
    and put_get: "put (get m) m = m"
begin

lemma put_eq_iff: "put v m = m \<longleftrightarrow> get m = v"
  using get_put [of v m] put_get [of m] by auto

lemma put_inj: "put u m = put v m \<longleftrightarrow> u = v"
  by (metis get_put)

text \<open>A change through a reference to the member.\<close>

lemma change: "get (put (f (get m)) m) = f (get m)"
  by (rule get_put)

end

section \<open>Endpoints\<close>

definition USBEndpoint_GetAddress :: "USBEndpoint \<Rightarrow> u32" where "USBEndpoint_GetAddress e = ep_address e"
definition USBEndpoint_SetAddr :: "u32 \<Rightarrow> USBEndpoint \<Rightarrow> USBEndpoint" where
  "USBEndpoint_SetAddr v e = e\<lparr>ep_address := v\<rparr>"
definition USBEndpoint_GetAttributes :: "USBEndpoint \<Rightarrow> u32" where "USBEndpoint_GetAttributes e = ep_attributes e"
definition USBEndpoint_SetAttr :: "u32 \<Rightarrow> USBEndpoint \<Rightarrow> USBEndpoint" where
  "USBEndpoint_SetAttr v e = e\<lparr>ep_attributes := v\<rparr>"
definition USBEndpoint_GetInterval :: "USBEndpoint \<Rightarrow> i32" where "USBEndpoint_GetInterval e = ep_interval e"
definition USBEndpoint_SetInterval :: "i32 \<Rightarrow> USBEndpoint \<Rightarrow> USBEndpoint" where
  "USBEndpoint_SetInterval v e = e\<lparr>ep_interval := v\<rparr>"
definition USBEndpoint_GetMaxPacketSize :: "USBEndpoint \<Rightarrow> i32" where "USBEndpoint_GetMaxPacketSize e = ep_maxPacketSize e"
definition USBEndpoint_SetMaxPacketSize :: "i32 \<Rightarrow> USBEndpoint \<Rightarrow> USBEndpoint" where
  "USBEndpoint_SetMaxPacketSize v e = e\<lparr>ep_maxPacketSize := v\<rparr>"
definition USBEndpoint_SetInterfaceId :: "u8 \<Rightarrow> USBEndpoint \<Rightarrow> USBEndpoint" where
  "USBEndpoint_SetInterfaceId v e = e\<lparr>ep_interfaceId := v\<rparr>"

lemmas ep_accessors =
  USBEndpoint_GetAddress_def USBEndpoint_SetAddr_def USBEndpoint_GetAttributes_def
  USBEndpoint_SetAttr_def USBEndpoint_GetInterval_def USBEndpoint_SetInterval_def
  USBEndpoint_GetMaxPacketSize_def USBEndpoint_SetMaxPacketSize_def
  USBEndpoint_SetInterfaceId_def

interpretation ep_address: member USBEndpoint_GetAddress USBEndpoint_SetAddr
  by unfold_locales (simp_all add: ep_accessors)
interpretation ep_attributes: member USBEndpoint_GetAttributes USBEndpoint_SetAttr
  by unfold_locales (simp_all add: ep_accessors)
interpretation ep_interval: member USBEndpoint_GetInterval USBEndpoint_SetInterval
  by unfold_locales (simp_all add: ep_accessors)
interpretation ep_maxPacketSize: member USBEndpoint_GetMaxPacketSize USBEndpoint_SetMaxPacketSize
  by unfold_locales (simp_all add: ep_accessors)

section \<open>Interfaces\<close>

definition UsbInterface_GetName :: "UsbInterface \<Rightarrow> string" where "UsbInterface_GetName i = if_name i"
definition UsbInterface_SetName :: "string \<Rightarrow> UsbInterface \<Rightarrow> UsbInterface" where
  "UsbInterface_SetName v i = i\<lparr>if_name := v\<rparr>"
definition UsbInterface_GetId :: "UsbInterface \<Rightarrow> i32" where "UsbInterface_GetId i = if_id i"
definition UsbInterface_SetId :: "i32 \<Rightarrow> UsbInterface \<Rightarrow> UsbInterface" where
  "UsbInterface_SetId v i = i\<lparr>if_id := v\<rparr>"
definition UsbInterface_GetClass :: "UsbInterface \<Rightarrow> i32" where "UsbInterface_GetClass i = if_klass i"
definition UsbInterface_SetClass :: "i32 \<Rightarrow> UsbInterface \<Rightarrow> UsbInterface" where
  "UsbInterface_SetClass v i = i\<lparr>if_klass := v\<rparr>"
definition UsbInterface_GetSubClass :: "UsbInterface \<Rightarrow> i32" where "UsbInterface_GetSubClass i = if_subClass i"
definition UsbInterface_SetSubClass :: "i32 \<Rightarrow> UsbInterface \<Rightarrow> UsbInterface" where
  "UsbInterface_SetSubClass v i = i\<lparr>if_subClass := v\<rparr>"
definition UsbInterface_GetAlternateSetting :: "UsbInterface \<Rightarrow> i32" where "UsbInterface_GetAlternateSetting i = if_alternateSetting i"
definition UsbInterface_SetAlternateSetting :: "i32 \<Rightarrow> UsbInterface \<Rightarrow> UsbInterface" where
  "UsbInterface_SetAlternateSetting v i = i\<lparr>if_alternateSetting := v\<rparr>"
definition UsbInterface_GetProtocol :: "UsbInterface \<Rightarrow> i32" where "UsbInterface_GetProtocol i = if_protocol i"
definition UsbInterface_SetProtocol :: "i32 \<Rightarrow> UsbInterface \<Rightarrow> UsbInterface" where
  "UsbInterface_SetProtocol v i = i\<lparr>if_protocol := v\<rparr>"
definition UsbInterface_GetEndpoints :: "UsbInterface \<Rightarrow> USBEndpoint list" where "UsbInterface_GetEndpoints i = if_endpoints i"
definition UsbInterface_SetEndpoints :: "USBEndpoint list \<Rightarrow> UsbInterface \<Rightarrow> UsbInterface" where
  "UsbInterface_SetEndpoints v i = i\<lparr>if_endpoints := v\<rparr>"
definition UsbInterface_GetiInterface :: "UsbInterface \<Rightarrow> u8" where "UsbInterface_GetiInterface i = if_iInterface i"
definition UsbInterface_SetiInterface :: "u8 \<Rightarrow> UsbInterface \<Rightarrow> UsbInterface" where
  "UsbInterface_SetiInterface v i = i\<lparr>if_iInterface := v\<rparr>"

lemmas intf_accessors =
  UsbInterface_GetName_def UsbInterface_SetName_def UsbInterface_GetId_def
  UsbInterface_SetId_def UsbInterface_GetClass_def UsbInterface_SetClass_def
  UsbInterface_GetSubClass_def UsbInterface_SetSubClass_def
  UsbInterface_GetAlternateSetting_def UsbInterface_SetAlternateSetting_def
  UsbInterface_GetProtocol_def UsbInterface_SetProtocol_def UsbInterface_GetEndpoints_def
  UsbInterface_SetEndpoints_def UsbInterface_GetiInterface_def UsbInterface_SetiInterface_def

interpretation intf_name: member UsbInterface_GetName UsbInterface_SetName
  by unfold_locales (simp_all add: intf_accessors)
interpretation intf_id: member UsbInterface_GetId UsbInterface_SetId
  by unfold_locales (simp_all add: intf_accessors)
interpretation intf_klass: member UsbInterface_GetClass UsbInterface_SetClass
  by unfold_locales (simp_all add: intf_accessors)
interpretation intf_subClass: member UsbInterface_GetSubClass UsbInterface_SetSubClass
  by unfold_locales (simp_all add: intf_accessors)
interpretation intf_alternateSetting: member UsbInterface_GetAlternateSetting UsbInterface_SetAlternateSetting
  by unfold_locales (simp_all add: intf_accessors)
interpretation intf_protocol: member UsbInterface_GetProtocol UsbInterface_SetProtocol
  by unfold_locales (simp_all add: intf_accessors)
interpretation intf_endpoints: member UsbInterface_GetEndpoints UsbInterface_SetEndpoints
  by unfold_locales (simp_all add: intf_accessors)
interpretation intf_iInterface: member UsbInterface_GetiInterface UsbInterface_SetiInterface
  by unfold_locales (simp_all add: intf_accessors)

section \<open>Configurations\<close>

definition USBConfig_GetId :: "USBConfig \<Rightarrow> i32" where "USBConfig_GetId c = cfg_id c"
definition USBConfig_SetId :: "i32 \<Rightarrow> USBConfig \<Rightarrow> USBConfig" where
  "USBConfig_SetId v c = c\<lparr>cfg_id := v\<rparr>"
definition USBConfig_GetAttributes :: "USBConfig \<Rightarrow> u32" where "USBConfig_GetAttributes c = cfg_attributes c"
definition USBConfig_SetAttribute :: "u32 \<Rightarrow> USBConfig \<Rightarrow> USBConfig" where
  "USBConfig_SetAttribute v c = c\<lparr>cfg_attributes := v\<rparr>"
definition USBConfig_GetName :: "USBConfig \<Rightarrow> string" where "USBConfig_GetName c = cfg_name c"
definition USBConfig_SetName :: "string \<Rightarrow> USBConfig \<Rightarrow> USBConfig" where
  "USBConfig_SetName v c = c\<lparr>cfg_name := v\<rparr>"
definition USBConfig_GetInterfaces :: "USBConfig \<Rightarrow> UsbInterface list" where "USBConfig_GetInterfaces c = cfg_interfaces c"
definition USBConfig_SetInterfaces :: "UsbInterface list \<Rightarrow> USBConfig \<Rightarrow> USBConfig" where
  "USBConfig_SetInterfaces v c = c\<lparr>cfg_interfaces := v\<rparr>"
definition USBConfig_SetMaxPower :: "i32 \<Rightarrow> USBConfig \<Rightarrow> USBConfig" where
  "USBConfig_SetMaxPower v c = c\<lparr>cfg_maxPower := v\<rparr>"
definition USBConfig_GetiConfiguration :: "USBConfig \<Rightarrow> u8" where "USBConfig_GetiConfiguration c = cfg_iConfiguration c"
definition USBConfig_SetiConfiguration :: "u8 \<Rightarrow> USBConfig \<Rightarrow> USBConfig" where
  "USBConfig_SetiConfiguration v c = c\<lparr>cfg_iConfiguration := v\<rparr>"

lemmas conf_accessors =
  USBConfig_GetId_def USBConfig_SetId_def USBConfig_GetAttributes_def
  USBConfig_SetAttribute_def USBConfig_GetName_def USBConfig_SetName_def
  USBConfig_GetInterfaces_def USBConfig_SetInterfaces_def USBConfig_SetMaxPower_def
  USBConfig_GetiConfiguration_def USBConfig_SetiConfiguration_def

interpretation conf_id: member USBConfig_GetId USBConfig_SetId
  by unfold_locales (simp_all add: conf_accessors)
interpretation conf_attributes: member USBConfig_GetAttributes USBConfig_SetAttribute
  by unfold_locales (simp_all add: conf_accessors)
interpretation conf_name: member USBConfig_GetName USBConfig_SetName
  by unfold_locales (simp_all add: conf_accessors)
interpretation conf_interfaces: member USBConfig_GetInterfaces USBConfig_SetInterfaces
  by unfold_locales (simp_all add: conf_accessors)
interpretation conf_iConfiguration: member USBConfig_GetiConfiguration USBConfig_SetiConfiguration
  by unfold_locales (simp_all add: conf_accessors)

section \<open>Devices\<close>

definition UsbDevice_GetName :: "UsbDevice \<Rightarrow> string" where "UsbDevice_GetName d = dev_name d"
definition UsbDevice_SetName :: "string \<Rightarrow> UsbDevice \<Rightarrow> UsbDevice" where
  "UsbDevice_SetName v d = d\<lparr>dev_name := v\<rparr>"
definition UsbDevice_GetManufacturerName :: "UsbDevice \<Rightarrow> string" where "UsbDevice_GetManufacturerName d = dev_manufacturerName d"
definition UsbDevice_SetManufacturerName :: "string \<Rightarrow> UsbDevice \<Rightarrow> UsbDevice" where
  "UsbDevice_SetManufacturerName v d = d\<lparr>dev_manufacturerName := v\<rparr>"
definition UsbDevice_GetProductName :: "UsbDevice \<Rightarrow> string" where "UsbDevice_GetProductName d = dev_productName d"
definition UsbDevice_SetProductName :: "string \<Rightarrow> UsbDevice \<Rightarrow> UsbDevice" where
  "UsbDevice_SetProductName v d = d\<lparr>dev_productName := v\<rparr>"
definition UsbDevice_GetVersion :: "UsbDevice \<Rightarrow> string" where "UsbDevice_GetVersion d = dev_version d"
definition UsbDevice_SetVersion :: "string \<Rightarrow> UsbDevice \<Rightarrow> UsbDevice" where
  "UsbDevice_SetVersion v d = d\<lparr>dev_version := v\<rparr>"
definition UsbDevice_GetVendorId :: "UsbDevice \<Rightarrow> i32" where "UsbDevice_GetVendorId d = dev_vendorId d"
definition UsbDevice_SetVendorId :: "i32 \<Rightarrow> UsbDevice \<Rightarrow> UsbDevice" where
  "UsbDevice_SetVendorId v d = d\<lparr>dev_vendorId := v\<rparr>"
definition UsbDevice_GetProductId :: "UsbDevice \<Rightarrow> i32" where "UsbDevice_GetProductId d = dev_productId d"
definition UsbDevice_SetProductId :: "i32 \<Rightarrow> UsbDevice \<Rightarrow> UsbDevice" where
  "UsbDevice_SetProductId v d = d\<lparr>dev_productId := v\<rparr>"
definition UsbDevice_GetClass :: "UsbDevice \<Rightarrow> i32" where "UsbDevice_GetClass d = dev_klass d"
definition UsbDevice_SetClass :: "i32 \<Rightarrow> UsbDevice \<Rightarrow> UsbDevice" where
  "UsbDevice_SetClass v d = d\<lparr>dev_klass := v\<rparr>"
definition UsbDevice_GetSubclass :: "UsbDevice \<Rightarrow> i32" where "UsbDevice_GetSubclass d = dev_subClass d"
definition UsbDevice_SetSubclass :: "i32 \<Rightarrow> UsbDevice \<Rightarrow> UsbDevice" where
  "UsbDevice_SetSubclass v d = d\<lparr>dev_subClass := v\<rparr>"
definition UsbDevice_GetProtocol :: "UsbDevice \<Rightarrow> i32" where "UsbDevice_GetProtocol d = dev_protocol d"
definition UsbDevice_SetProtocol :: "i32 \<Rightarrow> UsbDevice \<Rightarrow> UsbDevice" where
  "UsbDevice_SetProtocol v d = d\<lparr>dev_protocol := v\<rparr>"
definition UsbDevice_GetConfigs :: "UsbDevice \<Rightarrow> USBConfig list" where "UsbDevice_GetConfigs d = dev_configs d"
definition UsbDevice_SetConfigs :: "USBConfig list \<Rightarrow> UsbDevice \<Rightarrow> UsbDevice" where
  "UsbDevice_SetConfigs v d = d\<lparr>dev_configs := v\<rparr>"
definition UsbDevice_GetDevAddr :: "UsbDevice \<Rightarrow> u8" where "UsbDevice_GetDevAddr d = dev_devAddr d"
definition UsbDevice_SetDevAddr :: "u8 \<Rightarrow> UsbDevice \<Rightarrow> UsbDevice" where
  "UsbDevice_SetDevAddr v d = d\<lparr>dev_devAddr := v\<rparr>"
definition UsbDevice_GetBusNum :: "UsbDevice \<Rightarrow> u8" where "UsbDevice_GetBusNum d = dev_busNum d"
definition UsbDevice_SetBusNum :: "u8 \<Rightarrow> UsbDevice \<Rightarrow> UsbDevice" where
  "UsbDevice_SetBusNum v d = d\<lparr>dev_busNum := v\<rparr>"
definition UsbDevice_SetDescConfigCount :: "u8 \<Rightarrow> UsbDevice \<Rightarrow> UsbDevice" where
  "UsbDevice_SetDescConfigCount v d = d\<lparr>dev_descConfigCount := v\<rparr>"
definition UsbDevice_GetiManufacturer :: "UsbDevice \<Rightarrow> u8" where "UsbDevice_GetiManufacturer d = dev_iManufacturer d"
definition UsbDevice_SetiManufacturer :: "u8 \<Rightarrow> UsbDevice \<Rightarrow> UsbDevice" where
  "UsbDevice_SetiManufacturer v d = d\<lparr>dev_iManufacturer := v\<rparr>"
definition UsbDevice_GetiProduct :: "UsbDevice \<Rightarrow> u8" where "UsbDevice_GetiProduct d = dev_iProduct d"
definition UsbDevice_SetiProduct :: "u8 \<Rightarrow> UsbDevice \<Rightarrow> UsbDevice" where
  "UsbDevice_SetiProduct v d = d\<lparr>dev_iProduct := v\<rparr>"
definition UsbDevice_GetiSerialNumber :: "UsbDevice \<Rightarrow> u8" where "UsbDevice_GetiSerialNumber d = dev_iSerialNumber d"
definition UsbDevice_SetiSerialNumber :: "u8 \<Rightarrow> UsbDevice \<Rightarrow> UsbDevice" where
  "UsbDevice_SetiSerialNumber v d = d\<lparr>dev_iSerialNumber := v\<rparr>"
definition UsbDevice_GetmSerial :: "UsbDevice \<Rightarrow> string" where "UsbDevice_GetmSerial d = dev_serial d"
definition UsbDevice_SetmSerial :: "string \<Rightarrow> UsbDevice \<Rightarrow> UsbDevice" where
  "UsbDevice_SetmSerial v d = d\<lparr>dev_serial := v\<rparr>"
definition UsbDevice_GetbMaxPacketSize0 :: "UsbDevice \<Rightarrow> u8" where "UsbDevice_GetbMaxPacketSize0 d = dev_bMaxPacketSize0 d"
definition UsbDevice_SetbMaxPacketSize0 :: "u8 \<Rightarrow> UsbDevice \<Rightarrow> UsbDevice" where
  "UsbDevice_SetbMaxPacketSize0 v d = d\<lparr>dev_bMaxPacketSize0 := v\<rparr>"
definition UsbDevice_GetbcdUSB :: "UsbDevice \<Rightarrow> u16" where "UsbDevice_GetbcdUSB d = dev_bcdUSB d"
definition UsbDevice_SetbcdUSB :: "u16 \<Rightarrow> UsbDevice \<Rightarrow> UsbDevice" where
  "UsbDevice_SetbcdUSB v d = d\<lparr>dev_bcdUSB := v\<rparr>"
definition UsbDevice_GetbcdDevice :: "UsbDevice \<Rightarrow> u16" where "UsbDevice_GetbcdDevice d = dev_bcdDevice d"
definition UsbDevice_SetbcdDevice :: "u16 \<Rightarrow> UsbDevice \<Rightarrow> UsbDevice" where
  "UsbDevice_SetbcdDevice v d = d\<lparr>dev_bcdDevice := v\<rparr>"

lemmas dev_accessors =
  UsbDevice_GetName_def UsbDevice_SetName_def UsbDevice_GetManufacturerName_def
  UsbDevice_SetManufacturerName_def UsbDevice_GetProductName_def UsbDevice_SetProductName_def
  UsbDevice_GetVersion_def UsbDevice_SetVersion_def UsbDevice_GetVendorId_def
  UsbDevice_SetVendorId_def UsbDevice_GetProductId_def UsbDevice_SetProductId_def
  UsbDevice_GetClass_def UsbDevice_SetClass_def UsbDevice_GetSubclass_def
  UsbDevice_SetSubclass_def UsbDevice_GetProtocol_def UsbDevice_SetProtocol_def
  UsbDevice_GetConfigs_def UsbDevice_SetConfigs_def UsbDevice_GetDevAddr_def
  UsbDevice_SetDevAddr_def UsbDevice_GetBusNum_def UsbDevice_SetBusNum_def
  UsbDevice_SetDescConfigCount_def UsbDevice_GetiManufacturer_def
  UsbDevice_SetiManufacturer_def UsbDevice_GetiProduct_def UsbDevice_SetiProduct_def
  UsbDevice_GetiSerialNumber_def UsbDevice_SetiSerialNumber_def UsbDevice_GetmSerial_def
  UsbDevice_SetmSerial_def UsbDevice_GetbMaxPacketSize0_def UsbDevice_SetbMaxPacketSize0_def
  UsbDevice_GetbcdUSB_def UsbDevice_SetbcdUSB_def UsbDevice_GetbcdDevice_def
  UsbDevice_SetbcdDevice_def

interpretation dev_name: member UsbDevice_GetName UsbDevice_SetName
  by unfold_locales (simp_all add: dev_accessors)
interpretation dev_manufacturerName: member UsbDevice_GetManufacturerName UsbDevice_SetManufacturerName
  by unfold_locales (simp_all add: dev_accessors)
interpretation dev_productName: member UsbDevice_GetProductName UsbDevice_SetProductName
  by unfold_locales (simp_all add: dev_accessors)
interpretation dev_version: member UsbDevice_GetVersion UsbDevice_SetVersion
  by unfold_locales (simp_all add: dev_accessors)
interpretation dev_vendorId: member UsbDevice_GetVendorId UsbDevice_SetVendorId
  by unfold_locales (simp_all add: dev_accessors)
interpretation dev_productId: member UsbDevice_GetProductId UsbDevice_SetProductId
  by unfold_locales (simp_all add: dev_accessors)
interpretation dev_klass: member UsbDevice_GetClass UsbDevice_SetClass
  by unfold_locales (simp_all add: dev_accessors)
interpretation dev_subClass: member UsbDevice_GetSubclass UsbDevice_SetSubclass
  by unfold_locales (simp_all add: dev_accessors)
interpretation dev_protocol: member UsbDevice_GetProtocol UsbDevice_SetProtocol
  by unfold_locales (simp_all add: dev_accessors)
interpretation dev_configs: member UsbDevice_GetConfigs UsbDevice_SetConfigs
  by unfold_locales (simp_all add: dev_accessors)
interpretation dev_devAddr: member UsbDevice_GetDevAddr UsbDevice_SetDevAddr
  by unfold_locales (simp_all add: dev_accessors)
interpretation dev_busNum: member UsbDevice_GetBusNum UsbDevice_SetBusNum
  by unfold_locales (simp_all add: dev_accessors)
interpretation dev_iManufacturer: member UsbDevice_GetiManufacturer UsbDevice_SetiManufacturer
  by unfold_locales (simp_all add: dev_accessors)
interpretation dev_iProduct: member UsbDevice_GetiProduct UsbDevice_SetiProduct
  by unfold_locales (simp_all add: dev_accessors)
interpretation dev_iSerialNumber: member UsbDevice_GetiSerialNumber UsbDevice_SetiSerialNumber
  by unfold_locales (simp_all add: dev_accessors)
interpretation dev_serial: member UsbDevice_GetmSerial UsbDevice_SetmSerial
  by unfold_locales (simp_all add: dev_accessors)
interpretation dev_bMaxPacketSize0: member UsbDevice_GetbMaxPacketSize0 UsbDevice_SetbMaxPacketSize0
  by unfold_locales (simp_all add: dev_accessors)
interpretation dev_bcdUSB: member UsbDevice_GetbcdUSB UsbDevice_SetbcdUSB
  by unfold_locales (simp_all add: dev_accessors)
interpretation dev_bcdDevice: member UsbDevice_GetbcdDevice UsbDevice_SetbcdDevice
  by unfold_locales (simp_all add: dev_accessors)

section \<open>Opened devices\<close>

definition USBDevicePipe_GetBusNum :: "USBDevicePipe \<Rightarrow> u8" where "USBDevicePipe_GetBusNum p = dp_busNum p"
definition USBDevicePipe_SetBusNum :: "u8 \<Rightarrow> USBDevicePipe \<Rightarrow> USBDevicePipe" where
  "USBDevicePipe_SetBusNum v p = p\<lparr>dp_busNum := v\<rparr>"
definition USBDevicePipe_GetDevAddr :: "USBDevicePipe \<Rightarrow> u8" where "USBDevicePipe_GetDevAddr p = dp_devAddr p"
definition USBDevicePipe_SetDevAddr :: "u8 \<Rightarrow> USBDevicePipe \<Rightarrow> USBDevicePipe" where
  "USBDevicePipe_SetDevAddr v p = p\<lparr>dp_devAddr := v\<rparr>"

lemmas pipe_accessors =
  USBDevicePipe_GetBusNum_def USBDevicePipe_SetBusNum_def USBDevicePipe_GetDevAddr_def
  USBDevicePipe_SetDevAddr_def

interpretation pipe_busNum: member USBDevicePipe_GetBusNum USBDevicePipe_SetBusNum
  by unfold_locales (simp_all add: pipe_accessors)
interpretation pipe_devAddr: member USBDevicePipe_GetDevAddr USBDevicePipe_SetDevAddr
  by unfold_locales (simp_all add: pipe_accessors)

section \<open>Requests\<close>

definition UsbRequest_GetPipe :: "UsbRequest \<Rightarrow> USBDevicePipe" where "UsbRequest_GetPipe r = rq_pipe r"
definition UsbRequest_SetPipe :: "USBDevicePipe \<Rightarrow> UsbRequest \<Rightarrow> UsbRequest" where
  "UsbRequest_SetPipe v r = r\<lparr>rq_pipe := v\<rparr>"
definition UsbRequest_GetEndpoint :: "UsbRequest \<Rightarrow> USBEndpoint" where "UsbRequest_GetEndpoint r = rq_endpoint r"
definition UsbRequest_SetEndpoint :: "USBEndpoint \<Rightarrow> UsbRequest \<Rightarrow> UsbRequest" where
  "UsbRequest_SetEndpoint v r = r\<lparr>rq_endpoint := v\<rparr>"
definition UsbRequest_GetClientData :: "UsbRequest \<Rightarrow> u8 list" where "UsbRequest_GetClientData r = rq_clientData r"
definition UsbRequest_SetClientData :: "u8 list \<Rightarrow> UsbRequest \<Rightarrow> UsbRequest" where
  "UsbRequest_SetClientData v r = r\<lparr>rq_clientData := v\<rparr>"
definition UsbRequest_GetReqData :: "UsbRequest \<Rightarrow> u8 list" where "UsbRequest_GetReqData r = rq_reqData r"
definition UsbRequest_SetReqData :: "u8 list \<Rightarrow> UsbRequest \<Rightarrow> UsbRequest" where
  "UsbRequest_SetReqData v r = r\<lparr>rq_reqData := v\<rparr>"

lemmas req_accessors =
  UsbRequest_GetPipe_def UsbRequest_SetPipe_def UsbRequest_GetEndpoint_def
  UsbRequest_SetEndpoint_def UsbRequest_GetClientData_def UsbRequest_SetClientData_def
  UsbRequest_GetReqData_def UsbRequest_SetReqData_def

interpretation req_pipe: member UsbRequest_GetPipe UsbRequest_SetPipe
  by unfold_locales (simp_all add: req_accessors)
interpretation req_endpoint: member UsbRequest_GetEndpoint UsbRequest_SetEndpoint
  by unfold_locales (simp_all add: req_accessors)
interpretation req_clientData: member UsbRequest_GetClientData UsbRequest_SetClientData
  by unfold_locales (simp_all add: req_accessors)
interpretation req_reqData: member UsbRequest_GetReqData UsbRequest_SetReqData
  by unfold_locales (simp_all add: req_accessors)

section \<open>Members that are not read back\<close>

lemma signed_7: "signed_take_bit 7 (u :: int) = (u + 128) mod 256 - 128"
  by (simp add: signed_take_bit_eq_take_bit_shift take_bit_eq_mod)

lemma signed_byte: "sint (k :: u8) = (if unat k < 128 then int (unat k) else int (unat k) - 256)"
proof -
  obtain u where u: "uint k = u" "int (unat k) = u" "0 \<le> u" "u < 256"
    using u8_less [of k] by (metis of_nat_0_le_iff of_nat_less_iff of_nat_numeral uint_nat)
  have "sint k = (u + 128) mod 256 - 128" using u(1) signed_7 [of u] by (simp add: sint_uint)
  also have "\<dots> = (if u < 128 then u else u - 256)"
  proof (cases "u < 128")
    case False
    have "u + 128 = u - 128 + 256" by simp
    then have "(u + 128) mod 256 = (u - 128 + 256) mod 256" by (rule arg_cong)
    also have "\<dots> = u - 128" unfolding mod_add_self2 using False u(4) by (intro mod_pos_pos_trivial) simp_all
    finally show ?thesis using False by simp
  qed (use u(3) in simp)
  finally have "sint k = (if u < 128 then u else u - 256)" .
  moreover have "u < 128 \<longleftrightarrow> unat k < 128" using u(2) by linarith
  ultimately show ?thesis using u(2) by presburger
qed

text \<open>
  Three getters do not return what was set: \<open>GetMaxPower\<close> returns twice the number, so only 0
  comes back; \<open>GetDescConfigCount\<close> only tells whether there are configurations; \<open>GetInterfaceId\<close>
  is signed, so a number above 127 comes back negative.
\<close>

theorem odd_getters:
  "USBConfig_GetMaxPower (USBConfig_SetMaxPower v c) = 2 * v"
  "UsbDevice_GetDescConfigCount (UsbDevice_SetDescConfigCount n d) \<longleftrightarrow> n \<noteq> 0"
  "sint (USBEndpoint_GetInterfaceId (USBEndpoint_SetInterfaceId k ep)) =
     (if unat k < 128 then int (unat k) else int (unat k) - 256)"
proof -
  show "USBConfig_GetMaxPower (USBConfig_SetMaxPower v c) = 2 * v"
    by (simp add: USBConfig_GetMaxPower_def conf_accessors)
  show "UsbDevice_GetDescConfigCount (UsbDevice_SetDescConfigCount n d) \<longleftrightarrow> n \<noteq> 0"
    by (simp add: UsbDevice_GetDescConfigCount_def dev_accessors)
  show "sint (USBEndpoint_GetInterfaceId (USBEndpoint_SetInterfaceId k ep)) =
     (if unat k < 128 then int (unat k) else int (unat k) - 256)"
    by (simp add: USBEndpoint_GetInterfaceId_def ep_accessors signed_byte)
qed

section \<open>Calls of the setters\<close>

text \<open>
  A successful \<open>ParseDeviceDescriptor\<close> is the sequence of setter calls of the code, which leaves the
  protocol as it was.
\<close>

definition set_from_descriptor :: "UsbdDeviceDescriptor \<Rightarrow> UsbDevice \<Rightarrow> UsbDevice" where
  "set_from_descriptor d =
     UsbDevice_SetiSerialNumber (dd_iSerialNumber d) \<circ> UsbDevice_SetiProduct (dd_iProduct d) \<circ>
     UsbDevice_SetiManufacturer (dd_iManufacturer d) \<circ> UsbDevice_SetbcdUSB (dd_bcdUSB d) \<circ>
     UsbDevice_SetbcdDevice (dd_bcdDevice d) \<circ> UsbDevice_SetbMaxPacketSize0 (dd_bMaxPacketSize0 d) \<circ>
     UsbDevice_SetDescConfigCount (dd_bNumConfigurations d) \<circ>
     UsbDevice_SetSubclass (ucast (dd_bDeviceSubClass d)) \<circ> UsbDevice_SetClass (ucast (dd_bDeviceClass d)) \<circ>
     UsbDevice_SetProductId (ucast (dd_idProduct d)) \<circ> UsbDevice_SetVendorId (ucast (dd_idVendor d))"

theorem ParseDeviceDescriptor_by_setters:
  assumes "codes_ok E" and "ParseDeviceDescriptor L E buffer len dev = Mem (UEC_OK E, dev1)"
  shows "\<exists>d. read_struct (device_size L) (device_of L) buffer 0 = Some d \<and> dev1 = set_from_descriptor d dev \<and>
    UsbDevice_GetProtocol dev1 = UsbDevice_GetProtocol dev"
  using assms
  by (auto simp: ParseDeviceDescriptor_def codes_okD set_from_descriptor_def dev_accessors
      split: if_splits option.splits)

section \<open>Pipes\<close>

definition USBDevicePipe_of :: "u8 \<Rightarrow> u8 \<Rightarrow> USBDevicePipe" where
  "USBDevicePipe_of busNum devAddr = \<lparr>dp_busNum = busNum, dp_devAddr = devAddr\<rparr>"

lemma USBDevicePipe_of_put: "USBDevicePipe_SetDevAddr a (USBDevicePipe_SetBusNum b p) = USBDevicePipe_of b a"
  by (simp add: pipe_accessors USBDevicePipe_of_def)

section \<open>Objects without behaviour of their own\<close>

text \<open>
  The serial reader keeps what it is constructed with; the event handler of the service keeps its
  runner and the service and ignores every event.
\<close>

record ('a, 'r) UsbSerialReader =
  sr_systemAbility :: 'a
  sr_rightManager :: 'r
  sr_serialNumber :: string

definition UsbSerialReader_new :: "'a \<Rightarrow> 'r \<Rightarrow> string \<Rightarrow> ('a, 'r) UsbSerialReader" where
  "UsbSerialReader_new systemAbility rightManager serialNumber =
     \<lparr>sr_systemAbility = systemAbility, sr_rightManager = rightManager, sr_serialNumber = serialNumber\<rparr>"

record ('n, 's) UsbServerEventHandler =
  eh_runner :: 'n
  eh_service :: 's

definition UsbServerEventHandler_new :: "'n \<Rightarrow> 's \<Rightarrow> ('n, 's) UsbServerEventHandler" where
  "UsbServerEventHandler_new runner service = \<lparr>eh_runner = runner, eh_service = service\<rparr>"

definition EventHandler_ProcessEvent ::
  "'e \<Rightarrow> ('n, 's) UsbServerEventHandler \<Rightarrow> ('n, 's) UsbServerEventHandler" where
  "EventHandler_ProcessEvent event handler = handler"

end
