(* ===== verification/Spec2Isabelle.thy ===== *)
theory Spec2Isabelle
  imports Usb_System_Ports Usb_History Usb_Dialog Usb_Right_Races Usb_Ipc_Props Usb_Js_Types Usb_Singleton Usb_Races Usb_Guard
    Usb_Text Usb_Members
begin

text \<open>
  Verification library of the USB manager of OpenHarmony.

  The program.  A system service (\<open>services/native/src/usb_service.cpp\<close>) keeps the attached USB
  devices, the rights of applications to use them, the USB functions of this device and its
  ports, and passes transfers to the USB driver daemon.  Applications reach it through the
  client library (\<open>interfaces/innerkits/native\<close>), whose proxy
  (\<open>services/zidl/src/usb_srv_proxy.cpp\<close>) sends parcels to the stub of the service
  (\<open>usb_srv_stub.cpp\<close>).  The daemon reports devices and ports through a subscriber
  (\<open>usb_service_subscriber.cpp\<close>), and the service publishes what changed as common events.

  Data.  \<open>Usb_Prelude\<close> has the machine integers, the error codes (\<open>uec_codes\<close>: their header is not
  part of the repository), the ordered map of the C++ library, \<open>run\<close>, the result of code that may
  read outside a buffer (\<open>BadRead\<close>) or may not end (\<open>None\<close>), and the locales of invariants of step
  relations.  \<open>Usb_Model\<close> has the data classes
  of \<open>usb_endpoint.h\<close>, \<open>usb_interface.h\<close>, \<open>usb_config.h\<close>, \<open>usb_device.h\<close> and \<open>usb_port.h\<close> as records;
  the models of their callers write plain getters and setters as fields and updates, and
  \<open>Usb_Members\<close> has them one by one, with the laws of a locale (what was set is what is got, and
  the three getters for which it is not).  \<open>Usb_Json\<close> and \<open>Usb_Json_Read\<close> have their JSON
  documents, written and read; \<open>Usb_Text\<close> their texts for the log, and what can be read back from
  such a text.

  Descriptors.  \<open>Usb_Descriptor\<close> models \<open>usb_descriptor_parser.cpp\<close> with the cursor and the
  remaining length as the code keeps them; the two loops without a bound, \<open>scan_header\<close> and
  \<open>parse_interfaces\<close>, are partial functions, so that a result is a statement that the code
  returns.  The packed structures come from a header of the driver; their layout is the parameter
  \<open>usbd_layout\<close>, with the layout of the USB 2.0 specification as its instance \<open>usb20_layout\<close>.
  \<open>Usb_Wire\<close> shows that well-formed streams are parsed to the objects they encode;
  \<open>Usb_Descriptor_Safety\<close> treats arbitrary bytes: bounds of whatever is returned, when the loops
  return, and the inputs on which they do not or on which the code reads past the end.

  Components of the service, one theory each, their state a record named like the class:
  \<open>Usb_Functions\<close> (\<open>usb_device_manager.cpp\<close>), \<open>Usb_Host\<close> (\<open>usb_host_manager.cpp\<close>), \<open>Usb_Right\<close>
  (\<open>usb_right_manager.cpp\<close>), \<open>Usb_Ports\<close> (\<open>usb_port_manager.cpp\<close>).  \<open>Usb_External\<close> is the record
  \<open>ext\<close> of everything they call outside the repository: the daemon, the common event service,
  the bundle manager, the dialog, the registry of services; an operation returns its result and
  the changed outside world.  \<open>Usb_Contracts\<close> states the interfaces between them as locales (a
  table of values that carry their own key, such a table whose changes are announced, lists of
  rights); the component theories interpret them on the code's operations.  In \<open>Usb_Right\<close> the
  threads of several requests interleave at the points where the code gives up control.

  \<open>Usb_Service\<close> and \<open>Usb_Attach\<close> compose them as the code does: life cycle, client operations,
  attachment and removal, events of the driver.  \<open>Usb_Service_Props\<close> has the relation
  \<open>service_step\<close> of everything that can happen to the service and the invariant of its
  reachable states, the guard of \<open>OpenDevice\<close>, start-up (\<open>start_loop\<close> runs the thirty attempts of
  the code), and what the code overlooks; \<open>Usb_Attach_Props\<close> follows a device from its
  descriptors and strings into the table.

  Memory and threads.  The device table of the code has pointers.  \<open>Usb_Memory\<close> repeats the
  operations of the host manager and of the service that use them on an explicit store, where
  reading or deleting a dead object is \<open>BadRead\<close>; one operation after the other they refine the
  operations by value, and no object is lost or deleted twice except where \<open>AddDevice_forgets\<close>
  says so.  \<open>Usb_Races\<close> breaks them into the steps between which other threads run, as nothing in
  \<open>usb_host_manager.cpp\<close> excludes: a step relation in which removing a device makes a concurrent
  listing or removal use the deleted object.  \<open>Usb_Guard\<close> shows that the rights protect the four requests about rights and
  opening only, by noninterference: every other request is served in the same way with any rights.

  Communication.  \<open>Usb_Parcel\<close> has the marshalling functions of both sides over \<open>parcel_ops\<close>, the
  operations of \<open>MessageParcel\<close>; \<open>parcel_ok\<close> says that what is written is read back in order.
  \<open>Usb_Stub\<close> and \<open>Usb_Proxy\<close> have one definition per handler and operation.  \<open>Usb_Marshal\<close> proves
  that each reader reads what its writer wrote (locale \<open>parcel_codec\<close>, closed under the loops over
  vectors).  \<open>Usb_Ipc\<close> connects a proxy with the stub of a service (\<open>service_remote\<close>) and shows for
  every operation of the proxy that it is the operation of the service; \<open>Usb_Ipc_Props\<close> states
  this and what the dispatcher refuses.  Buffers are assumed to have fewer than \<open>2\<^sup>3\<^sup>1\<close> bytes
  (\<open>small\<close>): their length is sent as an \<open>int32_t\<close>.  The end-to-end statements assume an \<open>ipc_link\<close>:
  parcels have room, so no write fails.  The branches for a failed write are in every definition.

  Client library.  \<open>Usb_Client\<close> models \<open>usb_srv_client.cpp\<close>, \<open>usb_device_pipe.cpp\<close>,
  \<open>usb_request.cpp\<close> and the callback stub \<open>usbd_bulk_callback.cpp\<close>; how the system finds the
  service is the parameter \<open>client_env\<close>.  \<open>Usb_Client_Props\<close> composes it with proxy, stub, service
  and driver, and treats clients without a service or with a dead one: what each of the 31
  operations then returns.

  Consent.  \<open>Usb_Consent\<close> joins the threads of \<open>Usb_Right\<close> with everything else the service does
  (\<open>system_step\<close>): no application opens a device its user never allowed it.  \<open>Usb_History\<close> writes the
  runs of this system with the grants and revocations in them and shows that a device is opened exactly
  if it was granted and not revoked since.  \<open>Usb_Dialog\<close> has the page of the permission dialog
  (\<open>dialog_ui/js/pages/index/index.js\<close>), the text the user reads; the framework's look-up of messages and
  its parser of the parameters are parameters of the model.  Its runs (\<open>shown_step\<close>) carry the answer of
  each dialog from \<open>ShowDialog\<close> to the thread that waits for it; with \<open>users_decide\<close>, which says that the
  dialog service shows the page with the parameters it got and reports the button that was pressed,
  a device is opened only if a user agreed to a text that names application and device.
  \<open>Usb_Right_Races\<close> breaks the operations of the right manager, which has no lock, between their tests
  and changes, and shows what then still holds (consent, one entry for a device) and what does
  not (one dialog at a time, no application listed twice, no use of an erased entry).

  JavaScript.  \<open>Usb_Js\<close> to \<open>Usb_Js_Work\<close> model the bindings (\<open>interfaces/kits/js/napi\<close>): the
  conversions of \<open>napi_util.cpp\<close>, the objects of devices and ports and their readers, the exported
  functions, and the work they hand to other threads (\<open>usb_info.cpp\<close>).  The engine is the
  parameter \<open>napi\<close>; a conversion is a state monad over the state of the engine, a call also
  threads the connection and the system.  \<open>Usb_Js_Promises\<close> has the interleavings of calls and of
  queued work and the invariant that no promise is settled twice; \<open>Usb_Js_Props\<close> follows devices
  from JavaScript to the driver and back, \<open>Usb_Js_Transfer\<close> transfers.  \<open>Usb_Js_Types\<close> has the
  declaration of the module for TypeScript (\<open>@ohos.usb.d.ts\<close>) as data and shows that results and the
  values of promises have the declared types, but for the name of one member.

  The system.  \<open>Usb_System\<close> goes the whole way: in every state of \<open>system_step\<close> the devices are small
  enough for the messages (at most one configuration, at most 255 interfaces and endpoints, at most 65,536
  devices, whatever descriptors they send), so \<open>getDevices\<close> of JavaScript lists exactly the table; a
  device that is plugged in appears there as its descriptors say, one that is removed
  disappears; and the promise of \<open>requestRight\<close> says what \<open>connectDevice\<close> will do.  \<open>Usb_System_Ports\<close>
  has the invariant of all managers in these states, in which an operation of a manager is one step, and
  follows a port from the driver's event to \<open>getPorts\<close>.

  The instance of the service is created by \<open>delayed_sp_singleton.h\<close>, whose double check is the
  step relation of \<open>Usb_Singleton\<close>.

  Not modelled.  Logging, that is which texts are written where; the registration of the module and
  of the service with the system; the layout of the dialog's page; default constructors and
  destructors without a body.  The managers of the service have no mutexes.  An operation of a
  manager is one step in the theories above, except for the dialog of the right manager
  (\<open>Usb_Right\<close>), for the map of rights and the dialog's id (\<open>Usb_Right_Races\<close>) and for the device
  table (\<open>Usb_Races\<close>).
\<close>

end
